(* ===== verification/Prelude.thy ===== *)
theory Prelude
  imports Main "HOL-Library.Word" "HOL-Library.Monad_Syntax" "HOL-Library.Sublist"
begin

text \<open>
  Shared vocabulary of the development: the machine integers of the C++ sources, bytes and
  characters, the few standard-library algorithms every component uses
  (\<^verbatim>\<open>std::search\<close>, copying into a span, \<^verbatim>\<open>std::to_string\<close>), and the named collections into
  which the components declare their rewrite rules.
\<close>

section \<open>Machine types\<close>

type_synonym byte = "8 word"
type_synonym uint16 = "16 word"
type_synonym uint32 = "32 word"
type_synonym uint64 = "64 word"

named_theorems stream_simps \<open>rewrite rules about buffers and byte streams\<close>
named_theorems loop_eval \<open>conditional equations that run the loops on concrete inputs\<close>
named_theorems env_laws \<open>consequences of the laws of the execution environment\<close>

text \<open>\<open>std::numeric_limits<std::size_t>::max()\<close> on a 64-bit target.\<close>

definition size_max :: nat where
  "size_max = 2 ^ 64 - 1"

lemma min_size_max [simp]: "n < 2 ^ 32 \<Longrightarrow> min size_max n = n"
  by (simp add: size_max_def)

lemma le_size_max [simp]: "n < 2 ^ 32 \<Longrightarrow> n \<le> size_max"
  by (simp add: size_max_def)

text \<open>\<open>static_cast<int>\<close> of a wider signed value: two's complement, 32 bits.\<close>

definition cast_int :: "int \<Rightarrow> int" where
  "cast_int x = (x + 2 ^ 31) mod 2 ^ 32 - 2 ^ 31"

lemma cast_int_id: "- (2 ^ 31) \<le> x \<Longrightarrow> x < 2 ^ 31 \<Longrightarrow> cast_int x = x"
  by (simp add: cast_int_def)

lemma cast_int_range: "- (2 ^ 31) \<le> cast_int x \<and> cast_int x < 2 ^ 31"
proof -
  have "0 \<le> (x + 2 ^ 31) mod 2 ^ 32" "(x + 2 ^ 31) mod 2 ^ 32 < 2 ^ 32"
    by simp_all
  then show ?thesis by (simp add: cast_int_def)
qed

text \<open>The four octets of a 32-bit value, most significant first.\<close>

unbundle bit_operations_syntax

definition join_octets :: "byte \<Rightarrow> byte \<Rightarrow> byte \<Rightarrow> byte \<Rightarrow> uint32" where
  "join_octets a b c d =
     push_bit 24 (ucast a) OR push_bit 16 (ucast b) OR push_bit 8 (ucast c) OR ucast d"

lemma octets_of_join:
  "ucast (drop_bit 24 (join_octets a b c d)) = a" "ucast (drop_bit 16 (join_octets a b c d)) = b"
  "ucast (drop_bit 8 (join_octets a b c d)) = c" "ucast (join_octets a b c d) = d"
proof -
  have not: "\<not> bit x i" if "8 \<le> i" for x :: byte and i
    using that bit_imp_le_length [of x i] by fastforce
  show "ucast (drop_bit 24 (join_octets a b c d)) = a" "ucast (drop_bit 16 (join_octets a b c d)) = b"
    "ucast (drop_bit 8 (join_octets a b c d)) = c" "ucast (join_octets a b c d) = d"
    by (auto intro!: bit_word_eqI simp: join_octets_def bit_simps not)
qed

section \<open>How a call ends\<close>

text \<open>
  Where a C++ call can leave by an exception, or where the standard leaves its behaviour undefined
  (a null pointer is dereferenced), its result is an \<open>outcome\<close>. A call that never returns is
  \<open>None\<close> of the surrounding option.
\<close>

datatype 'a outcome = Returned 'a | Thrown | Undefined

section \<open>Bytes and characters\<close>

text \<open>\<open>std::byte(str[i])\<close> and \<open>static_cast<char>(data[i])\<close>.\<close>

definition byte_of_char :: "char \<Rightarrow> byte" where
  "byte_of_char c = of_nat (of_char c)"

definition char_of_byte :: "byte \<Rightarrow> char" where
  "char_of_byte b = char_of (unat b)"

definition bytes_of_string :: "string \<Rightarrow> byte list" where
  "bytes_of_string s = map byte_of_char s"

definition string_of_bytes :: "byte list \<Rightarrow> string" where
  "string_of_bytes bs = map char_of_byte bs"

lemma char_of_byte_of_char [simp]: "char_of_byte (byte_of_char c) = c"
proof -
  have "unat (of_nat (of_char c) :: byte) = of_char c"
    by (simp add: unat_of_nat)
  then show ?thesis by (simp add: char_of_byte_def byte_of_char_def)
qed

lemma byte_of_char_of_byte [simp]: "byte_of_char (char_of_byte b) = b"
proof -
  have "unat b < 2 ^ LENGTH(8)" by (rule unsigned_less)
  then have "unat b < 256" by simp
  then have "of_char (char_of (unat b)) = (unat b :: nat)" by simp
  then show ?thesis by (simp add: char_of_byte_def byte_of_char_def)
qed

lemma string_of_bytes_of_string [simp]: "string_of_bytes (bytes_of_string s) = s"
  by (simp add: string_of_bytes_def bytes_of_string_def comp_def)

lemma bytes_of_string_of_bytes [simp]: "bytes_of_string (string_of_bytes bs) = bs"
  by (simp add: string_of_bytes_def bytes_of_string_def comp_def)

lemma length_bytes_of_string [simp]: "length (bytes_of_string s) = length s"
  by (simp add: bytes_of_string_def)

lemma length_string_of_bytes [simp]: "length (string_of_bytes bs) = length bs"
  by (simp add: string_of_bytes_def)

lemma string_of_bytes_append [simp]:
  "string_of_bytes (xs @ ys) = string_of_bytes xs @ string_of_bytes ys"
  by (simp add: string_of_bytes_def)

lemma bytes_of_string_append [simp]:
  "bytes_of_string (s @ t) = bytes_of_string s @ bytes_of_string t"
  by (simp add: bytes_of_string_def)

lemma bytes_of_string_eq_iff [simp]: "bytes_of_string s = bytes_of_string t \<longleftrightarrow> s = t"
  by (metis string_of_bytes_of_string)

section \<open>Writing into a buffer\<close>

text \<open>Storing \<open>data\<close> at position \<open>i\<close> of a vector that is long enough.\<close>

definition overwrite :: "'a list \<Rightarrow> nat \<Rightarrow> 'a list \<Rightarrow> 'a list" where
  "overwrite v i data = take i v @ data @ drop (i + length data) v"

lemma overwrite_Nil [simp]: "overwrite v i [] = v"
  by (simp add: overwrite_def)

lemma length_overwrite [simp]:
  "i + length data \<le> length v \<Longrightarrow> length (overwrite v i data) = length v"
  by (simp add: overwrite_def)

lemma overwrite_append_replicate [stream_simps]:
  "length data \<le> n \<Longrightarrow>
   overwrite (xs @ replicate n z) (length xs) data = xs @ data @ replicate (n - length data) z"
  by (simp add: overwrite_def)

section \<open>\<open>std::search\<close>\<close>

text \<open>
  The index of the first occurrence of \<open>pat\<close> in \<open>xs\<close>; the length of \<open>xs\<close> stands for the
  returned end iterator.
\<close>

fun std_search :: "'a list \<Rightarrow> 'a list \<Rightarrow> nat" where
  "std_search [] pat = 0"
| "std_search (x # xs) pat = (if prefix pat (x # xs) then 0 else Suc (std_search xs pat))"

lemma std_search_le: "std_search xs pat \<le> length xs"
  by (induction xs) auto

lemma std_search_found:
  "std_search xs pat < length xs \<Longrightarrow> prefix pat (drop (std_search xs pat) xs)"
  by (induction xs) auto

lemma std_search_fits:
  "std_search xs pat < length xs \<Longrightarrow> std_search xs pat + length pat \<le> length xs"
  using std_search_found [of xs pat]
  by (metis add.commute le_diff_conv2 length_drop less_imp_le prefix_length_le)

lemma std_search_first:
  "i < std_search xs pat \<Longrightarrow> \<not> prefix pat (drop i xs)"
proof (induction xs arbitrary: i)
  case Nil
  then show ?case by simp
next
  case (Cons x xs)
  then show ?case by (cases i) (auto split: if_splits)
qed

lemma std_search_unique:
  assumes "prefix pat (drop i xs)" "i < length xs"
    and "\<And>j. j < i \<Longrightarrow> \<not> prefix pat (drop j xs)"
  shows "std_search xs pat = i"
  using assms
proof (induction xs arbitrary: i)
  case Nil
  then show ?case by simp
next
  case (Cons x xs)
  show ?case
  proof (cases i)
    case 0
    with Cons.prems show ?thesis by simp
  next
    case (Suc k)
    have "\<not> prefix pat (x # xs)" using Cons.prems(3) [of 0] Suc by simp
    moreover have "std_search xs pat = k"
    proof (rule Cons.IH)
      show "prefix pat (drop k xs)" "k < length xs"
        using Cons.prems(1,2) Suc by simp_all
      show "\<not> prefix pat (drop j xs)" if "j < k" for j
        using Cons.prems(3) [of "Suc j"] Suc that by simp
    qed
    ultimately show ?thesis using Suc by simp
  qed
qed

lemma std_search_append:
  assumes "std_search xs pat < length xs"
  shows "std_search (xs @ ys) pat = std_search xs pat"
proof (rule std_search_unique)
  let ?i = "std_search xs pat"
  show "prefix pat (drop ?i (xs @ ys))"
    using std_search_found [OF assms] assms by (auto simp: prefix_def)
  show "?i < length (xs @ ys)" using assms by simp
  show "\<not> prefix pat (drop j (xs @ ys))" if "j < ?i" for j
  proof
    assume p: "prefix pat (drop j (xs @ ys))"
    have "j + length pat \<le> length xs"
      using that std_search_fits [OF assms] by simp
    then have "take (length pat) (drop j (xs @ ys)) = take (length pat) (drop j xs)"
      by simp
    with p have "pat = take (length pat) (drop j xs)"
      by (metis append_eq_conv_conj prefix_def)
    then have "prefix pat (drop j xs)"
      by (metis take_is_prefix)
    with std_search_first [OF that] show False by simp
  qed
qed

section \<open>Decimal numerals\<close>

text \<open>\<open>std::to_string\<close> of an unsigned value.\<close>

fun to_string :: "nat \<Rightarrow> string" where
  "to_string n = (if n < 10 then [char_of (48 + n)]
                  else to_string (n div 10) @ [char_of (48 + n mod 10)])"

declare to_string.simps [simp del]

definition is_digit_char :: "char \<Rightarrow> bool" where
  "is_digit_char c \<longleftrightarrow> 48 \<le> (of_char c :: nat) \<and> (of_char c :: nat) \<le> 57"

definition digit_value :: "char \<Rightarrow> nat" where
  "digit_value c = of_char c - 48"

definition decimal_value :: "string \<Rightarrow> nat" where
  "decimal_value s = foldl (\<lambda>v c. 10 * v + digit_value c) 0 s"

lemma is_digit_char_of: "n < 10 \<Longrightarrow> is_digit_char (char_of (48 + n :: nat))"
  by (simp add: is_digit_char_def)

lemma digit_value_char_of [simp]: "n < 10 \<Longrightarrow> digit_value (char_of (48 + n)) = n"
  by (simp add: digit_value_def)

lemma to_string_digits: "c \<in> set (to_string n) \<Longrightarrow> is_digit_char c"
proof (induction n rule: to_string.induct)
  case (1 n)
  show ?case
  proof (cases "n < 10")
    case True
    with "1.prems" show ?thesis
      by (subst (asm) to_string.simps) (simp add: is_digit_char_of)
  next
    case False
    have "c \<in> set (to_string (n div 10)) \<or> c = char_of (48 + n mod 10)"
      using "1.prems" False by (subst (asm) to_string.simps) auto
    with "1.IH" [OF False] show ?thesis by (auto simp: is_digit_char_of)
  qed
qed

lemma to_string_not_Nil [simp]: "to_string n \<noteq> []"
  by (subst to_string.simps) simp

lemma decimal_value_to_string [simp]: "decimal_value (to_string n) = n"
proof (induction n rule: to_string.induct)
  case (1 n)
  show ?case
  proof (cases "n < 10")
    case True
    then show ?thesis by (subst to_string.simps) (simp add: decimal_value_def)
  next
    case False
    with "1.IH" show ?thesis
      by (subst to_string.simps) (simp add: decimal_value_def)
  qed
qed

lemma to_string_inj: "to_string m = to_string n \<Longrightarrow> m = n"
  by (metis decimal_value_to_string)

text \<open>Strings joined by a separator.\<close>

fun join_with :: "'a \<Rightarrow> 'a list list \<Rightarrow> 'a list" where
  "join_with c [] = []"
| "join_with c [p] = p"
| "join_with c (p # q # ps) = p @ c # join_with c (q # ps)"

end
