(* ===== verification/Error_Codes.thy ===== *)
theory Error_Codes
  imports Prelude
begin

text \<open>
  The error vocabulary of the stack: \<^verbatim>\<open>include/core/ErrorCodes.h\<close>, \<^verbatim>\<open>src/core/ErrorCodes.cpp\<close>
  and the translation of low-level errors in \<^verbatim>\<open>src/core/ErrorTranslation.cpp\<close>.

  A \<^verbatim>\<open>std::error_code\<close> is a value together with a category. The categories the sources compare
  against are the network category (values of \<open>Error\<close>), the codes of \<^verbatim>\<open>asio::error\<close> and
  \<^verbatim>\<open>asio::ssl::error\<close> (one constructor per enumerator the sources name, \<open>Asio_other\<close> for the rest)
  and the generic category of \<^verbatim>\<open>std::errc\<close>. Two codes are equal only in the same category, as in
  C++, so \<^verbatim>\<open>std::errc::operation_canceled\<close> is not \<^verbatim>\<open>asio::error::operation_aborted\<close>.
\<close>

section \<open>Codes\<close>

datatype error =
    NO_ERROR
  | CONNECTION_REFUSED | CONNECTION_TIMEOUT | CONNECTION_LOST
  | CONNECTION_ESTABLISHMENT_FAILED | SOCKET_CREATE_FAILED
  | DNS_RESOLUTION_FAILED
  | READ_FAILED | WRITE_FAILED | TIMEOUT
  | PROTOCOL_ERROR
  | TLS_HANDSHAKE_FAILED | TLS_VALIDATION_FAILED | TLS_CERT_LOAD_FAILURE
  | SERVER_LISTEN_FAILED | SERVER_ACCEPT_FAILED
  | OPTION_ERROR | INTERNAL_ERROR

text \<open>The enumerators in declaration order: their position is the value.\<close>

definition error_enumerators :: "error list" where
  "error_enumerators =
     [NO_ERROR, CONNECTION_REFUSED, CONNECTION_TIMEOUT, CONNECTION_LOST,
      CONNECTION_ESTABLISHMENT_FAILED, SOCKET_CREATE_FAILED, DNS_RESOLUTION_FAILED,
      READ_FAILED, WRITE_FAILED, TIMEOUT, PROTOCOL_ERROR, TLS_HANDSHAKE_FAILED,
      TLS_VALIDATION_FAILED, TLS_CERT_LOAD_FAILURE, SERVER_LISTEN_FAILED,
      SERVER_ACCEPT_FAILED, OPTION_ERROR, INTERNAL_ERROR]"

fun error_value :: "error \<Rightarrow> int" where
  "error_value NO_ERROR = 0"
| "error_value CONNECTION_REFUSED = 1"
| "error_value CONNECTION_TIMEOUT = 2"
| "error_value CONNECTION_LOST = 3"
| "error_value CONNECTION_ESTABLISHMENT_FAILED = 4"
| "error_value SOCKET_CREATE_FAILED = 5"
| "error_value DNS_RESOLUTION_FAILED = 6"
| "error_value READ_FAILED = 7"
| "error_value WRITE_FAILED = 8"
| "error_value TIMEOUT = 9"
| "error_value PROTOCOL_ERROR = 10"
| "error_value TLS_HANDSHAKE_FAILED = 11"
| "error_value TLS_VALIDATION_FAILED = 12"
| "error_value TLS_CERT_LOAD_FAILURE = 13"
| "error_value SERVER_LISTEN_FAILED = 14"
| "error_value SERVER_ACCEPT_FAILED = 15"
| "error_value OPTION_ERROR = 16"
| "error_value INTERNAL_ERROR = 17"

datatype asio_error =
    Eof | Connection_reset | Broken_pipe | Not_connected | Timed_out
  | Connection_refused | Connection_aborted
  | Host_not_found | Host_not_found_try_again | Try_again
  | Address_family_not_supported | Already_open | Operation_not_supported
  | No_buffer_space | Operation_aborted | Bad_descriptor
  | Ssl_stream_truncated
  | Asio_other int

datatype errc =
    Invalid_argument | Io_error | Protocol_error | Operation_canceled | Result_out_of_range

datatype error_code =
    No_ec                    \<comment> \<open>\<open>std::error_code{}\<close>\<close>
  | Network_ec int           \<comment> \<open>a value of the network category\<close>
  | Asio_ec asio_error
  | Generic_ec errc          \<comment> \<open>\<open>std::make_error_code(std::errc::...)\<close>\<close>

type_synonym 'a expected = "error_code + 'a"

text \<open>The conversion of an \<open>error_code\<close> to \<open>bool\<close>: a non-zero value.\<close>

fun ec_set :: "error_code \<Rightarrow> bool" where
  "ec_set No_ec = False"
| "ec_set (Network_ec v) = (v \<noteq> 0)"
| "ec_set (Asio_ec _) = True"
| "ec_set (Generic_ec _) = True"

section \<open>The network category\<close>

definition category_name :: string where
  "category_name = ''network''"

text \<open>\<open>static_cast<Error>(ev)\<close> followed by the switch: the enumerator with that value, if any.\<close>

definition error_of_value :: "int \<Rightarrow> error option" where
  "error_of_value v = List.find (\<lambda>e. error_value e = v) error_enumerators"

fun error_text :: "error \<Rightarrow> string" where
  "error_text NO_ERROR = ''No error''"
| "error_text CONNECTION_REFUSED = ''Connection was refused by the remote host''"
| "error_text CONNECTION_TIMEOUT = ''Connection attempt timed out''"
| "error_text CONNECTION_LOST = ''Connection was lost during communication''"
| "error_text CONNECTION_ESTABLISHMENT_FAILED = ''Failed to establish connection to remote host''"
| "error_text SOCKET_CREATE_FAILED = ''Failed to create socket''"
| "error_text DNS_RESOLUTION_FAILED = ''Failed to resolve hostname (DNS lookup failed)''"
| "error_text READ_FAILED = ''Failed to read data from socket''"
| "error_text WRITE_FAILED = ''Failed to write data to socket''"
| "error_text TIMEOUT = ''Operation timed out''"
| "error_text PROTOCOL_ERROR = ''Protocol error occurred while communicating with the server''"
| "error_text TLS_HANDSHAKE_FAILED = ''TLS handshake failed''"
| "error_text TLS_VALIDATION_FAILED = ''TLS certificate validation failed''"
| "error_text TLS_CERT_LOAD_FAILURE = ''Failed to load TLS certificate or private key''"
| "error_text SERVER_LISTEN_FAILED = ''Failed to start server listener''"
| "error_text SERVER_ACCEPT_FAILED = ''Failed to accept incoming connection''"
| "error_text INTERNAL_ERROR = ''Internal error occurred''"
| "error_text OPTION_ERROR = ''Internal options failure''"

definition message :: "int \<Rightarrow> string" where
  "message ev = (case error_of_value ev of
                   Some e \<Rightarrow> error_text e
                 | None \<Rightarrow> ''Unknown network error'')"

definition make_error_code :: "error \<Rightarrow> error_code" where
  "make_error_code err = Network_ec (error_value err)"

section \<open>Translation of low-level errors\<close>

definition isConnectionClosed :: "error_code \<Rightarrow> bool" where
  "isConnectionClosed ec \<longleftrightarrow>
     ec = Asio_ec Eof \<or> ec = Asio_ec Connection_reset \<or> ec = Asio_ec Broken_pipe \<or>
     ec = Asio_ec Not_connected"

definition isTimeout :: "error_code \<Rightarrow> bool" where
  "isTimeout ec \<longleftrightarrow> ec = Asio_ec Timed_out"

definition isConnectionRefused :: "error_code \<Rightarrow> bool" where
  "isConnectionRefused ec \<longleftrightarrow>
     ec = Asio_ec Connection_refused \<or> ec = Asio_ec Connection_aborted \<or>
     ec = Asio_ec Broken_pipe"

definition isDnsError :: "error_code \<Rightarrow> bool" where
  "isDnsError ec \<longleftrightarrow>
     ec = Asio_ec Host_not_found \<or> ec = Asio_ec Host_not_found_try_again \<or>
     ec = Asio_ec Try_again"

definition isSocketCreateError :: "error_code \<Rightarrow> bool" where
  "isSocketCreateError ec \<longleftrightarrow>
     ec = Asio_ec Address_family_not_supported \<or> ec = Asio_ec Already_open \<or>
     ec = Asio_ec Operation_not_supported"

definition makeConnectionError :: "error_code \<Rightarrow> error_code" where
  "makeConnectionError ec =
     (if \<not> ec_set ec then make_error_code NO_ERROR
      else if isTimeout ec then make_error_code CONNECTION_TIMEOUT
      else if isConnectionRefused ec then make_error_code CONNECTION_REFUSED
      else if isConnectionClosed ec then make_error_code CONNECTION_LOST
      else make_error_code CONNECTION_ESTABLISHMENT_FAILED)"

definition makeReadError :: "error_code \<Rightarrow> error_code" where
  "makeReadError ec =
     (if \<not> ec_set ec then make_error_code NO_ERROR
      else if isTimeout ec then make_error_code TIMEOUT
      else if isConnectionClosed ec then make_error_code CONNECTION_LOST
      else if ec = Asio_ec No_buffer_space then make_error_code READ_FAILED
      else make_error_code READ_FAILED)"

definition makeWriteError :: "error_code \<Rightarrow> error_code" where
  "makeWriteError ec =
     (if \<not> ec_set ec then make_error_code NO_ERROR
      else if isTimeout ec then make_error_code TIMEOUT
      else if ec = Asio_ec No_buffer_space \<or> ec = Asio_ec Broken_pipe
        then make_error_code WRITE_FAILED
      else if isConnectionClosed ec then make_error_code CONNECTION_LOST
      else make_error_code WRITE_FAILED)"

definition makeDnsError :: "error_code \<Rightarrow> error_code" where
  "makeDnsError ec =
     (if \<not> ec_set ec then make_error_code NO_ERROR
      else if isDnsError ec then make_error_code DNS_RESOLUTION_FAILED
      else make_error_code DNS_RESOLUTION_FAILED)"

definition makeTlsError :: "error_code \<Rightarrow> error_code" where
  "makeTlsError ec =
     (if \<not> ec_set ec then make_error_code NO_ERROR
      else make_error_code TLS_HANDSHAKE_FAILED)"

definition makeServerError :: "error_code \<Rightarrow> string \<Rightarrow> error_code" where
  "makeServerError ec operation =
     (if \<not> ec_set ec then make_error_code NO_ERROR
      else if operation = ''listen'' \<or> prefix ''listen'' operation
        then make_error_code SERVER_LISTEN_FAILED
      else if operation = ''accept'' \<or> prefix ''accept'' operation
        then make_error_code SERVER_ACCEPT_FAILED
      else make_error_code INTERNAL_ERROR)"

definition makeSocketCreateError :: "error_code \<Rightarrow> error_code" where
  "makeSocketCreateError ec =
     (if \<not> ec_set ec then make_error_code NO_ERROR
      else if isSocketCreateError ec then make_error_code SOCKET_CREATE_FAILED
      else make_error_code SOCKET_CREATE_FAILED)"

definition makeOptionError :: "error_code \<Rightarrow> error_code" where
  "makeOptionError ec = make_error_code OPTION_ERROR"

section \<open>Lemmas\<close>

lemma set_error_enumerators: "e \<in> set error_enumerators"
  by (cases e) (simp_all add: error_enumerators_def)

lemma error_value_inj: "error_value a = error_value b \<Longrightarrow> a = b"
  by (cases a; cases b; simp)

lemma error_value_nth: "i < length error_enumerators \<Longrightarrow> error_value (error_enumerators ! i) = int i"
  by (auto simp: error_enumerators_def nth_Cons' less_Suc_eq numeral_eq_Suc)

lemma error_value_zero_iff [simp]: "error_value e = 0 \<longleftrightarrow> e = NO_ERROR"
  by (cases e) simp_all

lemma error_of_value_inverse [simp]: "error_of_value (error_value e) = Some e"
  by (cases e) (simp_all add: error_of_value_def error_enumerators_def)

lemma error_of_value_None:
  "error_of_value v = None \<longleftrightarrow> (\<forall>e. error_value e \<noteq> v)"
  using set_error_enumerators by (auto simp: error_of_value_def find_None_iff)

lemma error_text_inj: "error_text a = error_text b \<Longrightarrow> a = b"
  by (cases a; cases b; simp)

lemma error_text_known: "error_text e \<noteq> ''Unknown network error''"
  by (cases e) simp_all

lemma ec_set_make_error_code [simp]: "ec_set (make_error_code e) \<longleftrightarrow> e \<noteq> NO_ERROR"
  by (simp add: make_error_code_def)

lemma make_error_code_inject [simp]: "make_error_code a = make_error_code b \<longleftrightarrow> a = b"
  by (auto simp: make_error_code_def dest: error_value_inj)

lemmas translation_defs =
  makeConnectionError_def makeReadError_def makeWriteError_def makeDnsError_def
  makeTlsError_def makeServerError_def makeSocketCreateError_def
  isTimeout_def isConnectionRefused_def isConnectionClosed_def isDnsError_def
  isSocketCreateError_def

lemma ec_set_translated [simp]:
  "ec_set (makeConnectionError ec) \<longleftrightarrow> ec_set ec" "ec_set (makeReadError ec) \<longleftrightarrow> ec_set ec"
  "ec_set (makeWriteError ec) \<longleftrightarrow> ec_set ec" "ec_set (makeDnsError ec) \<longleftrightarrow> ec_set ec"
  "ec_set (makeTlsError ec) \<longleftrightarrow> ec_set ec" "ec_set (makeServerError ec operation) \<longleftrightarrow> ec_set ec"
  "ec_set (makeSocketCreateError ec) \<longleftrightarrow> ec_set ec" "ec_set (makeOptionError ec)"
  by (simp_all add: translation_defs makeOptionError_def)

section \<open>Properties\<close>

text \<open>
  Every translation function keeps the distinction between success and failure: the
  translated code is set exactly when the original is. The one exception is \<open>makeOptionError\<close>,
  which reports an error whatever it is given.
\<close>

theorem translation_keeps_failure:
  "(ec_set (makeConnectionError ec) \<longleftrightarrow> ec_set ec) \<and>
   (ec_set (makeReadError ec) \<longleftrightarrow> ec_set ec) \<and>
   (ec_set (makeWriteError ec) \<longleftrightarrow> ec_set ec) \<and>
   (ec_set (makeDnsError ec) \<longleftrightarrow> ec_set ec) \<and>
   (ec_set (makeTlsError ec) \<longleftrightarrow> ec_set ec) \<and>
   (ec_set (makeServerError ec operation) \<longleftrightarrow> ec_set ec) \<and>
   (ec_set (makeSocketCreateError ec) \<longleftrightarrow> ec_set ec) \<and>
   ec_set (makeOptionError ec)"
  by simp

text \<open>
  How the three context-sensitive translations classify every asio error. The same broken
  pipe is a refused connection while connecting, a lost connection while reading and a failed
  write while writing.
\<close>

theorem context_sensitive_classification:
  "makeConnectionError (Asio_ec e) = make_error_code
     (case e of Timed_out \<Rightarrow> CONNECTION_TIMEOUT
      | Connection_refused \<Rightarrow> CONNECTION_REFUSED | Connection_aborted \<Rightarrow> CONNECTION_REFUSED
      | Broken_pipe \<Rightarrow> CONNECTION_REFUSED
      | Eof \<Rightarrow> CONNECTION_LOST | Connection_reset \<Rightarrow> CONNECTION_LOST
      | Not_connected \<Rightarrow> CONNECTION_LOST | _ \<Rightarrow> CONNECTION_ESTABLISHMENT_FAILED) \<and>
   makeReadError (Asio_ec e) = make_error_code
     (case e of Timed_out \<Rightarrow> TIMEOUT
      | Eof \<Rightarrow> CONNECTION_LOST | Connection_reset \<Rightarrow> CONNECTION_LOST
      | Broken_pipe \<Rightarrow> CONNECTION_LOST | Not_connected \<Rightarrow> CONNECTION_LOST | _ \<Rightarrow> READ_FAILED) \<and>
   makeWriteError (Asio_ec e) = make_error_code
     (case e of Timed_out \<Rightarrow> TIMEOUT
      | Eof \<Rightarrow> CONNECTION_LOST | Connection_reset \<Rightarrow> CONNECTION_LOST
      | Not_connected \<Rightarrow> CONNECTION_LOST | _ \<Rightarrow> WRITE_FAILED)"
  by (cases e) (simp_all add: translation_defs)

text \<open>
  The messages of the network category identify the error: distinct enumerators have distinct
  texts, and the fallback text appears exactly for values that are no enumerator.
\<close>

theorem message_identifies_error:
  "(message (error_value a) = message (error_value b) \<longleftrightarrow> a = b) \<and>
   (message v = ''Unknown network error'' \<longleftrightarrow> v \<notin> range error_value)"
proof
  show "message (error_value a) = message (error_value b) \<longleftrightarrow> a = b"
    by (auto simp: message_def dest: error_text_inj)
  show "message v = ''Unknown network error'' \<longleftrightarrow> v \<notin> range error_value"
  proof (cases "error_of_value v")
    case None
    then have "v \<notin> range error_value" using error_of_value_None [of v] by blast
    with None show ?thesis by (simp add: message_def)
  next
    case (Some e)
    then have "error_value e = v" by (auto simp: error_of_value_def find_Some_iff)
    then show ?thesis using Some error_text_known by (auto simp: message_def)
  qed
qed

end
