(* ===== verification/Asio_Env.thy ===== *)
theory Asio_Env
  imports Error_Codes
begin

text \<open>
  The execution environment of the stack. Asio and the operating system are not part of the
  repository: every operation the sources call on them is a field of the record \<open>asio\<close>, over an
  arbitrary type \<open>'w\<close> of worlds, and every definition that performs input or output takes such a
  record as an argument. A native socket is named by a number. What the sources rely on is stated
  as laws (\<open>asio_laws\<close>), which the theorems that need them take as a hypothesis.

  \<^item> \<open>as_spawn\<close>: what becomes of a coroutine handed to \<^verbatim>\<open>asio::co_spawn(..., use_future)\<close>: it
    runs, it is dropped and \<^verbatim>\<open>future.get()\<close> throws, or \<^verbatim>\<open>future.get()\<close> never returns.
  \<^item> \<open>as_read_some fd t n\<close>: \<^verbatim>\<open>async_read_some\<close> into \<open>n\<close> bytes, raced against a timer of \<open>t\<close>
    milliseconds: the completion code, the bytes stored, and whether the timer handler ran.
  \<^item> \<open>as_write fd t bs\<close>: \<^verbatim>\<open>asio::async_write\<close>, raced against a timer in the same way.
  \<^item> \<open>as_prepare\<close> and \<open>as_commit\<close>: the two members of \<^verbatim>\<open>asio::dynamic_buffer(vector)\<close>; \<open>as_prepare\<close>
    gives the vector after \<^verbatim>\<open>prepare(n)\<close>, \<open>as_commit v m n\<close> the vector after \<^verbatim>\<open>commit(n)\<close> on a
    buffer whose input sequence has \<open>m\<close> bytes.
  \<^item> \<open>as_emit\<close>, \<open>as_cancel\<close>, \<open>as_shutdown\<close>, \<open>as_close\<close>, \<open>as_is_open\<close>: emission of the cancellation
    signal and the socket members of these names.
  \<^item> \<open>as_message\<close>: \<^verbatim>\<open>error_code::message()\<close> of the categories that are not the network one.
\<close>

datatype spawn_outcome = Spawn_runs | Spawn_dropped | Spawn_blocks

record 'w asio =
  as_spawn :: "'w \<Rightarrow> spawn_outcome \<times> 'w"
  as_is_open :: "nat \<Rightarrow> 'w \<Rightarrow> bool"
  as_shutdown :: "nat \<Rightarrow> 'w \<Rightarrow> 'w"
  as_close :: "nat \<Rightarrow> 'w \<Rightarrow> 'w"
  as_emit :: "nat \<Rightarrow> 'w \<Rightarrow> 'w"
  as_cancel :: "nat \<Rightarrow> 'w \<Rightarrow> 'w"
  as_read_some :: "nat \<Rightarrow> int \<Rightarrow> nat \<Rightarrow> 'w \<Rightarrow> error_code \<times> byte list \<times> bool \<times> 'w"
  as_write :: "nat \<Rightarrow> int \<Rightarrow> byte list \<Rightarrow> 'w \<Rightarrow> error_code \<times> nat \<times> bool \<times> 'w"
  as_prepare :: "byte list \<Rightarrow> nat \<Rightarrow> byte list"
  as_commit :: "byte list \<Rightarrow> nat \<Rightarrow> nat \<Rightarrow> byte list"
  as_message :: "error_code \<Rightarrow> string"

text \<open>\<open>ec.message()\<close>, dispatched on the category.\<close>

fun ec_message :: "'w asio \<Rightarrow> error_code \<Rightarrow> string" where
  "ec_message A (Network_ec v) = message v"
| "ec_message A ec = as_message A ec"

section \<open>Laws\<close>

text \<open>
  \<^verbatim>\<open>prepare(n)\<close> resizes the vector by \<open>n\<close> value-initialised bytes behind the input sequence;
  \<^verbatim>\<open>commit(n)\<close> appends the first \<open>n\<close> of them (at most all) to the input sequence and resizes the
  vector to it.
\<close>

definition dynamic_buffer_laws :: "'w asio \<Rightarrow> bool" where
  "dynamic_buffer_laws A \<longleftrightarrow>
     (\<forall>v n. as_prepare A v n = v @ replicate n 0) \<and>
     (\<forall>v m n. m \<le> length v \<longrightarrow> as_commit A v m n = take (m + min n (length v - m)) v)"

text \<open>
  \<open>rcvd fd w\<close> is everything the operating system has delivered on \<open>fd\<close> so far, \<open>sent fd w\<close>
  everything it has accepted. A successful read delivers at most the requested number of bytes
  and appends them to \<open>rcvd\<close>; a failed one delivers nothing. Neither touches another socket, the
  sent bytes or whether a socket is open.
\<close>

definition read_laws ::
  "'w asio \<Rightarrow> (nat \<Rightarrow> 'w \<Rightarrow> byte list) \<Rightarrow> (nat \<Rightarrow> 'w \<Rightarrow> byte list) \<Rightarrow> bool" where
  "read_laws A rcvd sent \<longleftrightarrow>
     (\<forall>fd t n w ec data fired w'.
        as_read_some A fd t n w = (ec, data, fired, w') \<longrightarrow>
          length data \<le> n \<and>
          (ec_set ec \<longrightarrow> data = []) \<and>
          rcvd fd w' = rcvd fd w @ data \<and>
          (\<forall>g. g \<noteq> fd \<longrightarrow> rcvd g w' = rcvd g w) \<and>
          (\<forall>g. sent g w' = sent g w) \<and>
          (\<forall>g. as_is_open A g w' = as_is_open A g w))"

text \<open>
  A successful \<^verbatim>\<open>async_write\<close> has transferred the whole buffer; a failed one some prefix of it.
\<close>

definition write_laws ::
  "'w asio \<Rightarrow> (nat \<Rightarrow> 'w \<Rightarrow> byte list) \<Rightarrow> (nat \<Rightarrow> 'w \<Rightarrow> byte list) \<Rightarrow> bool" where
  "write_laws A rcvd sent \<longleftrightarrow>
     (\<forall>fd t bs w ec n fired w'.
        as_write A fd t bs w = (ec, n, fired, w') \<longrightarrow>
          n \<le> length bs \<and>
          (\<not> ec_set ec \<longrightarrow> n = length bs) \<and>
          sent fd w' = sent fd w @ take n bs \<and>
          (\<forall>g. g \<noteq> fd \<longrightarrow> sent g w' = sent g w) \<and>
          (\<forall>g. rcvd g w' = rcvd g w) \<and>
          (\<forall>g. as_is_open A g w' = as_is_open A g w))"

text \<open>Cancelling, emitting a signal and scheduling a coroutine move no bytes and close nothing.\<close>

definition quiet ::
  "'w asio \<Rightarrow> (nat \<Rightarrow> 'w \<Rightarrow> byte list) \<Rightarrow> (nat \<Rightarrow> 'w \<Rightarrow> byte list) \<Rightarrow> ('w \<Rightarrow> 'w) \<Rightarrow> bool" where
  "quiet A rcvd sent f \<longleftrightarrow>
     (\<forall>w g. rcvd g (f w) = rcvd g w \<and> sent g (f w) = sent g w \<and>
            as_is_open A g (f w) = as_is_open A g w)"

text \<open>Closing ends exactly the named socket and keeps the history.\<close>

definition close_laws ::
  "'w asio \<Rightarrow> (nat \<Rightarrow> 'w \<Rightarrow> byte list) \<Rightarrow> (nat \<Rightarrow> 'w \<Rightarrow> byte list) \<Rightarrow> bool" where
  "close_laws A rcvd sent \<longleftrightarrow>
     (\<forall>fd w g. as_is_open A g (as_close A fd w) = (g \<noteq> fd \<and> as_is_open A g w) \<and>
               rcvd g (as_close A fd w) = rcvd g w \<and> sent g (as_close A fd w) = sent g w)"

definition asio_laws ::
  "'w asio \<Rightarrow> (nat \<Rightarrow> 'w \<Rightarrow> byte list) \<Rightarrow> (nat \<Rightarrow> 'w \<Rightarrow> byte list) \<Rightarrow> bool" where
  "asio_laws A rcvd sent \<longleftrightarrow>
     dynamic_buffer_laws A \<and> read_laws A rcvd sent \<and> write_laws A rcvd sent \<and>
     close_laws A rcvd sent \<and>
     (\<forall>fd. quiet A rcvd sent (as_emit A fd)) \<and>
     (\<forall>fd. quiet A rcvd sent (as_cancel A fd)) \<and>
     (\<forall>fd. quiet A rcvd sent (as_shutdown A fd)) \<and>
     quiet A rcvd sent (snd \<circ> as_spawn A)"

text \<open>The environment as an interface: everything proved from the laws is proved in this locale.\<close>

locale asio_env =
  fixes A :: "'w asio"
    and rcvd :: "nat \<Rightarrow> 'w \<Rightarrow> byte list"
    and sent :: "nat \<Rightarrow> 'w \<Rightarrow> byte list"
  assumes laws: "asio_laws A rcvd sent"
begin

lemma prepare_eq [env_laws]: "as_prepare A v n = v @ replicate n 0"
  using laws by (simp add: asio_laws_def dynamic_buffer_laws_def)

lemma commit_eq [env_laws]:
  "m \<le> length v \<Longrightarrow> as_commit A v m n = take (m + min n (length v - m)) v"
  using laws by (simp add: asio_laws_def dynamic_buffer_laws_def)

lemma read_some_law:
  assumes "as_read_some A fd t n w = (ec, data, fired, w')"
  shows "length data \<le> n" "ec_set ec \<Longrightarrow> data = []" "rcvd fd w' = rcvd fd w @ data"
    "sent g w' = sent g w" "as_is_open A g w' = as_is_open A g w"
    "g \<noteq> fd \<Longrightarrow> rcvd g w' = rcvd g w"
  using laws assms unfolding asio_laws_def read_laws_def by blast+

lemma write_law:
  assumes "as_write A fd t bs w = (ec, n, fired, w')"
  shows "n \<le> length bs" "\<not> ec_set ec \<Longrightarrow> n = length bs" "sent fd w' = sent fd w @ take n bs"
    "rcvd g w' = rcvd g w" "as_is_open A g w' = as_is_open A g w"
    "g \<noteq> fd \<Longrightarrow> sent g w' = sent g w"
  using laws assms unfolding asio_laws_def write_laws_def by blast+

lemma quiet_ops [env_laws]:
  "rcvd g (as_emit A fd w) = rcvd g w" "sent g (as_emit A fd w) = sent g w"
  "as_is_open A g (as_emit A fd w) = as_is_open A g w"
  "rcvd g (as_cancel A fd w) = rcvd g w" "sent g (as_cancel A fd w) = sent g w"
  "as_is_open A g (as_cancel A fd w) = as_is_open A g w"
  "rcvd g (as_shutdown A fd w) = rcvd g w" "sent g (as_shutdown A fd w) = sent g w"
  "as_is_open A g (as_shutdown A fd w) = as_is_open A g w"
  using laws by (simp_all add: asio_laws_def quiet_def)

lemma spawn_law:
  assumes "as_spawn A w = (o1, w')"
  shows "rcvd g w' = rcvd g w" "sent g w' = sent g w" "as_is_open A g w' = as_is_open A g w"
proof -
  have "quiet A rcvd sent (snd \<circ> as_spawn A)" using laws by (simp add: asio_laws_def)
  then show "rcvd g w' = rcvd g w" "sent g w' = sent g w" "as_is_open A g w' = as_is_open A g w"
    using assms unfolding quiet_def by (metis comp_apply snd_conv)+
qed

lemma close_law [env_laws]:
  "as_is_open A g (as_close A fd w) = (g \<noteq> fd \<and> as_is_open A g w)"
  "rcvd g (as_close A fd w) = rcvd g w" "sent g (as_close A fd w) = sent g w"
  using laws by (simp_all add: asio_laws_def close_laws_def)

end

section \<open>A scripted network\<close>

text \<open>
  An environment that satisfies the laws and computes: each socket has a script of what its
  successive reads complete with (end of file once the script is used up) and of the codes its
  writes complete with (success once used up). The witnesses run the model on it.
\<close>

record script_world =
  sw_rx :: "nat \<Rightarrow> (error_code \<times> byte list \<times> bool) list"
  sw_tx :: "nat \<Rightarrow> (error_code \<times> bool) list"
  sw_rcvd :: "nat \<Rightarrow> byte list"
  sw_sent :: "nat \<Rightarrow> byte list"
  sw_open :: "nat \<Rightarrow> bool"
  sw_spawn :: "spawn_outcome list"
  sw_counter :: uint32

definition script_read ::
  "nat \<Rightarrow> int \<Rightarrow> nat \<Rightarrow> script_world \<Rightarrow> error_code \<times> byte list \<times> bool \<times> script_world" where
  "script_read fd t n w =
     (case sw_rx w fd of
        [] \<Rightarrow> (Asio_ec Eof, [], False, w)
      | (ec, data, fired) # rest \<Rightarrow>
          if ec_set ec then (ec, [], fired, w\<lparr>sw_rx := (sw_rx w)(fd := rest)\<rparr>)
          else (ec, take n data, fired,
                w\<lparr>sw_rx := (sw_rx w)(fd := if length data \<le> n then rest
                                           else (ec, drop n data, False) # rest),
                  sw_rcvd := (sw_rcvd w)(fd := sw_rcvd w fd @ take n data)\<rparr>))"

definition script_write ::
  "nat \<Rightarrow> int \<Rightarrow> byte list \<Rightarrow> script_world \<Rightarrow> error_code \<times> nat \<times> bool \<times> script_world" where
  "script_write fd t bs w =
     (case sw_tx w fd of
        (ec, fired) # rest \<Rightarrow>
          if ec_set ec then (ec, 0, fired, w\<lparr>sw_tx := (sw_tx w)(fd := rest)\<rparr>)
          else (No_ec, length bs, fired,
                w\<lparr>sw_tx := (sw_tx w)(fd := rest), sw_sent := (sw_sent w)(fd := sw_sent w fd @ bs)\<rparr>)
      | [] \<Rightarrow> (No_ec, length bs, False, w\<lparr>sw_sent := (sw_sent w)(fd := sw_sent w fd @ bs)\<rparr>))"

definition script_spawn :: "script_world \<Rightarrow> spawn_outcome \<times> script_world" where
  "script_spawn w = (case sw_spawn w of
                       [] \<Rightarrow> (Spawn_runs, w)
                     | x # xs \<Rightarrow> (x, w\<lparr>sw_spawn := xs\<rparr>))"

definition script_asio :: "script_world asio" where
  "script_asio =
     \<lparr> as_spawn = script_spawn,
       as_is_open = (\<lambda>fd w. sw_open w fd),
       as_shutdown = (\<lambda>fd w. w),
       as_close = (\<lambda>fd w. w\<lparr>sw_open := (sw_open w)(fd := False)\<rparr>),
       as_emit = (\<lambda>fd w. w),
       as_cancel = (\<lambda>fd w. w),
       as_read_some = script_read,
       as_write = script_write,
       as_prepare = (\<lambda>v n. v @ replicate n 0),
       as_commit = (\<lambda>v m n. take (m + min n (length v - m)) v),
       as_message = (\<lambda>_. ''system error'') \<rparr>"

definition script_start :: "(error_code \<times> byte list \<times> bool) list \<Rightarrow> script_world" where
  "script_start rx =
     \<lparr> sw_rx = (\<lambda>_. rx), sw_tx = (\<lambda>_. []), sw_rcvd = (\<lambda>_. []), sw_sent = (\<lambda>_. []),
       sw_open = (\<lambda>_. True), sw_spawn = [], sw_counter = 0 \<rparr>"

lemma script_read_laws: "read_laws script_asio (\<lambda>fd w. sw_rcvd w fd) (\<lambda>fd w. sw_sent w fd)"
  by (auto simp: read_laws_def script_asio_def script_read_def split: list.splits if_splits)

lemma script_write_laws: "write_laws script_asio (\<lambda>fd w. sw_rcvd w fd) (\<lambda>fd w. sw_sent w fd)"
  by (auto simp: write_laws_def script_asio_def script_write_def split: list.splits if_splits)

lemma script_laws: "asio_laws script_asio (\<lambda>fd w. sw_rcvd w fd) (\<lambda>fd w. sw_sent w fd)"
  unfolding asio_laws_def
proof (intro conjI allI)
  show "dynamic_buffer_laws script_asio"
    by (simp add: dynamic_buffer_laws_def script_asio_def)
  show "close_laws script_asio (\<lambda>fd w. sw_rcvd w fd) (\<lambda>fd w. sw_sent w fd)"
    by (simp add: close_laws_def script_asio_def)
  show "quiet script_asio (\<lambda>fd w. sw_rcvd w fd) (\<lambda>fd w. sw_sent w fd) (snd \<circ> as_spawn script_asio)"
    by (auto simp: quiet_def script_asio_def script_spawn_def split: list.split)
qed (rule script_read_laws script_write_laws | simp add: quiet_def script_asio_def)+

interpretation script: asio_env script_asio "\<lambda>fd w. sw_rcvd w fd" "\<lambda>fd w. sw_sent w fd"
  by unfold_locales (rule script_laws)

lemmas script_simps =
  script_asio_def script_read_def script_write_def script_spawn_def script_start_def

end
