(* ===== verification/Socket.thy ===== *)
theory Socket
  imports Asio_Env
begin

text \<open>
  The socket layer: \<^verbatim>\<open>SocketBase\<close>, \<^verbatim>\<open>TcpSocket\<close>, \<^verbatim>\<open>TlsSocket\<close> and the shared coroutines of
  \<^verbatim>\<open>include/socket/details/SocketBaseDetail.h\<close>. A socket object keeps its identifier, its class,
  the native socket and the read buffer; an output span is passed in with its contents and
  returned with the new ones. A call that never completes is \<open>None\<close>.
\<close>

section \<open>Socket objects\<close>

datatype socket_kind = Tcp_Socket | Tls_Socket

record dual_socket =
  sock_kind :: socket_kind
  sock_id :: uint32
  sock_fd :: nat
  read_buffer :: "byte list"

type_synonym 'w read_outcome = "(nat expected \<times> dual_socket \<times> byte list \<times> 'w) option"

text \<open>The constructor takes the next value of the global counter \<open>id_counter\<close>, which wraps.\<close>

definition new_socket :: "socket_kind \<Rightarrow> nat \<Rightarrow> uint32 \<Rightarrow> dual_socket \<times> uint32" where
  "new_socket kind fd id_counter =
     (\<lparr>sock_kind = kind, sock_id = id_counter, sock_fd = fd, read_buffer = []\<rparr>, id_counter + 1)"

definition getId :: "dual_socket \<Rightarrow> uint32" where
  "getId s = sock_id s"

definition SocketBase_cancelSocket :: "'w asio \<Rightarrow> dual_socket \<Rightarrow> 'w \<Rightarrow> 'w" where
  "SocketBase_cancelSocket A s w = as_emit A (sock_fd s) w"

definition TcpSocket_isConnected :: "'w asio \<Rightarrow> dual_socket \<Rightarrow> 'w \<Rightarrow> bool" where
  "TcpSocket_isConnected A s w = as_is_open A (sock_fd s) w"

definition TlsSocket_isConnected :: "'w asio \<Rightarrow> dual_socket \<Rightarrow> 'w \<Rightarrow> bool" where
  "TlsSocket_isConnected A s w = as_is_open A (sock_fd s) w"

definition TcpSocket_closeSocket :: "'w asio \<Rightarrow> dual_socket \<Rightarrow> 'w \<Rightarrow> 'w" where
  "TcpSocket_closeSocket A s w =
     (if as_is_open A (sock_fd s) w
      then as_close A (sock_fd s) (as_shutdown A (sock_fd s) w) else w)"

definition TlsSocket_closeSocket :: "'w asio \<Rightarrow> dual_socket \<Rightarrow> 'w \<Rightarrow> 'w" where
  "TlsSocket_closeSocket A s w =
     (if as_is_open A (sock_fd s) w then as_close A (sock_fd s) w else w)"

definition TcpSocket_cancelSocket :: "'w asio \<Rightarrow> dual_socket \<Rightarrow> 'w \<Rightarrow> 'w" where
  "TcpSocket_cancelSocket A s w =
     (let w1 = SocketBase_cancelSocket A s w
      in if as_is_open A (sock_fd s) w1 then as_cancel A (sock_fd s) w1 else w1)"

definition TlsSocket_cancelSocket :: "'w asio \<Rightarrow> dual_socket \<Rightarrow> 'w \<Rightarrow> 'w" where
  "TlsSocket_cancelSocket A s w =
     (let w1 = SocketBase_cancelSocket A s w
      in if as_is_open A (sock_fd s) w1 then as_cancel A (sock_fd s) w1 else w1)"

definition TcpSocket_isConnectionClosed :: "error_code \<Rightarrow> bool" where
  "TcpSocket_isConnectionClosed ec \<longleftrightarrow>
     ec = Asio_ec Eof \<or> ec = Asio_ec Connection_reset \<or> ec = Asio_ec Broken_pipe \<or>
     ec = Asio_ec Not_connected"

definition TlsSocket_isConnectionClosed :: "error_code \<Rightarrow> bool" where
  "TlsSocket_isConnectionClosed ec \<longleftrightarrow>
     ec = Asio_ec Eof \<or> ec = Asio_ec Connection_reset \<or> ec = Asio_ec Broken_pipe \<or>
     ec = Asio_ec Not_connected \<or> ec = Asio_ec Ssl_stream_truncated"

text \<open>The virtual members, dispatched on the class; the destructors cancel and then close.\<close>

definition isConnected :: "'w asio \<Rightarrow> dual_socket \<Rightarrow> 'w \<Rightarrow> bool" where
  "isConnected A s w = (case sock_kind s of
     Tcp_Socket \<Rightarrow> TcpSocket_isConnected A s w | Tls_Socket \<Rightarrow> TlsSocket_isConnected A s w)"

definition closeSocket :: "'w asio \<Rightarrow> dual_socket \<Rightarrow> 'w \<Rightarrow> 'w" where
  "closeSocket A s w = (case sock_kind s of
     Tcp_Socket \<Rightarrow> TcpSocket_closeSocket A s w | Tls_Socket \<Rightarrow> TlsSocket_closeSocket A s w)"

definition cancelSocket :: "'w asio \<Rightarrow> dual_socket \<Rightarrow> 'w \<Rightarrow> 'w" where
  "cancelSocket A s w = (case sock_kind s of
     Tcp_Socket \<Rightarrow> TcpSocket_cancelSocket A s w | Tls_Socket \<Rightarrow> TlsSocket_cancelSocket A s w)"

definition destroy_TcpSocket :: "'w asio \<Rightarrow> dual_socket \<Rightarrow> 'w \<Rightarrow> 'w" where
  "destroy_TcpSocket A s w = TcpSocket_closeSocket A s (TcpSocket_cancelSocket A s w)"

definition destroy_TlsSocket :: "'w asio \<Rightarrow> dual_socket \<Rightarrow> 'w \<Rightarrow> 'w" where
  "destroy_TlsSocket A s w = TlsSocket_closeSocket A s (TlsSocket_cancelSocket A s w)"

definition destroy_socket :: "'w asio \<Rightarrow> dual_socket \<Rightarrow> 'w \<Rightarrow> 'w" where
  "destroy_socket A s w = (case sock_kind s of
     Tcp_Socket \<Rightarrow> destroy_TcpSocket A s w | Tls_Socket \<Rightarrow> destroy_TlsSocket A s w)"

section \<open>The shared coroutines\<close>

definition makeTimeoutError :: error_code where
  "makeTimeoutError = make_error_code CONNECTION_TIMEOUT"

text \<open>\<open>move_data buffer out max_len\<close>: the count, the remaining buffer and the new span.\<close>

definition move_data :: "byte list \<Rightarrow> byte list \<Rightarrow> nat \<Rightarrow> nat \<times> byte list \<times> byte list" where
  "move_data buffer out max_len =
     (let n = min max_len (min (length buffer) (length out))
      in (n, drop n buffer, take n buffer @ drop n out))"

text \<open>
  \<open>asyncReadWithTimeout A s v m n t w\<close> reads into the \<open>n\<close> bytes of the vector \<open>v\<close> that start at
  position \<open>m\<close>. The timer handler, when it runs, cancels the socket.
\<close>

definition asyncReadWithTimeout ::
  "'w asio \<Rightarrow> dual_socket \<Rightarrow> byte list \<Rightarrow> nat \<Rightarrow> nat \<Rightarrow> int \<Rightarrow> 'w \<Rightarrow>
   nat expected \<times> byte list \<times> 'w" where
  "asyncReadWithTimeout A s v m n t w =
     (case as_read_some A (sock_fd s) t n w of (read_ec, data, timed_out, w1) \<Rightarrow>
        (if ec_set read_ec then
           (if read_ec = Asio_ec Operation_aborted \<and> timed_out then Inl makeTimeoutError
            else Inl read_ec)
         else Inr (length data),
         overwrite v m data,
         if timed_out then cancelSocket A s w1 else w1))"

text \<open>\<open>std::chrono::hours(24)\<close> stands for no timeout.\<close>

definition effective_timeout :: "int option \<Rightarrow> int" where
  "effective_timeout timeout = (case timeout of None \<Rightarrow> 24 * 60 * 60 * 1000 | Some t \<Rightarrow> t)"

definition asyncReadSomeCommon ::
  "'w asio \<Rightarrow> dual_socket \<Rightarrow> byte list \<Rightarrow> int option \<Rightarrow> 'w \<Rightarrow> 'w read_outcome" where
  "asyncReadSomeCommon A s out timeout w =
     (if \<not> isConnected A s w then Some (Inl (Asio_ec Not_connected), s, out, w)
      else
        let out0 = replicate (length out) 0;
            t = effective_timeout timeout;
            b = read_buffer s
        in if out0 = [] then Some (Inr 0, s, out0, w)
           else if b = [] then
             (case asyncReadWithTimeout A s (as_prepare A b (length out)) (length b) (length out) t w of
                (Inl e, v, w1) \<Rightarrow> Some (Inl e, s\<lparr>read_buffer := v\<rparr>, out0, w1)
              | (Inr n, v, w1) \<Rightarrow>
                  if n = 0 then Some (Inl (Asio_ec Eof), s\<lparr>read_buffer := v\<rparr>, out0, w1)
                  else
                    (case move_data (as_commit A v (length b) n) out0 size_max of
                       (k, b', out') \<Rightarrow> Some (Inr k, s\<lparr>read_buffer := b'\<rparr>, out', w1)))
           else
             (case move_data b out0 size_max of
                (k, b', out') \<Rightarrow> Some (Inr k, s\<lparr>read_buffer := b'\<rparr>, out', w)))"

text \<open>The loop of \<open>asyncReadExactCommon\<close>: fill the read buffer to \<open>n\<close> bytes.\<close>

partial_function (option) readExact_loop ::
  "'w asio \<Rightarrow> int \<Rightarrow> nat \<Rightarrow> dual_socket \<Rightarrow> 'w \<Rightarrow> (unit expected \<times> dual_socket \<times> 'w) option" where
  "readExact_loop A t n s w =
     (if length (read_buffer s) < n then
        (case asyncReadWithTimeout A s (as_prepare A (read_buffer s) n)
                (length (read_buffer s)) n t w of
           (Inl e, v, w1) \<Rightarrow> Some (Inl e, s\<lparr>read_buffer := v\<rparr>, w1)
         | (Inr k, v, w1) \<Rightarrow>
             if k = 0 then Some (Inl (Asio_ec Eof), s\<lparr>read_buffer := v\<rparr>, w1)
             else readExact_loop A t n
                    (s\<lparr>read_buffer := as_commit A v (length (read_buffer s)) k\<rparr>) w1)
      else Some (Inr (), s, w))"

definition asyncReadExactCommon ::
  "'w asio \<Rightarrow> dual_socket \<Rightarrow> byte list \<Rightarrow> int option \<Rightarrow> 'w \<Rightarrow> 'w read_outcome" where
  "asyncReadExactCommon A s out timeout w =
     (if \<not> isConnected A s w then Some (Inl (Asio_ec Not_connected), s, out, w)
      else
        let out0 = replicate (length out) 0 in
        do {
          (r, s1, w1) \<leftarrow> readExact_loop A (effective_timeout timeout) (length out) s w;
          case r of
            Inl e \<Rightarrow> Some (Inl e, s1, out0, w1)
          | Inr _ \<Rightarrow>
              (case move_data (read_buffer s1) out0 size_max of
                 (k, b', out') \<Rightarrow> Some (Inr k, s1\<lparr>read_buffer := b'\<rparr>, out', w1))
        })"

text \<open>The loop of \<open>asyncReadUntilCommon\<close>: look for the delimiter, read more when it is missing.\<close>

partial_function (option) readUntil_loop ::
  "'w asio \<Rightarrow> int \<Rightarrow> byte list \<Rightarrow> byte list \<Rightarrow> dual_socket \<Rightarrow> 'w \<Rightarrow> 'w read_outcome" where
  "readUntil_loop A t delim out s w =
     (let b = read_buffer s; it = std_search b delim in
      if it \<noteq> length b then
        let len = it + 1 in
        if length out < len then Some (Inl (make_error_code PROTOCOL_ERROR), s, out, w)
        else
          (case move_data b out (len + 1) of
             (k, b', out') \<Rightarrow> Some (Inr k, s\<lparr>read_buffer := b'\<rparr>, out', w))
      else
        (case asyncReadWithTimeout A s (as_prepare A b (length out)) (length b) (length out) t w of
           (Inl e, v, w1) \<Rightarrow> Some (Inl e, s\<lparr>read_buffer := v\<rparr>, out, w1)
         | (Inr k, v, w1) \<Rightarrow>
             if k = 0 then Some (Inl (Asio_ec Eof), s\<lparr>read_buffer := v\<rparr>, out, w1)
             else readUntil_loop A t delim out
                    (s\<lparr>read_buffer := as_commit A v (length b) k\<rparr>) w1))"

definition asyncReadUntilCommon ::
  "'w asio \<Rightarrow> dual_socket \<Rightarrow> byte list \<Rightarrow> string \<Rightarrow> int option \<Rightarrow> 'w \<Rightarrow> 'w read_outcome" where
  "asyncReadUntilCommon A s out delim timeout w =
     (if \<not> isConnected A s w then Some (Inl (Asio_ec Not_connected), s, out, w)
      else readUntil_loop A (effective_timeout timeout) (bytes_of_string delim) out s w)"

definition asyncWriteAllCommon ::
  "'w asio \<Rightarrow> dual_socket \<Rightarrow> byte list \<Rightarrow> int option \<Rightarrow> 'w \<Rightarrow> nat expected \<times> 'w" where
  "asyncWriteAllCommon A s buffer timeout w =
     (if \<not> isConnected A s w then (Inl (Asio_ec Not_connected), w)
      else
        (case as_write A (sock_fd s) (effective_timeout timeout) buffer w of
           (write_ec, n, timed_out, w1) \<Rightarrow>
             (if ec_set write_ec then
                (if write_ec = Asio_ec Operation_aborted \<and> timed_out then Inl makeTimeoutError
                 else Inl write_ec)
              else Inr n,
              if timed_out then cancelSocket A s w1 else w1)))"

section \<open>The members of \<open>TcpSocket\<close> and \<open>TlsSocket\<close>\<close>

text \<open>
  A synchronous member spawns its coroutine and waits for the future; an exception of
  \<^verbatim>\<open>future.get()\<close> becomes the given error.
\<close>

definition spawn_and_get :: "'w asio \<Rightarrow> ('w \<Rightarrow> 'r option) \<Rightarrow> ('w \<Rightarrow> 'r) \<Rightarrow> 'w \<Rightarrow> 'r option" where
  "spawn_and_get A body on_exception w =
     (case as_spawn A w of
        (Spawn_runs, w1) \<Rightarrow> body w1
      | (Spawn_dropped, w1) \<Rightarrow> Some (on_exception w1)
      | (Spawn_blocks, w1) \<Rightarrow> None)"

definition TcpSocket_asyncReadSome ::
  "'w asio \<Rightarrow> dual_socket \<Rightarrow> byte list \<Rightarrow> int option \<Rightarrow> 'w \<Rightarrow> 'w read_outcome" where
  "TcpSocket_asyncReadSome A s out timeout w = asyncReadSomeCommon A s out timeout w"

definition TcpSocket_asyncReadExact ::
  "'w asio \<Rightarrow> dual_socket \<Rightarrow> byte list \<Rightarrow> int option \<Rightarrow> 'w \<Rightarrow> 'w read_outcome" where
  "TcpSocket_asyncReadExact A s out timeout w = asyncReadExactCommon A s out timeout w"

definition TcpSocket_asyncReadUntil ::
  "'w asio \<Rightarrow> dual_socket \<Rightarrow> byte list \<Rightarrow> string \<Rightarrow> int option \<Rightarrow> 'w \<Rightarrow> 'w read_outcome" where
  "TcpSocket_asyncReadUntil A s out delim timeout w = asyncReadUntilCommon A s out delim timeout w"

definition TcpSocket_asyncWriteAll ::
  "'w asio \<Rightarrow> dual_socket \<Rightarrow> byte list \<Rightarrow> int option \<Rightarrow> 'w \<Rightarrow> nat expected \<times> 'w" where
  "TcpSocket_asyncWriteAll A s buffer timeout w = asyncWriteAllCommon A s buffer timeout w"

definition TcpSocket_readSome ::
  "'w asio \<Rightarrow> dual_socket \<Rightarrow> byte list \<Rightarrow> int option \<Rightarrow> 'w \<Rightarrow> 'w read_outcome" where
  "TcpSocket_readSome A s out timeout w =
     spawn_and_get A (TcpSocket_asyncReadSome A s out timeout)
       (\<lambda>w1. (Inl (makeReadError (Generic_ec Operation_canceled)), s, out, w1)) w"

definition TcpSocket_readExact ::
  "'w asio \<Rightarrow> dual_socket \<Rightarrow> byte list \<Rightarrow> int option \<Rightarrow> 'w \<Rightarrow> 'w read_outcome" where
  "TcpSocket_readExact A s out timeout w =
     spawn_and_get A (TcpSocket_asyncReadExact A s out timeout)
       (\<lambda>w1. (Inl (makeReadError (Generic_ec Operation_canceled)), s, out, w1)) w"

definition TcpSocket_readUntil ::
  "'w asio \<Rightarrow> dual_socket \<Rightarrow> byte list \<Rightarrow> string \<Rightarrow> int option \<Rightarrow> 'w \<Rightarrow> 'w read_outcome" where
  "TcpSocket_readUntil A s out delim timeout w =
     spawn_and_get A (TcpSocket_asyncReadUntil A s out delim timeout)
       (\<lambda>w1. (Inl (makeReadError (Generic_ec Operation_canceled)), s, out, w1)) w"

definition TcpSocket_writeAll ::
  "'w asio \<Rightarrow> dual_socket \<Rightarrow> byte list \<Rightarrow> int option \<Rightarrow> 'w \<Rightarrow> (nat expected \<times> 'w) option" where
  "TcpSocket_writeAll A s buffer timeout w =
     spawn_and_get A (\<lambda>w1. Some (TcpSocket_asyncWriteAll A s buffer timeout w1))
       (\<lambda>w1. (Inl (makeWriteError (Generic_ec Operation_canceled)), w1)) w"

definition TlsSocket_asyncReadSome ::
  "'w asio \<Rightarrow> dual_socket \<Rightarrow> byte list \<Rightarrow> int option \<Rightarrow> 'w \<Rightarrow> 'w read_outcome" where
  "TlsSocket_asyncReadSome A s out timeout w = asyncReadSomeCommon A s out timeout w"

definition TlsSocket_asyncReadExact ::
  "'w asio \<Rightarrow> dual_socket \<Rightarrow> byte list \<Rightarrow> int option \<Rightarrow> 'w \<Rightarrow> 'w read_outcome" where
  "TlsSocket_asyncReadExact A s out timeout w = asyncReadExactCommon A s out timeout w"

definition TlsSocket_asyncReadUntil ::
  "'w asio \<Rightarrow> dual_socket \<Rightarrow> byte list \<Rightarrow> string \<Rightarrow> int option \<Rightarrow> 'w \<Rightarrow> 'w read_outcome" where
  "TlsSocket_asyncReadUntil A s out delim timeout w = asyncReadUntilCommon A s out delim timeout w"

definition TlsSocket_asyncWriteAll ::
  "'w asio \<Rightarrow> dual_socket \<Rightarrow> byte list \<Rightarrow> int option \<Rightarrow> 'w \<Rightarrow> nat expected \<times> 'w" where
  "TlsSocket_asyncWriteAll A s buffer timeout w = asyncWriteAllCommon A s buffer timeout w"

definition TlsSocket_readSome ::
  "'w asio \<Rightarrow> dual_socket \<Rightarrow> byte list \<Rightarrow> int option \<Rightarrow> 'w \<Rightarrow> 'w read_outcome" where
  "TlsSocket_readSome A s out timeout w =
     spawn_and_get A (TlsSocket_asyncReadSome A s out timeout)
       (\<lambda>w1. (Inl (makeReadError (Generic_ec Operation_canceled)), s, out, w1)) w"

definition TlsSocket_readExact ::
  "'w asio \<Rightarrow> dual_socket \<Rightarrow> byte list \<Rightarrow> int option \<Rightarrow> 'w \<Rightarrow> 'w read_outcome" where
  "TlsSocket_readExact A s out timeout w =
     spawn_and_get A (TlsSocket_asyncReadExact A s out timeout)
       (\<lambda>w1. (Inl (makeReadError (Generic_ec Operation_canceled)), s, out, w1)) w"

definition TlsSocket_readUntil ::
  "'w asio \<Rightarrow> dual_socket \<Rightarrow> byte list \<Rightarrow> string \<Rightarrow> int option \<Rightarrow> 'w \<Rightarrow> 'w read_outcome" where
  "TlsSocket_readUntil A s out delim timeout w =
     spawn_and_get A (TlsSocket_asyncReadUntil A s out delim timeout)
       (\<lambda>w1. (Inl (makeReadError (Generic_ec Operation_canceled)), s, out, w1)) w"

definition TlsSocket_writeAll ::
  "'w asio \<Rightarrow> dual_socket \<Rightarrow> byte list \<Rightarrow> int option \<Rightarrow> 'w \<Rightarrow> (nat expected \<times> 'w) option" where
  "TlsSocket_writeAll A s buffer timeout w =
     spawn_and_get A (\<lambda>w1. Some (TlsSocket_asyncWriteAll A s buffer timeout w1))
       (\<lambda>w1. (Inl (makeWriteError (Generic_ec Operation_canceled)), w1)) w"

text \<open>The virtual calls of \<open>SyncSocket\<close>, dispatched on the class.\<close>

definition sync_readSome ::
  "'w asio \<Rightarrow> dual_socket \<Rightarrow> byte list \<Rightarrow> int option \<Rightarrow> 'w \<Rightarrow> 'w read_outcome" where
  "sync_readSome A s out timeout w = (case sock_kind s of
     Tcp_Socket \<Rightarrow> TcpSocket_readSome A s out timeout w
   | Tls_Socket \<Rightarrow> TlsSocket_readSome A s out timeout w)"

definition sync_readUntil ::
  "'w asio \<Rightarrow> dual_socket \<Rightarrow> byte list \<Rightarrow> string \<Rightarrow> int option \<Rightarrow> 'w \<Rightarrow> 'w read_outcome" where
  "sync_readUntil A s out delim timeout w = (case sock_kind s of
     Tcp_Socket \<Rightarrow> TcpSocket_readUntil A s out delim timeout w
   | Tls_Socket \<Rightarrow> TlsSocket_readUntil A s out delim timeout w)"

definition sync_writeAll ::
  "'w asio \<Rightarrow> dual_socket \<Rightarrow> byte list \<Rightarrow> int option \<Rightarrow> 'w \<Rightarrow> (nat expected \<times> 'w) option" where
  "sync_writeAll A s buffer timeout w = (case sock_kind s of
     Tcp_Socket \<Rightarrow> TcpSocket_writeAll A s buffer timeout w
   | Tls_Socket \<Rightarrow> TlsSocket_writeAll A s buffer timeout w)"

lemmas member_defs =
  TcpSocket_asyncReadSome_def TcpSocket_asyncReadExact_def TcpSocket_asyncReadUntil_def
  TcpSocket_asyncWriteAll_def TcpSocket_readSome_def TcpSocket_readExact_def
  TcpSocket_readUntil_def TcpSocket_writeAll_def
  TlsSocket_asyncReadSome_def TlsSocket_asyncReadExact_def TlsSocket_asyncReadUntil_def
  TlsSocket_asyncWriteAll_def TlsSocket_readSome_def TlsSocket_readExact_def
  TlsSocket_readUntil_def TlsSocket_writeAll_def

lemmas connection_defs =
  isConnected_def TcpSocket_isConnected_def TlsSocket_isConnected_def
  closeSocket_def TcpSocket_closeSocket_def TlsSocket_closeSocket_def
  cancelSocket_def TcpSocket_cancelSocket_def TlsSocket_cancelSocket_def
  SocketBase_cancelSocket_def

end
