(* ===== verification/Socket_Stream.thy ===== *)
theory Socket_Stream
  imports Socket
begin

text \<open>
  What the socket layer promises. Seen from above, a socket is a byte stream: the bytes in the
  read buffer followed by what the operating system delivers next. Every successful read takes
  its bytes from the front of that stream and loses or invents none; every successful write
  appends all its bytes. The locale \<open>byte_stream\<close> is this contract, which the frame and FTP layers
  rely on; the sublocale declarations show that the four read/write pairs of the two socket
  classes satisfy it in every environment that satisfies \<open>asio_laws\<close>.
\<close>

section \<open>Basic facts\<close>

lemma isConnected_eq [simp]: "isConnected A s w = as_is_open A (sock_fd s) w"
  by (simp add: connection_defs split: socket_kind.split)

lemma move_data_all:
  assumes "length out \<le> length b" "length out \<le> m"
  shows "move_data b out m = (length out, drop (length out) b, take (length out) b)"
  using assms by (simp add: move_data_def Let_def)

lemma move_data_conserves:
  assumes "move_data b out m = (k, b', out')"
  shows "take k out' @ b' = b" "k = min m (min (length b) (length out))"
    "length out' = length out" "drop k out' = drop k out" "k \<le> length out"
  using assms by (auto simp: move_data_def Let_def)

lemma makeTimeoutError_set [simp]: "ec_set makeTimeoutError"
  by (simp add: makeTimeoutError_def)

lemma length_le_size_max: "length xs \<le> size_max \<Longrightarrow> min size_max (length xs) = length xs"
  by simp

text \<open>The turns of the two read loops, as conditional equations.\<close>

lemma readExact_loop_turns [loop_eval]:
  "n \<le> length (read_buffer s) \<Longrightarrow> readExact_loop A t n s w = Some (Inr (), s, w)"
  "length (read_buffer s) < n \<Longrightarrow>
   asyncReadWithTimeout A s (as_prepare A (read_buffer s) n) (length (read_buffer s)) n t w = (Inl e, v, w1) \<Longrightarrow>
   readExact_loop A t n s w = Some (Inl e, s\<lparr>read_buffer := v\<rparr>, w1)"
  "length (read_buffer s) < n \<Longrightarrow>
   asyncReadWithTimeout A s (as_prepare A (read_buffer s) n) (length (read_buffer s)) n t w = (Inr k, v, w1) \<Longrightarrow>
   readExact_loop A t n s w =
     (if k = 0 then Some (Inl (Asio_ec Eof), s\<lparr>read_buffer := v\<rparr>, w1)
      else readExact_loop A t n (s\<lparr>read_buffer := as_commit A v (length (read_buffer s)) k\<rparr>) w1)"
  by (simp_all add: readExact_loop.simps)

lemma readUntil_loop_turns [loop_eval]:
  "std_search (read_buffer s) delim \<noteq> length (read_buffer s) \<Longrightarrow>
   readUntil_loop A t delim out s w =
     (if length out < std_search (read_buffer s) delim + 1
      then Some (Inl (make_error_code PROTOCOL_ERROR), s, out, w)
      else (case move_data (read_buffer s) out (std_search (read_buffer s) delim + 1 + 1) of
              (k, b', out') \<Rightarrow> Some (Inr k, s\<lparr>read_buffer := b'\<rparr>, out', w)))"
  "std_search (read_buffer s) delim = length (read_buffer s) \<Longrightarrow>
   asyncReadWithTimeout A s (as_prepare A (read_buffer s) (length out))
     (length (read_buffer s)) (length out) t w = (Inl e, v, w1) \<Longrightarrow>
   readUntil_loop A t delim out s w = Some (Inl e, s\<lparr>read_buffer := v\<rparr>, out, w1)"
  "std_search (read_buffer s) delim = length (read_buffer s) \<Longrightarrow>
   asyncReadWithTimeout A s (as_prepare A (read_buffer s) (length out))
     (length (read_buffer s)) (length out) t w = (Inr k, v, w1) \<Longrightarrow>
   readUntil_loop A t delim out s w =
     (if k = 0 then Some (Inl (Asio_ec Eof), s\<lparr>read_buffer := v\<rparr>, out, w1)
      else readUntil_loop A t delim out
             (s\<lparr>read_buffer := as_commit A v (length (read_buffer s)) k\<rparr>) w1)"
  by (simp_all add: readUntil_loop.simps Let_def)

section \<open>Reading under the environment's laws\<close>

context asio_env
begin

lemma cancelSocket_quiet [env_laws]:
  "rcvd g (cancelSocket A s w) = rcvd g w" "sent g (cancelSocket A s w) = sent g w"
  "as_is_open A g (cancelSocket A s w) = as_is_open A g w"
  by (simp_all add: connection_defs env_laws Let_def split: socket_kind.split)

lemma destroy_socket_open: "as_is_open A g (destroy_socket A s w) = (g \<noteq> sock_fd s \<and> as_is_open A g w)"
  by (auto simp: destroy_socket_def destroy_TcpSocket_def destroy_TlsSocket_def connection_defs env_laws
      Let_def split: socket_kind.split)

lemma destroy_socket_history [env_laws]:
  "rcvd g (destroy_socket A s w) = rcvd g w" "sent g (destroy_socket A s w) = sent g w"
  by (simp_all add: destroy_socket_def destroy_TcpSocket_def destroy_TlsSocket_def connection_defs env_laws
      Let_def split: socket_kind.split)

text \<open>One read behind a prepared buffer: what was stored, and what \<open>commit\<close> makes of it.\<close>

lemma asyncReadWithTimeout_step:
  assumes "asyncReadWithTimeout A s (as_prepare A b n) (length b) n t w = (r, v, w')"
  obtains data where
    "length data \<le> n" "v = b @ data @ replicate (n - length data) 0"
    "rcvd (sock_fd s) w' = rcvd (sock_fd s) w @ data"
    "\<And>k. r = Inr k \<Longrightarrow> k = length data \<and> as_commit A v (length b) k = b @ data"
    "\<And>e. r = Inl e \<Longrightarrow> data = [] \<and> ec_set e"
    "\<And>g. sent g w' = sent g w" "\<And>g. as_is_open A g w' = as_is_open A g w"
    "\<And>g. g \<noteq> sock_fd s \<Longrightarrow> rcvd g w' = rcvd g w"
proof -
  obtain ec data fired w1 where rd: "as_read_some A (sock_fd s) t n w = (ec, data, fired, w1)"
    by (metis prod_cases4)
  note law = read_some_law [OF rd]
  have w': "w' = (if fired then cancelSocket A s w1 else w1)"
    and v: "v = overwrite (b @ replicate n 0) (length b) data"
    and r: "r = (if ec_set ec then
                   if ec = Asio_ec Operation_aborted \<and> fired then Inl makeTimeoutError else Inl ec
                 else Inr (length data))"
    using assms rd by (auto simp: asyncReadWithTimeout_def prepare_eq)
  have v': "v = b @ data @ replicate (n - length data) 0"
    using v law(1) by (simp add: stream_simps)
  show thesis
  proof
    show "length data \<le> n" by (rule law(1))
    show "v = b @ data @ replicate (n - length data) 0" by (rule v')
    show "rcvd (sock_fd s) w' = rcvd (sock_fd s) w @ data"
      using w' law(3) by (simp add: env_laws)
    show "k = length data \<and> as_commit A v (length b) k = b @ data" if "r = Inr k" for k
      using that r v' law(1) by (simp add: commit_eq split: if_splits)
    show "data = [] \<and> ec_set e" if "r = Inl e" for e
      using that r law(2) by (auto split: if_splits)
    show "sent g w' = sent g w" for g
      using w' law(4) by (simp add: env_laws)
    show "as_is_open A g w' = as_is_open A g w" for g
      using w' law(5) by (simp add: env_laws)
    show "rcvd g w' = rcvd g w" if "g \<noteq> sock_fd s" for g
      using w' law(6) that by (simp add: env_laws)
  qed
qed

text \<open>
  The loop of \<open>readExact\<close> always stops: every turn that goes on has added at least one byte. On
  success the buffer has grown by exactly what was received; on failure the bytes requested by the
  last \<open>prepare\<close> are left behind as zeros.
\<close>

lemma readExact_loop_spec:
  "\<exists>r b' w' d. readExact_loop A t n s w = Some (r, s\<lparr>read_buffer := b'\<rparr>, w') \<and>
     rcvd (sock_fd s) w' = rcvd (sock_fd s) w @ d \<and>
     (\<forall>g. sent g w' = sent g w) \<and> (\<forall>g. as_is_open A g w' = as_is_open A g w) \<and>
     (\<forall>g. g \<noteq> sock_fd s \<longrightarrow> rcvd g w' = rcvd g w) \<and>
     (case r of Inr _ \<Rightarrow> b' = read_buffer s @ d \<and> n \<le> length b'
              | Inl e \<Rightarrow> b' = read_buffer s @ d @ replicate n 0 \<and> ec_set e)"
  (is "?P s w")
proof (induction "n - length (read_buffer s)" arbitrary: s w rule: less_induct)
  case less
  show ?case
  proof (cases "length (read_buffer s) < n")
    case False
    then have "readExact_loop A t n s w = Some (Inr (), s\<lparr>read_buffer := read_buffer s\<rparr>, w)"
      by (simp add: readExact_loop.simps)
    with False show ?thesis by force
  next
    case True
    let ?b = "read_buffer s"
    obtain r v w1 where st: "asyncReadWithTimeout A s (as_prepare A ?b n) (length ?b) n t w = (r, v, w1)"
      by (metis prod_cases3)
    from st obtain data where d: "length data \<le> n" "v = ?b @ data @ replicate (n - length data) 0"
      "rcvd (sock_fd s) w1 = rcvd (sock_fd s) w @ data"
      "\<And>k. r = Inr k \<Longrightarrow> k = length data \<and> as_commit A v (length ?b) k = ?b @ data"
      "\<And>e. r = Inl e \<Longrightarrow> data = [] \<and> ec_set e"
      "\<And>g. sent g w1 = sent g w" "\<And>g. as_is_open A g w1 = as_is_open A g w"
      "\<And>g. g \<noteq> sock_fd s \<Longrightarrow> rcvd g w1 = rcvd g w"
      by (rule asyncReadWithTimeout_step) blast
    show ?thesis
    proof (cases r)
      case (Inl e)
      then have "readExact_loop A t n s w = Some (Inl e, s\<lparr>read_buffer := v\<rparr>, w1)"
        using True st by (simp add: readExact_loop.simps)
      with d Inl show ?thesis by force
    next
      case (Inr k)
      show ?thesis
      proof (cases "k = 0")
        case zero: True
        then have "readExact_loop A t n s w = Some (Inl (Asio_ec Eof), s\<lparr>read_buffer := v\<rparr>, w1)"
          using True st Inr by (simp add: readExact_loop.simps)
        moreover have "data = []" using d(4) Inr zero by simp
        ultimately show ?thesis using d by force
      next
        case False
        let ?s1 = "s\<lparr>read_buffer := ?b @ data\<rparr>"
        have k: "k = length data" "as_commit A v (length ?b) k = ?b @ data" using d(4) Inr by auto
        have step: "readExact_loop A t n s w = readExact_loop A t n ?s1 w1"
          using True st Inr False k by (subst readExact_loop.simps) simp
        have "0 < length data" using False k by simp
        with True have "n - (length ?b + length data) < n - length ?b" by linarith
        then have "n - length (read_buffer ?s1) < n - length ?b" by simp
        from less [OF this, of w1] show ?thesis
          unfolding step using d(3,6,7,8) by (fastforce split: sum.split)
      qed
    qed
  qed
qed

text \<open>\<open>readExact\<close> delivers the next bytes of the stream, or an error.\<close>

lemma asyncReadExactCommon_ok:
  assumes "asyncReadExactCommon A s out timeout w = Some (Inr k, s', out', w')"
    and "length out \<le> size_max"
  shows "k = length out \<and> length out' = length out \<and>
    (\<exists>d. rcvd (sock_fd s) w' = rcvd (sock_fd s) w @ d \<and> read_buffer s @ d = out' @ read_buffer s')"
proof -
  obtain r b' w1 d where loop:
    "readExact_loop A (effective_timeout timeout) (length out) s w = Some (r, s\<lparr>read_buffer := b'\<rparr>, w1)"
    "rcvd (sock_fd s) w1 = rcvd (sock_fd s) w @ d"
    "case r of Inr _ \<Rightarrow> b' = read_buffer s @ d \<and> length out \<le> length b'
             | Inl e \<Rightarrow> b' = read_buffer s @ d @ replicate (length out) 0 \<and> ec_set e"
    using readExact_loop_spec [of "effective_timeout timeout" "length out" s w] by blast
  from assms(1) loop(1) have r: "r = Inr ()" and m:
    "move_data b' (replicate (length out) 0) size_max = (k, read_buffer s', out')" and w: "w' = w1"
    by (auto simp: asyncReadExactCommon_def Let_def split: if_splits sum.splits prod.splits)
  with loop(3) have b': "b' = read_buffer s @ d" and "length out \<le> length b'" by auto
  then have "k = length out" "read_buffer s' = drop (length out) b'" "out' = take (length out) b'"
    using m assms(2) move_data_all [of "replicate (length out) 0" b' size_max] by simp_all
  with b' \<open>length out \<le> length b'\<close> w loop(2) show ?thesis
    by (metis append_take_drop_id length_take min.absorb2)
qed

lemma asyncReadExactCommon_frame:
  assumes "asyncReadExactCommon A s out timeout w = Some (r, s', out', w')"
  shows "s' = s\<lparr>read_buffer := read_buffer s'\<rparr>" "sent g w' = sent g w"
    "as_is_open A g w' = as_is_open A g w"
    "g \<noteq> sock_fd s \<Longrightarrow> rcvd g w' = rcvd g w"
    "\<exists>d. rcvd (sock_fd s) w' = rcvd (sock_fd s) w @ d"
proof -
  obtain r0 b' w1 d where loop:
    "readExact_loop A (effective_timeout timeout) (length out) s w = Some (r0, s\<lparr>read_buffer := b'\<rparr>, w1)"
    "rcvd (sock_fd s) w1 = rcvd (sock_fd s) w @ d"
    "\<forall>g. sent g w1 = sent g w" "\<forall>g. as_is_open A g w1 = as_is_open A g w"
    "\<forall>g. g \<noteq> sock_fd s \<longrightarrow> rcvd g w1 = rcvd g w"
    using readExact_loop_spec [of "effective_timeout timeout" "length out" s w] by blast
  have "(\<exists>b. s' = s\<lparr>read_buffer := b\<rparr>) \<and> (w' = w1 \<or> w' = w)"
    using assms loop(1)
    by (auto simp: asyncReadExactCommon_def Let_def split: if_splits sum.splits prod.splits
             intro: exI [of _ "read_buffer s"])
  then show "s' = s\<lparr>read_buffer := read_buffer s'\<rparr>" "sent g w' = sent g w"
    "as_is_open A g w' = as_is_open A g w" "g \<noteq> sock_fd s \<Longrightarrow> rcvd g w' = rcvd g w"
    "\<exists>d. rcvd (sock_fd s) w' = rcvd (sock_fd s) w @ d"
    using loop by auto
qed

lemma asyncReadExactCommon_returns:
  "\<exists>r s' out' w'. asyncReadExactCommon A s out timeout w = Some (r, s', out', w')"
proof -
  obtain r b' w1 where loop:
    "readExact_loop A (effective_timeout timeout) (length out) s w = Some (r, s\<lparr>read_buffer := b'\<rparr>, w1)"
    using readExact_loop_spec [of "effective_timeout timeout" "length out" s w] by blast
  show ?thesis
    by (cases r) (auto simp: asyncReadExactCommon_def loop Let_def move_data_def)
qed

text \<open>A failed \<open>readExact\<close> that had to wait leaves one zero byte per requested byte behind.\<close>

lemma asyncReadExactCommon_error:
  assumes "asyncReadExactCommon A s out timeout w = Some (Inl e, s', out', w')"
    and "as_is_open A (sock_fd s) w"
  shows "\<exists>d. rcvd (sock_fd s) w' = rcvd (sock_fd s) w @ d \<and>
           read_buffer s' = read_buffer s @ d @ replicate (length out) 0"
proof -
  obtain r b' w1 d where loop:
    "readExact_loop A (effective_timeout timeout) (length out) s w = Some (r, s\<lparr>read_buffer := b'\<rparr>, w1)"
    "rcvd (sock_fd s) w1 = rcvd (sock_fd s) w @ d"
    "case r of Inr _ \<Rightarrow> b' = read_buffer s @ d \<and> length out \<le> length b'
             | Inl e \<Rightarrow> b' = read_buffer s @ d @ replicate (length out) 0 \<and> ec_set e"
    using readExact_loop_spec [of "effective_timeout timeout" "length out" s w] by blast
  from assms loop(1) have "r = Inl e" "s' = s\<lparr>read_buffer := b'\<rparr>" "w' = w1"
    by (auto simp: asyncReadExactCommon_def Let_def split: sum.splits prod.splits)
  with loop(2,3) show ?thesis by auto
qed

text \<open>\<open>readSome\<close>: one read at most, and only when the buffer is empty.\<close>

lemma asyncReadSomeCommon_ok:
  assumes "asyncReadSomeCommon A s out timeout w = Some (Inr k, s', out', w')"
    and "length out \<le> size_max"
  shows "(\<exists>d. rcvd (sock_fd s) w' = rcvd (sock_fd s) w @ d \<and>
              read_buffer s @ d = take k out' @ read_buffer s') \<and>
         k \<le> length out \<and> (k = 0 \<longleftrightarrow> out = []) \<and> drop k out' = replicate (length out - k) 0"
proof -
  let ?z = "replicate (length out) (0 :: byte)"
  have conn: "as_is_open A (sock_fd s) w"
    using assms(1) by (auto simp: asyncReadSomeCommon_def split: if_splits)
  show ?thesis
  proof (cases "out = [] \<or> read_buffer s \<noteq> []")
    case True
    have "\<exists>b'. move_data (read_buffer s) ?z size_max = (k, b', out') \<and> s' = s\<lparr>read_buffer := b'\<rparr> \<and> w' = w"
      using assms(1) conn True
      by (cases "out = []")
        (auto simp: asyncReadSomeCommon_def Let_def move_data_def split: prod.splits)
    then obtain b' where mv: "move_data (read_buffer s) ?z size_max = (k, b', out')"
      and s': "s' = s\<lparr>read_buffer := b'\<rparr>" and w': "w' = w" by blast
    note mc = move_data_conserves [OF mv]
    have "k = 0 \<longleftrightarrow> out = []" using mc(2) True by (auto simp: size_max_def min_def split: if_splits)
    with mc s' w' show ?thesis by (intro conjI exI [of _ "[]"]) auto
  next
    case False
    let ?b = "read_buffer s" and ?n = "length out"
    obtain r v w1 where st:
      "asyncReadWithTimeout A s (as_prepare A ?b ?n) (length ?b) ?n (effective_timeout timeout) w = (r, v, w1)"
      by (metis prod_cases3)
    from st obtain data where d: "length data \<le> ?n" "v = ?b @ data @ replicate (?n - length data) 0"
      "rcvd (sock_fd s) w1 = rcvd (sock_fd s) w @ data"
      "\<And>k. r = Inr k \<Longrightarrow> k = length data \<and> as_commit A v (length ?b) k = ?b @ data"
      by (rule asyncReadWithTimeout_step) blast
    from assms(1) conn False st obtain n b' where r: "r = Inr n" "n \<noteq> 0" and
      mv: "move_data (as_commit A v (length ?b) n) ?z size_max = (k, b', out')"
      and s': "s' = s\<lparr>read_buffer := b'\<rparr>" and w': "w' = w1"
      by (auto simp: asyncReadSomeCommon_def Let_def split: sum.splits prod.splits if_splits)
    have cm: "as_commit A v (length ?b) n = ?b @ data" and n: "n = length data"
      using d(4) [OF r(1)] by auto
    note mc = move_data_conserves [OF mv [unfolded cm]]
    have "k = length data" using mc(2) d(1) False assms(2) by simp
    with mc s' w' d(3) r(2) n False show ?thesis by (intro conjI exI [of _ data]) auto
  qed
qed

text \<open>
  A failed \<open>readSome\<close> has called \<open>prepare\<close> and not \<open>commit\<close>: the whole requested length stays in the
  read buffer as zero bytes.
\<close>

lemma asyncReadSomeCommon_error:
  assumes "asyncReadSomeCommon A s out timeout w = Some (Inl e, s', out', w')"
    and "as_is_open A (sock_fd s) w"
  shows "read_buffer s = [] \<and> rcvd (sock_fd s) w' = rcvd (sock_fd s) w \<and>
    read_buffer s' = replicate (length out) 0 \<and> length out > 0 \<and> sock_fd s' = sock_fd s \<and>
    as_is_open A (sock_fd s') w'"
proof -
  let ?b = "read_buffer s" and ?n = "length out"
  obtain r v w1 where st:
    "asyncReadWithTimeout A s (as_prepare A ?b ?n) (length ?b) ?n (effective_timeout timeout) w = (r, v, w1)"
    by (metis prod_cases3)
  from st obtain data where d: "v = ?b @ data @ replicate (?n - length data) 0"
    "rcvd (sock_fd s) w1 = rcvd (sock_fd s) w @ data"
    "\<And>k. r = Inr k \<Longrightarrow> k = length data \<and> as_commit A v (length ?b) k = ?b @ data"
    "\<And>e. r = Inl e \<Longrightarrow> data = [] \<and> ec_set e"
    "\<And>g. as_is_open A g w1 = as_is_open A g w"
    by (rule asyncReadWithTimeout_step) blast
  from assms st have "?b = []" "out \<noteq> []" "s' = s\<lparr>read_buffer := v\<rparr>" "w' = w1"
    and "r = Inl e \<or> r = Inr 0"
    by (auto simp: asyncReadSomeCommon_def Let_def split: sum.splits prod.splits if_splits)
  moreover from this(5) have "data = []" using d(3,4) by force
  ultimately show ?thesis using d assms(2) by simp
qed

text \<open>\<open>readUntil\<close>, when it returns bytes: they are the front of the stream, up to one byte past the
  position where the delimiter starts.\<close>

definition until_result ::
  "byte list \<Rightarrow> byte list \<Rightarrow> dual_socket \<Rightarrow> 'w \<Rightarrow> nat expected \<times> dual_socket \<times> byte list \<times> 'w \<Rightarrow> bool" where
  "until_result delim out s w y =
     (case y of (r, s', out', w') \<Rightarrow>
        s' = s\<lparr>read_buffer := read_buffer s'\<rparr> \<and> (\<forall>g. sent g w' = sent g w) \<and>
        (\<forall>g. as_is_open A g w' = as_is_open A g w) \<and> length out' = length out \<and>
        (\<forall>g. g \<noteq> sock_fd s \<longrightarrow> rcvd g w' = rcvd g w) \<and>
        (\<exists>d. rcvd (sock_fd s) w' = rcvd (sock_fd s) w @ d \<and>
           (case r of
              Inl e \<Rightarrow> out' = out \<and>
                (read_buffer s' = read_buffer s @ d \<and> e = make_error_code PROTOCOL_ERROR \<or>
                 read_buffer s' = read_buffer s @ d @ replicate (length out) 0)
            | Inr k \<Rightarrow>
                take k out' @ read_buffer s' = read_buffer s @ d \<and>
                std_search (read_buffer s @ d) delim < length (read_buffer s @ d) \<and>
                std_search (read_buffer s @ d) delim < length out \<and>
                k = min (std_search (read_buffer s @ d) delim + 2)
                        (min (length (read_buffer s @ d)) (length out)))))"

lemma until_result_step:
  assumes "until_result delim out (s\<lparr>read_buffer := read_buffer s @ data\<rparr>) w1 y"
    and "rcvd (sock_fd s) w1 = rcvd (sock_fd s) w @ data"
    and "\<And>g. sent g w1 = sent g w" "\<And>g. as_is_open A g w1 = as_is_open A g w"
    and "\<And>g. g \<noteq> sock_fd s \<Longrightarrow> rcvd g w1 = rcvd g w"
  shows "until_result delim out s w y"
  using assms unfolding until_result_def by (auto split: prod.splits sum.splits)

lemma until_result_found:
  assumes "std_search (read_buffer s) delim \<noteq> length (read_buffer s)"
    and "std_search (read_buffer s) delim + 1 \<le> length out"
    and "move_data (read_buffer s) out (std_search (read_buffer s) delim + 1 + 1) = (k, b', out')"
  shows "until_result delim out s w (Inr k, s\<lparr>read_buffer := b'\<rparr>, out', w)"
  using assms std_search_le [of "read_buffer s" delim] move_data_conserves [OF assms(3)]
  unfolding until_result_def by (auto intro!: exI [of _ "[]"])

lemma until_result_failed:
  assumes "v = read_buffer s @ replicate (length out) 0" "rcvd (sock_fd s) w1 = rcvd (sock_fd s) w"
    and "\<And>g. sent g w1 = sent g w" "\<And>g. as_is_open A g w1 = as_is_open A g w"
    and "\<And>g. g \<noteq> sock_fd s \<Longrightarrow> rcvd g w1 = rcvd g w"
  shows "until_result delim out s w (Inl e, s\<lparr>read_buffer := v\<rparr>, out, w1)"
  using assms unfolding until_result_def by auto

lemma readUntil_loop_result:
  assumes "readUntil_loop A t delim out s w = Some y"
  shows "until_result delim out s w y"
proof -
  have "A = A \<longrightarrow> until_result delim out s w y"
  proof (rule readUntil_loop.raw_induct
      [where P = "\<lambda>A' t delim out s w y. A' = A \<longrightarrow> until_result delim out s w y", OF _ assms], goal_cases)
    case (1 f A' t delim out s w y)
    let ?b = "read_buffer s" and ?n = "length out"
    have "until_result delim out s w y" if A': "A' = A"
    proof (cases "std_search ?b delim \<noteq> length ?b")
      case True
      obtain k b' out' where mv: "move_data ?b out (std_search ?b delim + 1 + 1) = (k, b', out')"
        by (metis prod_cases3)
      with until_result_found [OF True _ mv] 1(2) True show ?thesis
        by (cases "?n < std_search ?b delim + 1")
          (auto simp: Let_def until_result_def intro: exI [of _ "[]"])
    next
      case False
      obtain r v w1 where st: "asyncReadWithTimeout A s (as_prepare A ?b ?n) (length ?b) ?n t w = (r, v, w1)"
        by (metis prod_cases3)
      from st obtain data where d: "rcvd (sock_fd s) w1 = rcvd (sock_fd s) w @ data"
        "\<And>k. r = Inr k \<Longrightarrow> k = length data \<and> as_commit A v (length ?b) k = ?b @ data"
        "\<And>g. sent g w1 = sent g w" "\<And>g. as_is_open A g w1 = as_is_open A g w"
        "\<And>g. g \<noteq> sock_fd s \<Longrightarrow> rcvd g w1 = rcvd g w"
        "v = ?b @ data @ replicate (?n - length data) 0" "\<And>e. r = Inl e \<Longrightarrow> data = [] \<and> ec_set e"
        by (rule asyncReadWithTimeout_step) blast
      show ?thesis
      proof (cases "\<exists>k. r = Inr k \<and> k \<noteq> 0")
        case True
        then obtain k where k: "r = Inr k" "k \<noteq> 0" by blast
        then have "f A' t delim out (s\<lparr>read_buffer := ?b @ data\<rparr>) w1 = Some y"
          using 1(2) False st d(2) A' by (simp add: Let_def)
        from 1(1) [OF this] A' have "until_result delim out (s\<lparr>read_buffer := ?b @ data\<rparr>) w1 y" by simp
        then show ?thesis using d(1,3,4,5) by (rule until_result_step)
      next
        case no: False
        then have "data = []" using d(2,7) by (cases r) auto
        moreover have "\<exists>e. y = (Inl e, s\<lparr>read_buffer := v\<rparr>, out, w1)"
          using 1(2) False st A' no by (auto simp: Let_def split: sum.splits)
        ultimately show ?thesis using until_result_failed [of v s out w1 w] d by auto
      qed
    qed
    then show ?case by blast
  qed
  then show ?thesis by simp
qed

lemma asyncReadUntilCommon_result:
  assumes "asyncReadUntilCommon A s out delim timeout w = Some y" "as_is_open A (sock_fd s) w"
  shows "until_result (bytes_of_string delim) out s w y"
  using assms readUntil_loop_result by (simp add: asyncReadUntilCommon_def)

lemma asyncReadUntilCommon_ok:
  assumes "asyncReadUntilCommon A s out delim timeout w = Some (Inr k, s', out', w')"
  shows "\<exists>d. rcvd (sock_fd s) w' = rcvd (sock_fd s) w @ d \<and>
           take k out' @ read_buffer s' = read_buffer s @ d \<and>
           std_search (read_buffer s @ d) (bytes_of_string delim) < length (read_buffer s @ d) \<and>
           std_search (read_buffer s @ d) (bytes_of_string delim) < length out \<and>
           k = min (std_search (read_buffer s @ d) (bytes_of_string delim) + 2)
                   (min (length (read_buffer s @ d)) (length out)) \<and> length out' = length out"
proof -
  have "as_is_open A (sock_fd s) w"
    using assms by (auto simp: asyncReadUntilCommon_def split: if_splits)
  from asyncReadUntilCommon_result [OF assms this] show ?thesis
    by (auto simp: until_result_def)
qed

text \<open>With a two-byte delimiter: one complete line, or a full span that ends between its bytes.\<close>

lemma asyncReadUntilCommon_line:
  assumes "asyncReadUntilCommon A s out delim timeout w = Some (Inr k, s', out', w')"
    and delim: "bytes_of_string delim = [a, b]"
  shows "(\<exists>line. take k out' = line @ [a, b] \<and>
            (\<forall>i < length line. \<not> prefix [a, b] (drop i (line @ [a, b])))) \<or>
         (k = length out \<and> (\<exists>line rest. take k out' = line @ [a] \<and> read_buffer s' = b # rest))"
proof -
  from asyncReadUntilCommon_ok [OF assms(1)] obtain d where
    d: "take k out' @ read_buffer s' = read_buffer s @ d"
      "std_search (read_buffer s @ d) [a, b] < length (read_buffer s @ d)"
      "std_search (read_buffer s @ d) [a, b] < length out"
      "k = min (std_search (read_buffer s @ d) [a, b] + 2) (min (length (read_buffer s @ d)) (length out))"
    and out': "length out' = length out"
    unfolding delim by blast
  let ?st = "read_buffer s @ d"
  let ?i = "std_search ?st [a, b]"
  note st = d(1) and i = d(2) and io = d(3) and k = d(4)
  have fits: "?i + 2 \<le> length ?st" using std_search_fits [OF i] by simp
  from std_search_found [OF i] obtain rest where rest: "drop ?i ?st = [a, b] @ rest"
    by (auto simp: prefix_def)
  define line where "line = take ?i ?st"
  have len: "length line = ?i" using i by (simp add: line_def)
  have split: "?st = line @ [a, b] @ rest" using rest unfolding line_def by (metis append_take_drop_id)
  have "length (take k out') = k" using k out' by simp
  then have tk: "take k out' = take k ?st" using st by (metis append_eq_conv_conj)
  show ?thesis
  proof (cases "?i + 2 \<le> length out")
    case True
    then have "take k out' = line @ [a, b]" using tk k fits len by (subst (asm) split) simp
    moreover have "\<not> prefix [a, b] (drop j (line @ [a, b]))" if "j < length line" for j
    proof
      assume p: "prefix [a, b] (drop j (line @ [a, b]))"
      have "drop j ?st = drop j (line @ [a, b]) @ rest" using that unfolding split by simp
      with p have "prefix [a, b] (drop j ?st)" by (metis prefix_prefix)
      with std_search_first [of j ?st "[a, b]"] that len show False by simp
    qed
    ultimately show ?thesis by blast
  next
    case False
    with io have "length out = ?i + 1" by simp
    then have kl: "k = length out" and k1: "k = length line + 1" using k fits len by simp_all
    have "take k ?st = line @ [a]" unfolding split k1 by simp
    with tk have tl: "take k out' = line @ [a]" by simp
    have "(line @ [a]) @ read_buffer s' = line @ [a, b] @ rest" using st unfolding tl split .
    then have "read_buffer s' = b # rest" by simp
    with kl tl show ?thesis by blast
  qed
qed

text \<open>
  \<open>readUntil\<close> returns when the peer can only send finitely many more bytes: \<open>left\<close> bounds them.
\<close>

lemma readUntil_loop_returns:
  assumes fin: "\<And>n w ec data fired w'. as_read_some A (sock_fd s) t n w = (ec, data, fired, w') \<Longrightarrow>
                  left w' + length data \<le> left w"
    and canc: "\<And>w s'. left (cancelSocket A s' w) \<le> (left w :: nat)"
  shows "\<exists>y. readUntil_loop A t delim out s w = Some y"
proof -
  have "\<exists>y. readUntil_loop A t delim out (s\<lparr>read_buffer := b\<rparr>) w = Some y" for b w
  proof (induction "left w" arbitrary: b w rule: less_induct)
    case less
    let ?s = "s\<lparr>read_buffer := b\<rparr>" and ?n = "length out"
    obtain r v w1 where st: "asyncReadWithTimeout A ?s (as_prepare A b ?n) (length b) ?n t w = (r, v, w1)"
      by (metis prod_cases3)
    obtain ec data fired w2 where rd: "as_read_some A (sock_fd s) t ?n w = (ec, data, fired, w2)"
      by (metis prod_cases4)
    from st rd have w1: "w1 = (if fired then cancelSocket A ?s w2 else w2)"
      and r: "\<And>k. r = Inr k \<Longrightarrow> k = length data"
      by (auto simp: asyncReadWithTimeout_def split: if_splits)
    have le: "left w1 + length data \<le> left w"
      using fin [OF rd] canc [of ?s w2] w1 by (auto split: if_splits)
    show ?case
    proof (cases "std_search b delim = length b \<and> (\<exists>k. r = Inr k \<and> k \<noteq> 0)")
      case True
      then obtain k where k: "r = Inr k" "k \<noteq> 0" by blast
      have "left w1 < left w" using le r [OF k(1)] k(2) by linarith
      from less [OF this] obtain y where
        "readUntil_loop A t delim out (s\<lparr>read_buffer := as_commit A v (length b) k\<rparr>) w1 = Some y" by blast
      then show ?thesis using True k st by (cases y) (subst readUntil_loop.simps, simp)
    next
      case False
      then show ?thesis using st
        by (subst readUntil_loop.simps) (auto simp: Let_def split: sum.splits prod.splits)
    qed
  qed
  from this [of "read_buffer s" w] show ?thesis by simp
qed

text \<open>Writing: all bytes or an error.\<close>

lemma asyncWriteAllCommon_ok:
  assumes "asyncWriteAllCommon A s bs timeout w = (Inr n, w')"
  shows "n = length bs" "sent (sock_fd s) w' = sent (sock_fd s) w @ bs"
  using assms write_law(2,3)
  by (auto simp: asyncWriteAllCommon_def env_laws split: if_splits prod.splits)

lemma asyncWriteAllCommon_frame:
  assumes "asyncWriteAllCommon A s bs timeout w = (r, w')"
  shows "rcvd g w' = rcvd g w" "as_is_open A g w' = as_is_open A g w"
    "g \<noteq> sock_fd s \<Longrightarrow> sent g w' = sent g w"
    "\<exists>n \<le> length bs. sent (sock_fd s) w' = sent (sock_fd s) w @ take n bs"
proof -
  obtain ec n fired w1 where wr:
    "as_write A (sock_fd s) (effective_timeout timeout) bs w = (ec, n, fired, w1)"
    by (metis prod_cases4)
  note law = write_law [OF wr]
  have "w' = w \<or> w' = w1 \<or> w' = cancelSocket A s w1"
    using assms wr by (auto simp: asyncWriteAllCommon_def split: if_splits)
  then show "rcvd g w' = rcvd g w" "as_is_open A g w' = as_is_open A g w"
    "g \<noteq> sock_fd s \<Longrightarrow> sent g w' = sent g w"
    "\<exists>n \<le> length bs. sent (sock_fd s) w' = sent (sock_fd s) w @ take n bs"
    using law by (auto simp: env_laws intro: exI [of _ 0] exI [of _ n])
qed

end

section \<open>The contract\<close>

text \<open>
  \<open>rd\<close> reads exactly as many bytes as the span has, \<open>wr\<close> writes a whole buffer. The read side is
  stated over the stream (buffer and received bytes), the write side over the sent bytes.
\<close>

locale byte_stream =
  fixes rcvd :: "nat \<Rightarrow> 'w \<Rightarrow> byte list"
    and sent :: "nat \<Rightarrow> 'w \<Rightarrow> byte list"
    and rd :: "dual_socket \<Rightarrow> byte list \<Rightarrow> int option \<Rightarrow> 'w \<Rightarrow> 'w read_outcome"
    and wr :: "dual_socket \<Rightarrow> byte list \<Rightarrow> int option \<Rightarrow> 'w \<Rightarrow> (nat expected \<times> 'w) option"
  assumes rd_ok: "rd s out t w = Some (Inr k, s', out', w') \<Longrightarrow> length out \<le> size_max \<Longrightarrow>
      k = length out \<and> length out' = length out \<and>
      (\<exists>d. rcvd (sock_fd s) w' = rcvd (sock_fd s) w @ d \<and> read_buffer s @ d = out' @ read_buffer s')"
    and rd_frame: "rd s out t w = Some (r, s', out', w') \<Longrightarrow>
      s' = s\<lparr>read_buffer := read_buffer s'\<rparr> \<and> sent g w' = sent g w"
    and wr_ok: "wr s bs t w = Some (Inr n, w') \<Longrightarrow>
      n = length bs \<and> sent (sock_fd s) w' = sent (sock_fd s) w @ bs"
    and wr_prefix: "wr s bs t w = Some (r, w') \<Longrightarrow>
      \<exists>n. sent (sock_fd s) w' = sent (sock_fd s) w @ take n bs"
    and wr_frame: "wr s bs t w = Some (r, w') \<Longrightarrow> rcvd g w' = rcvd g w"

context asio_env
begin

lemma spawn_and_get_cases [consumes 1, case_names runs dropped]:
  assumes "spawn_and_get A body on_exception w = Some y"
  obtains w0 where "\<And>g. rcvd g w0 = rcvd g w" "\<And>g. sent g w0 = sent g w"
      "\<And>g. as_is_open A g w0 = as_is_open A g w" "body w0 = Some y"
  | w0 where "\<And>g. rcvd g w0 = rcvd g w" "\<And>g. sent g w0 = sent g w"
      "\<And>g. as_is_open A g w0 = as_is_open A g w" "y = on_exception w0"
proof -
  obtain o1 w0 where sp: "as_spawn A w = (o1, w0)" by (metis prod.exhaust)
  note q = spawn_law [OF sp]
  show thesis
  proof (cases o1)
    case Spawn_runs
    with assms sp have "body w0 = Some y" by (simp add: spawn_and_get_def)
    with q show thesis by (rule that(1))
  next
    case Spawn_dropped
    with assms sp have "y = on_exception w0" by (simp add: spawn_and_get_def)
    with q show thesis by (rule that(2))
  next
    case Spawn_blocks
    with assms sp show thesis by (simp add: spawn_and_get_def)
  qed
qed

lemma async_contract:
  "byte_stream rcvd sent (\<lambda>s out t w. asyncReadExactCommon A s out t w)
     (\<lambda>s bs t w. Some (asyncWriteAllCommon A s bs t w))"
proof
  fix s out t w k s' out' w'
  assume "asyncReadExactCommon A s out t w = Some (Inr k, s', out', w')" "length out \<le> size_max"
  then show "k = length out \<and> length out' = length out \<and>
      (\<exists>d. rcvd (sock_fd s) w' = rcvd (sock_fd s) w @ d \<and> read_buffer s @ d = out' @ read_buffer s')"
    by (rule asyncReadExactCommon_ok)
next
  fix s out t w r s' out' w' g
  assume a: "asyncReadExactCommon A s out t w = Some (r, s', out', w')"
  show "s' = s\<lparr>read_buffer := read_buffer s'\<rparr> \<and> sent g w' = sent g w"
    using asyncReadExactCommon_frame(1,2) [OF a] by blast
next
  fix s bs t w n w'
  assume "Some (asyncWriteAllCommon A s bs t w) = Some (Inr n, w')"
  then have a: "asyncWriteAllCommon A s bs t w = (Inr n, w')" by simp
  show "n = length bs \<and> sent (sock_fd s) w' = sent (sock_fd s) w @ bs"
    using asyncWriteAllCommon_ok [OF a] by blast
next
  fix s bs t w r w'
  assume "Some (asyncWriteAllCommon A s bs t w) = Some (r, w')"
  then have a: "asyncWriteAllCommon A s bs t w = (r, w')" by simp
  show "\<exists>n. sent (sock_fd s) w' = sent (sock_fd s) w @ take n bs"
    using asyncWriteAllCommon_frame(4) [OF a] by blast
next
  fix s bs t w r w' g
  assume "Some (asyncWriteAllCommon A s bs t w) = Some (r, w')"
  then have a: "asyncWriteAllCommon A s bs t w = (r, w')" by simp
  show "rcvd g w' = rcvd g w" by (rule asyncWriteAllCommon_frame(1) [OF a])
qed

lemma sync_contract:
  "byte_stream rcvd sent
     (\<lambda>s out t w. spawn_and_get A (asyncReadExactCommon A s out t) (\<lambda>w1. (Inl e, s, out, w1)) w)
     (\<lambda>s bs t w. spawn_and_get A (\<lambda>w1. Some (asyncWriteAllCommon A s bs t w1)) (\<lambda>w1. (Inl e', w1)) w)"
proof
  fix s out t w k s' out' w'
  assume "spawn_and_get A (asyncReadExactCommon A s out t) (\<lambda>w1. (Inl e, s, out, w1)) w =
            Some (Inr k, s', out', w')" and n: "length out \<le> size_max"
  then show "k = length out \<and> length out' = length out \<and>
      (\<exists>d. rcvd (sock_fd s) w' = rcvd (sock_fd s) w @ d \<and> read_buffer s @ d = out' @ read_buffer s')"
  proof (cases rule: spawn_and_get_cases)
    case (runs w0)
    from asyncReadExactCommon_ok [OF runs(4) n] runs(1) show ?thesis by simp
  qed simp
next
  fix s out t w r s' out' w' g
  assume "spawn_and_get A (asyncReadExactCommon A s out t) (\<lambda>w1. (Inl e, s, out, w1)) w =
            Some (r, s', out', w')"
  then show "s' = s\<lparr>read_buffer := read_buffer s'\<rparr> \<and> sent g w' = sent g w"
  proof (cases rule: spawn_and_get_cases)
    case (runs w0)
    from asyncReadExactCommon_frame(1,2) [OF runs(4)] runs(2) show ?thesis by simp
  qed simp
next
  fix s bs t w n w'
  assume "spawn_and_get A (\<lambda>w1. Some (asyncWriteAllCommon A s bs t w1)) (\<lambda>w1. (Inl e', w1)) w =
            Some (Inr n, w')"
  then show "n = length bs \<and> sent (sock_fd s) w' = sent (sock_fd s) w @ bs"
  proof (cases rule: spawn_and_get_cases)
    case (runs w0)
    then have a: "asyncWriteAllCommon A s bs t w0 = (Inr n, w')" by simp
    from asyncWriteAllCommon_ok [OF a] runs(2) show ?thesis by simp
  qed simp
next
  fix s bs t w r w'
  assume "spawn_and_get A (\<lambda>w1. Some (asyncWriteAllCommon A s bs t w1)) (\<lambda>w1. (Inl e', w1)) w =
            Some (r, w')"
  then show "\<exists>n. sent (sock_fd s) w' = sent (sock_fd s) w @ take n bs"
  proof (cases rule: spawn_and_get_cases)
    case (runs w0)
    then have a: "asyncWriteAllCommon A s bs t w0 = (r, w')" by simp
    from asyncWriteAllCommon_frame(4) [OF a] runs(2) show ?thesis by auto
  qed (auto intro: exI [of _ 0])
next
  fix s bs t w r w' g
  assume "spawn_and_get A (\<lambda>w1. Some (asyncWriteAllCommon A s bs t w1)) (\<lambda>w1. (Inl e', w1)) w =
            Some (r, w')"
  then show "rcvd g w' = rcvd g w"
  proof (cases rule: spawn_and_get_cases)
    case (runs w0)
    then have a: "asyncWriteAllCommon A s bs t w0 = (r, w')" by simp
    from asyncWriteAllCommon_frame(1) [OF a] runs(1) show ?thesis by simp
  qed simp
qed

end

sublocale asio_env \<subseteq> tcp_async: byte_stream rcvd sent
  "TcpSocket_asyncReadExact A" "\<lambda>s bs t w. Some (TcpSocket_asyncWriteAll A s bs t w)"
  using async_contract by (simp add: member_defs [abs_def])

sublocale asio_env \<subseteq> tls_async: byte_stream rcvd sent
  "TlsSocket_asyncReadExact A" "\<lambda>s bs t w. Some (TlsSocket_asyncWriteAll A s bs t w)"
  using async_contract by (simp add: member_defs [abs_def])

sublocale asio_env \<subseteq> tcp_sync: byte_stream rcvd sent
  "TcpSocket_readExact A" "TcpSocket_writeAll A"
  using sync_contract by (simp add: member_defs [abs_def])

sublocale asio_env \<subseteq> tls_sync: byte_stream rcvd sent
  "TlsSocket_readExact A" "TlsSocket_writeAll A"
  using sync_contract by (simp add: member_defs [abs_def])

end
