(* ===== verification/Ticket.thy ===== *)
theory Ticket
  imports Socket_Stream "HOL-Library.Finite_Map"
begin

text \<open>
  The data of the ticket protocol: \<^verbatim>\<open>include/protocol/Ticket.h\<close> and
  \<^verbatim>\<open>include/protocol/TicketContext.h\<close>. Durations are counts of milliseconds.
\<close>

datatype ticket_type = SHORT | LONG

datatype ticket_status = PENDING | RUNNING | COMPLETED | FAILED | CANCELLED

fun ticket_type_to_string :: "ticket_type \<Rightarrow> string" where
  "ticket_type_to_string SHORT = ''short''"
| "ticket_type_to_string LONG = ''long''"

fun ticket_status_to_string :: "ticket_status \<Rightarrow> string" where
  "ticket_status_to_string PENDING = ''pending''"
| "ticket_status_to_string RUNNING = ''running''"
| "ticket_status_to_string COMPLETED = ''completed''"
| "ticket_status_to_string FAILED = ''failed''"
| "ticket_status_to_string CANCELLED = ''cancelled''"

type_synonym ticket_metadata = "(string, string) fmap"

record ticket_info =
  ticket_id :: string
  ticket_type :: ticket_type
  ticket_status :: ticket_status
  command :: string
  metadata :: ticket_metadata
  timeout :: int
  progress_percent :: "int option"
  progress_msg :: "string option"
  payload :: "string option"
  ticket_result :: "string option"
  ticket_error :: "string option"

text \<open>What a handler is given; the progress callback of the sources does nothing.\<close>

record ticket_context =
  ctx_ticket_id :: string
  ctx_type :: ticket_type
  ctx_command :: string
  ctx_payload :: string
  ctx_metadata :: ticket_metadata
  ctx_timeout :: int

lemma ticket_type_to_string_inj:
  "ticket_type_to_string a = ticket_type_to_string b \<Longrightarrow> a = b"
  by (cases a; cases b; simp)

lemma ticket_status_to_string_inj:
  "ticket_status_to_string a = ticket_status_to_string b \<Longrightarrow> a = b"
  by (cases a; cases b; simp)

section \<open>The serializer interface\<close>

text \<open>
  The abstract class \<^verbatim>\<open>TicketSerializer\<close>: a dictionary of its two virtual members, either of which
  an implementation may leave by an exception.
\<close>

record ticket_serializer =
  ser_serialize :: "ticket_info \<Rightarrow> byte list outcome"
  ser_deserialize :: "byte list \<Rightarrow> ticket_info expected outcome"

text \<open>
  What the peers rely on: a sendable ticket has a non-empty encoding, short enough for a frame,
  from which \<open>wire t\<close> (the ticket as the other end sees it) is read back.
\<close>

locale serializer_contract =
  fixes S :: ticket_serializer
    and sendable :: "ticket_info \<Rightarrow> bool"
    and wire :: "ticket_info \<Rightarrow> ticket_info"
  assumes round_trip: "sendable t \<Longrightarrow>
    \<exists>bs. ser_serialize S t = Returned bs \<and> bs \<noteq> [] \<and> length bs < 2 ^ 32 \<and>
         ser_deserialize S bs = Returned (Inr (wire t))"

end
