(* ===== verification/Socket_Properties.thy ===== *)
theory Socket_Properties
  imports Socket_Stream
begin

text \<open>
  The properties of the socket layer over the model's definitions, with witnesses on the scripted
  network of \<open>Asio_Env\<close>. The proofs instantiate the lemmas of the locale \<open>asio_env\<close>.
\<close>

section \<open>Concrete runs\<close>

text \<open>A TCP socket on native socket 0, and the bytes of two short messages.\<close>

definition demo_socket :: dual_socket where
  "demo_socket = \<lparr>sock_kind = Tcp_Socket, sock_id = 7, sock_fd = 0, read_buffer = []\<rparr>"

abbreviation demo_rcvd :: "nat \<Rightarrow> script_world \<Rightarrow> byte list" where
  "demo_rcvd \<equiv> \<lambda>fd w. sw_rcvd w fd"

abbreviation demo_sent :: "nat \<Rightarrow> script_world \<Rightarrow> byte list" where
  "demo_sent \<equiv> \<lambda>fd w. sw_sent w fd"

definition demo_world :: script_world where
  "demo_world = script_start [(No_ec, [1, 2], False), (No_ec, [3, 4, 5], False)]"

definition timeout_world :: script_world where
  "timeout_world = script_start [(Asio_ec Operation_aborted, [], True)]"

lemmas demo_simps =
  demo_socket_def demo_world_def timeout_world_def script_simps connection_defs
  asyncReadWithTimeout_def move_data_def overwrite_def Let_def

lemma demo_readExact:
  "asyncReadExactCommon script_asio demo_socket [9, 9, 9] None demo_world =
     Some (Inr 3, demo_socket\<lparr>read_buffer := [4, 5]\<rparr>, [1, 2, 3],
           demo_world\<lparr>sw_rx := (\<lambda>_. [(No_ec, [1, 2], False), (No_ec, [3, 4, 5], False)])(0 := []),
                      sw_rcvd := (\<lambda>_. [])(0 := [1, 2, 3, 4, 5])\<rparr>)"
  by (simp add: asyncReadExactCommon_def loop_eval demo_simps)

lemma demo_timeout:
  "asyncReadSomeCommon script_asio demo_socket [9, 9] (Some 50) timeout_world =
     Some (Inl makeTimeoutError, demo_socket\<lparr>read_buffer := [0, 0]\<rparr>, [0, 0],
           timeout_world\<lparr>sw_rx := (\<lambda>_. [(Asio_ec Operation_aborted, [], True)])(0 := [])\<rparr>)"
  by (simp add: asyncReadSomeCommon_def demo_simps)

section \<open>Properties\<close>

text \<open>
  C2: a successful \<open>readExact\<close> fills the whole span, with exactly the next bytes of the stream: the
  bytes that were buffered followed by the bytes received during the call are the returned ones
  followed by what stays buffered. Nothing is lost, repeated or reordered.
\<close>

theorem readExact_delivers_stream:
  assumes "asio_laws A rcvd sent" and "length out \<le> size_max"
    and "asyncReadExactCommon A s out timeout w = Some (Inr k, s', out', w')"
  shows "k = length out \<and> length out' = length out \<and>
    (\<exists>d. rcvd (sock_fd s) w' = rcvd (sock_fd s) w @ d \<and> read_buffer s @ d = out' @ read_buffer s')"
  by (rule asio_env.asyncReadExactCommon_ok [OF asio_env.intro [OF assms(1)] assms(3) assms(2)])

theorem readExact_delivers_stream_witness:
  "\<exists>d. demo_rcvd 0 (demo_world\<lparr>sw_rx := (\<lambda>_. [(No_ec, [1, 2], False), (No_ec, [3, 4, 5], False)])(0 := []),
                      sw_rcvd := (\<lambda>_. [])(0 := [1, 2, 3, 4, 5])\<rparr>) = demo_rcvd 0 demo_world @ d \<and>
       read_buffer demo_socket @ d = [1, 2, 3] @ [4, 5]"
  using readExact_delivers_stream [OF script_laws _ demo_readExact] by (simp add: demo_socket_def)

text \<open>
  \<open>readExact\<close> always returns, with a value or an error code: a peer that keeps sending cannot
  keep its loop running, because every further turn has buffered at least one byte.
\<close>

theorem readExact_returns:
  assumes "asio_laws A rcvd sent"
  shows "\<exists>r s' out' w'. asyncReadExactCommon A s out timeout w = Some (r, s', out', w')"
  by (rule asio_env.asyncReadExactCommon_returns [OF asio_env.intro [OF assms]])

theorem readExact_returns_witness:
  "\<exists>r s' out' w'. asyncReadExactCommon script_asio demo_socket [9, 9, 9] None demo_world = Some (r, s', out', w')"
  by (rule readExact_returns [OF script_laws])

text \<open>
  A successful \<open>readSome\<close> returns between one and \<open>|out|\<close> bytes from the front of the stream (zero
  only for an empty span) and zero-fills the rest of the span.
\<close>

theorem readSome_delivers_stream:
  assumes "asio_laws A rcvd sent" and "length out \<le> size_max"
    and "asyncReadSomeCommon A s out timeout w = Some (Inr k, s', out', w')"
  shows "(\<exists>d. rcvd (sock_fd s) w' = rcvd (sock_fd s) w @ d \<and>
              read_buffer s @ d = take k out' @ read_buffer s') \<and>
         k \<le> length out \<and> (k = 0 \<longleftrightarrow> out = []) \<and> drop k out' = replicate (length out - k) 0"
  by (rule asio_env.asyncReadSomeCommon_ok [OF asio_env.intro [OF assms(1)] assms(3) assms(2)])

lemma demo_readSome:
  "asyncReadSomeCommon script_asio demo_socket [9, 9, 9] None demo_world =
     Some (Inr 2, demo_socket, [1, 2, 0],
           demo_world\<lparr>sw_rx := (\<lambda>_. [(No_ec, [1, 2], False), (No_ec, [3, 4, 5], False)])
                                  (0 := [(No_ec, [3, 4, 5], False)]),
                      sw_rcvd := (\<lambda>_. [])(0 := [1, 2])\<rparr>)"
  by (simp add: asyncReadSomeCommon_def demo_simps)

theorem readSome_delivers_stream_witness:
  "\<exists>d. demo_rcvd 0 (demo_world\<lparr>sw_rx := (\<lambda>_. [(No_ec, [1, 2], False), (No_ec, [3, 4, 5], False)])
                                  (0 := [(No_ec, [3, 4, 5], False)]),
                      sw_rcvd := (\<lambda>_. [])(0 := [1, 2])\<rparr>) = demo_rcvd 0 demo_world @ d \<and>
       read_buffer demo_socket @ d = [1, 2] @ read_buffer demo_socket"
  using readSome_delivers_stream [OF script_laws _ demo_readSome] by (simp add: demo_socket_def)

text \<open>
  C32: after a \<open>readSome\<close> on a connected socket has failed (a timeout, a reset, the end of the
  stream), the next \<open>readSome\<close> of the same length reports success without reading anything and
  hands out zero bytes no peer has sent. The failed call grew the read buffer with \<open>prepare\<close> and
  returned without shrinking it.
\<close>

theorem failed_readSome_fabricates_bytes:
  assumes "asio_laws A rcvd sent" and "length out \<le> size_max"
    and "as_is_open A (sock_fd s) w"
    and "asyncReadSomeCommon A s out timeout w = Some (Inl e, s', out', w')"
  shows "asyncReadSomeCommon A s' out timeout w' =
           Some (Inr (length out), s'\<lparr>read_buffer := []\<rparr>, replicate (length out) 0, w') \<and>
         0 < length out \<and> rcvd (sock_fd s) w' = rcvd (sock_fd s) w"
proof -
  note f = asio_env.asyncReadSomeCommon_error [OF asio_env.intro [OF assms(1)] assms(4,3)]
  have "move_data (replicate (length out) 0) (replicate (length out) 0) size_max =
          (length out, [], replicate (length out) (0 :: byte))"
    using assms(2) by (simp add: move_data_def Let_def min_def)
  with f show ?thesis by (auto simp: asyncReadSomeCommon_def Let_def)
qed

theorem failed_readSome_fabricates_bytes_witness:
  "asyncReadSomeCommon script_asio (demo_socket\<lparr>read_buffer := [0, 0]\<rparr>) [9, 9] (Some 50)
     (timeout_world\<lparr>sw_rx := (\<lambda>_. [(Asio_ec Operation_aborted, [], True)])(0 := [])\<rparr>) =
   Some (Inr 2, demo_socket, [0, 0],
     timeout_world\<lparr>sw_rx := (\<lambda>_. [(Asio_ec Operation_aborted, [], True)])(0 := [])\<rparr>)"
  using failed_readSome_fabricates_bytes [OF script_laws _ _ demo_timeout] by (simp add: demo_simps)

text \<open>
  C23: a successful \<open>readUntil\<close> returns the front of the stream, cut two bytes behind the start of the
  first occurrence of the delimiter, or at the end of the span. The cut does not depend on the
  delimiter's length.
\<close>

theorem readUntil_delivers_stream:
  assumes "asio_laws A rcvd sent"
    and "asyncReadUntilCommon A s out delim timeout w = Some (Inr k, s', out', w')"
  shows "\<exists>d. rcvd (sock_fd s) w' = rcvd (sock_fd s) w @ d \<and>
           take k out' @ read_buffer s' = read_buffer s @ d \<and>
           std_search (read_buffer s @ d) (bytes_of_string delim) < length (read_buffer s @ d) \<and>
           std_search (read_buffer s @ d) (bytes_of_string delim) < length out \<and>
           k = min (std_search (read_buffer s @ d) (bytes_of_string delim) + 2)
                   (min (length (read_buffer s @ d)) (length out))"
  using asio_env.asyncReadUntilCommon_ok [OF asio_env.intro [OF assms(1)] assms(2)] by blast

definition line_world :: script_world where
  "line_world = script_start [(No_ec, [65, 13], False), (No_ec, [10, 66, 13, 10], False)]"

lemma demo_readUntil:
  "asyncReadUntilCommon script_asio demo_socket [0, 0, 0, 0] ''\<newline>'' None line_world =
     Some (Inr 4, demo_socket\<lparr>read_buffer := [13, 10]\<rparr>, [65, 13, 10, 66],
           line_world\<lparr>sw_rx := (\<lambda>_. [(No_ec, [65, 13], False), (No_ec, [10, 66, 13, 10], False)])(0 := []),
                      sw_rcvd := (\<lambda>_. [])(0 := [65, 13, 10, 66, 13, 10])\<rparr>)"
  by (simp add: asyncReadUntilCommon_def loop_eval demo_simps line_world_def bytes_of_string_def
                byte_of_char_def)

theorem readUntil_delivers_stream_witness:
  "\<exists>d. read_buffer demo_socket @ d = [65, 13, 10, 66] @ [13, 10 :: byte]"
  using readUntil_delivers_stream [OF script_laws demo_readUntil] by (auto simp: demo_socket_def)

text \<open>
  C24: with the two-byte delimiter of the line protocols (CR LF) \<open>readUntil\<close> returns exactly one line
  with its delimiter, in which no earlier CR LF occurs, or fills the span and stops between CR and
  LF, which stays in the buffer.
\<close>

theorem readUntil_crlf_returns_line:
  assumes "asio_laws A rcvd sent" and "bytes_of_string delim = [13, 10]"
    and "asyncReadUntilCommon A s out delim timeout w = Some (Inr k, s', out', w')"
  shows "(\<exists>line. take k out' = line @ [13, 10] \<and>
            (\<forall>i < length line. \<not> prefix [13, 10] (drop i (line @ [13, 10])))) \<or>
         (k = length out \<and> (\<exists>line rest. take k out' = line @ [13] \<and> read_buffer s' = 10 # rest))"
  by (rule asio_env.asyncReadUntilCommon_line [OF asio_env.intro [OF assms(1)] assms(3,2)])

definition crlf :: string where
  "crlf = [CHR 0x0D, CHR 0x0A]"

lemma bytes_of_crlf: "bytes_of_string crlf = [13, 10]"
  by (simp add: crlf_def bytes_of_string_def byte_of_char_def)

lemma demo_readUntil_crlf:
  "asyncReadUntilCommon script_asio demo_socket [0, 0, 0, 0] crlf None line_world =
     Some (Inr 3, demo_socket\<lparr>read_buffer := [66, 13, 10]\<rparr>, [65, 13, 10, 0],
           line_world\<lparr>sw_rx := (\<lambda>_. [(No_ec, [65, 13], False), (No_ec, [10, 66, 13, 10], False)])(0 := []),
                      sw_rcvd := (\<lambda>_. [])(0 := [65, 13, 10, 66, 13, 10])\<rparr>)"
  by (simp add: asyncReadUntilCommon_def loop_eval demo_simps line_world_def bytes_of_crlf)

theorem readUntil_crlf_returns_line_witness:
  "\<exists>line. [65, 13, 10 :: byte] = line @ [13, 10]"
  using readUntil_crlf_returns_line [OF script_laws bytes_of_crlf demo_readUntil_crlf] by auto

text \<open>
  C25: \<open>readUntil\<close> returns whenever the peer can send only finitely many more bytes. (\<open>left\<close> counts
  them; a peer that sends for ever without the delimiter can keep the loop running.)
\<close>

theorem readUntil_returns:
  assumes "\<And>n w ec data fired w'. as_read_some A (sock_fd s) (effective_timeout timeout) n w =
             (ec, data, fired, w') \<Longrightarrow> left w' + length data \<le> left w"
    and "\<And>w s'. left (cancelSocket A s' w) \<le> (left w :: nat)"
    and "asio_laws A rcvd sent"
  shows "\<exists>y. asyncReadUntilCommon A s out delim timeout w = Some y"
proof (cases "as_is_open A (sock_fd s) w")
  case True
  have "\<exists>y. readUntil_loop A (effective_timeout timeout) (bytes_of_string delim) out s w = Some y"
    by (rule asio_env.readUntil_loop_returns [where left = left, OF asio_env.intro [OF assms(3)] assms(1,2)]) simp_all
  with True show ?thesis by (simp add: asyncReadUntilCommon_def)
qed (simp add: asyncReadUntilCommon_def)

text \<open>The bytes left in a script.\<close>

definition script_left :: "nat \<Rightarrow> script_world \<Rightarrow> nat" where
  "script_left fd w = sum_list (map (\<lambda>(ec, data, fired). length data) (sw_rx w fd))"

lemma script_left_read:
  "as_read_some script_asio fd t n w = (ec, data, fired, w') \<Longrightarrow>
   script_left fd w' + length data \<le> script_left fd w"
  by (auto simp: script_asio_def script_read_def script_left_def split: list.splits if_splits)

theorem readUntil_returns_witness:
  "\<exists>y. asyncReadUntilCommon script_asio demo_socket [0, 0, 0, 0] crlf None line_world = Some y"
  by (rule readUntil_returns [where left = "script_left 0", OF _ _ script_laws])
    (auto simp: demo_socket_def connection_defs script_asio_def Let_def
          intro: script_left_read [unfolded script_asio_def, simplified] split: socket_kind.split)



text \<open>
  Every operation on a socket that is not open reports \<open>not_connected\<close> and has no effect on the
  world, the read buffer or the span.
\<close>

theorem closed_socket_operations:
  assumes "\<not> isConnected A s w"
  shows "asyncReadSomeCommon A s out timeout w = Some (Inl (Asio_ec Not_connected), s, out, w) \<and>
    asyncReadExactCommon A s out timeout w = Some (Inl (Asio_ec Not_connected), s, out, w) \<and>
    asyncReadUntilCommon A s out delim timeout w = Some (Inl (Asio_ec Not_connected), s, out, w) \<and>
    asyncWriteAllCommon A s bs timeout w = (Inl (Asio_ec Not_connected), w) \<and>
    closeSocket A s w = w"
  using assms
  by (simp add: asyncReadSomeCommon_def asyncReadExactCommon_def asyncReadUntilCommon_def
      asyncWriteAllCommon_def connection_defs split: socket_kind.split)

theorem closed_socket_operations_witness:
  "asyncWriteAllCommon script_asio demo_socket [1] None (demo_world\<lparr>sw_open := (\<lambda>_. False)\<rparr>) =
     (Inl (Asio_ec Not_connected), demo_world\<lparr>sw_open := (\<lambda>_. False)\<rparr>)"
  using closed_socket_operations
    [of script_asio demo_socket "demo_world\<lparr>sw_open := (\<lambda>_. False)\<rparr>" _ None _ "[1]"]
  by (simp add: script_asio_def)

text \<open>
  What a caller sees of a failed read: \<open>CONNECTION_TIMEOUT\<close> exactly when the operation was
  aborted after the timer had fired, and otherwise the code of the operation itself, unchanged.
\<close>

theorem read_failure_code:
  assumes "as_read_some A (sock_fd s) t n w = (ec, data, timed_out, w1)" and "ec_set ec"
  shows "fst (asyncReadWithTimeout A s v m n t w) =
    Inl (if ec = Asio_ec Operation_aborted \<and> timed_out then make_error_code CONNECTION_TIMEOUT else ec)"
  using assms by (simp add: asyncReadWithTimeout_def makeTimeoutError_def)

theorem read_failure_code_witness:
  "fst (asyncReadWithTimeout script_asio demo_socket [0, 0] 0 2 50 timeout_world) =
     Inl (make_error_code CONNECTION_TIMEOUT)"
proof -
  have "as_read_some script_asio (sock_fd demo_socket) 50 2 timeout_world =
      (Asio_ec Operation_aborted, [], True,
       timeout_world\<lparr>sw_rx := (\<lambda>_. [(Asio_ec Operation_aborted, [], True)])(0 := [])\<rparr>)"
    by (simp add: demo_simps)
  from read_failure_code [OF this] show ?thesis by simp
qed

text \<open>Sockets created one after the other.\<close>

fun create_sockets :: "socket_kind list \<Rightarrow> uint32 \<Rightarrow> dual_socket list" where
  "create_sockets [] c = []"
| "create_sockets (k # ks) c = (case new_socket k 0 c of (s, c') \<Rightarrow> s # create_sockets ks c')"

lemma create_sockets_ids:
  "map sock_id (create_sockets ks c) = map (\<lambda>i. c + of_nat i) [0..<length ks]"
proof (induction ks arbitrary: c)
  case (Cons k ks)
  have "[0..<length (k # ks)] = 0 # map Suc [0..<length ks]"
    by (simp add: map_Suc_upt upt_conv_Cons del: upt_Suc)
  with Cons show ?case by (simp add: new_socket_def comp_def add.assoc)
qed simp

text \<open>
  The identifiers of any run of at most \<open>2 ^ 32\<close> consecutively created sockets are pairwise
  distinct; the counter wraps after that.
\<close>

theorem socket_ids_distinct:
  assumes "length ks \<le> 2 ^ 32"
  shows "distinct (map getId (create_sockets ks c))"
proof -
  have "inj_on (\<lambda>i. c + (of_nat i :: uint32)) {0..<length ks}"
  proof (rule inj_onI)
    fix i j assume "i \<in> {0..<length ks}" "j \<in> {0..<length ks}"
      and e: "c + (of_nat i :: uint32) = c + of_nat j"
    then have "i < 2 ^ LENGTH(32)" "j < 2 ^ LENGTH(32)" using assms by auto
    with e show "i = j" by (metis add_left_cancel of_nat_inverse)
  qed
  then show ?thesis
    by (simp add: getId_def [abs_def] create_sockets_ids distinct_map)
qed

theorem socket_ids_distinct_witness:
  "distinct (map getId (create_sockets [Tcp_Socket, Tls_Socket, Tcp_Socket] 4294967295))"
  by (rule socket_ids_distinct) simp

end
