(* ===== verification/TicketFrame.thy ===== *)
theory TicketFrame
  imports Ticket Socket_Properties
begin

text \<open>
  Length-prefixed frames: \<^verbatim>\<open>src/protocol/TicketFrame.cpp\<close>. A frame is four bytes of length, most
  significant first, and the contents. The sources repeat the same body for TCP and TLS sockets
  and for the synchronous and the asynchronous members; the bodies are \<open>readLengthPrefix_via\<close>,
  \<open>readFrame_via\<close> and \<open>writeFrame_via\<close>, taken at the member each copy calls.
\<close>

unbundle bit_operations_syntax

definition length_prefix_size :: nat where
  "length_prefix_size = 4"

definition makeLengthPrefix :: "uint32 \<Rightarrow> byte list" where
  "makeLengthPrefix n =
     map (\<lambda>i. ucast (drop_bit (8 * (length_prefix_size - 1 - i)) n AND 0xFF)) [0..<length_prefix_size]"

text \<open>The loop that assembles the length.\<close>

definition prefix_length :: "byte list \<Rightarrow> uint32" where
  "prefix_length buf = foldl (\<lambda>l b. push_bit 8 l OR ucast b) 0 buf"

definition readLengthPrefix_via ::
  "(dual_socket \<Rightarrow> byte list \<Rightarrow> int option \<Rightarrow> 'w \<Rightarrow> 'w read_outcome) \<Rightarrow>
   dual_socket \<Rightarrow> int \<Rightarrow> 'w \<Rightarrow> (byte list expected \<times> dual_socket \<times> 'w) option" where
  "readLengthPrefix_via rd s t w =
     do {
       (r, s1, buf, w1) \<leftarrow> rd s (replicate length_prefix_size 0) (Some t) w;
       case r of
         Inl e \<Rightarrow> Some (Inl e, s1, w1)
       | Inr _ \<Rightarrow> Some (Inr (replicate (unat (prefix_length buf)) 0), s1, w1)
     }"

text \<open>The dynamic cast selects the member; no other class derives from \<open>DualSocket\<close>.\<close>

definition readLengthPrefixSync ::
  "'w asio \<Rightarrow> dual_socket \<Rightarrow> int \<Rightarrow> 'w \<Rightarrow> (byte list expected \<times> dual_socket \<times> 'w) option" where
  "readLengthPrefixSync A s t w = (case sock_kind s of
     Tcp_Socket \<Rightarrow> readLengthPrefix_via (TcpSocket_readExact A) s t w
   | Tls_Socket \<Rightarrow> readLengthPrefix_via (TlsSocket_readExact A) s t w)"

definition readLengthPrefixAsync ::
  "'w asio \<Rightarrow> dual_socket \<Rightarrow> int \<Rightarrow> 'w \<Rightarrow> (byte list expected \<times> dual_socket \<times> 'w) option" where
  "readLengthPrefixAsync A s t w = (case sock_kind s of
     Tcp_Socket \<Rightarrow> readLengthPrefix_via (TcpSocket_asyncReadExact A) s t w
   | Tls_Socket \<Rightarrow> readLengthPrefix_via (TlsSocket_asyncReadExact A) s t w)"

definition readFrame_via ::
  "(dual_socket \<Rightarrow> int \<Rightarrow> 'w \<Rightarrow> (byte list expected \<times> dual_socket \<times> 'w) option) \<Rightarrow>
   (dual_socket \<Rightarrow> byte list \<Rightarrow> int option \<Rightarrow> 'w \<Rightarrow> 'w read_outcome) \<Rightarrow>
   dual_socket \<Rightarrow> int \<Rightarrow> 'w \<Rightarrow> (byte list expected \<times> dual_socket \<times> 'w) option" where
  "readFrame_via rl rd s t w =
     do {
       (lenBuf, s1, w1) \<leftarrow> rl s t w;
       case lenBuf of
         Inl e \<Rightarrow> Some (Inl e, s1, w1)
       | Inr buf \<Rightarrow>
           do {
             (r, s2, buf', w2) \<leftarrow> rd s1 buf (Some t) w1;
             case r of
               Inl e \<Rightarrow> Some (Inl e, s2, w2)
             | Inr _ \<Rightarrow> Some (Inr buf', s2, w2)
           }
     }"

definition writeFrame_via ::
  "(dual_socket \<Rightarrow> byte list \<Rightarrow> int option \<Rightarrow> 'w \<Rightarrow> (nat expected \<times> 'w) option) \<Rightarrow>
   dual_socket \<Rightarrow> byte list \<Rightarrow> int \<Rightarrow> 'w \<Rightarrow> (nat expected \<times> 'w) option" where
  "writeFrame_via wr s frame t w =
     do {
       (p, w1) \<leftarrow> wr s (makeLengthPrefix (of_nat (length frame))) (Some t) w;
       case p of
         Inl e \<Rightarrow> Some (Inl e, w1)
       | Inr n1 \<Rightarrow>
           do {
             (r, w2) \<leftarrow> wr s frame (Some t) w1;
             case r of
               Inl e \<Rightarrow> Some (Inl e, w2)
             | Inr n2 \<Rightarrow> Some (Inr (n1 + n2), w2)
           }
     }"

definition readFrame_tcp ::
  "'w asio \<Rightarrow> dual_socket \<Rightarrow> int \<Rightarrow> 'w \<Rightarrow> (byte list expected \<times> dual_socket \<times> 'w) option" where
  "readFrame_tcp A = readFrame_via (readLengthPrefixSync A) (TcpSocket_readExact A)"

definition readFrame_tls ::
  "'w asio \<Rightarrow> dual_socket \<Rightarrow> int \<Rightarrow> 'w \<Rightarrow> (byte list expected \<times> dual_socket \<times> 'w) option" where
  "readFrame_tls A = readFrame_via (readLengthPrefixSync A) (TlsSocket_readExact A)"

definition asyncReadFrame_tcp ::
  "'w asio \<Rightarrow> dual_socket \<Rightarrow> int \<Rightarrow> 'w \<Rightarrow> (byte list expected \<times> dual_socket \<times> 'w) option" where
  "asyncReadFrame_tcp A = readFrame_via (readLengthPrefixAsync A) (TcpSocket_asyncReadExact A)"

definition asyncReadFrame_tls ::
  "'w asio \<Rightarrow> dual_socket \<Rightarrow> int \<Rightarrow> 'w \<Rightarrow> (byte list expected \<times> dual_socket \<times> 'w) option" where
  "asyncReadFrame_tls A = readFrame_via (readLengthPrefixAsync A) (TlsSocket_asyncReadExact A)"

definition writeFrame_tcp ::
  "'w asio \<Rightarrow> dual_socket \<Rightarrow> byte list \<Rightarrow> int \<Rightarrow> 'w \<Rightarrow> (nat expected \<times> 'w) option" where
  "writeFrame_tcp A = writeFrame_via (TcpSocket_writeAll A)"

definition writeFrame_tls ::
  "'w asio \<Rightarrow> dual_socket \<Rightarrow> byte list \<Rightarrow> int \<Rightarrow> 'w \<Rightarrow> (nat expected \<times> 'w) option" where
  "writeFrame_tls A = writeFrame_via (TlsSocket_writeAll A)"

definition asyncWriteFrame_tcp ::
  "'w asio \<Rightarrow> dual_socket \<Rightarrow> byte list \<Rightarrow> int \<Rightarrow> 'w \<Rightarrow> (nat expected \<times> 'w) option" where
  "asyncWriteFrame_tcp A = writeFrame_via (\<lambda>s bs t w. Some (TcpSocket_asyncWriteAll A s bs t w))"

definition asyncWriteFrame_tls ::
  "'w asio \<Rightarrow> dual_socket \<Rightarrow> byte list \<Rightarrow> int \<Rightarrow> 'w \<Rightarrow> (nat expected \<times> 'w) option" where
  "asyncWriteFrame_tls A = writeFrame_via (\<lambda>s bs t w. Some (TlsSocket_asyncWriteAll A s bs t w))"

text \<open>The overload of each member, selected by the class of the socket.\<close>

definition readFrame ::
  "'w asio \<Rightarrow> dual_socket \<Rightarrow> int \<Rightarrow> 'w \<Rightarrow> (byte list expected \<times> dual_socket \<times> 'w) option" where
  "readFrame A s t w = (case sock_kind s of
     Tcp_Socket \<Rightarrow> readFrame_tcp A s t w | Tls_Socket \<Rightarrow> readFrame_tls A s t w)"

definition asyncReadFrame ::
  "'w asio \<Rightarrow> dual_socket \<Rightarrow> int \<Rightarrow> 'w \<Rightarrow> (byte list expected \<times> dual_socket \<times> 'w) option" where
  "asyncReadFrame A s t w = (case sock_kind s of
     Tcp_Socket \<Rightarrow> asyncReadFrame_tcp A s t w | Tls_Socket \<Rightarrow> asyncReadFrame_tls A s t w)"

definition writeFrame ::
  "'w asio \<Rightarrow> dual_socket \<Rightarrow> byte list \<Rightarrow> int \<Rightarrow> 'w \<Rightarrow> (nat expected \<times> 'w) option" where
  "writeFrame A s frame t w = (case sock_kind s of
     Tcp_Socket \<Rightarrow> writeFrame_tcp A s frame t w | Tls_Socket \<Rightarrow> writeFrame_tls A s frame t w)"

definition asyncWriteFrame ::
  "'w asio \<Rightarrow> dual_socket \<Rightarrow> byte list \<Rightarrow> int \<Rightarrow> 'w \<Rightarrow> (nat expected \<times> 'w) option" where
  "asyncWriteFrame A s frame t w = (case sock_kind s of
     Tcp_Socket \<Rightarrow> asyncWriteFrame_tcp A s frame t w | Tls_Socket \<Rightarrow> asyncWriteFrame_tls A s frame t w)"

text \<open>The default argument of every \<open>timeout\<close> parameter of \<open>TicketFrame\<close>.\<close>

definition default_frame_timeout :: int where
  "default_frame_timeout = 30000"

section \<open>The wire format\<close>

text \<open>The format as a specification: a frame on the wire, and what a stream of bytes starts with.\<close>

definition encode_frame :: "byte list \<Rightarrow> byte list" where
  "encode_frame f = makeLengthPrefix (of_nat (length f)) @ f"

definition decode_frame :: "byte list \<Rightarrow> (byte list \<times> byte list) option" where
  "decode_frame bs =
     (let n = unat (prefix_length (take 4 bs))
      in if length bs < 4 + n then None else Some (take n (drop 4 bs), drop (4 + n) bs))"

fun decode_frames :: "nat \<Rightarrow> byte list \<Rightarrow> (byte list list \<times> byte list) option" where
  "decode_frames 0 bs = Some ([], bs)"
| "decode_frames (Suc n) bs =
     do { (f, rest) \<leftarrow> decode_frame bs; (fs, rest') \<leftarrow> decode_frames n rest; Some (f # fs, rest') }"

lemmas frame_defs =
  readFrame_def asyncReadFrame_def writeFrame_def asyncWriteFrame_def
  readFrame_tcp_def readFrame_tls_def asyncReadFrame_tcp_def asyncReadFrame_tls_def
  writeFrame_tcp_def writeFrame_tls_def asyncWriteFrame_tcp_def asyncWriteFrame_tls_def

section \<open>The length prefix\<close>

lemma makeLengthPrefix_eq:
  "makeLengthPrefix n =
     [ucast (drop_bit 24 n), ucast (drop_bit 16 n), ucast (drop_bit 8 n), ucast n]"
proof -
  have ff: "(0xFF :: uint32) = mask 8" by (simp add: mask_eq_exp_minus_1)
  have mask: "(ucast (m AND 0xFF) :: byte) = ucast m" for m :: uint32
    unfolding ff by (rule bit_word_eqI) (auto simp: bit_simps)
  show ?thesis
    by (simp add: makeLengthPrefix_def length_prefix_size_def upt_rec numeral_eq_Suc mask del: upt_Suc)
qed

lemma length_makeLengthPrefix [simp]: "length (makeLengthPrefix n) = 4"
  by (simp add: makeLengthPrefix_eq)

lemma prefix_length_octets: "prefix_length [a, b, c, d] = join_octets a b c d"
  by (simp add: prefix_length_def join_octets_def push_bit_or push_bit_push_bit or.assoc)

lemmas prefix_length_4 = prefix_length_octets [unfolded join_octets_def]

lemma prefix_length_makeLengthPrefix [simp]: "prefix_length (makeLengthPrefix n) = n"
proof (rule bit_word_eqI)
  fix i assume "i < LENGTH(32)"
  then have "i < 32" by simp
  then consider "i < 8" | "8 \<le> i" "i < 16" | "16 \<le> i" "i < 24" | "24 \<le> i" "i < 32" by linarith
  then show "bit (prefix_length (makeLengthPrefix n)) i = bit n i"
    by cases (auto simp: makeLengthPrefix_eq prefix_length_4 bit_simps)
qed

lemma makeLengthPrefix_prefix_length:
  assumes "length buf = 4"
  shows "makeLengthPrefix (prefix_length buf) = buf"
proof -
  from assms obtain a b c d where buf: "buf = [a, b, c, d]"
    by (auto simp: numeral_eq_Suc length_Suc_conv)
  show ?thesis unfolding buf makeLengthPrefix_eq prefix_length_octets by (simp add: octets_of_join)
qed

section \<open>Encoding and decoding\<close>

lemma unat_of_nat_frame: "n < 2 ^ 32 \<Longrightarrow> unat (of_nat n :: uint32) = n"
  by (simp add: unat_of_nat)

lemma decode_encode_frame [simp]:
  assumes "length f < 2 ^ 32"
  shows "decode_frame (encode_frame f @ rest) = Some (f, rest)"
  using assms by (simp add: decode_frame_def encode_frame_def unat_of_nat_frame)

lemma decode_frame_unique:
  assumes "decode_frame bs = Some (f, rest)"
  shows "bs = encode_frame f @ rest \<and> length f < 2 ^ 32"
proof -
  let ?n = "unat (prefix_length (take 4 bs))"
  from assms have len: "4 + ?n \<le> length bs" and f: "f = take ?n (drop 4 bs)"
    and rest: "rest = drop (4 + ?n) bs"
    by (auto simp: decode_frame_def Let_def split: if_splits)
  have n: "length f = ?n" using f len by simp
  have "encode_frame f = take 4 bs @ f"
    using n len by (simp add: encode_frame_def makeLengthPrefix_prefix_length)
  moreover have "bs = take 4 bs @ f @ rest"
    unfolding f rest by (metis append_take_drop_id drop_drop add.commute)
  moreover have "length f < 2 ^ 32" unfolding n by (rule order_less_le_trans [OF unsigned_less]) simp
  ultimately show ?thesis by simp
qed

lemma decode_frames_encode:
  assumes "\<forall>f \<in> set fs. length f < 2 ^ 32"
  shows "decode_frames (length fs) (concat (map encode_frame fs) @ rest) = Some (fs, rest)"
  using assms by (induction fs) simp_all

section \<open>The contract of the frame operations\<close>

context byte_stream
begin

lemma readLengthPrefix_via_ok:
  assumes "readLengthPrefix_via rd s t w = Some (Inr buf, s1, w1)"
  shows "\<exists>hdr d. length hdr = 4 \<and> rcvd (sock_fd s) w1 = rcvd (sock_fd s) w @ d \<and>
           read_buffer s @ d = hdr @ read_buffer s1 \<and> buf = replicate (unat (prefix_length hdr)) 0 \<and>
           s1 = s\<lparr>read_buffer := read_buffer s1\<rparr>"
proof -
  from assms obtain k hdr where
    rd: "rd s (replicate length_prefix_size 0) (Some t) w = Some (Inr k, s1, hdr, w1)"
    and buf: "buf = replicate (unat (prefix_length hdr)) 0"
    by (auto simp: readLengthPrefix_via_def split: bind_splits sum.splits)
  from rd_ok [OF rd] rd_frame [OF rd] buf show ?thesis by (auto simp: length_prefix_size_def)
qed

lemma readLengthPrefix_via_frame:
  assumes "readLengthPrefix_via rd s t w = Some (r, s1, w1)"
  shows "s1 = s\<lparr>read_buffer := read_buffer s1\<rparr> \<and> sent g w1 = sent g w"
  using assms rd_frame
  by (fastforce simp: readLengthPrefix_via_def split: bind_splits sum.splits)

lemma readFrame_via_ok:
  assumes rl: "rl s t w = readLengthPrefix_via rd s t w"
    and "readFrame_via rl rd s t w = Some (Inr f, s', w')"
  shows "\<exists>d. rcvd (sock_fd s) w' = rcvd (sock_fd s) w @ d \<and>
           decode_frame (read_buffer s @ d) = Some (f, read_buffer s')"
proof -
  from assms obtain buf s1 w1 k where
    l: "readLengthPrefix_via rd s t w = Some (Inr buf, s1, w1)"
    and r: "rd s1 buf (Some t) w1 = Some (Inr k, s', f, w')"
    by (auto simp: readFrame_via_def split: bind_splits sum.splits)
  from readLengthPrefix_via_ok [OF l] obtain hdr d1 where
    h: "length hdr = 4" "rcvd (sock_fd s) w1 = rcvd (sock_fd s) w @ d1"
      "read_buffer s @ d1 = hdr @ read_buffer s1" "buf = replicate (unat (prefix_length hdr)) 0"
      "s1 = s\<lparr>read_buffer := read_buffer s1\<rparr>" by blast
  have small: "unat (prefix_length hdr) < 2 ^ 32" by (rule order_less_le_trans [OF unsigned_less]) simp
  then have "length buf \<le> size_max" using h(4) by simp
  from rd_ok [OF r this] obtain d2 where
    f: "length f = length buf" "rcvd (sock_fd s1) w' = rcvd (sock_fd s1) w1 @ d2"
      "read_buffer s1 @ d2 = f @ read_buffer s'" by blast
  have fd: "sock_fd s1 = sock_fd s" by (subst h(5)) simp
  have "read_buffer s @ d1 @ d2 = encode_frame f @ read_buffer s'"
    using h(1,3,4) f(1,3) makeLengthPrefix_prefix_length [OF h(1)]
    by (simp add: encode_frame_def flip: append_assoc) (simp add: encode_frame_def)
  moreover have "length f < 2 ^ 32" using f(1) h(4) small by simp
  ultimately have "decode_frame (read_buffer s @ d1 @ d2) = Some (f, read_buffer s')" by simp
  moreover have "rcvd (sock_fd s) w' = rcvd (sock_fd s) w @ d1 @ d2" using f(2) h(2) fd by simp
  ultimately show ?thesis by blast
qed

lemma readFrame_via_frame:
  assumes rl: "rl s t w = readLengthPrefix_via rd s t w"
    and "readFrame_via rl rd s t w = Some (r, s', w')"
  shows "s' = s\<lparr>read_buffer := read_buffer s'\<rparr> \<and> sent g w' = sent g w"
proof -
  from assms obtain lr s1 w1 where l: "readLengthPrefix_via rd s t w = Some (lr, s1, w1)"
    and or: "s' = s1 \<and> w' = w1 \<or> (\<exists>buf buf' k. rd s1 buf (Some t) w1 = Some (k, s', buf', w'))"
    by (fastforce simp: readFrame_via_def split: bind_splits sum.splits)
  note fr = readLengthPrefix_via_frame [OF l, of g]
  from or show ?thesis
  proof
    assume "s' = s1 \<and> w' = w1"
    with fr show ?thesis by simp
  next
    assume "\<exists>buf buf' k. rd s1 buf (Some t) w1 = Some (k, s', buf', w')"
    then have "s' = s1\<lparr>read_buffer := read_buffer s'\<rparr> \<and> sent g w' = sent g w1"
      using rd_frame by blast
    with fr show ?thesis by (metis dual_socket.update_convs(4) dual_socket.surjective)
  qed
qed

lemma writeFrame_via_ok:
  assumes "writeFrame_via wr s f t w = Some (Inr n, w')"
  shows "n = 4 + length f \<and> sent (sock_fd s) w' = sent (sock_fd s) w @ encode_frame f"
proof -
  from assms obtain n1 n2 w1 where
    "wr s (makeLengthPrefix (of_nat (length f))) (Some t) w = Some (Inr n1, w1)"
    "wr s f (Some t) w1 = Some (Inr n2, w')" "n = n1 + n2"
    by (auto simp: writeFrame_via_def split: bind_splits sum.splits)
  then show ?thesis using wr_ok by (fastforce simp: encode_frame_def)
qed

lemma writeFrame_via_prefix:
  assumes "writeFrame_via wr s f t w = Some (r, w')"
  shows "\<exists>n. sent (sock_fd s) w' = sent (sock_fd s) w @ take n (encode_frame f)"
proof -
  let ?p = "makeLengthPrefix (of_nat (length f))"
  from assms obtain pr w1 where p: "wr s ?p (Some t) w = Some (pr, w1)"
    and or: "w' = w1 \<or> (\<exists>n1 r2. pr = Inr n1 \<and> wr s f (Some t) w1 = Some (r2, w'))"
    by (auto simp: writeFrame_via_def split: bind_splits sum.splits)
  from or show ?thesis
  proof
    assume "w' = w1"
    moreover obtain n where "sent (sock_fd s) w1 = sent (sock_fd s) w @ take n ?p" using wr_prefix [OF p] by blast
    moreover have "take n ?p = take (min n 4) (encode_frame f)" by (simp add: encode_frame_def min_def)
    ultimately show ?thesis by metis
  next
    assume "\<exists>n1 r2. pr = Inr n1 \<and> wr s f (Some t) w1 = Some (r2, w')"
    then obtain n1 r2 where "pr = Inr n1" "wr s f (Some t) w1 = Some (r2, w')" by blast
    with wr_ok p wr_prefix obtain n where "sent (sock_fd s) w' = sent (sock_fd s) w @ ?p @ take n f"
      by (metis append_assoc)
    moreover have "?p @ take n f = take (4 + n) (encode_frame f)" by (simp add: encode_frame_def)
    ultimately show ?thesis by metis
  qed
qed

lemma writeFrame_via_frame:
  assumes "writeFrame_via wr s f t w = Some (r, w')"
  shows "rcvd g w' = rcvd g w"
  using assms wr_frame by (fastforce simp: writeFrame_via_def split: bind_splits sum.splits)

end

text \<open>
  What the ticket layer needs of a socket: \<open>rf\<close> takes one frame off the stream, \<open>wf\<close> appends one.
\<close>

locale frame_channel =
  fixes rcvd :: "nat \<Rightarrow> 'w \<Rightarrow> byte list"
    and sent :: "nat \<Rightarrow> 'w \<Rightarrow> byte list"
    and rf :: "dual_socket \<Rightarrow> int \<Rightarrow> 'w \<Rightarrow> (byte list expected \<times> dual_socket \<times> 'w) option"
    and wf :: "dual_socket \<Rightarrow> byte list \<Rightarrow> int \<Rightarrow> 'w \<Rightarrow> (nat expected \<times> 'w) option"
  assumes rf_ok: "rf s t w = Some (Inr f, s', w') \<Longrightarrow>
      \<exists>d. rcvd (sock_fd s) w' = rcvd (sock_fd s) w @ d \<and>
          decode_frame (read_buffer s @ d) = Some (f, read_buffer s')"
    and rf_frame: "rf s t w = Some (r, s', w') \<Longrightarrow>
      s' = s\<lparr>read_buffer := read_buffer s'\<rparr> \<and> sent g w' = sent g w"
    and wf_ok: "wf s f t w = Some (Inr n, w') \<Longrightarrow>
      n = 4 + length f \<and> sent (sock_fd s) w' = sent (sock_fd s) w @ encode_frame f"
    and wf_prefix: "wf s f t w = Some (res, w') \<Longrightarrow>
      \<exists>n. sent (sock_fd s) w' = sent (sock_fd s) w @ take n (encode_frame f)"
    and wf_frame: "wf s f t w = Some (res, w') \<Longrightarrow> rcvd g w' = rcvd g w"
begin

text \<open>A frame whose bytes are next in the stream is the frame that is read.\<close>

lemma rf_next:
  assumes "rf s t w = Some (Inr f, s', w')" "length g < 2 ^ 32"
    and "rcvd (sock_fd s) w' = rcvd (sock_fd s) w @ d"
    and "prefix (encode_frame g) (read_buffer s @ d)"
  shows "f = g \<and> read_buffer s @ d = encode_frame g @ read_buffer s'"
proof -
  from rf_ok [OF assms(1)] assms(3) have dec: "decode_frame (read_buffer s @ d) = Some (f, read_buffer s')"
    by auto
  from assms(4) obtain rest where "read_buffer s @ d = encode_frame g @ rest" by (auto simp: prefix_def)
  with dec assms(2) show ?thesis by simp
qed

end

context asio_env
begin

lemma frames_sync_contract: "frame_channel rcvd sent (readFrame A) (writeFrame A)"
proof
  fix s t w f s' w'
  assume "readFrame A s t w = Some (Inr f, s', w')"
  then show "\<exists>d. rcvd (sock_fd s) w' = rcvd (sock_fd s) w @ d \<and>
               decode_frame (read_buffer s @ d) = Some (f, read_buffer s')"
    by (cases "sock_kind s")
      (auto simp: frame_defs readLengthPrefixSync_def
            elim!: tcp_sync.readFrame_via_ok [rotated] tls_sync.readFrame_via_ok [rotated])
next
  fix s t w r s' w' g
  assume "readFrame A s t w = Some (r, s', w')"
  then show "s' = s\<lparr>read_buffer := read_buffer s'\<rparr> \<and> sent g w' = sent g w"
    by (cases "sock_kind s")
      (simp add: frame_defs tcp_sync.readFrame_via_frame [rotated] readLengthPrefixSync_def,
       simp add: frame_defs tls_sync.readFrame_via_frame [rotated] readLengthPrefixSync_def)
next
  fix s f t w n w'
  assume "writeFrame A s f t w = Some (Inr n, w')"
  then show "n = 4 + length f \<and> sent (sock_fd s) w' = sent (sock_fd s) w @ encode_frame f"
    using tcp_sync.writeFrame_via_ok tls_sync.writeFrame_via_ok
    by (auto simp: frame_defs split: socket_kind.splits)
next
  fix s f t w r w'
  assume "writeFrame A s f t w = Some (r, w')"
  then show "\<exists>n. sent (sock_fd s) w' = sent (sock_fd s) w @ take n (encode_frame f)"
    using tcp_sync.writeFrame_via_prefix tls_sync.writeFrame_via_prefix
    by (simp add: frame_defs split: socket_kind.splits)
next
  fix s f t w r w' g
  assume "writeFrame A s f t w = Some (r, w')"
  then show "rcvd g w' = rcvd g w"
    using tcp_sync.writeFrame_via_frame tls_sync.writeFrame_via_frame
    by (auto simp: frame_defs split: socket_kind.splits)
qed

lemma frames_async_contract: "frame_channel rcvd sent (asyncReadFrame A) (asyncWriteFrame A)"
proof
  fix s t w f s' w'
  assume "asyncReadFrame A s t w = Some (Inr f, s', w')"
  then show "\<exists>d. rcvd (sock_fd s) w' = rcvd (sock_fd s) w @ d \<and>
               decode_frame (read_buffer s @ d) = Some (f, read_buffer s')"
    by (cases "sock_kind s")
      (auto simp: frame_defs readLengthPrefixAsync_def
            elim!: tcp_async.readFrame_via_ok [rotated] tls_async.readFrame_via_ok [rotated])
next
  fix s t w r s' w' g
  assume "asyncReadFrame A s t w = Some (r, s', w')"
  then show "s' = s\<lparr>read_buffer := read_buffer s'\<rparr> \<and> sent g w' = sent g w"
    by (cases "sock_kind s")
      (simp add: frame_defs tcp_async.readFrame_via_frame [rotated] readLengthPrefixAsync_def,
       simp add: frame_defs tls_async.readFrame_via_frame [rotated] readLengthPrefixAsync_def)
next
  fix s f t w n w'
  assume "asyncWriteFrame A s f t w = Some (Inr n, w')"
  then show "n = 4 + length f \<and> sent (sock_fd s) w' = sent (sock_fd s) w @ encode_frame f"
    using tcp_async.writeFrame_via_ok tls_async.writeFrame_via_ok
    by (auto simp: frame_defs split: socket_kind.splits)
next
  fix s f t w r w'
  assume "asyncWriteFrame A s f t w = Some (r, w')"
  then show "\<exists>n. sent (sock_fd s) w' = sent (sock_fd s) w @ take n (encode_frame f)"
    using tcp_async.writeFrame_via_prefix tls_async.writeFrame_via_prefix
    by (simp add: frame_defs split: socket_kind.splits)
next
  fix s f t w r w' g
  assume "asyncWriteFrame A s f t w = Some (r, w')"
  then show "rcvd g w' = rcvd g w"
    using tcp_async.writeFrame_via_frame tls_async.writeFrame_via_frame
    by (auto simp: frame_defs split: socket_kind.splits)
qed

end

sublocale asio_env \<subseteq> frames_sync: frame_channel rcvd sent "readFrame A" "writeFrame A"
  by (rule frames_sync_contract)

sublocale asio_env \<subseteq> frames_async: frame_channel rcvd sent "asyncReadFrame A" "asyncWriteFrame A"
  by (rule frames_async_contract)

section \<open>Sequences of frames\<close>

fun write_frames ::
  "'w asio \<Rightarrow> dual_socket \<Rightarrow> byte list list \<Rightarrow> int \<Rightarrow> 'w \<Rightarrow> (unit expected \<times> 'w) option" where
  "write_frames A s [] t w = Some (Inr (), w)"
| "write_frames A s (f # fs) t w =
     do {
       (r, w1) \<leftarrow> writeFrame A s f t w;
       case r of Inl e \<Rightarrow> Some (Inl e, w1) | Inr _ \<Rightarrow> write_frames A s fs t w1
     }"

fun read_frames ::
  "'w asio \<Rightarrow> nat \<Rightarrow> dual_socket \<Rightarrow> int \<Rightarrow> 'w \<Rightarrow>
   (byte list list expected \<times> dual_socket \<times> 'w) option" where
  "read_frames A 0 s t w = Some (Inr [], s, w)"
| "read_frames A (Suc n) s t w =
     do {
       (r, s1, w1) \<leftarrow> readFrame A s t w;
       case r of
         Inl e \<Rightarrow> Some (Inl e, s1, w1)
       | Inr f \<Rightarrow>
           do {
             (rs, s2, w2) \<leftarrow> read_frames A n s1 t w1;
             Some (case rs of Inl e \<Rightarrow> Inl e | Inr fs \<Rightarrow> Inr (f # fs), s2, w2)
           }
     }"

lemma decode_frame_append:
  assumes "decode_frame bs = Some (f, rest)"
  shows "decode_frame (bs @ d) = Some (f, rest @ d)"
proof -
  from decode_frame_unique [OF assms] have "bs @ d = encode_frame f @ rest @ d" "length f < 2 ^ 32"
    by simp_all
  then show ?thesis by simp
qed

lemma decode_frame_take:
  assumes "decode_frame (take n (encode_frame bs)) = Some (f, rest)" "length bs < 2 ^ 32"
  shows "f = bs \<and> rest = []"
proof -
  from decode_frame_append [OF assms(1), of "drop n (encode_frame bs)"]
  have "decode_frame (encode_frame bs) = Some (f, rest @ drop n (encode_frame bs))" by simp
  with decode_encode_frame [OF assms(2), of "[]"] show ?thesis by simp
qed

context asio_env
begin

lemma write_frames_ok:
  assumes "write_frames A s fs t w = Some (Inr u, w')"
  shows "sent (sock_fd s) w' = sent (sock_fd s) w @ concat (map encode_frame fs)"
  using assms
proof (induction fs arbitrary: w)
  case Nil
  then show ?case by simp
next
  case (Cons f fs)
  then obtain n w1 where "writeFrame A s f t w = Some (Inr n, w1)" "write_frames A s fs t w1 = Some (Inr u, w')"
    by (auto split: bind_splits sum.splits)
  with Cons.IH frames_sync.wf_ok show ?case by fastforce
qed

lemma read_frames_ok:
  assumes "read_frames A n s t w = Some (Inr fs, s', w')"
  shows "\<exists>d. rcvd (sock_fd s) w' = rcvd (sock_fd s) w @ d \<and>
           decode_frames n (read_buffer s @ d) = Some (fs, read_buffer s')"
  using assms
proof (induction n arbitrary: s w fs)
  case 0
  then show ?case by auto
next
  case (Suc n)
  then obtain f s1 w1 gs where rf: "readFrame A s t w = Some (Inr f, s1, w1)"
    and rest: "read_frames A n s1 t w1 = Some (Inr gs, s', w')" and fs: "fs = f # gs"
    by (auto split: bind_splits sum.splits)
  from frames_sync.rf_ok [OF rf] obtain d1 where
    d1: "rcvd (sock_fd s) w1 = rcvd (sock_fd s) w @ d1"
      "decode_frame (read_buffer s @ d1) = Some (f, read_buffer s1)" by blast
  from Suc.IH [OF rest] obtain d2 where
    d2: "rcvd (sock_fd s1) w' = rcvd (sock_fd s1) w1 @ d2"
      "decode_frames n (read_buffer s1 @ d2) = Some (gs, read_buffer s')" by blast
  have "sock_fd s1 = sock_fd s"
    using frames_sync.rf_frame [OF rf] by (metis dual_socket.select_convs(3) dual_socket.surjective dual_socket.update_convs(4))
  then have "rcvd (sock_fd s) w' = rcvd (sock_fd s) w @ d1 @ d2" using d1(1) d2(1) by simp
  moreover have "decode_frames (Suc n) (read_buffer s @ d1 @ d2) = Some (fs, read_buffer s')"
    using decode_frame_append [OF d1(2), of d2] d2(2) fs by simp
  ultimately show ?case by blast
qed

lemma readFrame_via_returns:
  assumes "\<And>s out w. \<exists>y. rd s out (Some t) w = Some y"
  shows "\<exists>y. readFrame_via (readLengthPrefix_via rd) rd s t w = Some y"
proof -
  from assms obtain r s1 buf w1 where
    l: "rd s (replicate length_prefix_size 0) (Some t) w = Some (r, s1, buf, w1)" by (metis prod_cases4)
  from assms obtain r2 s2 buf2 w2 where
    b: "rd s1 (replicate (unat (prefix_length buf)) 0) (Some t) w1 = Some (r2, s2, buf2, w2)"
    by (metis prod_cases4)
  show ?thesis using l b
    by (cases r; cases r2) (auto simp: readFrame_via_def readLengthPrefix_via_def)
qed

lemma asyncReadFrame_eq:
  "asyncReadFrame A s t w =
     readFrame_via (readLengthPrefix_via (asyncReadExactCommon A)) (asyncReadExactCommon A) s t w"
  by (cases "sock_kind s")
    (simp_all add: frame_defs readFrame_via_def readLengthPrefixAsync_def member_defs [abs_def])

lemma asyncReadFrame_returns: "\<exists>y. asyncReadFrame A s t w = Some y"
  unfolding asyncReadFrame_eq
  by (rule readFrame_via_returns) (use asyncReadExactCommon_returns in blast)

text \<open>A frame that is already buffered is returned at once.\<close>

lemma asyncReadExactCommon_buffered:
  assumes "as_is_open A (sock_fd s) w" "length out \<le> length (read_buffer s)" "length out < 2 ^ 32"
  shows "asyncReadExactCommon A s out t w =
           Some (Inr (length out), s\<lparr>read_buffer := drop (length out) (read_buffer s)\<rparr>,
                 take (length out) (read_buffer s), w)"
proof -
  have "readExact_loop A (effective_timeout t) (length out) s w = Some (Inr (), s, w)"
    using assms(2) by (subst readExact_loop.simps) simp
  then show ?thesis using assms by (simp add: asyncReadExactCommon_def move_data_def Let_def)
qed

lemma asyncReadFrame_buffered:
  assumes "as_is_open A (sock_fd s) w" "read_buffer s = encode_frame f @ rest" "length f < 2 ^ 32"
  shows "asyncReadFrame A s t w = Some (Inr f, s\<lparr>read_buffer := rest\<rparr>, w)"
  using assms
  by (simp add: asyncReadFrame_eq readFrame_via_def readLengthPrefix_via_def length_prefix_size_def
      encode_frame_def asyncReadExactCommon_buffered unat_of_nat_frame)

text \<open>A failed wait for a frame leaves four zero bytes in the buffer.\<close>

lemma asyncReadFrame_idle_failure:
  assumes "as_is_open A (sock_fd s) w" "read_buffer s = []"
    and rf: "asyncReadFrame A s t w = Some (Inl e, s', w')"
    and idle: "rcvd (sock_fd s) w' = rcvd (sock_fd s) w"
  shows "s' = s\<lparr>read_buffer := [0, 0, 0, 0]\<rparr>"
proof -
  let ?rd = "asyncReadExactCommon A"
  from rf consider
    (prefix) out where "?rd s (replicate length_prefix_size 0) (Some t) w = Some (Inl e, s', out, w')"
  | (body) buf s1 w1 out where "readLengthPrefix_via ?rd s t w = Some (Inr buf, s1, w1)"
      "?rd s1 buf (Some t) w1 = Some (Inl e, s', out, w')"
    by (fastforce simp: asyncReadFrame_eq readFrame_via_def readLengthPrefix_via_def
        split: bind_splits sum.splits)
  then show ?thesis
  proof cases
    case prefix
    from asyncReadExactCommon_error [OF this assms(1)] idle assms(2)
    have "read_buffer s' = [0, 0, 0, 0]" by (simp add: length_prefix_size_def numeral_eq_Suc)
    with asyncReadExactCommon_frame(1) [OF prefix] show ?thesis by simp
  next
    case body
    from byte_stream.readLengthPrefix_via_ok [OF async_contract body(1)] assms(2) obtain d where
      "d \<noteq> []" "rcvd (sock_fd s) w1 = rcvd (sock_fd s) w @ d" "sock_fd s1 = sock_fd s"
      by (metis append_Nil append_is_Nil_conv dual_socket.select_convs(3) dual_socket.surjective
          dual_socket.update_convs(4) list.size(3) zero_neq_numeral)
    moreover obtain d2 where "rcvd (sock_fd s1) w' = rcvd (sock_fd s1) w1 @ d2"
      using asyncReadExactCommon_frame(5) [OF body(2)] by blast
    ultimately show ?thesis using idle by simp
  qed
qed

end

section \<open>Properties\<close>

text \<open>
  C30: the length prefix is a bijection between 32-bit lengths and four bytes: the reader's loop
  recovers the length that \<open>makeLengthPrefix\<close> wrote, and every four bytes are the prefix of the
  length the loop reads from them. A frame of \<open>n\<close> bytes announces \<open>n mod 2 ^ 32\<close>.
\<close>

theorem length_prefix_bijection:
  "prefix_length (makeLengthPrefix n) = n \<and>
   (length buf = length_prefix_size \<longrightarrow> makeLengthPrefix (prefix_length buf) = buf) \<and>
   unat (prefix_length (makeLengthPrefix (of_nat m))) = m mod 2 ^ 32"
  by (simp add: makeLengthPrefix_prefix_length length_prefix_size_def unat_of_nat)

theorem length_prefix_bijection_witness:
  "makeLengthPrefix (prefix_length [1, 0, 255, 7]) = [1, 0, 255, 7]"
  using length_prefix_bijection [of _ "[1, 0, 255, 7]"] by (simp add: length_prefix_size_def)

text \<open>
  C3: a successful \<open>readFrame\<close>, synchronous or asynchronous, on a TCP or a TLS socket, takes exactly
  one frame off the stream: the bytes that were buffered followed by the bytes received during the
  call are the encoding of the returned frame followed by what stays buffered.
\<close>

theorem readFrame_takes_one_frame:
  assumes "asio_laws A rcvd sent"
    and "readFrame A s t w = Some (Inr f, s', w') \<or> asyncReadFrame A s t w = Some (Inr f, s', w')"
  shows "\<exists>d. rcvd (sock_fd s) w' = rcvd (sock_fd s) w @ d \<and>
           read_buffer s @ d = makeLengthPrefix (of_nat (length f)) @ f @ read_buffer s' \<and>
           length f < 2 ^ 32"
proof -
  have env: "asio_env A rcvd sent" by (rule asio_env.intro [OF assms(1)])
  from assms(2) obtain d where "rcvd (sock_fd s) w' = rcvd (sock_fd s) w @ d"
    "decode_frame (read_buffer s @ d) = Some (f, read_buffer s')"
    using frame_channel.rf_ok [OF asio_env.frames_sync_contract [OF env]]
      frame_channel.rf_ok [OF asio_env.frames_async_contract [OF env]] by metis
  with decode_frame_unique show ?thesis by (fastforce simp: encode_frame_def)
qed

definition frame_world :: script_world where
  "frame_world = script_start [(No_ec, [0, 0], False), (No_ec, [0, 1, 65, 66], False)]"

lemma demo_readFrame:
  "readFrame script_asio demo_socket 30000 frame_world =
     Some (Inr [65], demo_socket\<lparr>read_buffer := [66]\<rparr>,
           frame_world\<lparr>sw_rx := (sw_rx frame_world)(0 := []),
                       sw_rcvd := (\<lambda>_. [])(0 := [0, 0, 0, 1, 65, 66])\<rparr>)"
  by (simp add: frame_defs readFrame_via_def readLengthPrefixSync_def readLengthPrefix_via_def
      length_prefix_size_def prefix_length_4 member_defs spawn_and_get_def asyncReadExactCommon_def
      loop_eval demo_simps frame_world_def)

theorem readFrame_takes_one_frame_witness:
  "\<exists>d. read_buffer demo_socket @ d = makeLengthPrefix 1 @ [65] @ [66]"
  using readFrame_takes_one_frame [OF script_laws disjI1 [OF demo_readFrame]] by auto

text \<open>
  C4: frames arrive in order and unchanged: when a sender has written the frames \<open>fs\<close> and the
  receiver's stream continues with the bytes that were sent, a receiver that reads as many frames
  gets exactly \<open>fs\<close>, whatever the sizes of the pieces in which the bytes came. (Two environments:
  the two ends.)
\<close>

theorem frames_arrive_in_order:
  assumes "asio_laws A rcvd sent" and "asio_laws B rcvd' sent'"
    and "\<forall>f \<in> set fs. length f < 2 ^ 32"
    and "write_frames A s fs t w = Some (Inr (), w1)"
    and "read_frames B (length fs) r t' v = Some (Inr gs, r', v1)"
    and "rcvd' (sock_fd r) v1 = rcvd' (sock_fd r) v @ d"
    and "sent (sock_fd s) w1 @ rest = sent (sock_fd s) w @ read_buffer r @ d"
  shows "gs = fs \<and> read_buffer r' = rest"
proof -
  have "read_buffer r @ d = concat (map encode_frame fs) @ rest"
    using asio_env.write_frames_ok [OF asio_env.intro [OF assms(1)] assms(4)] assms(7) by simp
  moreover have "decode_frames (length fs) (read_buffer r @ d) = Some (gs, read_buffer r')"
    using asio_env.read_frames_ok [OF asio_env.intro [OF assms(2)] assms(5)] assms(6) by auto
  ultimately show ?thesis using decode_frames_encode [OF assms(3), of rest] by simp
qed

definition frames_world :: script_world where
  "frames_world = script_start [(No_ec, [0, 0], False), (No_ec, [0, 1, 65, 0], False), (No_ec, [0, 0, 0], False)]"

lemma demo_write_frames:
  "write_frames script_asio demo_socket [[65], []] 30000 frames_world =
     Some (Inr (), frames_world\<lparr>sw_sent := (\<lambda>_. [])(0 := [0, 0, 0, 1, 65, 0, 0, 0, 0])\<rparr>)"
  by (simp add: frame_defs writeFrame_via_def makeLengthPrefix_eq member_defs spawn_and_get_def
      asyncWriteAllCommon_def demo_simps frames_world_def)

lemma demo_read_frames:
  "read_frames script_asio (length [[65 :: byte], []]) demo_socket 30000 frames_world =
     Some (Inr [[65], []], demo_socket,
           frames_world\<lparr>sw_rx := (sw_rx frames_world)(0 := []),
                        sw_rcvd := (\<lambda>_. [])(0 := [0, 0, 0, 1, 65, 0, 0, 0, 0])\<rparr>)"
  by (simp add: frame_defs readFrame_via_def readLengthPrefixSync_def readLengthPrefix_via_def
      length_prefix_size_def prefix_length_4 member_defs spawn_and_get_def asyncReadExactCommon_def
      loop_eval demo_simps frames_world_def)

theorem frames_arrive_in_order_witness:
  "fst (the (read_frames script_asio (length [[65 :: byte], []]) demo_socket 30000 frames_world)) =
     Inr [[65], []]"
proof -
  have "[[65], []] = [[65 :: byte], []] \<and> read_buffer demo_socket = []"
    by (rule frames_arrive_in_order [OF script_laws script_laws _ demo_write_frames demo_read_frames])
      (simp_all add: demo_socket_def frames_world_def script_start_def)
  then show ?thesis unfolding demo_read_frames by simp
qed

text \<open>
  Reading a frame always ends, in a frame or an error code, whatever length the peer announces;
  and a frame that is already buffered is returned without touching the network.
\<close>

theorem asyncReadFrame_total:
  assumes "asio_laws A rcvd sent"
  shows "(\<exists>r s' w'. asyncReadFrame A s t w = Some (r, s', w')) \<and>
    (as_is_open A (sock_fd s) w \<and> length f < 2 ^ 32 \<and>
       read_buffer s = makeLengthPrefix (of_nat (length f)) @ f @ rest \<longrightarrow>
     asyncReadFrame A s t w = Some (Inr f, s\<lparr>read_buffer := rest\<rparr>, w))"
  using asio_env.asyncReadFrame_returns [OF asio_env.intro [OF assms], of s t w]
    asio_env.asyncReadFrame_buffered [OF asio_env.intro [OF assms], of s w f rest t]
  by (auto simp: encode_frame_def)

theorem asyncReadFrame_total_witness:
  "asyncReadFrame script_asio (demo_socket\<lparr>read_buffer := [0, 0, 0, 1, 65, 66]\<rparr>) 30000 demo_world =
     Some (Inr [65], demo_socket\<lparr>read_buffer := [66]\<rparr>, demo_world)"
  using asyncReadFrame_total [OF script_laws,
      of "demo_socket\<lparr>read_buffer := [0, 0, 0, 1, 65, 66]\<rparr>" 30000 demo_world "[65]" "[66]"]
  by (simp add: makeLengthPrefix_eq demo_simps)

text \<open>
  After a wait for a frame has failed although nothing arrived (for example because the timeout
  expired on an idle connection), the next \<open>readFrame\<close> reports an empty frame that no peer has sent.
\<close>

theorem idle_failure_fabricates_frame:
  assumes "asio_laws A rcvd sent" and "as_is_open A (sock_fd s) w" and "read_buffer s = []"
    and "asyncReadFrame A s t w = Some (Inl e, s', w')" and "as_is_open A (sock_fd s) w'"
    and "rcvd (sock_fd s) w' = rcvd (sock_fd s) w"
  shows "asyncReadFrame A s' t' w' = Some (Inr [], s, w')"
proof -
  have env: "asio_env A rcvd sent" by (rule asio_env.intro [OF assms(1)])
  note s' = asio_env.asyncReadFrame_idle_failure [OF env assms(2-4,6)]
  have "asyncReadFrame A s' t' w' = Some (Inr [], s'\<lparr>read_buffer := []\<rparr>, w')"
    by (rule asio_env.asyncReadFrame_buffered [OF env])
      (use s' assms(5) in \<open>simp_all add: encode_frame_def makeLengthPrefix_eq\<close>)
  with s' assms(3) show ?thesis by simp
qed

lemma demo_idle_frame:
  "asyncReadFrame script_asio demo_socket 30000 timeout_world =
     Some (Inl makeTimeoutError, demo_socket\<lparr>read_buffer := [0, 0, 0, 0]\<rparr>,
           timeout_world\<lparr>sw_rx := (sw_rx timeout_world)(0 := [])\<rparr>)"
  by (simp add: frame_defs readFrame_via_def readLengthPrefixAsync_def readLengthPrefix_via_def
      length_prefix_size_def member_defs asyncReadExactCommon_def loop_eval demo_simps numeral_eq_Suc)

theorem idle_failure_fabricates_frame_witness:
  "asyncReadFrame script_asio (demo_socket\<lparr>read_buffer := [0, 0, 0, 0]\<rparr>) 30000
     (timeout_world\<lparr>sw_rx := (sw_rx timeout_world)(0 := [])\<rparr>) =
   Some (Inr [], demo_socket, timeout_world\<lparr>sw_rx := (sw_rx timeout_world)(0 := [])\<rparr>)"
  by (rule idle_failure_fabricates_frame [OF script_laws _ _ demo_idle_frame]) (simp_all add: demo_simps)

end
