(* ===== verification/TicketJson.thy ===== *)
theory TicketJson
  imports Ticket "HOL-Library.Countable"
begin

text \<open>
  The JSON encoding of tickets: \<^verbatim>\<open>src/protocol/TicketJson.cpp\<close>. The library nlohmann/json is not
  part of the repository: its operations are the fields of \<open>json_api\<close>, over an arbitrary type \<open>'j\<close>
  of JSON values (identified when \<^verbatim>\<open>operator==\<close> identifies them), and what the sources rely on is
  \<open>json_laws\<close>. \<open>None\<close> is a thrown \<^verbatim>\<open>nlohmann::json::exception\<close>.
\<close>

record 'j json_api =
  js_string :: "string \<Rightarrow> 'j"
  js_int :: "int \<Rightarrow> 'j"
  js_map :: "ticket_metadata \<Rightarrow> 'j"
  js_object :: "(string \<times> 'j) list \<Rightarrow> 'j"
  js_set :: "'j \<Rightarrow> string \<Rightarrow> 'j \<Rightarrow> 'j"
  js_contains :: "'j \<Rightarrow> string \<Rightarrow> bool"
  js_at :: "'j \<Rightarrow> string \<Rightarrow> 'j"
  js_get_string :: "'j \<Rightarrow> string option"
  js_get_int :: "'j \<Rightarrow> int option"
  js_get_map :: "'j \<Rightarrow> ticket_metadata option"
  js_value_string :: "'j \<Rightarrow> string \<Rightarrow> string \<Rightarrow> string option"
  js_value_int :: "'j \<Rightarrow> string \<Rightarrow> int \<Rightarrow> int option"
  js_value_map :: "'j \<Rightarrow> string \<Rightarrow> ticket_metadata \<Rightarrow> ticket_metadata option"
  js_dump :: "'j \<Rightarrow> string option"
  js_parse :: "string \<Rightarrow> 'j option"

section \<open>The sources\<close>

definition k_ticket_id :: string where "k_ticket_id = ''ticket_id''"
definition k_type :: string where "k_type = ''type''"
definition k_status :: string where "k_status = ''status''"
definition k_command :: string where "k_command = ''command''"
definition k_metadata :: string where "k_metadata = ''metadata''"
definition k_timeout_ms :: string where "k_timeout_ms = ''timeout_ms''"
definition k_progress_percent :: string where "k_progress_percent = ''progress_percent''"
definition k_progress_msg :: string where "k_progress_msg = ''progress_msg''"
definition k_payload :: string where "k_payload = ''payload''"
definition k_result :: string where "k_result = ''result''"
definition k_error :: string where "k_error = ''error''"

lemmas k_defs = k_ticket_id_def k_type_def k_status_def k_command_def k_metadata_def k_timeout_ms_def
  k_progress_percent_def k_progress_msg_def k_payload_def k_result_def k_error_def

lemma keys_distinct:
  "distinct [k_ticket_id, k_type, k_status, k_command, k_metadata, k_timeout_ms, k_progress_percent,
             k_progress_msg, k_payload, k_result, k_error]"
  by (simp add: k_defs)

lemma keys_distinct_rev:
  "distinct [k_error, k_result, k_payload, k_progress_msg, k_progress_percent, k_timeout_ms, k_metadata,
             k_command, k_status, k_type, k_ticket_id]"
  by (simp add: k_defs)

lemmas key_neqs = keys_distinct [simplified] keys_distinct_rev [simplified]

text \<open>\<open>if (x.has_value()) j[key] = *x;\<close>\<close>

definition set_if_present :: "'j json_api \<Rightarrow> ('a \<Rightarrow> 'j) \<Rightarrow> string \<Rightarrow> 'a option \<Rightarrow> 'j \<Rightarrow> 'j" where
  "set_if_present J conv key x j = (case x of None \<Rightarrow> j | Some v \<Rightarrow> js_set J j key (conv v))"

definition to_json :: "'j json_api \<Rightarrow> ticket_info \<Rightarrow> 'j" where
  "to_json J ticket =
     (let j0 = js_object J
            [(k_ticket_id, js_string J (ticket_id ticket)),
             (k_type, js_string J (ticket_type_to_string (ticket_type ticket))),
             (k_status, js_string J (ticket_status_to_string (ticket_status ticket))),
             (k_command, js_string J (command ticket)),
             (k_metadata, js_map J (metadata ticket)),
             (k_timeout_ms, js_int J (cast_int (timeout ticket)))];
          j1 = set_if_present J (js_int J) k_progress_percent (progress_percent ticket) j0;
          j2 = set_if_present J (js_string J) k_progress_msg (progress_msg ticket) j1;
          j3 = set_if_present J (js_string J) k_payload (payload ticket) j2;
          j4 = set_if_present J (js_string J) k_result (ticket_result ticket) j3
      in set_if_present J (js_string J) k_error (ticket_error ticket) j4)"

text \<open>\<open>if (j.contains(key)) x = j[key].get<T>();\<close>\<close>

definition get_if_present ::
  "'j json_api \<Rightarrow> ('j \<Rightarrow> 'a option) \<Rightarrow> string \<Rightarrow> 'j \<Rightarrow> 'a option \<Rightarrow> 'a option option" where
  "get_if_present J get key j x =
     (if js_contains J j key then map_option Some (get (js_at J j key)) else Some x)"

definition type_of_string :: "string \<Rightarrow> ticket_type" where
  "type_of_string s = (if s = ''long'' then LONG else SHORT)"

definition status_of_string :: "string \<Rightarrow> ticket_status" where
  "status_of_string s =
     (if s = ''running'' then RUNNING
      else if s = ''completed'' then COMPLETED
      else if s = ''failed'' then FAILED
      else if s = ''cancelled'' then CANCELLED
      else PENDING)"

definition from_json :: "'j json_api \<Rightarrow> 'j \<Rightarrow> ticket_info \<Rightarrow> ticket_info option" where
  "from_json J j ticket =
     do {
       tid \<leftarrow> js_value_string J j k_ticket_id '''';
       cmd \<leftarrow> js_value_string J j k_command '''';
       md \<leftarrow> js_value_map J j k_metadata fmempty;
       ms \<leftarrow> js_value_int J j k_timeout_ms 0;
       typeStr \<leftarrow> js_value_string J j k_type ''short'';
       statusStr \<leftarrow> js_value_string J j k_status ''pending'';
       pp \<leftarrow> get_if_present J (js_get_int J) k_progress_percent j (progress_percent ticket);
       pm \<leftarrow> get_if_present J (js_get_string J) k_progress_msg j (progress_msg ticket);
       pl \<leftarrow> get_if_present J (js_get_string J) k_payload j (payload ticket);
       rs \<leftarrow> get_if_present J (js_get_string J) k_result j (ticket_result ticket);
       er \<leftarrow> get_if_present J (js_get_string J) k_error j (ticket_error ticket);
       Some (ticket\<lparr>ticket_id := tid, ticket_type := type_of_string typeStr,
                    ticket_status := status_of_string statusStr, command := cmd, metadata := md,
                    timeout := ms, progress_percent := pp, progress_msg := pm, payload := pl,
                    ticket_result := rs, ticket_error := er\<rparr>)
     }"

text \<open>\<open>TicketInfo ticket;\<close>: the members without an initialiser are written before they are read.\<close>

definition default_ticket :: ticket_info where
  "default_ticket =
     \<lparr>ticket_id = '''', ticket_type = SHORT, ticket_status = PENDING, command = '''', metadata = fmempty,
      timeout = 0, progress_percent = None, progress_msg = None, payload = None,
      ticket_result = None, ticket_error = None\<rparr>"

definition TicketJson_serialize :: "'j json_api \<Rightarrow> ticket_info \<Rightarrow> byte list outcome" where
  "TicketJson_serialize J ticket =
     (case js_dump J (to_json J ticket) of
        None \<Rightarrow> Thrown
      | Some str \<Rightarrow> Returned (bytes_of_string str))"

definition TicketJson_deserialize :: "'j json_api \<Rightarrow> byte list \<Rightarrow> ticket_info expected outcome" where
  "TicketJson_deserialize J data =
     (case do { j \<leftarrow> js_parse J (string_of_bytes data); from_json J j default_ticket } of
        None \<Rightarrow> Returned (Inl (Generic_ec Invalid_argument))
      | Some ticket \<Rightarrow> Returned (Inr ticket))"

definition TicketJson_serializer :: "'j json_api \<Rightarrow> ticket_serializer" where
  "TicketJson_serializer J =
     \<lparr>ser_serialize = TicketJson_serialize J, ser_deserialize = TicketJson_deserialize J\<rparr>"

section \<open>Laws of the JSON library\<close>

text \<open>
  \<open>utf8\<close> tells which strings are well-formed UTF-8 (those of ASCII characters are), \<open>dumpable\<close> which
  values hold only such strings. \<^verbatim>\<open>dump\<close> throws exactly on the others, and what it prints parses back;
  it prints at least two characters of an object.
\<close>

definition json_dump_laws :: "'j json_api \<Rightarrow> (string \<Rightarrow> bool) \<Rightarrow> ('j \<Rightarrow> bool) \<Rightarrow> bool" where
  "json_dump_laws J utf8 dumpable \<longleftrightarrow>
     (\<forall>s. (\<forall>c \<in> set s. (of_char c :: nat) < 128) \<longrightarrow> utf8 s) \<and>
     (\<forall>s. dumpable (js_string J s) = utf8 s) \<and>
     (\<forall>i. dumpable (js_int J i)) \<and>
     (\<forall>m. dumpable (js_map J m) = (\<forall>k v. fmlookup m k = Some v \<longrightarrow> utf8 k \<and> utf8 v)) \<and>
     (\<forall>kvs. (\<forall>(k, v) \<in> set kvs. utf8 k \<and> dumpable v) \<longrightarrow> dumpable (js_object J kvs)) \<and>
     (\<forall>j k v. dumpable j \<and> utf8 k \<and> dumpable v \<longrightarrow> dumpable (js_set J j k v)) \<and>
     (\<forall>j k. dumpable j \<and> js_contains J j k \<longrightarrow> dumpable (js_at J j k)) \<and>
     (\<forall>j. dumpable j \<longleftrightarrow> js_dump J j \<noteq> None) \<and>
     (\<forall>j s. js_dump J j = Some s \<longrightarrow> s \<noteq> [] \<and> js_parse J s = Some j)"

text \<open>
  An object made from pairs with distinct keys, \<^verbatim>\<open>j[key] = v\<close>, and the readers: \<open>get\<close> gives back what
  was stored, \<open>value\<close> on an object gives the stored value or the default.
\<close>

definition json_access_laws :: "'j json_api \<Rightarrow> ('j \<Rightarrow> bool) \<Rightarrow> bool" where
  "json_access_laws J is_object \<longleftrightarrow>
     (\<forall>kvs. distinct (map fst kvs) \<longrightarrow> is_object (js_object J kvs)) \<and>
     (\<forall>kvs k. distinct (map fst kvs) \<longrightarrow> js_contains J (js_object J kvs) k = (k \<in> fst ` set kvs)) \<and>
     (\<forall>kvs k v. distinct (map fst kvs) \<and> (k, v) \<in> set kvs \<longrightarrow> js_at J (js_object J kvs) k = v) \<and>
     (\<forall>j k v. is_object j \<longrightarrow> is_object (js_set J j k v)) \<and>
     (\<forall>j k v k'. is_object j \<longrightarrow>
        js_contains J (js_set J j k v) k' = (k' = k \<or> js_contains J j k') \<and>
        js_at J (js_set J j k v) k' = (if k' = k then v else js_at J j k')) \<and>
     (\<forall>s. js_get_string J (js_string J s) = Some s) \<and>
     (\<forall>i. - (2 ^ 31) \<le> i \<and> i < 2 ^ 31 \<longrightarrow> js_get_int J (js_int J i) = Some i) \<and>
     (\<forall>m. js_get_map J (js_map J m) = Some m) \<and>
     (\<forall>j k d. is_object j \<longrightarrow> js_value_string J j k d =
        (if js_contains J j k then js_get_string J (js_at J j k) else Some d)) \<and>
     (\<forall>j k d. is_object j \<longrightarrow> js_value_int J j k d =
        (if js_contains J j k then js_get_int J (js_at J j k) else Some d)) \<and>
     (\<forall>j k d. is_object j \<longrightarrow> js_value_map J j k d =
        (if js_contains J j k then js_get_map J (js_at J j k) else Some d))"

definition json_laws ::
  "'j json_api \<Rightarrow> (string \<Rightarrow> bool) \<Rightarrow> ('j \<Rightarrow> bool) \<Rightarrow> ('j \<Rightarrow> bool) \<Rightarrow> bool" where
  "json_laws J utf8 dumpable is_object \<longleftrightarrow> json_dump_laws J utf8 dumpable \<and> json_access_laws J is_object"

text \<open>
  The tickets of the program: \<open>progress_percent\<close> is an \<^verbatim>\<open>int\<close> and \<open>timeout\<close> a 64-bit count. A ticket is
  text when all its strings are well-formed UTF-8.
\<close>

definition ticket_in_range :: "ticket_info \<Rightarrow> bool" where
  "ticket_in_range t \<longleftrightarrow> (case progress_percent t of None \<Rightarrow> True | Some p \<Rightarrow> - (2 ^ 31) \<le> p \<and> p < 2 ^ 31)"

definition ticket_text :: "(string \<Rightarrow> bool) \<Rightarrow> ticket_info \<Rightarrow> bool" where
  "ticket_text utf8 t \<longleftrightarrow>
     utf8 (ticket_id t) \<and> utf8 (command t) \<and>
     (\<forall>k v. fmlookup (metadata t) k = Some v \<longrightarrow> utf8 k \<and> utf8 v) \<and>
     pred_option utf8 (progress_msg t) \<and> pred_option utf8 (payload t) \<and>
     pred_option utf8 (ticket_result t) \<and> pred_option utf8 (ticket_error t)"

text \<open>The ticket as the other end sees it: the timeout has gone through an \<^verbatim>\<open>int\<close>.\<close>

definition ticket_on_wire :: "ticket_info \<Rightarrow> ticket_info" where
  "ticket_on_wire t = t\<lparr>timeout := cast_int (timeout t)\<rparr>"

lemma type_of_string_to_string [simp]: "type_of_string (ticket_type_to_string x) = x"
  by (cases x) (simp_all add: type_of_string_def)

lemma status_of_string_to_string [simp]: "status_of_string (ticket_status_to_string x) = x"
  by (cases x) (simp_all add: status_of_string_def)

locale json_library =
  fixes J :: "'j json_api"
    and utf8 :: "string \<Rightarrow> bool"
    and dumpable :: "'j \<Rightarrow> bool"
    and is_object :: "'j \<Rightarrow> bool"
  assumes laws: "json_laws J utf8 dumpable is_object"
begin

lemmas dump_laws = laws [unfolded json_laws_def json_dump_laws_def, THEN conjunct1]
lemmas access_laws = laws [unfolded json_laws_def json_access_laws_def, THEN conjunct2]

lemmas dump_rest = dump_laws [THEN conjunct2]
lemmas dump_rest2 = dump_rest [THEN conjunct2, THEN conjunct2, THEN conjunct2]

lemma ascii_utf8: "(\<forall>c \<in> set s. (of_char c :: nat) < 128) \<Longrightarrow> utf8 s"
  using dump_laws [THEN conjunct1] by blast

lemma dumpable_simps [simp]:
  "dumpable (js_string J s) = utf8 s" "dumpable (js_int J i)"
  "dumpable (js_map J m) = (\<forall>k v. fmlookup m k = Some v \<longrightarrow> utf8 k \<and> utf8 v)"
  using dump_rest [THEN conjunct1] dump_rest [THEN conjunct2, THEN conjunct1]
    dump_rest [THEN conjunct2, THEN conjunct2, THEN conjunct1] by simp_all

lemma dumpable_object: "(\<And>k v. (k, v) \<in> set kvs \<Longrightarrow> utf8 k \<and> dumpable v) \<Longrightarrow> dumpable (js_object J kvs)"
  using dump_rest2 [THEN conjunct1] by (metis (no_types, lifting) case_prodI2)

lemma dumpable_set: "dumpable j \<Longrightarrow> utf8 k \<Longrightarrow> dumpable v \<Longrightarrow> dumpable (js_set J j k v)"
  using dump_rest2 [THEN conjunct2, THEN conjunct1] by blast

lemma dumpable_at: "dumpable j \<Longrightarrow> js_contains J j k \<Longrightarrow> dumpable (js_at J j k)"
  using dump_rest2 [THEN conjunct2, THEN conjunct2, THEN conjunct1] by blast

lemma dump_some: "dumpable j \<Longrightarrow> \<exists>s. js_dump J j = Some s \<and> s \<noteq> [] \<and> js_parse J s = Some j"
  using dump_rest2 [THEN conjunct2, THEN conjunct2, THEN conjunct2] by blast

lemma dump_none: "\<not> dumpable j \<Longrightarrow> js_dump J j = None"
  using dump_rest2 [THEN conjunct2, THEN conjunct2, THEN conjunct2] by blast

lemma get_simps [simp]:
  "js_get_string J (js_string J s) = Some s"
  "- (2 ^ 31) \<le> i \<Longrightarrow> i < 2 ^ 31 \<Longrightarrow> js_get_int J (js_int J i) = Some i"
  "js_get_map J (js_map J m) = Some m"
  using access_laws by simp_all

lemma value_simps:
  assumes "is_object j"
  shows "js_value_string J j k d = (if js_contains J j k then js_get_string J (js_at J j k) else Some d)"
    "js_value_int J j k i = (if js_contains J j k then js_get_int J (js_at J j k) else Some i)"
    "js_value_map J j k m = (if js_contains J j k then js_get_map J (js_at J j k) else Some m)"
  using access_laws assms by blast+

lemma object_simps:
  assumes "distinct (map fst kvs)"
  shows "is_object (js_object J kvs)" "js_contains J (js_object J kvs) k = (k \<in> fst ` set kvs)"
    "(k, v) \<in> set kvs \<Longrightarrow> js_at J (js_object J kvs) k = v"
  using access_laws assms by simp_all

lemma set_simps:
  assumes "is_object j"
  shows "is_object (js_set J j k v)"
    "js_contains J (js_set J j k v) k' = (k' = k \<or> js_contains J j k')"
    "js_at J (js_set J j k v) k' = (if k' = k then v else js_at J j k')"
  using access_laws assms by blast+

lemma set_if_present_simps:
  assumes "is_object j"
  shows "is_object (set_if_present J conv k x j)"
    "js_contains J (set_if_present J conv k x j) k' = (k' = k \<and> x \<noteq> None \<or> js_contains J j k')"
    "js_at J (set_if_present J conv k x j) k' = (if k' = k \<and> x \<noteq> None then conv (the x) else js_at J j k')"
  using assms by (auto simp: set_if_present_def set_simps split: option.split)

lemma dumpable_set_if_present:
  "dumpable j \<Longrightarrow> utf8 k \<Longrightarrow> pred_option (\<lambda>v. dumpable (conv v)) x \<Longrightarrow> dumpable (set_if_present J conv k x j)"
  by (auto simp: set_if_present_def dumpable_set split: option.split)

lemma utf8_literals:
  "utf8 k_ticket_id" "utf8 k_type" "utf8 k_status" "utf8 k_command" "utf8 k_metadata"
  "utf8 k_timeout_ms" "utf8 k_progress_percent" "utf8 k_progress_msg" "utf8 k_payload"
  "utf8 k_result" "utf8 k_error"
  by (auto intro!: ascii_utf8 simp: k_defs)

lemma utf8_enumerators: "utf8 (ticket_type_to_string ty)" "utf8 (ticket_status_to_string st)"
  by (cases ty; auto intro!: ascii_utf8) (cases st; auto intro!: ascii_utf8)

lemma to_json_dumpable: "ticket_text utf8 t \<Longrightarrow> dumpable (to_json J t)"
  unfolding to_json_def Let_def ticket_text_def
  by (intro dumpable_set_if_present dumpable_object) (auto simp: utf8_literals utf8_enumerators option.pred_True)

text \<open>Reading back each member.\<close>

lemma to_json_is_object: "is_object (to_json J t)"
  unfolding to_json_def Let_def using keys_distinct by (intro set_if_present_simps(1) object_simps) simp

definition base_pairs :: "ticket_info \<Rightarrow> (string \<times> 'j) list" where
  "base_pairs t =
     [(k_ticket_id, js_string J (ticket_id t)),
      (k_type, js_string J (ticket_type_to_string (ticket_type t))),
      (k_status, js_string J (ticket_status_to_string (ticket_status t))),
      (k_command, js_string J (command t)),
      (k_metadata, js_map J (metadata t)),
      (k_timeout_ms, js_int J (cast_int (timeout t)))]"

lemma base_pairs_distinct: "distinct (map fst (base_pairs t))"
  using keys_distinct by (simp add: base_pairs_def)

lemma to_json_contains:
  "js_contains J (to_json J t) k =
     (k = k_error \<and> ticket_error t \<noteq> None \<or> k = k_result \<and> ticket_result t \<noteq> None \<or>
      k = k_payload \<and> payload t \<noteq> None \<or> k = k_progress_msg \<and> progress_msg t \<noteq> None \<or>
      k = k_progress_percent \<and> progress_percent t \<noteq> None \<or> k \<in> fst ` set (base_pairs t))"
  unfolding to_json_def Let_def base_pairs_def [symmetric]
  by (simp only: set_if_present_simps object_simps base_pairs_distinct)

lemma to_json_at:
  "js_at J (to_json J t) k =
     (if k = k_error \<and> ticket_error t \<noteq> None then js_string J (the (ticket_error t))
      else if k = k_result \<and> ticket_result t \<noteq> None then js_string J (the (ticket_result t))
      else if k = k_payload \<and> payload t \<noteq> None then js_string J (the (payload t))
      else if k = k_progress_msg \<and> progress_msg t \<noteq> None then js_string J (the (progress_msg t))
      else if k = k_progress_percent \<and> progress_percent t \<noteq> None then js_int J (the (progress_percent t))
      else js_at J (js_object J (base_pairs t)) k)"
  unfolding to_json_def Let_def base_pairs_def [symmetric]
  by (simp only: set_if_present_simps object_simps(1) base_pairs_distinct)

lemma base_pairs_at:
  "js_at J (js_object J (base_pairs t)) k_ticket_id = js_string J (ticket_id t)"
  "js_at J (js_object J (base_pairs t)) k_type = js_string J (ticket_type_to_string (ticket_type t))"
  "js_at J (js_object J (base_pairs t)) k_status = js_string J (ticket_status_to_string (ticket_status t))"
  "js_at J (js_object J (base_pairs t)) k_command = js_string J (command t)"
  "js_at J (js_object J (base_pairs t)) k_metadata = js_map J (metadata t)"
  "js_at J (js_object J (base_pairs t)) k_timeout_ms = js_int J (cast_int (timeout t))"
  by (rule object_simps(3) [OF base_pairs_distinct], simp add: base_pairs_def)+

lemma from_json_values:
  "js_value_string J (to_json J t) k_ticket_id d = Some (ticket_id t)"
  "js_value_string J (to_json J t) k_command d = Some (command t)"
  "js_value_map J (to_json J t) k_metadata m = Some (metadata t)"
  "js_value_int J (to_json J t) k_timeout_ms i = Some (cast_int (timeout t))"
  "js_value_string J (to_json J t) k_type d = Some (ticket_type_to_string (ticket_type t))"
  "js_value_string J (to_json J t) k_status d = Some (ticket_status_to_string (ticket_status t))"
  using cast_int_range [of "timeout t"] keys_distinct
  unfolding value_simps [OF to_json_is_object] to_json_contains to_json_at
  by (simp_all add: base_pairs_at) (simp_all add: base_pairs_def)

lemma from_json_options:
  "get_if_present J (js_get_string J) k_progress_msg (to_json J t) None = Some (progress_msg t)"
  "get_if_present J (js_get_string J) k_payload (to_json J t) None = Some (payload t)"
  "get_if_present J (js_get_string J) k_result (to_json J t) None = Some (ticket_result t)"
  "get_if_present J (js_get_string J) k_error (to_json J t) None = Some (ticket_error t)"
  "ticket_in_range t \<Longrightarrow>
   get_if_present J (js_get_int J) k_progress_percent (to_json J t) None = Some (progress_percent t)"
  by (auto simp: get_if_present_def to_json_contains to_json_at base_pairs_def ticket_in_range_def
      key_neqs)

lemma from_json_to_json:
  "ticket_in_range t \<Longrightarrow> from_json J (to_json J t) default_ticket = Some (ticket_on_wire t)"
  by (simp add: from_json_def from_json_values from_json_options default_ticket_def ticket_on_wire_def)

lemma deserialize_serialize:
  assumes "ticket_text utf8 t" "ticket_in_range t"
  shows "\<exists>bs. TicketJson_serialize J t = Returned bs \<and> bs \<noteq> [] \<and>
           TicketJson_deserialize J bs = Returned (Inr (ticket_on_wire t))"
proof -
  from dump_some [OF to_json_dumpable [OF assms(1)]] obtain s where
    s: "js_dump J (to_json J t) = Some s" "s \<noteq> []" "js_parse J s = Some (to_json J t)" by blast
  have "TicketJson_serialize J t = Returned (bytes_of_string s)"
    using s(1) by (simp add: TicketJson_serialize_def)
  moreover have "bytes_of_string s \<noteq> []" using s(2) by (cases s) (simp_all add: bytes_of_string_def)
  moreover have "TicketJson_deserialize J (bytes_of_string s) = Returned (Inr (ticket_on_wire t))"
    using s(3) from_json_to_json [OF assms(2)] by (simp add: TicketJson_deserialize_def)
  ultimately show ?thesis by blast
qed

end

text \<open>A payload that is not UTF-8 makes the whole ticket unserializable.\<close>

context json_library
begin

lemma serialize_throws:
  assumes "payload t = Some p" "\<not> utf8 p"
  shows "TicketJson_serialize J t = Thrown"
proof -
  have "js_contains J (to_json J t) k_payload" "js_at J (to_json J t) k_payload = js_string J p"
    using assms(1) by (simp_all add: to_json_contains to_json_at key_neqs)
  with dumpable_at [of "to_json J t" k_payload] assms(2) have "\<not> dumpable (to_json J t)" by auto
  then show ?thesis by (simp add: TicketJson_serialize_def dump_none)
qed

lemma from_json_empty: "from_json J (js_object J []) default_ticket = Some default_ticket"
proof -
  have o: "is_object (js_object J [])" "\<And>k. \<not> js_contains J (js_object J []) k"
    using object_simps [of "[]"] by simp_all
  show ?thesis
    by (simp add: from_json_def value_simps [OF o(1)] get_if_present_def o(2) default_ticket_def
        type_of_string_def status_of_string_def)
qed

end

text \<open>The JSON serializer provides the contract of the peers.\<close>

definition json_sendable :: "'j json_api \<Rightarrow> (string \<Rightarrow> bool) \<Rightarrow> ticket_info \<Rightarrow> bool" where
  "json_sendable J utf8 t \<longleftrightarrow> ticket_text utf8 t \<and> ticket_in_range t \<and>
     (case TicketJson_serialize J t of Returned bs \<Rightarrow> length bs < 2 ^ 32 | _ \<Rightarrow> False)"

sublocale json_library \<subseteq> json_ser: serializer_contract "TicketJson_serializer J" "json_sendable J utf8" ticket_on_wire
proof
  fix t assume a: "json_sendable J utf8 t"
  then obtain bs where "TicketJson_serialize J t = Returned bs" "bs \<noteq> []"
    "TicketJson_deserialize J bs = Returned (Inr (ticket_on_wire t))"
    using deserialize_serialize by (auto simp: json_sendable_def)
  with a show "\<exists>bs. ser_serialize (TicketJson_serializer J) t = Returned bs \<and> bs \<noteq> [] \<and> length bs < 2 ^ 32 \<and>
         ser_deserialize (TicketJson_serializer J) bs = Returned (Inr (ticket_on_wire t))"
    by (simp add: json_sendable_def TicketJson_serializer_def)
qed

section \<open>A JSON library for the witnesses\<close>

text \<open>
  Values are trees; a value is printed as the decimal numeral of its position in an enumeration of
  all values, so that printing is injective. Only ASCII strings can be printed.
\<close>

datatype demo_json =
    JS string | JI int | JM "(string, string) fmap" | JO "(string \<times> demo_json) list"

instance demo_json :: countable
  by countable_datatype

definition demo_utf8 :: "string \<Rightarrow> bool" where
  "demo_utf8 s \<longleftrightarrow> (\<forall>c \<in> set s. (of_char c :: nat) < 128)"

fun demo_dumpable :: "demo_json \<Rightarrow> bool" where
  "demo_dumpable (JS s) = demo_utf8 s"
| "demo_dumpable (JI i) = True"
| "demo_dumpable (JM m) = (\<forall>k v. fmlookup m k = Some v \<longrightarrow> demo_utf8 k \<and> demo_utf8 v)"
| "demo_dumpable (JO kvs) = (\<forall>(k, v) \<in> set kvs. demo_utf8 k \<and> demo_dumpable v)"

fun demo_members :: "demo_json \<Rightarrow> string \<rightharpoonup> demo_json" where
  "demo_members (JO kvs) = map_of kvs"
| "demo_members _ = Map.empty"

fun demo_set :: "demo_json \<Rightarrow> string \<Rightarrow> demo_json \<Rightarrow> demo_json" where
  "demo_set (JO kvs) k v = JO ((k, v) # kvs)"
| "demo_set j k v = j"

fun demo_get_string :: "demo_json \<Rightarrow> string option" where
  "demo_get_string (JS s) = Some s" | "demo_get_string _ = None"

fun demo_get_int :: "demo_json \<Rightarrow> int option" where
  "demo_get_int (JI i) = Some i" | "demo_get_int _ = None"

fun demo_get_map :: "demo_json \<Rightarrow> ticket_metadata option" where
  "demo_get_map (JM m) = Some m" | "demo_get_map _ = None"

definition demo_value :: "(demo_json \<Rightarrow> 'a option) \<Rightarrow> demo_json \<Rightarrow> string \<Rightarrow> 'a \<Rightarrow> 'a option" where
  "demo_value get j k d =
     (case j of JO _ \<Rightarrow> (case demo_members j k of Some v \<Rightarrow> get v | None \<Rightarrow> Some d) | _ \<Rightarrow> None)"

definition demo_library :: "demo_json json_api" where
  "demo_library =
     \<lparr>js_string = JS, js_int = JI, js_map = JM, js_object = JO, js_set = demo_set,
      js_contains = (\<lambda>j k. demo_members j k \<noteq> None), js_at = (\<lambda>j k. the (demo_members j k)),
      js_get_string = demo_get_string, js_get_int = demo_get_int, js_get_map = demo_get_map,
      js_value_string = demo_value demo_get_string, js_value_int = demo_value demo_get_int,
      js_value_map = demo_value demo_get_map,
      js_dump = (\<lambda>j. if demo_dumpable j then Some (to_string (to_nat j)) else None),
      js_parse = (\<lambda>s. if s = [] then None else Some (from_nat (decimal_value s)))\<rparr>"

definition demo_is_object :: "demo_json \<Rightarrow> bool" where
  "demo_is_object j \<longleftrightarrow> (\<exists>kvs. j = JO kvs)"

lemma demo_dumpable_set: "demo_dumpable j \<Longrightarrow> demo_utf8 k \<Longrightarrow> demo_dumpable v \<Longrightarrow> demo_dumpable (demo_set j k v)"
  by (cases j) auto

lemma demo_dumpable_at: "demo_dumpable j \<Longrightarrow> demo_members j k = Some v \<Longrightarrow> demo_dumpable v"
  by (cases j) (auto dest!: map_of_SomeD)

lemma demo_dump_laws: "json_dump_laws demo_library demo_utf8 demo_dumpable"
  by (auto simp: json_dump_laws_def demo_library_def demo_utf8_def intro: demo_dumpable_set demo_dumpable_at)

lemma demo_access_laws: "json_access_laws demo_library demo_is_object"
  by (auto simp: json_access_laws_def demo_library_def demo_is_object_def demo_value_def
      map_of_eq_None_iff intro: rev_image_eqI split: option.splits)

lemma demo_json_laws: "json_laws demo_library demo_utf8 demo_dumpable demo_is_object"
  by (simp add: json_laws_def demo_dump_laws demo_access_laws)

interpretation demo: json_library demo_library demo_utf8 demo_dumpable demo_is_object
  by unfold_locales (rule demo_json_laws)

section \<open>Properties\<close>

text \<open>
  C20: a ticket whose strings are UTF-8 survives serialization and deserialization unchanged, except
  that its timeout has been reduced to a 32-bit \<^verbatim>\<open>int\<close>: a timeout of less than \<open>2 ^ 31\<close> milliseconds
  (about 24 days) comes back as it was.
\<close>

theorem ticket_json_round_trip:
  assumes "json_laws J utf8 dumpable is_object" and "ticket_text utf8 t" and "ticket_in_range t"
  shows "\<exists>bs. TicketJson_serialize J t = Returned bs \<and> bs \<noteq> [] \<and>
           TicketJson_deserialize J bs = Returned (Inr (t\<lparr>timeout := cast_int (timeout t)\<rparr>)) \<and>
           (- (2 ^ 31) \<le> timeout t \<and> timeout t < 2 ^ 31 \<longrightarrow>
            TicketJson_deserialize J bs = Returned (Inr t))"
  using json_library.deserialize_serialize [OF json_library.intro [OF assms(1)] assms(2,3)]
  by (auto simp: ticket_on_wire_def cast_int_id)

definition demo_ticket :: ticket_info where
  "demo_ticket =
     \<lparr>ticket_id = ''t/7#0'', ticket_type = LONG, ticket_status = RUNNING, command = ''copy'',
      metadata = fmupd ''metadata'' ''m'' fmempty, timeout = 5000, progress_percent = Some 40,
      progress_msg = Some ''half'', payload = Some ''data'', ticket_result = None, ticket_error = None\<rparr>"

lemma demo_ticket_text: "ticket_text demo_utf8 demo_ticket" "ticket_in_range demo_ticket"
  by (simp_all add: ticket_text_def ticket_in_range_def demo_ticket_def demo_utf8_def)

theorem ticket_json_round_trip_witness:
  "\<exists>bs. TicketJson_serialize demo_library demo_ticket = Returned bs \<and>
        TicketJson_deserialize demo_library bs = Returned (Inr demo_ticket)"
  using ticket_json_round_trip [OF demo_json_laws demo_ticket_text] by (auto simp: demo_ticket_def)

text \<open>
  \<open>serialize\<close> leaves by an exception when the payload is not well-formed UTF-8: a payload is text,
  not arbitrary bytes, and the exception is not turned into an error code.
\<close>

theorem serialize_throws_on_binary_payload:
  assumes "json_laws J utf8 dumpable is_object" and "payload t = Some p" and "\<not> utf8 p"
  shows "TicketJson_serialize J t = Thrown"
  by (rule json_library.serialize_throws [OF json_library.intro [OF assms(1)] assms(2,3)])

theorem serialize_throws_on_binary_payload_witness:
  "TicketJson_serialize demo_library (demo_ticket\<lparr>payload := Some [CHR 0xFF]\<rparr>) = Thrown"
  by (rule serialize_throws_on_binary_payload [OF demo_json_laws, of _ "[CHR 0xFF]"])
    (simp_all add: demo_utf8_def)

text \<open>
  \<open>deserialize\<close> never leaves by an exception of the library: text that does not parse is
  \<^verbatim>\<open>invalid_argument\<close>, an empty object is the ticket with every default.
\<close>

theorem deserialize_total:
  assumes "json_laws J utf8 dumpable is_object"
  shows "(\<exists>r. TicketJson_deserialize J data = Returned r) \<and>
    (js_parse J (string_of_bytes data) = None \<longrightarrow>
       TicketJson_deserialize J data = Returned (Inl (Generic_ec Invalid_argument))) \<and>
    (js_parse J (string_of_bytes data) = Some (js_object J []) \<longrightarrow>
       TicketJson_deserialize J data = Returned (Inr default_ticket))"
  using json_library.from_json_empty [OF json_library.intro [OF assms]]
  by (auto simp: TicketJson_deserialize_def split: option.split)

theorem deserialize_total_witness:
  "TicketJson_deserialize demo_library [] = Returned (Inl (Generic_ec Invalid_argument))"
  using deserialize_total [OF demo_json_laws, of "[]"]
  by (simp add: demo_library_def string_of_bytes_def)

end
