(* ===== verification/TicketPeer.thy ===== *)
theory TicketPeer
  imports TicketFrame TicketJson
begin

text \<open>
  The ticket peer: \<^verbatim>\<open>src/protocol/TicketPeer.cpp\<close>. A peer owns a socket (a pointer that is null
  after a move), shares a serializer and remembers whether it has been closed. The synchronous and
  the asynchronous members have the same bodies over the synchronous and the asynchronous frame
  operations; \<open>sendFrame_via\<close>, \<open>receiveFrame_via\<close> and \<open>handshake_via\<close> are those bodies.
\<close>

section \<open>Objects\<close>

record ticket_peer =
  peer_socket :: "dual_socket option"
  peer_serializer :: "ticket_serializer option"
  peer_closed :: bool

definition default_serializer :: "'j json_api \<Rightarrow> ticket_serializer" where
  "default_serializer J = TicketJson_serializer J"

definition new_TicketPeer ::
  "'j json_api \<Rightarrow> dual_socket option \<Rightarrow> ticket_serializer option \<Rightarrow> ticket_peer" where
  "new_TicketPeer J socket serializer =
     \<lparr>peer_socket = socket,
      peer_serializer = Some (case serializer of Some s \<Rightarrow> s | None \<Rightarrow> default_serializer J),
      peer_closed = False\<rparr>"

section \<open>Frames\<close>

definition sendFrame_via ::
  "(dual_socket \<Rightarrow> byte list \<Rightarrow> int \<Rightarrow> 'w \<Rightarrow> (nat expected \<times> 'w) option) \<Rightarrow>
   ticket_peer \<Rightarrow> ticket_info \<Rightarrow> 'w \<Rightarrow> (nat expected outcome \<times> 'w) option" where
  "sendFrame_via wrf p ticket w =
     (case peer_serializer p of
        None \<Rightarrow> Some (Undefined, w)
      | Some S \<Rightarrow>
          (case ser_serialize S ticket of
             Thrown \<Rightarrow> Some (Thrown, w)
           | Undefined \<Rightarrow> Some (Undefined, w)
           | Returned serialized \<Rightarrow>
               if serialized = [] then Some (Returned (Inl (Generic_ec Invalid_argument)), w)
               else
                 (case peer_socket p of
                    None \<Rightarrow> Some (Returned (Inl (Generic_ec Invalid_argument)), w)
                  | Some s \<Rightarrow>
                      do {
                        (r, w1) \<leftarrow> wrf s serialized default_frame_timeout w;
                        Some (Returned r, w1)
                      })))"

definition receiveFrame_via ::
  "(dual_socket \<Rightarrow> int \<Rightarrow> 'w \<Rightarrow> (byte list expected \<times> dual_socket \<times> 'w) option) \<Rightarrow>
   ticket_peer \<Rightarrow> 'w \<Rightarrow> (ticket_info expected outcome \<times> ticket_peer \<times> 'w) option" where
  "receiveFrame_via rdf p w =
     (case peer_socket p of
        None \<Rightarrow> Some (Returned (Inl (Generic_ec Invalid_argument)), p, w)
      | Some s \<Rightarrow>
          do {
            (frame, s1, w1) \<leftarrow> rdf s default_frame_timeout w;
            let p1 = p\<lparr>peer_socket := Some s1\<rparr>;
            case frame of
              Inl e \<Rightarrow> Some (Returned (Inl e), p1, w1)
            | Inr f \<Rightarrow>
                (case peer_serializer p of
                   None \<Rightarrow> Some (Undefined, p1, w1)
                 | Some S \<Rightarrow> Some (ser_deserialize S f, p1, w1))
          })"

definition handshake_via ::
  "(dual_socket \<Rightarrow> int \<Rightarrow> 'w \<Rightarrow> (byte list expected \<times> dual_socket \<times> 'w) option) \<Rightarrow>
   (dual_socket \<Rightarrow> byte list \<Rightarrow> int \<Rightarrow> 'w \<Rightarrow> (nat expected \<times> 'w) option) \<Rightarrow>
   ticket_peer \<Rightarrow> ticket_info \<Rightarrow> 'w \<Rightarrow>
   (ticket_info expected outcome \<times> ticket_peer \<times> 'w) option" where
  "handshake_via rdf wrf p request w =
     do {
       (result, w1) \<leftarrow> sendFrame_via wrf p request w;
       case result of
         Thrown \<Rightarrow> Some (Thrown, p, w1)
       | Undefined \<Rightarrow> Some (Undefined, p, w1)
       | Returned (Inl e) \<Rightarrow> Some (Returned (Inl e), p, w1)
       | Returned (Inr _) \<Rightarrow> receiveFrame_via rdf p w1
     }"

definition TicketPeer_sendFrame ::
  "'w asio \<Rightarrow> ticket_peer \<Rightarrow> ticket_info \<Rightarrow> 'w \<Rightarrow> (nat expected outcome \<times> 'w) option" where
  "TicketPeer_sendFrame A = sendFrame_via (writeFrame A)"

definition TicketPeer_sendFrameAsync ::
  "'w asio \<Rightarrow> ticket_peer \<Rightarrow> ticket_info \<Rightarrow> 'w \<Rightarrow> (nat expected outcome \<times> 'w) option" where
  "TicketPeer_sendFrameAsync A = sendFrame_via (asyncWriteFrame A)"

definition TicketPeer_receiveFrame ::
  "'w asio \<Rightarrow> ticket_peer \<Rightarrow> 'w \<Rightarrow> (ticket_info expected outcome \<times> ticket_peer \<times> 'w) option" where
  "TicketPeer_receiveFrame A = receiveFrame_via (readFrame A)"

definition TicketPeer_receiveFrameAsync ::
  "'w asio \<Rightarrow> ticket_peer \<Rightarrow> 'w \<Rightarrow> (ticket_info expected outcome \<times> ticket_peer \<times> 'w) option" where
  "TicketPeer_receiveFrameAsync A = receiveFrame_via (asyncReadFrame A)"

definition TicketPeer_handshake ::
  "'w asio \<Rightarrow> ticket_peer \<Rightarrow> ticket_info \<Rightarrow> 'w \<Rightarrow>
   (ticket_info expected outcome \<times> ticket_peer \<times> 'w) option" where
  "TicketPeer_handshake A = handshake_via (readFrame A) (writeFrame A)"

definition TicketPeer_handshakeAsync ::
  "'w asio \<Rightarrow> ticket_peer \<Rightarrow> ticket_info \<Rightarrow> 'w \<Rightarrow>
   (ticket_info expected outcome \<times> ticket_peer \<times> 'w) option" where
  "TicketPeer_handshakeAsync A = handshake_via (asyncReadFrame A) (asyncWriteFrame A)"

section \<open>Closing, moving and destroying\<close>

definition TicketPeer_isConnected :: "'w asio \<Rightarrow> ticket_peer \<Rightarrow> 'w \<Rightarrow> bool outcome" where
  "TicketPeer_isConnected A p w =
     (case peer_socket p of None \<Rightarrow> Undefined | Some s \<Rightarrow> Returned (isConnected A s w))"

definition TicketPeer_getSocket :: "ticket_peer \<Rightarrow> dual_socket outcome" where
  "TicketPeer_getSocket p = (case peer_socket p of None \<Rightarrow> Undefined | Some s \<Rightarrow> Returned s)"

definition TicketPeer_goodbye ::
  "'w asio \<Rightarrow> ticket_peer \<Rightarrow> 'w \<Rightarrow> unit expected outcome \<times> ticket_peer \<times> 'w" where
  "TicketPeer_goodbye A p w =
     (let p1 = p\<lparr>peer_closed := True\<rparr> in
      case peer_socket p of
        None \<Rightarrow> (Undefined, p1, w)
      | Some s \<Rightarrow> (Returned (Inr ()), p1, if isConnected A s w then closeSocket A s w else w))"

definition TicketPeer_goodbyeAsync ::
  "'w asio \<Rightarrow> ticket_peer \<Rightarrow> 'w \<Rightarrow> unit expected outcome \<times> ticket_peer \<times> 'w" where
  "TicketPeer_goodbyeAsync A p w =
     (let p1 = p\<lparr>peer_closed := True\<rparr> in
      case peer_socket p of
        None \<Rightarrow> (Undefined, p1, w)
      | Some s \<Rightarrow> (Returned (Inr ()), p1, if isConnected A s w then closeSocket A s w else w))"

text \<open>The destructor's body, then the members: deleting the socket runs its own destructor.\<close>

definition destroy_members :: "'w asio \<Rightarrow> ticket_peer \<Rightarrow> 'w \<Rightarrow> 'w" where
  "destroy_members A p w = (case peer_socket p of None \<Rightarrow> w | Some s \<Rightarrow> destroy_socket A s w)"

definition destroy_TicketPeer :: "'w asio \<Rightarrow> ticket_peer \<Rightarrow> 'w \<Rightarrow> unit outcome \<times> 'w" where
  "destroy_TicketPeer A p w =
     (if peer_closed p then (Returned (), destroy_members A p w)
      else
        (case TicketPeer_goodbye A p w of
           (Undefined, p1, w1) \<Rightarrow> (Undefined, w1)
         | (_, p1, w1) \<Rightarrow> (Returned (), destroy_members A p1 w1)))"

text \<open>The moved-from peer.\<close>

definition moved_from :: "ticket_peer \<Rightarrow> ticket_peer" where
  "moved_from other = \<lparr>peer_socket = None, peer_serializer = None, peer_closed = True\<rparr>"

definition move_TicketPeer :: "ticket_peer \<Rightarrow> ticket_peer \<times> ticket_peer" where
  "move_TicketPeer other =
     (\<lparr>peer_socket = peer_socket other, peer_serializer = peer_serializer other,
       peer_closed = peer_closed other\<rparr>, moved_from other)"

text \<open>
  Assigning to \<open>_socket\<close> deletes the socket held before; \<open>same\<close> tells whether both sides are one
  object.
\<close>

definition move_assign_TicketPeer ::
  "'w asio \<Rightarrow> bool \<Rightarrow> ticket_peer \<Rightarrow> ticket_peer \<Rightarrow> 'w \<Rightarrow> ticket_peer \<times> ticket_peer \<times> 'w" where
  "move_assign_TicketPeer A same this other w =
     (if same then (this, other, w)
      else
        (\<lparr>peer_socket = peer_socket other, peer_serializer = peer_serializer other,
          peer_closed = peer_closed other\<rparr>,
         moved_from other,
         destroy_members A this w))"

section \<open>What a call puts on the wire and takes off it\<close>

lemmas peer_defs =
  TicketPeer_sendFrame_def TicketPeer_sendFrameAsync_def TicketPeer_receiveFrame_def
  TicketPeer_receiveFrameAsync_def TicketPeer_handshake_def TicketPeer_handshakeAsync_def

text \<open>\<open>p'\<close> is \<open>p\<close> after its socket has taken bytes out of its buffer.\<close>

definition peer_advanced :: "ticket_peer \<Rightarrow> dual_socket \<Rightarrow> byte list \<Rightarrow> ticket_peer" where
  "peer_advanced p s b = p\<lparr>peer_socket := Some (s\<lparr>read_buffer := b\<rparr>)\<rparr>"

context frame_channel
begin

lemma sendFrame_via_ok:
  assumes "sendFrame_via wf p t w = Some (Returned (Inr n), w')"
    and "peer_socket p = Some s" "peer_serializer p = Some S"
  shows "\<exists>bs. ser_serialize S t = Returned bs \<and> bs \<noteq> [] \<and> n = 4 + length bs \<and>
           sent (sock_fd s) w' = sent (sock_fd s) w @ encode_frame bs"
proof -
  from assms obtain bs where "ser_serialize S t = Returned bs" "bs \<noteq> []"
    "wf s bs default_frame_timeout w = Some (Inr n, w')"
    by (auto simp: sendFrame_via_def split: outcome.splits if_splits bind_splits)
  with wf_ok show ?thesis by blast
qed

lemma sendFrame_via_prefix:
  assumes "sendFrame_via wf p t w = Some (r, w')"
    and "peer_socket p = Some s" "peer_serializer p = Some S" "ser_serialize S t = Returned bs"
  shows "\<exists>n. sent (sock_fd s) w' = sent (sock_fd s) w @ take n (encode_frame bs)"
  using assms wf_prefix
  by (auto simp: sendFrame_via_def split: if_splits bind_splits intro: exI [of _ 0])

lemma sendFrame_via_frame:
  assumes "sendFrame_via wf p t w = Some (r, w')"
  shows "rcvd g w' = rcvd g w"
  using assms wf_frame
  by (auto simp: sendFrame_via_def split: option.splits outcome.splits if_splits bind_splits)

lemma receiveFrame_via_ok:
  assumes "receiveFrame_via rf p w = Some (Returned (Inr t), p', w')"
    and "peer_socket p = Some s" "peer_serializer p = Some S"
  shows "\<exists>f d b. rcvd (sock_fd s) w' = rcvd (sock_fd s) w @ d \<and>
           decode_frame (read_buffer s @ d) = Some (f, b) \<and>
           ser_deserialize S f = Returned (Inr t) \<and> p' = peer_advanced p s b"
proof -
  from assms obtain f s1 where r: "rf s default_frame_timeout w = Some (Inr f, s1, w')"
    and f: "ser_deserialize S f = Returned (Inr t)" and p': "p' = p\<lparr>peer_socket := Some s1\<rparr>"
    by (auto simp: receiveFrame_via_def Let_def split: bind_splits sum.splits)
  have "p' = peer_advanced p s (read_buffer s1)"
    using rf_frame [OF r] p' by (simp add: peer_advanced_def)
  with rf_ok [OF r] f show ?thesis by blast
qed

lemma receiveFrame_via_frame:
  assumes "receiveFrame_via rf p w = Some (r, p', w')"
  shows "sent g w' = sent g w" "peer_serializer p' = peer_serializer p" "peer_closed p' = peer_closed p"
    "peer_socket p = Some s \<Longrightarrow> \<exists>b. p' = peer_advanced p s b"
proof -
  have "p' = p \<and> w' = w \<and> peer_socket p = None \<or>
    (\<exists>s1 s fr. peer_socket p = Some s \<and> p' = p\<lparr>peer_socket := Some s1\<rparr> \<and>
              rf s default_frame_timeout w = Some (fr, s1, w'))"
    using assms
    by (auto simp: receiveFrame_via_def Let_def split: option.splits bind_splits sum.splits)
  then show "sent g w' = sent g w" "peer_serializer p' = peer_serializer p" "peer_closed p' = peer_closed p"
    "peer_socket p = Some s \<Longrightarrow> \<exists>b. p' = peer_advanced p s b"
    using rf_frame by (auto simp: peer_advanced_def) metis
qed

lemma handshake_via_ok:
  assumes h: "handshake_via rf wf p req w = Some (Returned (Inr resp), p', w')"
    and p: "peer_socket p = Some s" "peer_serializer p = Some S"
  shows "\<exists>bs f d b. ser_serialize S req = Returned bs \<and> bs \<noteq> [] \<and>
           sent (sock_fd s) w' = sent (sock_fd s) w @ encode_frame bs \<and>
           rcvd (sock_fd s) w' = rcvd (sock_fd s) w @ d \<and>
           decode_frame (read_buffer s @ d) = Some (f, b) \<and>
           ser_deserialize S f = Returned (Inr resp) \<and> p' = peer_advanced p s b"
proof -
  from h obtain n w1 where s: "sendFrame_via wf p req w = Some (Returned (Inr n), w1)"
    and r: "receiveFrame_via rf p w1 = Some (Returned (Inr resp), p', w')"
    by (auto simp: handshake_via_def split: bind_splits outcome.splits sum.splits)
  from sendFrame_via_ok [OF s p] receiveFrame_via_ok [OF r p] sendFrame_via_frame [OF s]
    receiveFrame_via_frame(1) [OF r] show ?thesis by fastforce
qed

end

lemma asyncWriteFrame_returns: "\<exists>y. asyncWriteFrame A s f t w = Some y"
  by (cases "sock_kind s")
    (auto simp: frame_defs writeFrame_via_def split: prod.split sum.split)

context asio_env
begin

lemma handshake_ok:
  assumes "TicketPeer_handshake A p req w = Some (Returned (Inr resp), p', w') \<or>
           TicketPeer_handshakeAsync A p req w = Some (Returned (Inr resp), p', w')"
    and p: "peer_socket p = Some s" "peer_serializer p = Some S"
  shows "\<exists>bs f d b. ser_serialize S req = Returned bs \<and> bs \<noteq> [] \<and>
           sent (sock_fd s) w' = sent (sock_fd s) w @ encode_frame bs \<and>
           rcvd (sock_fd s) w' = rcvd (sock_fd s) w @ d \<and>
           decode_frame (read_buffer s @ d) = Some (f, b) \<and>
           ser_deserialize S f = Returned (Inr resp) \<and> p' = peer_advanced p s b"
  using assms(1) frames_sync.handshake_via_ok [OF _ p] frames_async.handshake_via_ok [OF _ p]
  unfolding TicketPeer_handshake_def TicketPeer_handshakeAsync_def by (elim disjE) assumption+

lemma sendFrameAsync_returns: "\<exists>y. TicketPeer_sendFrameAsync A p t w = Some y"
proof -
  define out where "out s f = the (asyncWriteFrame A s f default_frame_timeout w)" for s f
  have "asyncWriteFrame A s f default_frame_timeout w = Some (out s f)" for s f
    using asyncWriteFrame_returns [of A s f default_frame_timeout w] by (auto simp: out_def)
  then show ?thesis
    by (auto simp: peer_defs sendFrame_via_def split: option.split outcome.split prod.split)
qed

lemma receiveFrameAsync_returns: "\<exists>y. TicketPeer_receiveFrameAsync A p w = Some y"
proof (cases "peer_socket p")
  case None
  then show ?thesis by (simp add: peer_defs receiveFrame_via_def)
next
  case (Some s)
  obtain fr s1 w1 where "asyncReadFrame A s default_frame_timeout w = Some (fr, s1, w1)"
    using asyncReadFrame_returns by (metis prod_cases3)
  with Some show ?thesis
    by (auto simp: peer_defs receiveFrame_via_def Let_def split: sum.split option.split)
qed

lemma handshakeAsync_returns: "\<exists>y. TicketPeer_handshakeAsync A p t w = Some y"
proof -
  obtain r w1 where s: "sendFrame_via (asyncWriteFrame A) p t w = Some (r, w1)"
    using sendFrameAsync_returns [of p t w] by (auto simp: peer_defs)
  obtain y where "receiveFrame_via (asyncReadFrame A) p w1 = Some y"
    using receiveFrameAsync_returns [of p w1] by (auto simp: peer_defs)
  with s show ?thesis
    by (cases y) (auto simp: peer_defs handshake_via_def split: outcome.split sum.split)
qed

end

section \<open>Ownership of the socket\<close>

text \<open>The class invariant: a peer without a socket is closed, so its destructor does not say goodbye.\<close>

definition peer_wf :: "ticket_peer \<Rightarrow> bool" where
  "peer_wf p \<longleftrightarrow> (peer_socket p = None \<longrightarrow> peer_closed p)"

lemma peer_wf_new: "peer_wf (new_TicketPeer J (Some s) S)"
  by (simp add: peer_wf_def new_TicketPeer_def)

lemma peer_wf_moved_from [simp]: "peer_wf (moved_from p)"
  by (simp add: peer_wf_def moved_from_def)

lemma destroy_moved_from [simp]: "destroy_TicketPeer A (moved_from p) w = (Returned (), w)"
  by (simp add: destroy_TicketPeer_def moved_from_def destroy_members_def)

context asio_env
begin

lemma closeSocket_open: "as_is_open A g (closeSocket A s w) = (g \<noteq> sock_fd s \<and> as_is_open A g w)"
  by (auto simp: connection_defs env_laws split: socket_kind.split)

lemma destroy_members_open:
  "as_is_open A g (destroy_members A p w) = (as_is_open A g w \<and> (\<forall>s. peer_socket p = Some s \<longrightarrow> g \<noteq> sock_fd s))"
  by (auto simp: destroy_members_def destroy_socket_open split: option.split)

lemma destroy_TicketPeer_open:
  assumes "peer_wf p"
  shows "fst (destroy_TicketPeer A p w) = Returned ()"
    "as_is_open A g (snd (destroy_TicketPeer A p w)) =
       (as_is_open A g w \<and> (\<forall>s. peer_socket p = Some s \<longrightarrow> g \<noteq> sock_fd s))"
  using assms
  by (auto simp: destroy_TicketPeer_def TicketPeer_goodbye_def peer_wf_def destroy_members_open
      closeSocket_open split: option.splits if_splits)

end

section \<open>A serializer that computes\<close>

text \<open>
  A user-supplied serializer for the witnesses: one byte of status, one that tells whether a result
  follows, and the result or the command.
\<close>

fun status_byte :: "ticket_status \<Rightarrow> byte" where
  "status_byte PENDING = 0" | "status_byte RUNNING = 1" | "status_byte COMPLETED = 2"
| "status_byte FAILED = 3" | "status_byte CANCELLED = 4"

definition byte_status :: "byte \<Rightarrow> ticket_status" where
  "byte_status b = (if b = 1 then RUNNING else if b = 2 then COMPLETED else if b = 3 then FAILED
                    else if b = 4 then CANCELLED else PENDING)"

definition brief_serialize :: "ticket_info \<Rightarrow> byte list outcome" where
  "brief_serialize t = Returned (case ticket_result t of
     Some r \<Rightarrow> status_byte (ticket_status t) # 1 # bytes_of_string r
   | None \<Rightarrow> status_byte (ticket_status t) # 0 # bytes_of_string (command t))"

fun brief_deserialize :: "byte list \<Rightarrow> ticket_info expected outcome" where
  "brief_deserialize (st # flag # body) = Returned (Inr (
     if flag = 1 then default_ticket\<lparr>ticket_status := byte_status st, ticket_result := Some (string_of_bytes body)\<rparr>
     else default_ticket\<lparr>ticket_status := byte_status st, command := string_of_bytes body\<rparr>))"
| "brief_deserialize _ = Returned (Inl (Generic_ec Invalid_argument))"

definition brief_serializer :: ticket_serializer where
  "brief_serializer = \<lparr>ser_serialize = brief_serialize, ser_deserialize = brief_deserialize\<rparr>"

definition brief_sendable :: "ticket_info \<Rightarrow> bool" where
  "brief_sendable t \<longleftrightarrow> length (command t) < 1000 \<and> pred_option (\<lambda>r. length r < 1000) (ticket_result t)"

definition brief_wire :: "ticket_info \<Rightarrow> ticket_info" where
  "brief_wire t = default_ticket\<lparr>ticket_status := ticket_status t, ticket_result := ticket_result t,
     command := (if ticket_result t = None then command t else [])\<rparr>"

lemma byte_status_of_byte [simp]: "byte_status (status_byte s) = s"
  by (cases s) (simp_all add: byte_status_def)

interpretation brief: serializer_contract brief_serializer brief_sendable brief_wire
  by unfold_locales
    (auto simp: brief_serializer_def brief_serialize_def brief_sendable_def brief_wire_def
      default_ticket_def split: option.splits)

definition brief_peer :: "dual_socket \<Rightarrow> ticket_peer" where
  "brief_peer s = new_TicketPeer demo_library (Some s) (Some brief_serializer)"

lemmas brief_simps =
  brief_peer_def new_TicketPeer_def brief_serializer_def brief_serialize_def byte_status_def
  bytes_of_string_def string_of_bytes_def byte_of_char_def char_of_byte_def default_frame_timeout_def
  default_ticket_def

lemmas frame_run_simps =
  frame_defs readFrame_via_def writeFrame_via_def makeLengthPrefix_eq readLengthPrefixSync_def
  readLengthPrefixAsync_def readLengthPrefix_via_def length_prefix_size_def prefix_length_4
  member_defs spawn_and_get_def asyncReadExactCommon_def asyncWriteAllCommon_def

lemmas peer_run_simps = peer_defs sendFrame_via_def receiveFrame_via_def handshake_via_def

section \<open>Properties\<close>

text \<open>
  Moving a peer transfers its socket: both objects keep the class invariant, destroying the
  moved-from one changes nothing, and destroying the new one is well-defined and closes exactly the
  socket the original held.
\<close>

theorem move_transfers_ownership:
  assumes "asio_laws A rcvd sent" and "peer_wf p" and "move_TicketPeer p = (q, p')"
  shows "peer_wf q \<and> peer_wf p' \<and> destroy_TicketPeer A p' w = (Returned (), w) \<and>
    fst (destroy_TicketPeer A q w) = Returned () \<and>
    (\<forall>g. as_is_open A g (snd (destroy_TicketPeer A q w)) =
           (as_is_open A g w \<and> (\<forall>s. peer_socket p = Some s \<longrightarrow> g \<noteq> sock_fd s)))"
proof -
  have env: "asio_env A rcvd sent" by (rule asio_env.intro [OF assms(1)])
  have q: "q = p" "p' = moved_from p" using assms(3) by (auto simp: move_TicketPeer_def)
  show ?thesis unfolding q
    using asio_env.destroy_TicketPeer_open [OF env assms(2)] assms(2) by simp
qed

definition demo_serializer :: ticket_serializer where
  "demo_serializer = default_serializer demo_library"

definition demo_peer :: ticket_peer where
  "demo_peer = new_TicketPeer demo_library (Some demo_socket) None"

theorem move_transfers_ownership_witness:
  "\<not> as_is_open script_asio 0 (snd (destroy_TicketPeer script_asio (fst (move_TicketPeer demo_peer)) demo_world))"
  using move_transfers_ownership [OF script_laws, of demo_peer "fst (move_TicketPeer demo_peer)"
      "snd (move_TicketPeer demo_peer)" demo_world]
  by (simp add: demo_peer_def peer_wf_new) (simp add: new_TicketPeer_def demo_socket_def)

text \<open>
  Move assignment closes the socket the target held before, and only that one; assigning a peer
  to itself changes nothing.
\<close>

theorem move_assign_closes_old_socket:
  assumes "asio_laws A rcvd sent"
  shows "(case move_assign_TicketPeer A False this other w of (this', other', w') \<Rightarrow>
      this' = other \<and> destroy_TicketPeer A other' w' = (Returned (), w') \<and>
      (\<forall>g. as_is_open A g w' =
             (as_is_open A g w \<and> (\<forall>s. peer_socket this = Some s \<longrightarrow> g \<noteq> sock_fd s)))) \<and>
    move_assign_TicketPeer A True this this w = (this, this, w)"
  using asio_env.destroy_members_open [OF asio_env.intro [OF assms]]
  by (simp add: move_assign_TicketPeer_def)

theorem move_assign_closes_old_socket_witness:
  "\<not> as_is_open script_asio 0 (snd (snd (move_assign_TicketPeer script_asio False demo_peer (moved_from demo_peer) demo_world)))"
  using move_assign_closes_old_socket [OF script_laws, where this = demo_peer and other = "moved_from demo_peer" and w = demo_world]
  by (auto simp: demo_peer_def new_TicketPeer_def demo_socket_def split: prod.splits)

text \<open>
  What remains usable of a moved-from peer: it can be destroyed and assigned to, and receiving
  reports \<^verbatim>\<open>invalid_argument\<close>; sending, \<open>goodbye\<close>, \<open>isConnected\<close> and \<open>getSocket\<close> follow a null pointer.
\<close>

theorem moved_from_peer_operations:
  "TicketPeer_receiveFrame A (moved_from p) w =
     Some (Returned (Inl (Generic_ec Invalid_argument)), moved_from p, w) \<and>
   TicketPeer_sendFrame A (moved_from p) t w = Some (Undefined, w) \<and>
   TicketPeer_handshake A (moved_from p) t w = Some (Undefined, moved_from p, w) \<and>
   fst (TicketPeer_goodbye A (moved_from p) w) = Undefined \<and>
   TicketPeer_isConnected A (moved_from p) w = Undefined \<and>
   TicketPeer_getSocket (moved_from p) = Undefined \<and>
   destroy_TicketPeer A (moved_from p) w = (Returned (), w)"
  by (simp add: moved_from_def peer_defs receiveFrame_via_def sendFrame_via_def handshake_via_def
      TicketPeer_goodbye_def TicketPeer_isConnected_def TicketPeer_getSocket_def
      destroy_TicketPeer_def destroy_members_def)

end
