(* ===== verification/TicketController.thy ===== *)
theory TicketController
  imports TicketPeer
begin

text \<open>
  The controller: \<^verbatim>\<open>src/protocol/TicketController.cpp\<close>. The random draws of \<open>generate_uuid\<close> are an
  argument: \<open>draw i\<close> is what the distribution returned for position \<open>i\<close>. The synchronous and the
  asynchronous members share their bodies over the handshake they call.
\<close>

record ticket_controller =
  controller_peer :: ticket_peer
  ticketCounter :: uint64
  socketId :: string

section \<open>Ticket identifiers\<close>

definition hex :: string where
  "hex = ''0123456789abcdef''"

definition uuid_char :: "(nat \<Rightarrow> nat) \<Rightarrow> nat \<Rightarrow> char" where
  "uuid_char draw i =
     (if i = 8 \<or> i = 13 \<or> i = 18 \<or> i = 23 then CHR ''-''
      else if i = 12 then CHR ''4''
      else hex ! draw i)"

definition generate_uuid :: "(nat \<Rightarrow> nat) \<Rightarrow> string" where
  "generate_uuid draw = map (uuid_char draw) [0..<36]"

definition generateTicketId ::
  "(nat \<Rightarrow> nat) \<Rightarrow> ticket_controller \<Rightarrow> string \<times> ticket_controller" where
  "generateTicketId draw c =
     (generate_uuid draw @ ''/'' @ socketId c @ ''#'' @ to_string (unat (ticketCounter c)),
      c\<lparr>ticketCounter := ticketCounter c + 1\<rparr>)"

text \<open>The constructor reads the socket's identifier through the pointer it was given.\<close>

definition new_TicketController ::
  "'j json_api \<Rightarrow> dual_socket option \<Rightarrow> ticket_serializer option \<Rightarrow> ticket_controller outcome" where
  "new_TicketController J socket serializer =
     (let p = new_TicketPeer J socket
                (Some (case serializer of Some s \<Rightarrow> s | None \<Rightarrow> default_serializer J))
      in case TicketPeer_getSocket p of
           Returned s \<Rightarrow>
             Returned \<lparr>controller_peer = p, ticketCounter = 0, socketId = to_string (unat (getId s))\<rparr>
         | Thrown \<Rightarrow> Thrown
         | Undefined \<Rightarrow> Undefined)"

text \<open>
  The defaulted moves and the destructor, member by member. A moved-from string has a valid but
  unspecified value: \<open>left\<close>; so has one assigned to itself. The counter is copied. \<open>same\<close> tells whether both
  sides of an assignment are one object.
\<close>

definition move_TicketController :: "string \<Rightarrow> ticket_controller \<Rightarrow> ticket_controller \<times> ticket_controller" where
  "move_TicketController left other =
     (case move_TicketPeer (controller_peer other) of (p, p') \<Rightarrow>
        (\<lparr>controller_peer = p, ticketCounter = ticketCounter other, socketId = socketId other\<rparr>,
         other\<lparr>controller_peer := p', socketId := left\<rparr>))"

definition move_assign_TicketController ::
  "'w asio \<Rightarrow> bool \<Rightarrow> string \<Rightarrow> ticket_controller \<Rightarrow> ticket_controller \<Rightarrow> 'w \<Rightarrow>
   ticket_controller \<times> ticket_controller \<times> 'w" where
  "move_assign_TicketController A same left this other w =
     (case move_assign_TicketPeer A same (controller_peer this) (controller_peer other) w of (p, p', w1) \<Rightarrow>
        (\<lparr>controller_peer = p, ticketCounter = ticketCounter other, socketId = (if same then left else socketId other)\<rparr>,
         other\<lparr>controller_peer := p', socketId := left\<rparr>, w1))"

definition destroy_TicketController :: "'w asio \<Rightarrow> ticket_controller \<Rightarrow> 'w \<Rightarrow> unit outcome \<times> 'w" where
  "destroy_TicketController A c w = destroy_TicketPeer A (controller_peer c) w"

definition TicketController_getPeer :: "ticket_controller \<Rightarrow> ticket_peer" where
  "TicketController_getPeer c = controller_peer c"

section \<open>Requests\<close>

type_synonym 'w handshaker =
  "ticket_peer \<Rightarrow> ticket_info \<Rightarrow> 'w \<Rightarrow> (ticket_info expected outcome \<times> ticket_peer \<times> 'w) option"

definition make_ticket ::
  "string \<Rightarrow> ticket_type \<Rightarrow> string \<Rightarrow> string \<Rightarrow> string \<Rightarrow> int \<Rightarrow> ticket_info" where
  "make_ticket tid ty cmd pl md ms =
     default_ticket\<lparr>ticket_id := tid, ticket_type := ty, ticket_status := PENDING, command := cmd,
       payload := Some pl, timeout := ms,
       metadata := (if md = '''' then fmempty else fmupd ''metadata'' md fmempty)\<rparr>"

text \<open>The ticket of \<open>poll\<close> and \<open>cancel\<close>.\<close>

definition control_ticket :: "string \<Rightarrow> ticket_status \<Rightarrow> string \<Rightarrow> int \<Rightarrow> ticket_info" where
  "control_ticket tid st cmd ms =
     default_ticket\<lparr>ticket_id := tid, ticket_type := SHORT, ticket_status := st, command := cmd,
       timeout := ms\<rparr>"

definition send_via ::
  "'w handshaker \<Rightarrow> (nat \<Rightarrow> nat) \<Rightarrow> ticket_controller \<Rightarrow> string \<Rightarrow> string \<Rightarrow> string \<Rightarrow> int \<Rightarrow> 'w \<Rightarrow>
   (string expected outcome \<times> ticket_controller \<times> 'w) option" where
  "send_via hs draw c cmd pl md ms w =
     (case generateTicketId draw c of (tid, c1) \<Rightarrow>
      do {
        (response, p, w1) \<leftarrow> hs (controller_peer c1) (make_ticket tid SHORT cmd pl md ms) w;
        let c2 = c1\<lparr>controller_peer := p\<rparr>;
        Some (case response of
                Thrown \<Rightarrow> Thrown
              | Undefined \<Rightarrow> Undefined
              | Returned (Inl e) \<Rightarrow> Returned (Inl e)
              | Returned (Inr r) \<Rightarrow>
                  if ticket_status r = FAILED then Returned (Inl (Generic_ec Io_error))
                  else (case ticket_result r of
                          None \<Rightarrow> Returned (Inl (Generic_ec Protocol_error))
                        | Some x \<Rightarrow> Returned (Inr x)),
              c2, w1)
      })"

definition TicketController_send ::
  "'w asio \<Rightarrow> (nat \<Rightarrow> nat) \<Rightarrow> ticket_controller \<Rightarrow> string \<Rightarrow> string \<Rightarrow> string \<Rightarrow> int \<Rightarrow> 'w \<Rightarrow>
   (string expected outcome \<times> ticket_controller \<times> 'w) option" where
  "TicketController_send A = send_via (TicketPeer_handshake A)"

definition TicketController_sendAsync ::
  "'w asio \<Rightarrow> (nat \<Rightarrow> nat) \<Rightarrow> ticket_controller \<Rightarrow> string \<Rightarrow> string \<Rightarrow> string \<Rightarrow> int \<Rightarrow> 'w \<Rightarrow>
   (string expected outcome \<times> ticket_controller \<times> 'w) option" where
  "TicketController_sendAsync A = send_via (TicketPeer_handshakeAsync A)"

definition poll_via ::
  "'w handshaker \<Rightarrow> ticket_controller \<Rightarrow> string \<Rightarrow> int \<Rightarrow> 'w \<Rightarrow>
   (ticket_info expected outcome \<times> ticket_controller \<times> 'w) option" where
  "poll_via hs c ticketId ms w =
     do {
       (response, p, w1) \<leftarrow> hs (controller_peer c) (control_ticket ticketId PENDING ''poll'' ms) w;
       Some (case response of
               Returned (Inr r) \<Rightarrow>
                 if ticket_status r = FAILED then Returned (Inl (Generic_ec Io_error))
                 else Returned (Inr r)
             | x \<Rightarrow> x,
             c\<lparr>controller_peer := p\<rparr>, w1)
     }"

definition TicketController_poll ::
  "'w asio \<Rightarrow> ticket_controller \<Rightarrow> string \<Rightarrow> int \<Rightarrow> 'w \<Rightarrow>
   (ticket_info expected outcome \<times> ticket_controller \<times> 'w) option" where
  "TicketController_poll A = poll_via (TicketPeer_handshake A)"

definition TicketController_pollAsync ::
  "'w asio \<Rightarrow> ticket_controller \<Rightarrow> string \<Rightarrow> int \<Rightarrow> 'w \<Rightarrow>
   (ticket_info expected outcome \<times> ticket_controller \<times> 'w) option" where
  "TicketController_pollAsync A = poll_via (TicketPeer_handshakeAsync A)"

definition TicketController_cancel ::
  "'w asio \<Rightarrow> ticket_controller \<Rightarrow> string \<Rightarrow> int \<Rightarrow> 'w \<Rightarrow>
   (unit expected outcome \<times> ticket_controller \<times> 'w) option" where
  "TicketController_cancel A c ticketId ms w =
     do {
       (response, p, w1) \<leftarrow>
         TicketPeer_handshake A (controller_peer c) (control_ticket ticketId CANCELLED ''cancel'' ms) w;
       Some (case response of
               Thrown \<Rightarrow> Thrown
             | Undefined \<Rightarrow> Undefined
             | Returned (Inl e) \<Rightarrow> Returned (Inl e)
             | Returned (Inr r) \<Rightarrow>
                 if ticket_status r \<noteq> CANCELLED then Returned (Inl (Generic_ec Io_error))
                 else Returned (Inr ()),
             c\<lparr>controller_peer := p\<rparr>, w1)
     }"

section \<open>Long requests\<close>

text \<open>\<open>if (onProgress) onProgress(*response);\<close>\<close>

definition report :: "(ticket_info \<Rightarrow> 'w \<Rightarrow> unit outcome \<times> 'w) option \<Rightarrow> ticket_info \<Rightarrow> 'w \<Rightarrow> unit outcome \<times> 'w" where
  "report onProgress r w = (case onProgress of None \<Rightarrow> (Returned (), w) | Some f \<Rightarrow> f r w)"

text \<open>The loop: poll while the status is \<open>RUNNING\<close>.\<close>

partial_function (option) sendLong_loop ::
  "'w handshaker \<Rightarrow> (ticket_info \<Rightarrow> 'w \<Rightarrow> unit outcome \<times> 'w) option \<Rightarrow> int \<Rightarrow>
   ticket_info \<Rightarrow> ticket_controller \<Rightarrow> 'w \<Rightarrow>
   (ticket_info expected outcome \<times> ticket_controller \<times> 'w) option" where
  "sendLong_loop hs onProgress ms response c w =
     (if ticket_status response = RUNNING then
        (case report onProgress response w of
           (Thrown, w1) \<Rightarrow> Some (Thrown, c, w1)
         | (Undefined, w1) \<Rightarrow> Some (Undefined, c, w1)
         | (Returned _, w1) \<Rightarrow>
             do {
               (pollResult, c2, w2) \<leftarrow> poll_via hs c (ticket_id response) ms w1;
               case pollResult of
                 Thrown \<Rightarrow> Some (Thrown, c2, w2)
               | Undefined \<Rightarrow> Some (Undefined, c2, w2)
               | Returned (Inl e) \<Rightarrow> Some (Returned (Inl e), c2, w2)
               | Returned (Inr r) \<Rightarrow> sendLong_loop hs onProgress ms r c2 w2
             })
      else Some (Returned (Inr response), c, w))"

text \<open>The tests behind the loop.\<close>

definition final_status :: "ticket_info \<Rightarrow> ticket_info expected" where
  "final_status r =
     (if ticket_status r = COMPLETED then Inr r
      else if ticket_status r = CANCELLED then Inr r
      else if ticket_status r = FAILED then Inl (Generic_ec Io_error)
      else Inl (Generic_ec Protocol_error))"

definition sendLong_via ::
  "'w handshaker \<Rightarrow> (nat \<Rightarrow> nat) \<Rightarrow> ticket_controller \<Rightarrow> string \<Rightarrow> string \<Rightarrow>
   (ticket_info \<Rightarrow> 'w \<Rightarrow> unit outcome \<times> 'w) option \<Rightarrow> string \<Rightarrow> int \<Rightarrow> 'w \<Rightarrow>
   (ticket_info expected outcome \<times> ticket_controller \<times> 'w) option" where
  "sendLong_via hs draw c cmd pl onProgress md ms w =
     (case generateTicketId draw c of (tid, c1) \<Rightarrow>
      do {
        (response, p, w1) \<leftarrow> hs (controller_peer c1) (make_ticket tid LONG cmd pl md ms) w;
        let c2 = c1\<lparr>controller_peer := p\<rparr>;
        case response of
          Thrown \<Rightarrow> Some (Thrown, c2, w1)
        | Undefined \<Rightarrow> Some (Undefined, c2, w1)
        | Returned (Inl e) \<Rightarrow> Some (Returned (Inl e), c2, w1)
        | Returned (Inr r) \<Rightarrow>
            if ticket_status r = FAILED then Some (Returned (Inl (Generic_ec Io_error)), c2, w1)
            else if ticket_status r = COMPLETED then Some (Returned (Inr r), c2, w1)
            else if ticket_status r = CANCELLED then Some (Returned (Inr r), c2, w1)
            else
              do {
                (last, c3, w3) \<leftarrow> sendLong_loop hs onProgress ms r c2 w1;
                Some (case last of
                        Returned (Inr r') \<Rightarrow> Returned (final_status r')
                      | x \<Rightarrow> x,
                      c3, w3)
              }
      })"

definition TicketController_sendLong ::
  "'w asio \<Rightarrow> (nat \<Rightarrow> nat) \<Rightarrow> ticket_controller \<Rightarrow> string \<Rightarrow> string \<Rightarrow>
   (ticket_info \<Rightarrow> 'w \<Rightarrow> unit outcome \<times> 'w) option \<Rightarrow> string \<Rightarrow> int \<Rightarrow> 'w \<Rightarrow>
   (ticket_info expected outcome \<times> ticket_controller \<times> 'w) option" where
  "TicketController_sendLong A = sendLong_via (TicketPeer_handshake A)"

definition TicketController_sendLongAsync ::
  "'w asio \<Rightarrow> (nat \<Rightarrow> nat) \<Rightarrow> ticket_controller \<Rightarrow> string \<Rightarrow> string \<Rightarrow>
   (ticket_info \<Rightarrow> 'w \<Rightarrow> unit outcome \<times> 'w) option \<Rightarrow> string \<Rightarrow> int \<Rightarrow> 'w \<Rightarrow>
   (ticket_info expected outcome \<times> ticket_controller \<times> 'w) option" where
  "TicketController_sendLongAsync A = sendLong_via (TicketPeer_handshakeAsync A)"

section \<open>Lemmas\<close>

lemma length_generate_uuid [simp]: "length (generate_uuid draw) = 36"
  by (simp add: generate_uuid_def)

lemma generate_uuid_nth: "i < 36 \<Longrightarrow> generate_uuid draw ! i = uuid_char draw i"
  by (simp add: generate_uuid_def)

lemma takeWhile_digits:
  assumes "\<not> is_digit_char x"
  shows "takeWhile is_digit_char (to_string m @ x # xs) = to_string m"
  using assms to_string_digits by (simp add: takeWhile_append)

lemma hash_not_digit: "\<not> is_digit_char (CHR ''#'')"
  by (simp add: is_digit_char_def)

lemma digits_hash_unique:
  assumes "to_string m @ ''#'' @ xs = to_string n @ ''#'' @ ys"
  shows "m = n \<and> xs = ys"
proof -
  have "to_string m = to_string n"
    using takeWhile_digits [OF hash_not_digit, of m xs] takeWhile_digits [OF hash_not_digit, of n ys] assms
    by simp
  with assms show ?thesis by (auto dest: to_string_inj)
qed

lemma poll_via_counter:
  "poll_via hs c tid ms w = Some (r, c', w') \<Longrightarrow>
     ticketCounter c' = ticketCounter c \<and> socketId c' = socketId c"
  by (auto simp: poll_via_def split: bind_splits)

lemma sendLong_loop_counter:
  assumes "sendLong_loop hs f ms r c w = Some y"
  shows "ticketCounter (fst (snd y)) = ticketCounter c \<and> socketId (fst (snd y)) = socketId c"
proof (rule sendLong_loop.raw_induct
    [where P = "\<lambda>hs f ms r c w y. ticketCounter (fst (snd y)) = ticketCounter c \<and>
                                   socketId (fst (snd y)) = socketId c", OF _ assms], goal_cases)
  case (1 loop hs f ms r c w y)
  show ?case
  proof (cases "ticket_status r = RUNNING")
    case False
    with 1(2) show ?thesis by auto
  next
    case True
    obtain o1 w1 where rep: "report f r w = (o1, w1)" by (metis prod.exhaust)
    show ?thesis
    proof (cases "\<exists>u. o1 = Returned u")
      case False
      with 1(2) True rep show ?thesis by (cases o1) auto
    next
      case o1: True
      with 1(2) True rep obtain res c2 w2 where
        poll: "poll_via hs c (ticket_id r) ms w1 = Some (res, c2, w2)"
        and y: "(case res of Thrown \<Rightarrow> Some (Thrown, c2, w2) | Undefined \<Rightarrow> Some (Undefined, c2, w2)
                 | Returned (Inl e) \<Rightarrow> Some (Returned (Inl e), c2, w2)
                 | Returned (Inr r) \<Rightarrow> loop hs f ms r c2 w2) = Some y"
        by (auto split: bind_splits)
      from y have "fst (snd y) = c2 \<or>
          ticketCounter (fst (snd y)) = ticketCounter c2 \<and> socketId (fst (snd y)) = socketId c2"
        using 1(1) by (cases res) (auto split: sum.splits)
      with poll_via_counter [OF poll] show ?thesis by metis
    qed
  qed
qed

text \<open>The loop ends when \<open>left\<close> bounds the number of \<open>RUNNING\<close> replies still to come.\<close>

lemma sendLong_loop_returns:
  assumes total: "\<And>p t w. \<exists>y. hs p t w = Some y"
    and dec: "\<And>p t w r p' w'. hs p t w = Some (Returned (Inr r), p', w') \<Longrightarrow>
                ticket_status r = RUNNING \<Longrightarrow> left p' w' < (left p w :: nat)"
    and cb: "\<And>p r w. left p (snd (report f r w)) \<le> left p w"
  shows "\<exists>y. sendLong_loop hs f ms r c w = Some y"
proof (induction "left (controller_peer c) w" arbitrary: r c w rule: less_induct)
  case less
  show ?case
  proof (cases "ticket_status r = RUNNING")
    case False
    then show ?thesis by (subst sendLong_loop.simps) simp
  next
    case True
    obtain o1 w1 where rep: "report f r w = (o1, w1)" by (metis prod.exhaust)
    obtain res p w2 where hs: "hs (controller_peer c) (control_ticket (ticket_id r) PENDING ''poll'' ms) w1 = Some (res, p, w2)"
      using total by (metis prod_cases3)
    let ?c = "c\<lparr>controller_peer := p\<rparr>"
    have le: "left (controller_peer c) w1 \<le> left (controller_peer c) w" using cb rep by (metis snd_conv)
    have "\<exists>y. sendLong_loop hs f ms r' ?c w2 = Some y" if "res = Returned (Inr r')" for r'
    proof (cases "ticket_status r' = RUNNING")
      case True
      have "left (controller_peer ?c) w2 < left (controller_peer c) w"
        using dec [OF hs [unfolded that] True] le by simp
      then show ?thesis by (rule less)
    next
      case False
      then show ?thesis by (subst sendLong_loop.simps) simp
    qed
    then show ?thesis using True rep hs
      by (subst sendLong_loop.simps)
        (auto simp: poll_via_def split: outcome.splits sum.splits)
  qed
qed

text \<open>An identifier determines the socket identifier and the value of the counter that went into it.\<close>

lemma ticket_id_parts:
  assumes "socketId c = to_string m" and "socketId c' = to_string m'"
    and "fst (generateTicketId draw c) = fst (generateTicketId draw' c')"
  shows "m = m' \<and> ticketCounter c = ticketCounter c'"
proof -
  from assms have "to_string m @ ''#'' @ to_string (unat (ticketCounter c)) =
                   to_string m' @ ''#'' @ to_string (unat (ticketCounter c'))"
    by (simp add: generateTicketId_def)
  from digits_hash_unique [OF this] have "m = m'"
    "to_string (unat (ticketCounter c)) = to_string (unat (ticketCounter c'))" by simp_all
  then show ?thesis by (metis to_string_inj word_unat_eq_iff)
qed

section \<open>Properties\<close>

text \<open>
  C26: ticket identifiers are unique without relying on the random part: two tickets carry the same
  identifier only when the same socket identifier and the same value of the counter went into both,
  whatever was drawn.
\<close>

theorem ticket_ids_unique:
  assumes "socketId c = to_string m" and "socketId c' = to_string m'"
    and "fst (generateTicketId draw c) = fst (generateTicketId draw' c')"
  shows "m = m' \<and> ticketCounter c = ticketCounter c'"
  using assms by (rule ticket_id_parts)

definition demo_controller :: ticket_controller where
  "demo_controller = \<lparr>controller_peer = demo_peer, ticketCounter = 0, socketId = to_string 7\<rparr>"

theorem ticket_ids_unique_witness:
  "fst (generateTicketId (\<lambda>_. 3) demo_controller) \<noteq>
   fst (generateTicketId (\<lambda>_. 3) (snd (generateTicketId (\<lambda>_. 3) demo_controller)))"
proof
  assume "fst (generateTicketId (\<lambda>_. 3) demo_controller) =
   fst (generateTicketId (\<lambda>_. 3) (snd (generateTicketId (\<lambda>_. 3) demo_controller)))"
  then have "7 = (7 :: nat) \<and> ticketCounter demo_controller =
      ticketCounter (snd (generateTicketId (\<lambda>_. 3) demo_controller))"
    by (rule ticket_ids_unique [rotated 2]) (simp_all add: generateTicketId_def demo_controller_def)
  then show False by (simp add: generateTicketId_def demo_controller_def)
qed

text \<open>
  The shape of \<open>generate_uuid\<close>: 36 characters, hyphens exactly at 8, 13, 18 and 23, lower-case
  hexadecimal digits elsewhere. The fixed digit 4 stands at position 12, in the second group; the
  first digit of the third group, which marks the version of a UUID, is drawn at random.
\<close>

theorem uuid_shape:
  assumes "\<forall>i < 36. draw i < 16"
  shows "length (generate_uuid draw) = 36 \<and>
    (\<forall>i < 36. generate_uuid draw ! i = CHR ''-'' \<longleftrightarrow> i \<in> {8, 13, 18, 23}) \<and>
    (\<forall>i < 36. i \<notin> {8, 13, 18, 23} \<longrightarrow> generate_uuid draw ! i \<in> set hex) \<and>
    generate_uuid draw ! 12 = CHR ''4'' \<and> generate_uuid draw ! 14 = hex ! draw 14"
proof -
  have len: "length hex = 16" and four: "CHR ''4'' \<in> set hex" and dash: "CHR ''-'' \<notin> set hex"
    by (simp_all add: hex_def)
  have other: "uuid_char draw i \<in> set hex" if "i < 36" "i \<notin> {8, 13, 18, 23}" for i
    using that assms four len by (auto simp: uuid_char_def)
  have "uuid_char draw i = CHR ''-'' \<longleftrightarrow> i \<in> {8, 13, 18, 23}" if "i < 36" for i
  proof (cases "i \<in> {8, 13, 18, 23}")
    case True
    then show ?thesis by (auto simp: uuid_char_def)
  next
    case False
    with other [OF that False] dash show ?thesis by metis
  qed
  with other show ?thesis by (simp add: generate_uuid_nth) (simp add: uuid_char_def)
qed

theorem uuid_shape_witness:
  "generate_uuid (\<lambda>_. 10) ! 12 = CHR ''4'' \<and> generate_uuid (\<lambda>_. 10) ! 14 = hex ! 10"
  using uuid_shape [of "\<lambda>_. 10"] by simp

text \<open>
  C27: a long request that succeeds reports a finished ticket, \<open>COMPLETED\<close> or \<open>CANCELLED\<close>, never one
  that is pending or running; and however many polls it needs, it uses one value of the ticket
  counter.
\<close>

theorem sendLong_final:
  assumes "TicketController_sendLong A draw c cmd pl f md ms w = Some (x, c', w') \<or>
           TicketController_sendLongAsync A draw c cmd pl f md ms w = Some (x, c', w')"
  shows "(\<forall>r. x = Returned (Inr r) \<longrightarrow> ticket_status r \<in> {COMPLETED, CANCELLED}) \<and>
         ticketCounter c' = ticketCounter c + 1 \<and> socketId c' = socketId c"
proof -
  have "(\<forall>r. x = Returned (Inr r) \<longrightarrow> ticket_status r \<in> {COMPLETED, CANCELLED}) \<and>
         ticketCounter c' = ticketCounter c + 1 \<and> socketId c' = socketId c"
    if s: "sendLong_via hs draw c cmd pl f md ms w = Some (x, c', w')" for hs
  proof -
    let ?tid = "fst (generateTicketId draw c)"
    from s obtain res p w1 where
      hs: "hs (controller_peer c) (make_ticket ?tid LONG cmd pl md ms) w = Some (res, p, w1)"
      by (auto simp: sendLong_via_def generateTicketId_def split: bind_splits)
    show ?thesis
    proof (cases "\<exists>r. res = Returned (Inr r) \<and> ticket_status r \<notin> {FAILED, COMPLETED, CANCELLED}")
      case False
      with s hs show ?thesis
        by (auto simp: sendLong_via_def generateTicketId_def Let_def
            split: outcome.splits sum.splits if_splits)
    next
      case True
      let ?c2 = "c\<lparr>ticketCounter := ticketCounter c + 1, controller_peer := p\<rparr>"
      from True obtain r where "res = Returned (Inr r)" "ticket_status r \<notin> {FAILED, COMPLETED, CANCELLED}"
        by blast
      with s hs obtain y where "sendLong_loop hs f ms r ?c2 w1 = Some (y, c', w')"
        and x: "x = (case y of Returned (Inr r') \<Rightarrow> Returned (final_status r') | z \<Rightarrow> z)"
        by (auto simp: sendLong_via_def generateTicketId_def Let_def split: bind_splits)
      from sendLong_loop_counter [OF this(1)] x show ?thesis
        by (auto simp: final_status_def split: outcome.splits sum.splits if_splits)
    qed
  qed
  with assms show ?thesis
    unfolding TicketController_sendLong_def TicketController_sendLongAsync_def by blast
qed

text \<open>A run: the first reply is \<open>RUNNING\<close>, the reply to the poll is \<open>COMPLETED\<close> with a result.\<close>

definition brief_controller :: ticket_controller where
  "brief_controller = \<lparr>controller_peer = brief_peer demo_socket, ticketCounter = 0, socketId = ''7''\<rparr>"

definition long_world :: script_world where
  "long_world = script_start [(No_ec, [0, 0, 0, 2], False), (No_ec, [1, 0], False),
                              (No_ec, [0, 0, 0, 4], False), (No_ec, [2, 1, 111, 107], False)]"

lemma sendLong_loop_turns:
  "ticket_status r \<noteq> RUNNING \<Longrightarrow> sendLong_loop hs f ms r c w = Some (Returned (Inr r), c, w)"
  "ticket_status r = RUNNING \<Longrightarrow> report f r w = (Returned u, w1) \<Longrightarrow>
   poll_via hs c (ticket_id r) ms w1 = Some (Returned (Inr r'), c2, w2) \<Longrightarrow>
   sendLong_loop hs f ms r c w = sendLong_loop hs f ms r' c2 w2"
  by (simp_all add: sendLong_loop.simps)

lemma first_handshake:
  "TicketPeer_handshakeAsync script_asio (brief_peer demo_socket) (make_ticket tid LONG ''copy'' pl md ms) long_world =
     Some (Returned (Inr (default_ticket\<lparr>ticket_status := RUNNING\<rparr>)), brief_peer demo_socket,
           long_world\<lparr>sw_rx := (sw_rx long_world)(0 := [(No_ec, [0, 0, 0, 4], False), (No_ec, [2, 1, 111, 107], False)]),
                      sw_rcvd := (\<lambda>_. [])(0 := [0, 0, 0, 2, 1, 0]),
                      sw_sent := (\<lambda>_. [])(0 := [0, 0, 0, 6, 0, 0, 99, 111, 112, 121])\<rparr>)"
  by (simp add: peer_run_simps frame_run_simps loop_eval demo_simps long_world_def brief_simps
      make_ticket_def)

lemma second_handshake:
  "TicketPeer_handshakeAsync script_asio (brief_peer demo_socket) (control_ticket tid PENDING ''poll'' ms)
     (long_world\<lparr>sw_rx := (sw_rx long_world)(0 := [(No_ec, [0, 0, 0, 4], False), (No_ec, [2, 1, 111, 107], False)]),
                 sw_rcvd := (\<lambda>_. [])(0 := [0, 0, 0, 2, 1, 0]),
                 sw_sent := (\<lambda>_. [])(0 := [0, 0, 0, 6, 0, 0, 99, 111, 112, 121])\<rparr>) =
     Some (Returned (Inr (default_ticket\<lparr>ticket_status := COMPLETED, ticket_result := Some ''ok''\<rparr>)),
           brief_peer demo_socket,
           long_world\<lparr>sw_rx := (sw_rx long_world)(0 := []),
                      sw_rcvd := (\<lambda>_. [])(0 := [0, 0, 0, 2, 1, 0, 0, 0, 0, 4, 2, 1, 111, 107]),
                      sw_sent := (\<lambda>_. [])(0 := [0, 0, 0, 6, 0, 0, 99, 111, 112, 121,
                                              0, 0, 0, 6, 0, 0, 112, 111, 108, 108])\<rparr>)"
  by (simp add: peer_run_simps frame_run_simps loop_eval demo_simps long_world_def brief_simps
      control_ticket_def char_of_def bit_0)

lemma demo_sendLong:
  "TicketController_sendLongAsync script_asio (\<lambda>_. 0) brief_controller ''copy'' ''x'' None '''' 0 long_world =
     Some (Returned (Inr (default_ticket\<lparr>ticket_status := COMPLETED, ticket_result := Some ''ok''\<rparr>)),
           brief_controller\<lparr>ticketCounter := 1\<rparr>,
           long_world\<lparr>sw_rx := (sw_rx long_world)(0 := []),
                      sw_rcvd := (\<lambda>_. [])(0 := [0, 0, 0, 2, 1, 0, 0, 0, 0, 4, 2, 1, 111, 107]),
                      sw_sent := (\<lambda>_. [])(0 := [0, 0, 0, 6, 0, 0, 99, 111, 112, 121,
                                              0, 0, 0, 6, 0, 0, 112, 111, 108, 108])\<rparr>)"
proof -
  let ?hs = "TicketPeer_handshakeAsync script_asio"
  let ?c = "brief_controller\<lparr>ticketCounter := 1\<rparr>"
  let ?r = "default_ticket\<lparr>ticket_status := RUNNING\<rparr>"
  let ?w = "long_world\<lparr>sw_rx := (sw_rx long_world)(0 := [(No_ec, [0, 0, 0, 4], False), (No_ec, [2, 1, 111, 107], False)]),
                 sw_rcvd := (\<lambda>_. [])(0 := [0, 0, 0, 2, 1, 0]),
                 sw_sent := (\<lambda>_. [])(0 := [0, 0, 0, 6, 0, 0, 99, 111, 112, 121])\<rparr>"
  have "poll_via ?hs ?c (ticket_id ?r) 0 ?w =
      Some (Returned (Inr (default_ticket\<lparr>ticket_status := COMPLETED, ticket_result := Some ''ok''\<rparr>)), ?c,
           long_world\<lparr>sw_rx := (sw_rx long_world)(0 := []),
                      sw_rcvd := (\<lambda>_. [])(0 := [0, 0, 0, 2, 1, 0, 0, 0, 0, 4, 2, 1, 111, 107]),
                      sw_sent := (\<lambda>_. [])(0 := [0, 0, 0, 6, 0, 0, 99, 111, 112, 121,
                                              0, 0, 0, 6, 0, 0, 112, 111, 108, 108])\<rparr>)"
    using second_handshake [of "ticket_id ?r" 0] by (simp add: poll_via_def brief_controller_def)
  from sendLong_loop_turns(2) [OF _ _ this, where f = None and w = ?w and u = "()"] first_handshake
  show ?thesis
    by (simp add: TicketController_sendLongAsync_def sendLong_via_def generateTicketId_def
        brief_controller_def sendLong_loop_turns(1) report_def final_status_def)
qed

theorem sendLong_final_witness:
  "ticketCounter (brief_controller\<lparr>ticketCounter := 1\<rparr>) = ticketCounter brief_controller + 1 \<and>
   ticket_status (default_ticket\<lparr>ticket_status := COMPLETED, ticket_result := Some ''ok''\<rparr>) \<in> {COMPLETED, CANCELLED}"
  using sendLong_final [OF disjI2 [OF demo_sendLong]] by blast


text \<open>
  A network on which every read ends with the end of the stream: a reply can only come from the read
  buffer, whose length bounds the number of replies.
\<close>

definition dead_asio :: "script_world asio" where
  "dead_asio = script_asio\<lparr>as_read_some := (\<lambda>fd t n w. (Asio_ec Eof, [], False, w))\<rparr>"

lemma dead_laws: "asio_laws dead_asio (\<lambda>_ _. []) demo_sent"
  using script_laws
  by (auto simp: asio_laws_def dead_asio_def dynamic_buffer_laws_def read_laws_def write_laws_def
      close_laws_def quiet_def)

definition buffered_bytes :: "ticket_peer \<Rightarrow> 'w \<Rightarrow> nat" where
  "buffered_bytes p w = (case peer_socket p of None \<Rightarrow> 0 | Some s \<Rightarrow> length (read_buffer s))"

lemma dead_handshake:
  assumes "TicketPeer_handshakeAsync dead_asio p t w = Some (Returned (Inr r), p', w')"
  shows "buffered_bytes p' w' < buffered_bytes p w"
proof -
  from assms obtain n w1 where
    r: "receiveFrame_via (asyncReadFrame dead_asio) p w1 = Some (Returned (Inr r), p', w')"
    and s: "sendFrame_via (asyncWriteFrame dead_asio) p t w = Some (Returned (Inr n), w1)"
    by (auto simp: peer_defs handshake_via_def split: bind_splits outcome.splits sum.splits)
  then obtain sk S where p: "peer_socket p = Some sk" "peer_serializer p = Some S"
    by (auto simp: receiveFrame_via_def sendFrame_via_def split: option.splits)
  note ch = asio_env.frames_async_contract [OF asio_env.intro [OF dead_laws]]
  from frame_channel.receiveFrame_via_ok [OF ch r p] obtain f b where
    "decode_frame (read_buffer sk) = Some (f, b)" "p' = peer_advanced p sk b" by auto
  with decode_frame_unique [of "read_buffer sk" f b] p show ?thesis
    by (simp add: buffered_bytes_def peer_advanced_def encode_frame_def)
qed


end
