(* ===== verification/TicketWorker.thy ===== *)
theory TicketWorker
  imports TicketPeer
begin

text \<open>
  The worker: \<^verbatim>\<open>src/protocol/TicketWorker.cpp\<close>. Handlers are user code: a handler maps its context
  and the world to an outcome and a new world.
\<close>

type_synonym 'w handler = "ticket_context \<Rightarrow> 'w \<Rightarrow> string expected outcome \<times> 'w"
type_synonym 'w long_handler = "ticket_context \<Rightarrow> 'w \<Rightarrow> ticket_info expected outcome \<times> 'w"

record 'w ticket_worker =
  worker_peer :: ticket_peer
  handlers :: "string \<rightharpoonup> 'w handler"
  longHandlers :: "string \<rightharpoonup> 'w long_handler"

definition new_TicketWorker ::
  "'j json_api \<Rightarrow> dual_socket option \<Rightarrow> ticket_serializer option \<Rightarrow> 'w ticket_worker" where
  "new_TicketWorker J socket serializer =
     \<lparr>worker_peer = new_TicketPeer J socket
        (Some (case serializer of Some s \<Rightarrow> s | None \<Rightarrow> default_serializer J)),
      handlers = Map.empty, longHandlers = Map.empty\<rparr>"

definition registerHandler :: "string \<Rightarrow> 'w handler \<Rightarrow> 'w ticket_worker \<Rightarrow> 'w ticket_worker" where
  "registerHandler cmd h wk = wk\<lparr>handlers := (handlers wk)(cmd \<mapsto> h)\<rparr>"

definition registerLongHandler :: "string \<Rightarrow> 'w long_handler \<Rightarrow> 'w ticket_worker \<Rightarrow> 'w ticket_worker" where
  "registerLongHandler cmd h wk = wk\<lparr>longHandlers := (longHandlers wk)(cmd \<mapsto> h)\<rparr>"

text \<open>
  The defaulted moves and the destructor; \<open>hs\<close> and \<open>ls\<close> are what is left in the moved-from maps, which is
  unspecified, as is the value of a map assigned to itself.
\<close>

definition move_TicketWorker ::
  "(string \<rightharpoonup> 'w handler) \<Rightarrow> (string \<rightharpoonup> 'w long_handler) \<Rightarrow> 'w ticket_worker \<Rightarrow> 'w ticket_worker \<times> 'w ticket_worker" where
  "move_TicketWorker hs ls other =
     (case move_TicketPeer (worker_peer other) of (p, p') \<Rightarrow>
        (\<lparr>worker_peer = p, handlers = handlers other, longHandlers = longHandlers other\<rparr>,
         \<lparr>worker_peer = p', handlers = hs, longHandlers = ls\<rparr>))"

definition move_assign_TicketWorker ::
  "'w asio \<Rightarrow> bool \<Rightarrow> (string \<rightharpoonup> 'w handler) \<Rightarrow> (string \<rightharpoonup> 'w long_handler) \<Rightarrow> 'w ticket_worker \<Rightarrow> 'w ticket_worker \<Rightarrow>
   'w \<Rightarrow> 'w ticket_worker \<times> 'w ticket_worker \<times> 'w" where
  "move_assign_TicketWorker A same hs ls this other w =
     (case move_assign_TicketPeer A same (worker_peer this) (worker_peer other) w of (p, p', w1) \<Rightarrow>
        (\<lparr>worker_peer = p, handlers = (if same then hs else handlers other),
          longHandlers = (if same then ls else longHandlers other)\<rparr>,
         \<lparr>worker_peer = p', handlers = hs, longHandlers = ls\<rparr>, w1))"

definition destroy_TicketWorker :: "'w asio \<Rightarrow> 'w ticket_worker \<Rightarrow> 'w \<Rightarrow> unit outcome \<times> 'w" where
  "destroy_TicketWorker A wk w = destroy_TicketPeer A (worker_peer wk) w"

definition TicketWorker_getPeer :: "'w ticket_worker \<Rightarrow> ticket_peer" where
  "TicketWorker_getPeer wk = worker_peer wk"

section \<open>Responses\<close>

definition sendResponse ::
  "'w asio \<Rightarrow> 'w ticket_worker \<Rightarrow> ticket_info \<Rightarrow> 'w \<Rightarrow> (nat expected outcome \<times> 'w) option" where
  "sendResponse A wk response w = TicketPeer_sendFrame A (worker_peer wk) response w"

definition sendResponseAsync ::
  "'w asio \<Rightarrow> 'w ticket_worker \<Rightarrow> ticket_info \<Rightarrow> 'w \<Rightarrow> (nat expected outcome \<times> 'w) option" where
  "sendResponseAsync A wk response w = TicketPeer_sendFrameAsync A (worker_peer wk) response w"

text \<open>\<open>(void)\<close>: the count or the error code is dropped, an exception is not.\<close>

definition discard :: "('a outcome \<times> 'w) option \<Rightarrow> (unit outcome \<times> 'w) option" where
  "discard x =
     do { (r, w1) \<leftarrow> x;
          Some (case r of Returned _ \<Rightarrow> Returned () | Thrown \<Rightarrow> Thrown | Undefined \<Rightarrow> Undefined, w1) }"

definition error_response ::
  "string \<Rightarrow> string \<Rightarrow> ticket_type \<Rightarrow> string \<Rightarrow> int \<Rightarrow> ticket_info" where
  "error_response ticketId err ty cmd ms =
     default_ticket\<lparr>ticket_id := ticketId, ticket_status := FAILED, ticket_error := Some err,
                    ticket_type := ty, command := cmd, timeout := ms\<rparr>"

definition sendErrorResponse ::
  "'w asio \<Rightarrow> 'w ticket_worker \<Rightarrow> string \<Rightarrow> string \<Rightarrow> ticket_type \<Rightarrow> string \<Rightarrow> int \<Rightarrow> 'w \<Rightarrow>
   (unit outcome \<times> 'w) option" where
  "sendErrorResponse A wk ticketId err ty cmd ms w =
     discard (sendResponse A wk (error_response ticketId err ty cmd ms) w)"

section \<open>Processing a ticket\<close>

definition make_context :: "ticket_info \<Rightarrow> ticket_context" where
  "make_context ticket =
     \<lparr>ctx_ticket_id = ticket_id ticket, ctx_type = ticket_type ticket, ctx_command = command ticket,
      ctx_payload = (case payload ticket of Some p \<Rightarrow> p | None \<Rightarrow> ''''),
      ctx_metadata = metadata ticket, ctx_timeout = timeout ticket\<rparr>"

definition success_response :: "ticket_info \<Rightarrow> string \<Rightarrow> ticket_info" where
  "success_response ticket result =
     default_ticket\<lparr>ticket_id := ticket_id ticket, ticket_status := COMPLETED,
                    ticket_result := Some result, ticket_type := ticket_type ticket,
                    command := command ticket, timeout := timeout ticket\<rparr>"

text \<open>
  The body that \<open>processTicket\<close> and \<open>processTicketAsync\<close> share, over the member that sends the
  successful response. The error responses are sent by the synchronous member in both.
\<close>

definition processTicket_via ::
  "('w ticket_worker \<Rightarrow> ticket_info \<Rightarrow> 'w \<Rightarrow> (nat expected outcome \<times> 'w) option) \<Rightarrow>
   'w asio \<Rightarrow> 'w ticket_worker \<Rightarrow> ticket_info \<Rightarrow> 'w \<Rightarrow> (unit outcome \<times> 'w) option" where
  "processTicket_via send A wk ticket w =
     (case longHandlers wk (command ticket) of
        Some _ \<Rightarrow> sendErrorResponse A wk (ticket_id ticket) ''long handlers not implemented''
                    (ticket_type ticket) (command ticket) (timeout ticket) w
      | None \<Rightarrow>
          (case handlers wk (command ticket) of
             None \<Rightarrow> sendErrorResponse A wk (ticket_id ticket) ''unknown command''
                       (ticket_type ticket) (command ticket) (timeout ticket) w
           | Some h \<Rightarrow>
               (case h (make_context ticket) w of
                  (Thrown, w1) \<Rightarrow> Some (Thrown, w1)
                | (Undefined, w1) \<Rightarrow> Some (Undefined, w1)
                | (Returned (Inl e), w1) \<Rightarrow>
                    sendErrorResponse A wk (ticket_id ticket) (ec_message A e)
                      (ticket_type ticket) (command ticket) (timeout ticket) w1
                | (Returned (Inr result), w1) \<Rightarrow>
                    discard (send wk (success_response ticket result) w1))))"

definition processTicket ::
  "'w asio \<Rightarrow> 'w ticket_worker \<Rightarrow> ticket_info \<Rightarrow> 'w \<Rightarrow> (unit outcome \<times> 'w) option" where
  "processTicket A = processTicket_via (sendResponse A) A"

definition processTicketAsync ::
  "'w asio \<Rightarrow> 'w ticket_worker \<Rightarrow> ticket_info \<Rightarrow> 'w \<Rightarrow> (unit outcome \<times> 'w) option" where
  "processTicketAsync A = processTicket_via (sendResponseAsync A) A"

definition handleNext_via ::
  "(ticket_peer \<Rightarrow> 'w \<Rightarrow> (ticket_info expected outcome \<times> ticket_peer \<times> 'w) option) \<Rightarrow>
   ('w ticket_worker \<Rightarrow> ticket_info \<Rightarrow> 'w \<Rightarrow> (unit outcome \<times> 'w) option) \<Rightarrow>
   'w ticket_worker \<Rightarrow> 'w \<Rightarrow> (unit expected outcome \<times> 'w ticket_worker \<times> 'w) option" where
  "handleNext_via receive process wk w =
     do {
       (ticket, p, w1) \<leftarrow> receive (worker_peer wk) w;
       let wk1 = wk\<lparr>worker_peer := p\<rparr>;
       case ticket of
         Thrown \<Rightarrow> Some (Thrown, wk1, w1)
       | Undefined \<Rightarrow> Some (Undefined, wk1, w1)
       | Returned (Inl e) \<Rightarrow> Some (Returned (Inl e), wk1, w1)
       | Returned (Inr t) \<Rightarrow>
           do {
             (r, w2) \<leftarrow> process wk1 t w1;
             Some (case r of Returned _ \<Rightarrow> Returned (Inr ()) | Thrown \<Rightarrow> Thrown | Undefined \<Rightarrow> Undefined,
                   wk1, w2)
           }
     }"

definition handleNext ::
  "'w asio \<Rightarrow> 'w ticket_worker \<Rightarrow> 'w \<Rightarrow> (unit expected outcome \<times> 'w ticket_worker \<times> 'w) option" where
  "handleNext A = handleNext_via (TicketPeer_receiveFrame A) (processTicket A)"

definition handleNextAsync ::
  "'w asio \<Rightarrow> 'w ticket_worker \<Rightarrow> 'w \<Rightarrow> (unit expected outcome \<times> 'w ticket_worker \<times> 'w) option" where
  "handleNextAsync A = handleNext_via (TicketPeer_receiveFrameAsync A) (processTicketAsync A)"

section \<open>The answer to a ticket\<close>

text \<open>
  The contract of the worker: which response a ticket gets. \<open>spec\<close> describes the handlers: \<open>implements\<close>
  says that a handler registered for a command returns what \<open>spec\<close> says, and moves no bytes on the
  sockets of the environment.
\<close>

definition answer ::
  "'w asio \<Rightarrow> 'w ticket_worker \<Rightarrow> (ticket_context \<Rightarrow> string expected) \<Rightarrow> ticket_info \<Rightarrow> ticket_info" where
  "answer A wk spec t =
     (let failed = (\<lambda>msg. error_response (ticket_id t) msg (ticket_type t) (command t) (timeout t)) in
      if longHandlers wk (command t) \<noteq> None then failed ''long handlers not implemented''
      else if handlers wk (command t) = None then failed ''unknown command''
      else case spec (make_context t) of
             Inl e \<Rightarrow> failed (ec_message A e)
           | Inr y \<Rightarrow> success_response t y)"

definition implements ::
  "(nat \<Rightarrow> 'w \<Rightarrow> byte list) \<Rightarrow> (nat \<Rightarrow> 'w \<Rightarrow> byte list) \<Rightarrow> 'w ticket_worker \<Rightarrow>
   (ticket_context \<Rightarrow> string expected) \<Rightarrow> bool" where
  "implements rcvd sent wk spec \<longleftrightarrow>
     (\<forall>cmd h. handlers wk cmd = Some h \<longrightarrow>
        (\<forall>ctx w. \<exists>w'. h ctx w = (Returned (spec ctx), w') \<and>
                     (\<forall>g. rcvd g w' = rcvd g w \<and> sent g w' = sent g w)))"

lemmas worker_defs = processTicket_def processTicketAsync_def sendResponse_def sendResponseAsync_def
  handleNext_def handleNextAsync_def

lemma discard_Some: "discard x = Some (r, w') \<Longrightarrow> \<exists>y. x = Some (y, w')"
  by (auto simp: discard_def split: bind_splits)

context asio_env
begin

text \<open>Sending a response appends a prefix of its frame: all of it unless the write failed.\<close>

definition sends_prefix :: "'w ticket_worker \<Rightarrow> ticket_info \<Rightarrow> 'w \<Rightarrow> 'w \<Rightarrow> bool" where
  "sends_prefix wk t w w' \<longleftrightarrow> (\<forall>g. rcvd g w' = rcvd g w) \<and>
     (\<forall>s S bs. peer_socket (worker_peer wk) = Some s \<longrightarrow> peer_serializer (worker_peer wk) = Some S \<longrightarrow>
        ser_serialize S t = Returned bs \<longrightarrow>
        (\<exists>n. sent (sock_fd s) w' = sent (sock_fd s) w @ take n (encode_frame bs)))"

lemma sendResponse_prefix: "sendResponse A wk t w = Some (r, w') \<Longrightarrow> sends_prefix wk t w w'"
  unfolding sends_prefix_def
  using frames_sync.sendFrame_via_prefix frames_sync.sendFrame_via_frame
  by (metis TicketPeer_sendFrame_def sendResponse_def)

lemma sendResponseAsync_prefix: "sendResponseAsync A wk t w = Some (r, w') \<Longrightarrow> sends_prefix wk t w w'"
  unfolding sends_prefix_def
  using frames_async.sendFrame_via_prefix frames_async.sendFrame_via_frame
  by (metis TicketPeer_sendFrameAsync_def sendResponseAsync_def)

lemma sendErrorResponse_prefix:
  "sendErrorResponse A wk tid err ty cmd ms w = Some (r, w') \<Longrightarrow>
   sends_prefix wk (error_response tid err ty cmd ms) w w'"
  unfolding sendErrorResponse_def by (blast dest: discard_Some intro: sendResponse_prefix)

lemma processTicket_via_answer:
  assumes p: "processTicket_via send A wk t w = Some (r, w')"
    and send: "\<And>t w r w'. send wk t w = Some (r, w') \<Longrightarrow> sends_prefix wk t w w'"
    and spec: "implements rcvd sent wk spec"
  shows "sends_prefix wk (answer A wk spec t) w w'"
proof (cases "longHandlers wk (command t) = None \<and> handlers wk (command t) \<noteq> None")
  case False
  with p sendErrorResponse_prefix show ?thesis
    by (auto simp: processTicket_via_def answer_def split: option.splits)
next
  case True
  then obtain h where h: "handlers wk (command t) = Some h" and l: "longHandlers wk (command t) = None" by blast
  from spec h obtain w1 where w1: "h (make_context t) w = (Returned (spec (make_context t)), w1)"
    "\<And>g. rcvd g w1 = rcvd g w" "\<And>g. sent g w1 = sent g w" unfolding implements_def by blast
  have "sends_prefix wk (answer A wk spec t) w1 w'"
  proof (cases "spec (make_context t)")
    case (Inl e)
    with p h l w1(1) sendErrorResponse_prefix show ?thesis
      by (auto simp: processTicket_via_def answer_def)
  next
    case (Inr y)
    with p h l w1(1) have "discard (send wk (success_response t y) w1) = Some (r, w')"
      by (simp add: processTicket_via_def)
    then have "sends_prefix wk (success_response t y) w1 w'" by (blast dest: discard_Some intro: send)
    then show ?thesis using Inr h l by (simp add: answer_def)
  qed
  with w1 show ?thesis by (simp add: sends_prefix_def)
qed

lemma processTicket_answer:
  assumes "processTicket A wk t w = Some (r, w') \<or> processTicketAsync A wk t w = Some (r, w')"
    and "implements rcvd sent wk spec"
  shows "sends_prefix wk (answer A wk spec t) w w'"
  using assms processTicket_via_answer sendResponse_prefix sendResponseAsync_prefix
  unfolding processTicket_def processTicketAsync_def by metis

end

section \<open>Serving\<close>

lemma answer_peer [simp]: "answer A (wk\<lparr>worker_peer := p\<rparr>) spec t = answer A wk spec t"
  by (simp add: answer_def)

lemma implements_peer [simp]: "implements rcvd sent (wk\<lparr>worker_peer := p\<rparr>) spec = implements rcvd sent wk spec"
  by (simp add: implements_def)

context asio_env
begin

lemma handleNext_via_serves:
  assumes h: "handleNext_via receive process wk w = Some (Returned (Inr ()), wk', w')"
    and rec: "\<And>t p' w'. receive (worker_peer wk) w = Some (Returned (Inr t), p', w') \<Longrightarrow>
      (\<exists>f d b. rcvd (sock_fd s) w' = rcvd (sock_fd s) w @ d \<and>
         decode_frame (read_buffer s @ d) = Some (f, b) \<and> ser_deserialize S f = Returned (Inr t) \<and>
         p' = peer_advanced (worker_peer wk) s b) \<and> (\<forall>g. sent g w' = sent g w)"
    and proc: "\<And>wk t w r w'. process wk t w = Some (r, w') \<Longrightarrow> implements rcvd sent wk spec \<Longrightarrow>
      sends_prefix wk (answer A wk spec t) w w'"
    and p: "peer_serializer (worker_peer wk) = Some S"
    and spec: "implements rcvd sent wk spec"
  shows "\<exists>t f d b. rcvd (sock_fd s) w' = rcvd (sock_fd s) w @ d \<and>
           decode_frame (read_buffer s @ d) = Some (f, b) \<and> ser_deserialize S f = Returned (Inr t) \<and>
           wk' = wk\<lparr>worker_peer := peer_advanced (worker_peer wk) s b\<rparr> \<and>
           (\<forall>bs. ser_serialize S (answer A wk spec t) = Returned bs \<longrightarrow>
              (\<exists>n. sent (sock_fd s) w' = sent (sock_fd s) w @ take n (encode_frame bs)))"
proof -
  from h obtain t p1 w1 r where
    re: "receive (worker_peer wk) w = Some (Returned (Inr t), p1, w1)"
    and pr: "process (wk\<lparr>worker_peer := p1\<rparr>) t w1 = Some (r, w')" and wk': "wk' = wk\<lparr>worker_peer := p1\<rparr>"
    by (auto simp: handleNext_via_def Let_def split: bind_splits outcome.splits sum.splits)
  from rec [OF re] obtain f d b where r: "rcvd (sock_fd s) w1 = rcvd (sock_fd s) w @ d"
    "decode_frame (read_buffer s @ d) = Some (f, b)" "ser_deserialize S f = Returned (Inr t)"
    "p1 = peer_advanced (worker_peer wk) s b" "\<And>g. sent g w1 = sent g w" by blast
  from proc [OF pr] spec have "sends_prefix (wk\<lparr>worker_peer := p1\<rparr>) (answer A wk spec t) w1 w'" by simp
  with r p have "rcvd (sock_fd s) w' = rcvd (sock_fd s) w @ d"
    "\<forall>bs. ser_serialize S (answer A wk spec t) = Returned bs \<longrightarrow>
       (\<exists>n. sent (sock_fd s) w' = sent (sock_fd s) w @ take n (encode_frame bs))"
    by (auto simp: sends_prefix_def peer_advanced_def)
  with r wk' show ?thesis by blast
qed

lemma handleNext_serves:
  assumes h: "handleNext A wk w = Some (Returned (Inr ()), wk', w') \<or>
              handleNextAsync A wk w = Some (Returned (Inr ()), wk', w')"
    and p: "peer_socket (worker_peer wk) = Some s" "peer_serializer (worker_peer wk) = Some S"
    and spec: "implements rcvd sent wk spec"
  shows "\<exists>t f d b. rcvd (sock_fd s) w' = rcvd (sock_fd s) w @ d \<and>
           decode_frame (read_buffer s @ d) = Some (f, b) \<and> ser_deserialize S f = Returned (Inr t) \<and>
           wk' = wk\<lparr>worker_peer := peer_advanced (worker_peer wk) s b\<rparr> \<and>
           (\<forall>bs. ser_serialize S (answer A wk spec t) = Returned bs \<longrightarrow>
              (\<exists>n. sent (sock_fd s) w' = sent (sock_fd s) w @ take n (encode_frame bs)))"
  using h
proof
  assume "handleNext A wk w = Some (Returned (Inr ()), wk', w')"
  then show ?thesis unfolding handleNext_def TicketPeer_receiveFrame_def
  proof (rule handleNext_via_serves [OF _ _ _ p(2) spec])
    fix t p' w'
    assume "receiveFrame_via (readFrame A) (worker_peer wk) w = Some (Returned (Inr t), p', w')"
    with frames_sync.receiveFrame_via_ok [OF this p] frames_sync.receiveFrame_via_frame(1) [OF this]
    show "(\<exists>f d b. rcvd (sock_fd s) w' = rcvd (sock_fd s) w @ d \<and>
         decode_frame (read_buffer s @ d) = Some (f, b) \<and> ser_deserialize S f = Returned (Inr t) \<and>
         p' = peer_advanced (worker_peer wk) s b) \<and> (\<forall>g. sent g w' = sent g w)" by blast
  qed (blast intro: processTicket_answer)
next
  assume "handleNextAsync A wk w = Some (Returned (Inr ()), wk', w')"
  then show ?thesis unfolding handleNextAsync_def TicketPeer_receiveFrameAsync_def
  proof (rule handleNext_via_serves [OF _ _ _ p(2) spec])
    fix t p' w'
    assume "receiveFrame_via (asyncReadFrame A) (worker_peer wk) w = Some (Returned (Inr t), p', w')"
    with frames_async.receiveFrame_via_ok [OF this p] frames_async.receiveFrame_via_frame(1) [OF this]
    show "(\<exists>f d b. rcvd (sock_fd s) w' = rcvd (sock_fd s) w @ d \<and>
         decode_frame (read_buffer s @ d) = Some (f, b) \<and> ser_deserialize S f = Returned (Inr t) \<and>
         p' = peer_advanced (worker_peer wk) s b) \<and> (\<forall>g. sent g w' = sent g w)" by blast
  qed (blast intro: processTicket_answer)
qed

end

section \<open>Properties\<close>


definition echo_worker :: "script_world ticket_worker" where
  "echo_worker = registerHandler ''echo'' (\<lambda>ctx w. (Returned (Inr (ctx_command ctx)), w))
     (new_TicketWorker demo_library (Some demo_socket) (Some brief_serializer))"

definition echo_world :: script_world where
  "echo_world = script_start [(No_ec, [0, 0, 0, 6], False), (No_ec, [0, 0, 101, 99, 104, 111], False)]"

definition echoed_world :: script_world where
  "echoed_world = echo_world\<lparr>sw_rx := (sw_rx echo_world)(0 := []),
     sw_rcvd := (\<lambda>_. [])(0 := [0, 0, 0, 6, 0, 0, 101, 99, 104, 111]),
     sw_sent := (\<lambda>_. [])(0 := [0, 0, 0, 6, 2, 1, 101, 99, 104, 111])\<rparr>"

lemmas echo_simps = echo_worker_def new_TicketWorker_def registerHandler_def

lemma echo_received:
  "TicketPeer_receiveFrame script_asio (worker_peer echo_worker) echo_world =
     Some (Returned (Inr (default_ticket\<lparr>command := ''echo''\<rparr>)), worker_peer echo_worker,
           echo_world\<lparr>sw_rx := (sw_rx echo_world)(0 := []),
                      sw_rcvd := (\<lambda>_. [])(0 := [0, 0, 0, 6, 0, 0, 101, 99, 104, 111])\<rparr>)"
  by (simp add: peer_run_simps frame_run_simps loop_eval demo_simps echo_world_def echo_simps
      brief_simps char_of_def bit_0)

lemma echo_answered:
  "sendResponse script_asio echo_worker (success_response (default_ticket\<lparr>command := ''echo''\<rparr>) ''echo'')
     (echo_world\<lparr>sw_rx := (sw_rx echo_world)(0 := []),
                 sw_rcvd := (\<lambda>_. [])(0 := [0, 0, 0, 6, 0, 0, 101, 99, 104, 111])\<rparr>) =
   Some (Returned (Inr 10), echoed_world)"
  by (simp add: sendResponse_def peer_run_simps frame_run_simps demo_simps echo_world_def echo_simps
      brief_simps success_response_def echoed_world_def)

lemma echo_served: "handleNext script_asio echo_worker echo_world = Some (Returned (Inr ()), echo_worker, echoed_world)"
proof -
  have "worker_peer_update (\<lambda>_. worker_peer echo_worker) echo_worker = echo_worker" by simp
  then show ?thesis using echo_received echo_answered
    by (simp add: handleNext_def handleNext_via_def processTicket_def processTicket_via_def Let_def discard_def)
      (simp add: echo_simps make_context_def default_ticket_def discard_def)
qed

lemma echo_implements: "implements demo_rcvd demo_sent echo_worker (\<lambda>ctx. Inr (ctx_command ctx))"
  by (simp add: implements_def echo_simps)

lemma echo_peer:
  "peer_socket (worker_peer echo_worker) = Some demo_socket"
  "peer_serializer (worker_peer echo_worker) = Some brief_serializer"
  by (simp_all add: echo_simps new_TicketPeer_def)


text \<open>
  The asynchronous worker sends its error responses with the blocking member: when the thread
  that runs the coroutine is the one that would have to run the write (so that waiting for the
  future blocks), a ticket with an unknown command, or one for which a long handler is registered,
  makes \<open>processTicketAsync\<close> hang, although serving a known command in the same situation returns.
\<close>

theorem async_error_response_blocks:
  assumes "\<And>w. \<exists>w1. as_spawn A w = (Spawn_blocks, w1)"
    and "peer_socket (worker_peer wk) = Some s" and "peer_serializer (worker_peer wk) = Some S"
    and "\<And>t. \<exists>b bs. ser_serialize S t = Returned (b # bs)"
  shows "(longHandlers wk (command t) \<noteq> None \<or> handlers wk (command t) = None \<longrightarrow>
            processTicketAsync A wk t w = None) \<and>
         (longHandlers wk (command t) = None \<and> handlers wk (command t) = Some h \<and>
            h (make_context t) w = (Returned (Inr y), w2) \<longrightarrow>
            (\<exists>r w'. processTicketAsync A wk t w = Some (r, w')))"
proof -
  have blocked: "writeFrame A s f ms w = None" for f ms w
    using assms(1) [of w]
    by (auto simp: frame_defs writeFrame_via_def member_defs spawn_and_get_def split: socket_kind.split)
  have err: "sendErrorResponse A wk tid err ty cmd ms w = None" for tid err ty cmd ms w
    using assms(2,3) assms(4) [of "error_response tid err ty cmd ms"] blocked
    by (auto simp: sendErrorResponse_def discard_def sendResponse_def peer_defs sendFrame_via_def)
  obtain b bs where ser: "ser_serialize S (success_response t y) = Returned (b # bs)" using assms(4) by blast
  obtain r w' where aw: "asyncWriteFrame A s (b # bs) default_frame_timeout w2 = Some (r, w')"
    using asyncWriteFrame_returns by (metis prod.exhaust)
  show ?thesis using err assms(2,3) ser aw
    by (auto simp: processTicketAsync_def processTicket_via_def discard_def sendResponseAsync_def
        peer_defs sendFrame_via_def split: option.split)
qed

definition blocking_asio :: "script_world asio" where
  "blocking_asio = script_asio\<lparr>as_spawn := (\<lambda>w. (Spawn_blocks, w))\<rparr>"

theorem async_error_response_blocks_witness:
  "processTicketAsync blocking_asio echo_worker (default_ticket\<lparr>command := ''nope''\<rparr>) demo_world = None"
proof -
  have "\<exists>b bs. ser_serialize brief_serializer t = Returned (b # bs)" for t
    by (simp add: brief_serializer_def brief_serialize_def split: option.split)
  from async_error_response_blocks [OF _ echo_peer this, of blocking_asio "default_ticket\<lparr>command := ''nope''\<rparr>"]
  show ?thesis by (simp add: blocking_asio_def echo_simps)
qed

end
