(* ===== verification/Ticket_Rpc.thy ===== *)
theory Ticket_Rpc
  imports TicketController TicketWorker
begin

text \<open>
  A controller and a worker at the two ends of a connection. Each end has its own environment; the
  connection is described by what the two histories have in common: what one end sent during the
  call is what the other end had in its buffer and received.
\<close>

section \<open>Request and reply\<close>

definition request_of :: "(nat \<Rightarrow> nat) \<Rightarrow> ticket_controller \<Rightarrow> string \<Rightarrow> string \<Rightarrow> string \<Rightarrow> int \<Rightarrow> ticket_info" where
  "request_of draw c cmd pl md ms = make_ticket (fst (generateTicketId draw c)) SHORT cmd pl md ms"

text \<open>What \<open>send\<close> makes of a response.\<close>

definition send_result :: "ticket_info \<Rightarrow> string expected" where
  "send_result r =
     (if ticket_status r = FAILED then Inl (Generic_ec Io_error)
      else case ticket_result r of None \<Rightarrow> Inl (Generic_ec Protocol_error) | Some x \<Rightarrow> Inr x)"

lemma send_via_handshake:
  assumes "hs (controller_peer c) (request_of draw c cmd pl md ms) w = Some (Returned (Inr r), p, w')"
  shows "send_via hs draw c cmd pl md ms w =
    Some (Returned (send_result r), c\<lparr>ticketCounter := ticketCounter c + 1, controller_peer := p\<rparr>, w')"
  using assms
  by (simp add: send_via_def generateTicketId_def request_of_def send_result_def split: option.split)

text \<open>The reply that reaches the controller is the worker's answer to the request.\<close>

lemma reply_is_answer:
  assumes A: "asio_laws A rcvd sent" and B: "asio_laws B rcvd' sent'"
    and S: "serializer_contract S sendable wire" "sendable req" "sendable (answer B wk spec (wire req))"
    and hs: "TicketPeer_handshake A p req w = Some (Returned (Inr r), p', w') \<or>
             TicketPeer_handshakeAsync A p req w = Some (Returned (Inr r), p', w')"
    and p: "peer_socket p = Some s" "peer_serializer p = Some S"
    and hn: "handleNext B wk v = Some (Returned (Inr ()), wk', v') \<or>
             handleNextAsync B wk v = Some (Returned (Inr ()), wk', v')"
    and q: "peer_socket (worker_peer wk) = Some k" "peer_serializer (worker_peer wk) = Some S"
    and spec: "implements rcvd' sent' wk spec"
    and out: "rcvd' (sock_fd k) v' = rcvd' (sock_fd k) v @ dk"
      "sent (sock_fd s) w' = sent (sock_fd s) w @ read_buffer k @ dk"
    and home: "rcvd (sock_fd s) w' = rcvd (sock_fd s) w @ ds"
      "sent' (sock_fd k) v' = sent' (sock_fd k) v @ read_buffer s @ ds"
  shows "r = wire (answer B wk spec (wire req))"
proof -
  have envA: "asio_env A rcvd sent" and envB: "asio_env B rcvd' sent'" using A B by (simp_all add: asio_env.intro)
  from asio_env.handshake_ok [OF envA hs p] home(1) obtain bs f b where bs:
    "ser_serialize S req = Returned bs" "sent (sock_fd s) w' = sent (sock_fd s) w @ encode_frame bs"
    "decode_frame (read_buffer s @ ds) = Some (f, b)" "ser_deserialize S f = Returned (Inr r)"
    by auto
  from serializer_contract.round_trip [OF S(1,2)] bs(1) have
    req: "length bs < 2 ^ 32" "ser_deserialize S bs = Returned (Inr (wire req))" by auto
  from serializer_contract.round_trip [OF S(1,3)] obtain rs where
    rs: "ser_serialize S (answer B wk spec (wire req)) = Returned rs" "length rs < 2 ^ 32"
      "ser_deserialize S rs = Returned (Inr (wire (answer B wk spec (wire req))))" by blast
  have stream: "read_buffer k @ dk = encode_frame bs" using out(2) bs(2) by simp
  from asio_env.handleNext_serves [OF envB hn q spec] out(1) stream obtain t g c n where
    "decode_frame (encode_frame bs) = Some (g, c)" "ser_deserialize S g = Returned (Inr t)"
    "\<forall>bs. ser_serialize S (answer B wk spec t) = Returned bs \<longrightarrow>
       (\<exists>n. sent' (sock_fd k) v' = sent' (sock_fd k) v @ take n (encode_frame bs))"
    by auto
  with decode_encode_frame [OF req(1), of "[]"] req(2) rs(1) home(2)
  obtain n where "read_buffer s @ ds = take n (encode_frame rs)" by auto
  with bs(3) have "f = rs" using decode_frame_take [OF _ rs(2)] by auto
  with bs(4) rs(3) show ?thesis by simp
qed

text \<open>The result of a call, as a specification.\<close>

definition call_result ::
  "'w ticket_worker \<Rightarrow> (ticket_context \<Rightarrow> string expected) \<Rightarrow> ticket_info \<Rightarrow> string expected" where
  "call_result wk spec t =
     (if longHandlers wk (command t) \<noteq> None \<or> handlers wk (command t) = None then Inl (Generic_ec Io_error)
      else case spec (make_context t) of
             Inl _ \<Rightarrow> Inl (Generic_ec Io_error)
           | Inr y \<Rightarrow> Inr y)"

lemma send_result_answer:
  assumes "ticket_status r = ticket_status (answer B wk spec t)" "ticket_result r = ticket_result (answer B wk spec t)"
  shows "send_result r = call_result wk spec t"
  using assms
  by (auto simp: send_result_def call_result_def answer_def error_response_def success_response_def
      default_ticket_def Let_def split: sum.split)

section \<open>Properties\<close>

text \<open>
  C1: a remote call is the handler's result. A controller has sent a request over a connection to a
  worker that served one ticket, each end received what the other sent, and the controller got a
  reply. Then \<open>send\<close> returns what the worker's handler for that command returned for this request;
  if the handler reported an error, no handler was registered, or a long handler was, it returns
  \<^verbatim>\<open>io_error\<close>. Both ends may be synchronous or asynchronous, over TCP or TLS.
\<close>

theorem remote_call_returns_handler_result:
  assumes req: "req = request_of draw c cmd pl md ms"
    and laws: "asio_laws A rcvd sent" "asio_laws B rcvd' sent'"
    and S: "serializer_contract S sendable wire" "sendable req" "sendable (answer B wk spec (wire req))"
    and wire: "\<And>t. ticket_status (wire t) = ticket_status t \<and> ticket_result (wire t) = ticket_result t"
    and p: "peer_socket (controller_peer c) = Some s" "peer_serializer (controller_peer c) = Some S"
    and hn: "handleNext B wk v = Some (Returned (Inr ()), wk', v') \<or>
         handleNextAsync B wk v = Some (Returned (Inr ()), wk', v')"
    and q: "peer_socket (worker_peer wk) = Some k" "peer_serializer (worker_peer wk) = Some S"
    and spec: "implements rcvd' sent' wk spec"
    and out: "rcvd' (sock_fd k) v' = rcvd' (sock_fd k) v @ dk"
      "sent (sock_fd s) w' = sent (sock_fd s) w @ read_buffer k @ dk"
    and home: "rcvd (sock_fd s) w' = rcvd (sock_fd s) w @ ds"
      "sent' (sock_fd k) v' = sent' (sock_fd k) v @ read_buffer s @ ds"
  shows "(TicketPeer_handshake A (controller_peer c) req w = Some (Returned (Inr r), p', w') \<longrightarrow>
          (\<exists>c'. TicketController_send A draw c cmd pl md ms w =
                  Some (Returned (call_result wk spec (wire req)), c', w'))) \<and>
         (TicketPeer_handshakeAsync A (controller_peer c) req w = Some (Returned (Inr r), p', w') \<longrightarrow>
          (\<exists>c'. TicketController_sendAsync A draw c cmd pl md ms w =
                  Some (Returned (call_result wk spec (wire req)), c', w')))"
proof -
  note reply = reply_is_answer [OF laws S _ p hn q spec out home]
  have result: "send_result r = call_result wk spec (wire req)" if "r = wire (answer B wk spec (wire req))"
    by (rule send_result_answer) (simp_all add: that wire)
  show ?thesis unfolding TicketController_send_def TicketController_sendAsync_def
    using send_via_handshake [where c = c and draw = draw and cmd = cmd and pl = pl and md = md and ms = ms,
        folded req] reply result
    by metis
qed

definition call_world :: script_world where
  "call_world = script_start [(No_ec, [0, 0, 0, 6], False), (No_ec, [2, 1, 101, 99, 104, 111], False)]"

definition called_world :: script_world where
  "called_world = call_world\<lparr>sw_rx := (sw_rx call_world)(0 := []),
     sw_rcvd := (\<lambda>_. [])(0 := [0, 0, 0, 6, 2, 1, 101, 99, 104, 111]),
     sw_sent := (\<lambda>_. [])(0 := [0, 0, 0, 6, 0, 0, 101, 99, 104, 111])\<rparr>"

lemma echo_handshake:
  "TicketPeer_handshake script_asio (controller_peer brief_controller)
     (request_of (\<lambda>_. 0) brief_controller ''echo'' ''x'' '''' 0) call_world =
   Some (Returned (Inr (default_ticket\<lparr>ticket_status := COMPLETED, ticket_result := Some ''echo''\<rparr>)),
         controller_peer brief_controller, called_world)"
  by (simp add: peer_run_simps frame_run_simps loop_eval demo_simps call_world_def called_world_def
      brief_simps request_of_def make_ticket_def brief_controller_def char_of_def bit_0)

lemma echo_request_wire:
  "brief_wire (request_of (\<lambda>_. 0) brief_controller ''echo'' ''x'' '''' 0) = default_ticket\<lparr>command := ''echo''\<rparr>"
  by (simp add: brief_wire_def request_of_def make_ticket_def default_ticket_def)

theorem remote_call_returns_handler_result_witness:
  "\<exists>c'. TicketController_send script_asio (\<lambda>_. 0) brief_controller ''echo'' ''x'' '''' 0 call_world =
          Some (Returned (Inr ''echo''), c', called_world)"
proof -
  let ?req = "request_of (\<lambda>_. 0) brief_controller ''echo'' ''x'' '''' 0"
  let ?spec = "\<lambda>ctx. Inr (ctx_command ctx)"
  have contract: "serializer_contract brief_serializer brief_sendable brief_wire"
    by (rule brief.serializer_contract_axioms)
  have send: "brief_sendable ?req" "brief_sendable (answer script_asio echo_worker ?spec (brief_wire ?req))"
    by (simp_all add: brief_sendable_def request_of_def make_ticket_def default_ticket_def brief_wire_def
        answer_def echo_simps success_response_def make_context_def)
  have wire: "ticket_status (brief_wire t) = ticket_status t \<and> ticket_result (brief_wire t) = ticket_result t" for t
    by (simp add: brief_wire_def)
  have peer: "peer_socket (controller_peer brief_controller) = Some demo_socket"
    "peer_serializer (controller_peer brief_controller) = Some brief_serializer"
    by (simp_all add: brief_controller_def brief_peer_def new_TicketPeer_def)
  have "call_result echo_worker ?spec (brief_wire ?req) = Inr ''echo''"
    by (simp add: call_result_def echo_request_wire echo_simps make_context_def)
  moreover have "(TicketPeer_handshake script_asio (controller_peer brief_controller) ?req call_world =
        Some (Returned (Inr (default_ticket\<lparr>ticket_status := COMPLETED, ticket_result := Some ''echo''\<rparr>)),
              controller_peer brief_controller, called_world) \<longrightarrow>
      (\<exists>c'. TicketController_send script_asio (\<lambda>_. 0) brief_controller ''echo'' ''x'' '''' 0 call_world =
         Some (Returned (call_result echo_worker ?spec (brief_wire ?req)), c', called_world)))"
    by (rule conjunct1 [OF remote_call_returns_handler_result [OF refl script_laws script_laws contract send
          wire peer disjI1 [OF echo_served] echo_peer echo_implements]])
      (simp_all add: demo_socket_def echoed_world_def echo_world_def called_world_def call_world_def script_start_def)
  ultimately show ?thesis using echo_handshake by simp
qed

end
