(* ===== verification/Ticket_Session.thy ===== *)
theory Ticket_Session
  imports Ticket_Rpc
begin

text \<open>
  Whole conversations of a controller and a worker. Of the network it is only assumed that each end
  has received a prefix of what the other has sent, whenever a call and the serving of it are over;
  that the two ends stay in step, with nothing in flight and nothing left in a buffer, is derived.
\<close>

section \<open>Conversations\<close>

text \<open>A call of either kind that got a reply, and the serving of one ticket by either member.\<close>

definition called ::
  "'w asio \<Rightarrow> (nat \<Rightarrow> nat) \<Rightarrow> ticket_controller \<Rightarrow> string \<Rightarrow> string \<Rightarrow> string \<Rightarrow> int \<Rightarrow> 'w \<Rightarrow>
   string expected \<Rightarrow> ticket_controller \<Rightarrow> 'w \<Rightarrow> bool" where
  "called A draw c cmd pl md ms w res c' w' \<longleftrightarrow>
     TicketController_send A draw c cmd pl md ms w = Some (Returned res, c', w') \<and>
       (\<exists>r p. TicketPeer_handshake A (controller_peer c) (request_of draw c cmd pl md ms) w = Some (Returned (Inr r), p, w')) \<or>
     TicketController_sendAsync A draw c cmd pl md ms w = Some (Returned res, c', w') \<and>
       (\<exists>r p. TicketPeer_handshakeAsync A (controller_peer c) (request_of draw c cmd pl md ms) w = Some (Returned (Inr r), p, w'))"

definition served_one :: "'v asio \<Rightarrow> 'v ticket_worker \<Rightarrow> 'v \<Rightarrow> 'v ticket_worker \<Rightarrow> 'v \<Rightarrow> bool" where
  "served_one B wk v wk' v' \<longleftrightarrow>
     handleNext B wk v = Some (Returned (Inr ()), wk', v') \<or> handleNextAsync B wk v = Some (Returned (Inr ()), wk', v')"

text \<open>The connection between the native sockets \<open>i\<close> and \<open>j\<close>: bytes arrive in order or not at all.\<close>

definition delivers ::
  "(nat \<Rightarrow> 'w \<Rightarrow> byte list) \<Rightarrow> (nat \<Rightarrow> 'w \<Rightarrow> byte list) \<Rightarrow> (nat \<Rightarrow> 'v \<Rightarrow> byte list) \<Rightarrow> (nat \<Rightarrow> 'v \<Rightarrow> byte list) \<Rightarrow>
   nat \<Rightarrow> nat \<Rightarrow> 'w \<Rightarrow> 'v \<Rightarrow> bool" where
  "delivers rcvd sent rcvd' sent' i j w v \<longleftrightarrow> prefix (rcvd' j v) (sent i w) \<and> prefix (rcvd i w) (sent' j v)"

text \<open>Requests and results of a conversation, call by call.\<close>

inductive conversation ::
  "'w asio \<Rightarrow> 'v asio \<Rightarrow> (nat \<Rightarrow> 'w \<Rightarrow> byte list) \<Rightarrow> (nat \<Rightarrow> 'w \<Rightarrow> byte list) \<Rightarrow> (nat \<Rightarrow> 'v \<Rightarrow> byte list) \<Rightarrow>
   (nat \<Rightarrow> 'v \<Rightarrow> byte list) \<Rightarrow> nat \<Rightarrow> nat \<Rightarrow> ticket_controller \<Rightarrow> 'w \<Rightarrow> 'v ticket_worker \<Rightarrow> 'v \<Rightarrow>
   (ticket_info \<times> string expected) list \<Rightarrow> ticket_controller \<Rightarrow> 'w \<Rightarrow> 'v ticket_worker \<Rightarrow> 'v \<Rightarrow> bool"
  for A :: "'w asio" and B :: "'v asio" and rcvd sent rcvd' sent' and i j :: nat where
  quiet_line: "conversation A B rcvd sent rcvd' sent' i j c w wk v [] c w wk v"
| next_call: "called A draw c cmd pl md ms w res c1 w1 \<Longrightarrow> served_one B wk v wk1 v1 \<Longrightarrow>
    delivers rcvd sent rcvd' sent' i j w1 v1 \<Longrightarrow>
    conversation A B rcvd sent rcvd' sent' i j c1 w1 wk1 v1 tr c2 w2 wk2 v2 \<Longrightarrow>
    conversation A B rcvd sent rcvd' sent' i j c w wk v ((request_of draw c cmd pl md ms, res) # tr) c2 w2 wk2 v2"

text \<open>Nothing in flight, nothing buffered: everything one end sent the other has received and taken.\<close>

definition in_step ::
  "(nat \<Rightarrow> 'w \<Rightarrow> byte list) \<Rightarrow> (nat \<Rightarrow> 'w \<Rightarrow> byte list) \<Rightarrow> (nat \<Rightarrow> 'v \<Rightarrow> byte list) \<Rightarrow> (nat \<Rightarrow> 'v \<Rightarrow> byte list) \<Rightarrow>
   ticket_serializer \<Rightarrow> nat \<Rightarrow> nat \<Rightarrow> ticket_controller \<Rightarrow> 'w \<Rightarrow> 'v ticket_worker \<Rightarrow> 'v \<Rightarrow> bool" where
  "in_step rcvd sent rcvd' sent' S i j c w wk v \<longleftrightarrow>
     (\<exists>s k. peer_socket (controller_peer c) = Some s \<and> sock_fd s = i \<and> read_buffer s = [] \<and>
        peer_socket (worker_peer wk) = Some k \<and> sock_fd k = j \<and> read_buffer k = []) \<and>
     peer_serializer (controller_peer c) = Some S \<and> peer_serializer (worker_peer wk) = Some S \<and>
     rcvd' j v = sent i w \<and> rcvd i w = sent' j v"

section \<open>Staying in step\<close>

text \<open>A frame read off a prefix of one frame is that frame, and the prefix is all of it.\<close>

lemma decode_frame_prefix:
  assumes "decode_frame d = Some (f, b)" "prefix d (take n (encode_frame bs))" "length bs < 2 ^ 32"
  shows "f = bs \<and> b = [] \<and> d = encode_frame bs \<and> take n (encode_frame bs) = encode_frame bs"
proof -
  from assms(2) obtain m where m: "d = take m (encode_frame bs)" "m \<le> n \<or> length (encode_frame bs) \<le> n"
    by (metis (no_types, lifting) append_eq_conv_conj min.cobounded2 nat_le_linear prefixE take_take take_all)
  from decode_frame_take [OF assms(1) [unfolded m(1)] assms(3)] have f: "f = bs" "b = []" by simp_all
  from decode_frame_unique [OF assms(1)] f have d: "d = encode_frame bs" by simp
  with assms(2) have "prefix (encode_frame bs) (take n (encode_frame bs))" by simp
  then have "take n (encode_frame bs) = encode_frame bs"
    by (metis prefix_order.antisym_conv take_is_prefix)
  with f d show ?thesis by simp
qed

lemma called_reply:
  assumes "called A draw c cmd pl md ms w res c1 w1"
  obtains r p where "TicketPeer_handshake A (controller_peer c) (request_of draw c cmd pl md ms) w = Some (Returned (Inr r), p, w1) \<or>
      TicketPeer_handshakeAsync A (controller_peer c) (request_of draw c cmd pl md ms) w = Some (Returned (Inr r), p, w1)"
    "res = send_result r" "c1 = c\<lparr>ticketCounter := ticketCounter c + 1, controller_peer := p\<rparr>"
proof -
  note sent = send_via_handshake [of "TicketPeer_handshake A" c draw cmd pl md ms w]
    send_via_handshake [of "TicketPeer_handshakeAsync A" c draw cmd pl md ms w]
  from assms consider
    (sync) r p where "TicketPeer_handshake A (controller_peer c) (request_of draw c cmd pl md ms) w = Some (Returned (Inr r), p, w1)"
      "send_via (TicketPeer_handshake A) draw c cmd pl md ms w = Some (Returned res, c1, w1)"
  | (async) r p where "TicketPeer_handshakeAsync A (controller_peer c) (request_of draw c cmd pl md ms) w = Some (Returned (Inr r), p, w1)"
      "send_via (TicketPeer_handshakeAsync A) draw c cmd pl md ms w = Some (Returned res, c1, w1)"
    unfolding called_def TicketController_send_def TicketController_sendAsync_def by blast
  then show thesis
  proof cases
    case (sync r p)
    with sent(1) [of r p w1] that [of r p] show thesis by simp
  next
    case (async r p)
    with sent(2) [of r p w1] that [of r p] show thesis by simp
  qed
qed

text \<open>
  One call: the worker's answer reaches the caller, both ends are in step again, the controller has
  used one value of its counter and the worker keeps its handlers.
\<close>

lemma call_in_step:
  assumes A: "asio_laws A rcvd sent" and B: "asio_laws B rcvd' sent'"
    and contract: "serializer_contract S sendable wire"
    and wire: "\<And>t. ticket_status (wire t) = ticket_status t \<and> ticket_result (wire t) = ticket_result t"
    and st: "in_step rcvd sent rcvd' sent' S i j c w wk v" and spec: "implements rcvd' sent' wk spec"
    and call: "called A draw c cmd pl md ms w res c1 w1" and serve: "served_one B wk v wk1 v1"
    and link: "delivers rcvd sent rcvd' sent' i j w1 v1"
    and send: "sendable (request_of draw c cmd pl md ms)"
      "sendable (answer B wk spec (wire (request_of draw c cmd pl md ms)))"
  shows "res = call_result wk spec (wire (request_of draw c cmd pl md ms)) \<and>
    in_step rcvd sent rcvd' sent' S i j c1 w1 wk1 v1 \<and>
    ticketCounter c1 = ticketCounter c + 1 \<and> socketId c1 = socketId c \<and>
    handlers wk1 = handlers wk \<and> longHandlers wk1 = longHandlers wk"
proof -
  let ?req = "request_of draw c cmd pl md ms"
  from st obtain s k where s: "peer_socket (controller_peer c) = Some s" "sock_fd s = i" "read_buffer s = []"
    and k: "peer_socket (worker_peer wk) = Some k" "sock_fd k = j" "read_buffer k = []"
    and S: "peer_serializer (controller_peer c) = Some S" "peer_serializer (worker_peer wk) = Some S"
    and hist: "rcvd' j v = sent i w" "rcvd i w = sent' j v"
    by (auto simp: in_step_def)
  from call obtain r p where hs: "TicketPeer_handshake A (controller_peer c) ?req w = Some (Returned (Inr r), p, w1) \<or>
      TicketPeer_handshakeAsync A (controller_peer c) ?req w = Some (Returned (Inr r), p, w1)"
    and res: "res = send_result r" "c1 = c\<lparr>ticketCounter := ticketCounter c + 1, controller_peer := p\<rparr>"
    by (rule called_reply)
  from asio_env.handshake_ok [OF asio_env.intro [OF A] hs s(1) S(1)] s obtain bs f d b where
    bs: "ser_serialize S ?req = Returned bs" "sent i w1 = sent i w @ encode_frame bs" "rcvd i w1 = rcvd i w @ d"
      "decode_frame d = Some (f, b)" "ser_deserialize S f = Returned (Inr r)" "p = peer_advanced (controller_peer c) s b"
    by auto
  from asio_env.handleNext_serves [OF asio_env.intro [OF B] serve [unfolded served_one_def] k(1) S(2) spec] k obtain t g e q where
    sv: "rcvd' j v1 = rcvd' j v @ e" "decode_frame e = Some (g, q)" "ser_deserialize S g = Returned (Inr t)"
      "wk1 = wk\<lparr>worker_peer := peer_advanced (worker_peer wk) k q\<rparr>"
      "\<And>bs. ser_serialize S (answer B wk spec t) = Returned bs \<Longrightarrow>
        \<exists>n. sent' j v1 = sent' j v @ take n (encode_frame bs)"
    by auto
  from serializer_contract.round_trip [OF contract send(1)] bs(1)
  have req: "length bs < 2 ^ 32" "ser_deserialize S bs = Returned (Inr (wire ?req))" by auto
  from serializer_contract.round_trip [OF contract send(2)] obtain rs where rs:
    "ser_serialize S (answer B wk spec (wire ?req)) = Returned rs" "length rs < 2 ^ 32"
    "ser_deserialize S rs = Returned (Inr (wire (answer B wk spec (wire ?req))))" by blast
  have "prefix e (encode_frame bs)" using link hist(1) sv(1) bs(2) by (simp add: delivers_def)
  then have g: "g = bs" "q = []" "e = encode_frame bs"
    using decode_frame_prefix [OF sv(2) _ req(1), of "length (encode_frame bs)"] by simp_all
  then have t: "t = wire ?req" using sv(3) req(2) by simp
  with sv(5) rs(1) obtain n where n: "sent' j v1 = sent' j v @ take n (encode_frame rs)" by blast
  have "prefix d (take n (encode_frame rs))" using link hist(2) bs(3) n by (simp add: delivers_def)
  from decode_frame_prefix [OF bs(4) this rs(2)]
  have f: "f = rs" "b = []" "d = encode_frame rs" "take n (encode_frame rs) = encode_frame rs" by simp_all
  have "r = wire (answer B wk spec (wire ?req))" using bs(5) f(1) rs(3) by simp
  then have "send_result r = call_result wk spec (wire ?req)" by (intro send_result_answer) (simp_all add: wire)
  then show ?thesis using res sv(4) bs s k S g f n hist sv(1)
    by (simp add: in_step_def peer_advanced_def)
qed

lemma call_result_handlers:
  "handlers wk1 = handlers wk \<Longrightarrow> longHandlers wk1 = longHandlers wk \<Longrightarrow>
   call_result wk1 spec t = call_result wk spec t \<and> answer B wk1 spec t = answer B wk spec t \<and>
   implements rcvd sent wk1 spec = implements rcvd sent wk spec"
  by (simp add: call_result_def answer_def implements_def)

text \<open>The identifiers of a conversation carry the values of the counter, one after the other.\<close>

lemma conversation_invariant:
  assumes "conversation A B rcvd sent rcvd' sent' i j c w wk v tr c2 w2 wk2 v2"
    and laws: "asio_laws A rcvd sent" "asio_laws B rcvd' sent'"
    and contract: "serializer_contract S sendable wire"
    and wire: "\<And>t. ticket_status (wire t) = ticket_status t \<and> ticket_result (wire t) = ticket_result t"
    and "in_step rcvd sent rcvd' sent' S i j c w wk v" "implements rcvd' sent' wk spec"
    and "\<forall>(req, res) \<in> set tr. sendable req \<and> sendable (answer B wk spec (wire req))"
  shows "in_step rcvd sent rcvd' sent' S i j c2 w2 wk2 v2 \<and>
    (\<forall>(req, res) \<in> set tr. res = call_result wk spec (wire req)) \<and>
    (\<forall>n < length tr. \<exists>draw d. ticket_id (fst (tr ! n)) = fst (generateTicketId draw d) \<and>
       ticketCounter d = ticketCounter c + of_nat n \<and> socketId d = socketId c)"
  using assms(1,6-)
proof (induction rule: conversation.induct)
  case (quiet_line c w wk v)
  then show ?case by simp
next
  case (next_call draw c cmd pl md ms w res c1 w1 wk v wk1 v1 tr c2 w2 wk2 v2)
  let ?req = "request_of draw c cmd pl md ms"
  have send: "sendable ?req" "sendable (answer B wk spec (wire ?req))" using next_call.prems(3) by simp_all
  note one = call_in_step [OF laws contract wire next_call.prems(1,2) next_call.hyps(1-3) send]
  note same = call_result_handlers [of wk1 wk]
  have IH: "in_step rcvd sent rcvd' sent' S i j c2 w2 wk2 v2"
    "\<forall>(req, res) \<in> set tr. res = call_result wk1 spec (wire req)"
    "\<forall>n < length tr. \<exists>draw d. ticket_id (fst (tr ! n)) = fst (generateTicketId draw d) \<and>
       ticketCounter d = ticketCounter c1 + of_nat n \<and> socketId d = socketId c1"
    using next_call.IH one next_call.prems(2,3) same by auto
  have "\<exists>draw d. ticket_id (fst (((?req, res) # tr) ! n)) = fst (generateTicketId draw d) \<and>
       ticketCounter d = ticketCounter c + of_nat n \<and> socketId d = socketId c" if "n < Suc (length tr)" for n
  proof (cases n)
    case 0
    have "ticket_id ?req = fst (generateTicketId draw c)" by (simp add: request_of_def make_ticket_def)
    with 0 show ?thesis by auto
  next
    case (Suc m)
    then show ?thesis using IH(3) that one by (auto simp: algebra_simps)
  qed
  with IH(1,2) one same show ?case by auto
qed

lemma conversation_ids_distinct:
  assumes "socketId c = to_string m" "length tr \<le> 2 ^ 64"
    and ids: "\<forall>n < length tr. \<exists>draw d. ticket_id (fst (tr ! n)) = fst (generateTicketId draw d) \<and>
       ticketCounter d = ticketCounter c + of_nat n \<and> socketId d = socketId c"
  shows "distinct (map (ticket_id \<circ> fst) tr)"
  unfolding distinct_conv_nth
proof (intro allI impI)
  fix a b assume ab: "a < length (map (ticket_id \<circ> fst) tr)" "b < length (map (ticket_id \<circ> fst) tr)" "a \<noteq> b"
  obtain da ca db cb where
    a: "ticket_id (fst (tr ! a)) = fst (generateTicketId da ca)" "ticketCounter ca = ticketCounter c + of_nat a" "socketId ca = to_string m"
    and b: "ticket_id (fst (tr ! b)) = fst (generateTicketId db cb)" "ticketCounter cb = ticketCounter c + of_nat b" "socketId cb = to_string m"
    using ids ab(1,2) assms(1) by (metis length_map)
  have lt: "a < 2 ^ 64" "b < 2 ^ 64" using ab(1,2) assms(2) by simp_all
  show "map (ticket_id \<circ> fst) tr ! a \<noteq> map (ticket_id \<circ> fst) tr ! b"
  proof
    assume "map (ticket_id \<circ> fst) tr ! a = map (ticket_id \<circ> fst) tr ! b"
    then have "fst (generateTicketId da ca) = fst (generateTicketId db cb)" using a(1) b(1) ab by simp
    from ticket_id_parts [OF a(3) b(3) this] have "(of_nat a :: uint64) = of_nat b" using a(2) b(2) by simp
    then have "a = b" using lt by (simp add: word_of_nat_eq_iff take_bit_nat_eq_self)
    with ab(3) show False by simp
  qed
qed

section \<open>Properties\<close>

text \<open>
  C12: a conversation is the handlers applied call by call. A controller makes any number of calls,
  synchronous or asynchronous, each of which gets a reply, while a worker at the other end of a
  connection that delivers bytes in order serves as many tickets. Then every call returns what the
  worker's handler returns for that very request (\<^verbatim>\<open>io_error\<close> if there is none or it fails), no reply is
  ever taken for that of another call, all tickets have different identifiers, and after the last call
  nothing is in flight and no byte is left in a buffer.
\<close>

theorem conversation_refines_handlers:
  assumes "conversation A B rcvd sent rcvd' sent' i j c w wk v tr c' w' wk' v'"
    and "asio_laws A rcvd sent" and "asio_laws B rcvd' sent'"
    and "serializer_contract S sendable wire"
    and "\<And>t. ticket_status (wire t) = ticket_status t \<and> ticket_result (wire t) = ticket_result t"
    and "in_step rcvd sent rcvd' sent' S i j c w wk v" and "implements rcvd' sent' wk spec"
    and "\<forall>(req, res) \<in> set tr. sendable req \<and> sendable (answer B wk spec (wire req))"
    and "socketId c = to_string m" and "length tr \<le> 2 ^ 64"
  shows "map snd tr = map (call_result wk spec \<circ> wire \<circ> fst) tr \<and> distinct (map (ticket_id \<circ> fst) tr) \<and>
    in_step rcvd sent rcvd' sent' S i j c' w' wk' v'"
proof -
  note inv = conversation_invariant [OF assms(1-8)]
  have "distinct (map (ticket_id \<circ> fst) tr)" using conversation_ids_distinct [OF assms(9,10)] inv by blast
  moreover have "map snd tr = map (call_result wk spec \<circ> wire \<circ> fst) tr" using inv by auto
  ultimately show ?thesis using inv by blast
qed

text \<open>
  C29: moving a controller or a worker transfers its connection. The new object is the old one, with its
  counter and socket identifier, or its handlers, so it continues the conversation; destroying the
  moved-from object changes nothing and destroying the new one closes exactly the socket the original
  held. A moved-from controller must not send (it follows a null pointer, after using up a ticket
  number), while a moved-from worker reports \<^verbatim>\<open>invalid_argument\<close> without touching the network.
\<close>

theorem move_hands_over_conversation:
  assumes "asio_laws A rcvd sent" and "peer_wf (controller_peer c)" and "peer_wf (worker_peer wk)"
    and "move_TicketController left c = (c1, c0)" and "move_TicketWorker hs ls wk = (wk1, wk0)"
  shows "c1 = c \<and> wk1 = wk \<and>
    destroy_TicketController A c0 w = (Returned (), w) \<and> destroy_TicketWorker A wk0 w = (Returned (), w) \<and>
    (\<forall>g. as_is_open A g (snd (destroy_TicketController A c1 w)) =
       (as_is_open A g w \<and> (\<forall>s. peer_socket (controller_peer c) = Some s \<longrightarrow> g \<noteq> sock_fd s))) \<and>
    (\<forall>g. as_is_open A g (snd (destroy_TicketWorker A wk1 w)) =
       (as_is_open A g w \<and> (\<forall>s. peer_socket (worker_peer wk) = Some s \<longrightarrow> g \<noteq> sock_fd s))) \<and>
    TicketController_send A draw c0 cmd pl md ms w = Some (Undefined, c0\<lparr>ticketCounter := ticketCounter c0 + 1\<rparr>, w) \<and>
    handleNext A wk0 w = Some (Returned (Inl (Generic_ec Invalid_argument)), wk0, w)"
proof -
  have moved: "c1 = c" "controller_peer c0 = moved_from (controller_peer c)"
    "wk1 = wk" "worker_peer wk0 = moved_from (worker_peer wk)"
    using assms(4,5) by (auto simp: move_TicketController_def move_TicketWorker_def move_TicketPeer_def)
  note env = asio_env.intro [OF assms(1)]
  have "TicketController_send A draw c0 cmd pl md ms w = Some (Undefined, c0\<lparr>ticketCounter := ticketCounter c0 + 1\<rparr>, w)"
    using moved(2) moved_from_peer_operations [of A "controller_peer c" w]
    by (simp add: TicketController_send_def send_via_def generateTicketId_def)
  moreover have "handleNext A wk0 w = Some (Returned (Inl (Generic_ec Invalid_argument)), wk0, w)"
    using moved(4) moved_from_peer_operations [of A "worker_peer wk" w]
    by (simp add: handleNext_def handleNext_via_def)
  ultimately show ?thesis
    using asio_env.destroy_TicketPeer_open [OF env assms(2)] asio_env.destroy_TicketPeer_open [OF env assms(3)]
      assms(2,3) moved by (simp add: destroy_TicketController_def destroy_TicketWorker_def)
qed

text \<open>The echo worker and its caller, in any world whose script has the other end's next frame.\<close>

definition one_more :: "byte list \<Rightarrow> byte list \<Rightarrow> script_world \<Rightarrow> script_world" where
  "one_more got gave w =
     w\<lparr>sw_rx := (sw_rx w)(0 := drop 2 (sw_rx w 0)), sw_rcvd := (sw_rcvd w)(0 := sw_rcvd w 0 @ got),
       sw_sent := (sw_sent w)(0 := sw_sent w 0 @ gave)\<rparr>"

definition echo_request :: "byte list" where "echo_request = [0, 0, 0, 6, 0, 0, 101, 99, 104, 111]"
definition echo_reply :: "byte list" where "echo_reply = [0, 0, 0, 6, 2, 1, 101, 99, 104, 111]"

lemma echo_handshake_again:
  assumes "take 2 (sw_rx w 0) = [(No_ec, [0, 0, 0, 6], False), (No_ec, [2, 1, 101, 99, 104, 111], False)]"
    and "sw_tx w 0 = []" "sw_spawn w = []" "sw_open w 0" "controller_peer c = controller_peer brief_controller"
  shows "TicketPeer_handshake script_asio (controller_peer c) (request_of (\<lambda>_. 0) c ''echo'' ''x'' '''' 0) w =
    Some (Returned (Inr (default_ticket\<lparr>ticket_status := COMPLETED, ticket_result := Some ''echo''\<rparr>)),
          controller_peer c, one_more echo_reply echo_request w)"
proof -
  obtain rest where rx: "sw_rx w 0 = (No_ec, [0, 0, 0, 6], False) # (No_ec, [2, 1, 101, 99, 104, 111], False) # rest"
    using assms(1) by (cases "sw_rx w 0"; cases "tl (sw_rx w 0)") auto
  show ?thesis using assms(2-) rx
    by (simp add: peer_run_simps frame_run_simps loop_eval demo_simps one_more_def echo_reply_def echo_request_def
        brief_simps request_of_def make_ticket_def brief_controller_def char_of_def bit_0)
qed

lemma echo_served_again:
  assumes "take 2 (sw_rx w 0) = [(No_ec, [0, 0, 0, 6], False), (No_ec, [0, 0, 101, 99, 104, 111], False)]"
    and "sw_tx w 0 = []" "sw_spawn w = []" "sw_open w 0"
  shows "handleNext script_asio echo_worker w = Some (Returned (Inr ()), echo_worker, one_more echo_request echo_reply w)"
proof -
  obtain rest where rx: "sw_rx w 0 = (No_ec, [0, 0, 0, 6], False) # (No_ec, [0, 0, 101, 99, 104, 111], False) # rest"
    using assms(1) by (cases "sw_rx w 0"; cases "tl (sw_rx w 0)") auto
  let ?t = "default_ticket\<lparr>command := ''echo''\<rparr>"
  have "TicketPeer_receiveFrame script_asio (worker_peer echo_worker) w =
      Some (Returned (Inr ?t), worker_peer echo_worker, one_more echo_request [] w)"
    using assms(2-) rx
    by (simp add: peer_run_simps frame_run_simps loop_eval demo_simps one_more_def echo_request_def echo_simps
        brief_simps char_of_def bit_0)
  moreover have "sendResponse script_asio echo_worker (success_response ?t ''echo'') (one_more echo_request [] w) =
      Some (Returned (Inr 10), one_more echo_request echo_reply w)"
    using assms(2-) rx
    by (simp add: sendResponse_def peer_run_simps frame_run_simps demo_simps one_more_def echo_request_def
        echo_reply_def echo_simps brief_simps success_response_def)
  moreover have "worker_peer_update (\<lambda>_. worker_peer echo_worker) echo_worker = echo_worker" by simp
  ultimately show ?thesis
    by (simp add: handleNext_def handleNext_via_def processTicket_def processTicket_via_def Let_def discard_def)
      (simp add: echo_simps make_context_def default_ticket_def discard_def)
qed

definition two_calls :: "byte list \<Rightarrow> script_world" where
  "two_calls body = script_start [(No_ec, [0, 0, 0, 6], False), (No_ec, body, False),
     (No_ec, [0, 0, 0, 6], False), (No_ec, body, False)]"

lemma echo_called:
  assumes "take 2 (sw_rx w 0) = [(No_ec, [0, 0, 0, 6], False), (No_ec, [2, 1, 101, 99, 104, 111], False)]"
    and "sw_tx w 0 = []" "sw_spawn w = []" "sw_open w 0" "controller_peer c = controller_peer brief_controller"
  shows "called script_asio (\<lambda>_. 0) c ''echo'' ''x'' '''' 0 w (Inr ''echo'') (c\<lparr>ticketCounter := ticketCounter c + 1\<rparr>)
    (one_more echo_reply echo_request w)"
proof -
  note hs = echo_handshake_again [OF assms]
  have "c\<lparr>ticketCounter := ticketCounter c + 1, controller_peer := controller_peer c\<rparr> = c\<lparr>ticketCounter := ticketCounter c + 1\<rparr>"
    by simp
  with send_via_handshake [where hs = "TicketPeer_handshake script_asio", OF hs] hs show ?thesis
    unfolding called_def TicketController_send_def by (simp add: send_result_def default_ticket_def)
qed

lemma two_echoes:
  "conversation script_asio script_asio demo_rcvd demo_sent demo_rcvd demo_sent 0 0
     brief_controller (two_calls [2, 1, 101, 99, 104, 111]) echo_worker (two_calls [0, 0, 101, 99, 104, 111])
     [(request_of (\<lambda>_. 0) brief_controller ''echo'' ''x'' '''' 0, Inr ''echo''),
      (request_of (\<lambda>_. 0) (brief_controller\<lparr>ticketCounter := 1\<rparr>) ''echo'' ''x'' '''' 0, Inr ''echo'')]
     (brief_controller\<lparr>ticketCounter := 2\<rparr>)
     (one_more echo_reply echo_request (one_more echo_reply echo_request (two_calls [2, 1, 101, 99, 104, 111])))
     echo_worker
     (one_more echo_request echo_reply (one_more echo_request echo_reply (two_calls [0, 0, 101, 99, 104, 111])))"
proof -
  let ?w = "two_calls [2, 1, 101, 99, 104, 111]" and ?v = "two_calls [0, 0, 101, 99, 104, 111]"
  let ?w1 = "one_more echo_reply echo_request ?w" and ?v1 = "one_more echo_request echo_reply ?v"
  let ?c1 = "brief_controller\<lparr>ticketCounter := 1\<rparr>"
  have c: "brief_controller\<lparr>ticketCounter := ticketCounter brief_controller + 1\<rparr> = ?c1"
    "?c1\<lparr>ticketCounter := ticketCounter ?c1 + 1\<rparr> = brief_controller\<lparr>ticketCounter := 2\<rparr>"
    by (simp_all add: brief_controller_def)
  have call: "called script_asio (\<lambda>_. 0) brief_controller ''echo'' ''x'' '''' 0 ?w (Inr ''echo'') ?c1 ?w1"
    "called script_asio (\<lambda>_. 0) ?c1 ''echo'' ''x'' '''' 0 ?w1 (Inr ''echo'') (brief_controller\<lparr>ticketCounter := 2\<rparr>)
       (one_more echo_reply echo_request ?w1)"
    using echo_called [of ?w brief_controller] echo_called [of ?w1 ?c1] unfolding c
    by (simp_all add: two_calls_def script_start_def one_more_def)
  have serve: "served_one script_asio echo_worker ?v echo_worker ?v1"
    "served_one script_asio echo_worker ?v1 echo_worker (one_more echo_request echo_reply ?v1)"
    using echo_served_again [of ?v] echo_served_again [of ?v1] unfolding served_one_def
    by (simp_all add: two_calls_def script_start_def one_more_def)
  have link: "delivers demo_rcvd demo_sent demo_rcvd demo_sent 0 0 ?w1 ?v1"
    "delivers demo_rcvd demo_sent demo_rcvd demo_sent 0 0 (one_more echo_reply echo_request ?w1)
       (one_more echo_request echo_reply ?v1)"
    by (simp_all add: delivers_def one_more_def two_calls_def script_start_def)
  show ?thesis
    by (rule next_call [OF call(1) serve(1) link(1)], rule next_call [OF call(2) serve(2) link(2)], rule quiet_line)
qed

theorem conversation_refines_handlers_witness:
  "ticket_id (request_of (\<lambda>_. 0) brief_controller ''echo'' ''x'' '''' 0) \<noteq>
     ticket_id (request_of (\<lambda>_. 0) (brief_controller\<lparr>ticketCounter := 1\<rparr>) ''echo'' ''x'' '''' 0) \<and>
   call_result echo_worker (\<lambda>ctx. Inr (ctx_command ctx))
     (brief_wire (request_of (\<lambda>_. 0) brief_controller ''echo'' ''x'' '''' 0)) = Inr ''echo''"
proof -
  let ?spec = "\<lambda>ctx. Inr (ctx_command ctx)"
  have ok: "brief_sendable (request_of draw c ''echo'' ''x'' '''' 0)"
    "brief_sendable (answer script_asio echo_worker ?spec (brief_wire (request_of draw c ''echo'' ''x'' '''' 0)))" for draw c
    by (simp_all add: brief_sendable_def request_of_def make_ticket_def default_ticket_def brief_wire_def
        answer_def echo_simps success_response_def make_context_def)
  have wire: "ticket_status (brief_wire t) = ticket_status t \<and> ticket_result (brief_wire t) = ticket_result t" for t
    by (simp add: brief_wire_def)
  have step: "in_step demo_rcvd demo_sent demo_rcvd demo_sent brief_serializer 0 0 brief_controller
      (two_calls [2, 1, 101, 99, 104, 111]) echo_worker (two_calls [0, 0, 101, 99, 104, 111])"
    by (simp add: in_step_def brief_controller_def brief_peer_def new_TicketPeer_def echo_simps demo_socket_def
        two_calls_def script_start_def)
  have seven: "socketId brief_controller = to_string 7" by (simp add: brief_controller_def) code_simp
  from conversation_refines_handlers [OF two_echoes script_laws script_laws brief.serializer_contract_axioms wire step
      echo_implements _ seven] ok
  show ?thesis by simp
qed

theorem move_hands_over_conversation_witness:
  "\<not> as_is_open script_asio 0 (snd (destroy_TicketController script_asio (fst (move_TicketController '''' brief_controller)) demo_world)) \<and>
   fst (move_TicketWorker Map.empty Map.empty echo_worker) = echo_worker"
proof -
  let ?c = "move_TicketController '''' brief_controller" and ?k = "move_TicketWorker Map.empty Map.empty echo_worker"
  have wf: "peer_wf (controller_peer brief_controller)" "peer_wf (worker_peer echo_worker)"
    by (simp_all add: brief_controller_def brief_peer_def echo_simps peer_wf_new)
  have s: "peer_socket (controller_peer brief_controller) = Some demo_socket" "sock_fd demo_socket = 0"
    by (simp_all add: brief_controller_def brief_simps demo_socket_def)
  note all = move_hands_over_conversation [OF script_laws wf, of "''''" "fst ?c" "snd ?c" Map.empty Map.empty "fst ?k" "snd ?k" demo_world "\<lambda>_. 0" "''''" "''''" "''''" 0]
  have "\<not> as_is_open script_asio 0 (snd (destroy_TicketController script_asio (fst ?c) demo_world))" using all s by auto
  moreover have "fst ?k = echo_worker" using all by auto
  ultimately show ?thesis by simp
qed

end
