(* ===== verification/Filesystem_Path.thy ===== *)
theory Filesystem_Path
  imports Prelude
begin

text \<open>
  The lexical part of \<^verbatim>\<open>std::filesystem::path\<close> on a POSIX target, as far as the sources use it. A path is
  its generic pathname string; there are no root names, and one or more leading slashes are the root
  directory. Nothing here looks at a file system.
\<close>

type_synonym path = string

definition slash :: char where
  "slash = CHR ''/''"

fun split_on :: "'a \<Rightarrow> 'a list \<Rightarrow> 'a list list" where
  "split_on c [] = [[]]"
| "split_on c (x # xs) =
     (if x = c then [] # split_on c xs
      else case split_on c xs of p # ps \<Rightarrow> (x # p) # ps | [] \<Rightarrow> [[x]])"

definition is_absolute :: "path \<Rightarrow> bool" where
  "is_absolute p \<longleftrightarrow> (case p of [] \<Rightarrow> False | x # _ \<Rightarrow> x = slash)"

text \<open>The non-empty filenames, in order.\<close>

definition path_names :: "path \<Rightarrow> string list" where
  "path_names p = filter (\<lambda>s. s \<noteq> []) (split_on slash p)"

definition ends_with_slash :: "path \<Rightarrow> bool" where
  "ends_with_slash p \<longleftrightarrow> p \<noteq> [] \<and> last p = slash"

text \<open>
  Iterating over a path: the root directory, the filenames, and an empty element for a slash behind
  the last filename.
\<close>

definition path_elements :: "path \<Rightarrow> path list" where
  "path_elements p =
     (if is_absolute p then [[slash]] else []) @ path_names p @
     (if ends_with_slash p \<and> path_names p \<noteq> [] then [[]] else [])"

definition relative_path :: "path \<Rightarrow> path" where
  "relative_path p = dropWhile (\<lambda>c. c = slash) p"

definition filename :: "path \<Rightarrow> path" where
  "filename p = rev (takeWhile (\<lambda>c. c \<noteq> slash) (rev p))"

definition parent_path :: "path \<Rightarrow> path" where
  "parent_path p =
     (if relative_path p = [] then p
      else
        let dir = rev (dropWhile (\<lambda>c. c = slash) (dropWhile (\<lambda>c. c \<noteq> slash) (rev p)))
        in if dir = [] then takeWhile (\<lambda>c. c = slash) p else dir)"

section \<open>\<open>lexically_normal\<close>\<close>

text \<open>
  The filenames are processed from the left onto a stack (its top first). Besides the stack the
  result tells whether the last filename was removed, so that the separator before it ends the path.
\<close>

definition normal_step :: "bool \<Rightarrow> string list \<times> bool \<Rightarrow> string \<Rightarrow> string list \<times> bool" where
  "normal_step rooted st name =
     (let stack = fst st in
      if name = ''.'' then (stack, True)
      else if name = ''..'' then
        (case stack of
           [] \<Rightarrow> if rooted then ([], True) else ([''..''], False)
         | prev # rest \<Rightarrow> if prev = ''..'' then (''..'' # stack, False) else (rest, True))
      else (name # stack, False))"

definition normal_names :: "path \<Rightarrow> string list \<times> bool" where
  "normal_names p =
     (case foldl (normal_step (is_absolute p)) ([], False) (path_names p) of
        (stack, removed) \<Rightarrow>
          (rev stack,
           (removed \<or> ends_with_slash p) \<and> stack \<noteq> [] \<and> hd stack \<noteq> ''..''))"

definition lexically_normal :: "path \<Rightarrow> path" where
  "lexically_normal p =
     (if p = [] then []
      else case normal_names p of
        (names, trailing) \<Rightarrow>
          (let q = (if is_absolute p then [slash] else []) @ join_with slash names @
                   (if trailing then [slash] else [])
           in if q = [] then ''.'' else q))"

section \<open>Lemmas\<close>

lemma split_on_not_Nil [simp]: "split_on c xs \<noteq> []"
  by (induction xs) (auto split: list.split)

lemma split_on_no_sep: "p \<in> set (split_on c xs) \<Longrightarrow> c \<notin> set p"
proof (induction xs arbitrary: p)
  case (Cons x xs)
  obtain q qs where "split_on c xs = q # qs" by (metis neq_Nil_conv split_on_not_Nil)
  with Cons show ?case by (auto split: if_splits)
qed simp

lemma split_on_absent: "c \<notin> set xs \<Longrightarrow> split_on c xs = [xs]"
  by (induction xs) auto

lemma split_on_append: "c \<notin> set xs \<Longrightarrow> split_on c (xs @ c # ys) = xs # split_on c ys"
  by (induction xs) auto

lemma split_on_join:
  assumes "ps \<noteq> []" "\<forall>p \<in> set ps. c \<notin> set p"
  shows "split_on c (join_with c ps) = ps"
  using assms by (induction c ps rule: join_with.induct) (auto simp: split_on_absent split_on_append)

lemma slash_not_in_name: "n \<in> set (path_names p) \<Longrightarrow> slash \<notin> set n \<and> n \<noteq> []"
  using split_on_no_sep [of n slash p] by (auto simp: path_names_def)

text \<open>Names that a normal path can consist of.\<close>

definition plain_name :: "string \<Rightarrow> bool" where
  "plain_name n \<longleftrightarrow> n \<noteq> [] \<and> slash \<notin> set n \<and> n \<noteq> ''.'' \<and> n \<noteq> ''..''"

definition absolute_path :: "string list \<Rightarrow> path" where
  "absolute_path ns = slash # join_with slash ns"

lemma path_names_join:
  assumes "\<forall>n \<in> set ns. plain_name n"
  shows "path_names (join_with slash ns) = ns"
proof (cases "ns = []")
  case True
  then show ?thesis by (simp add: path_names_def)
next
  case False
  with assms have "split_on slash (join_with slash ns) = ns"
    by (intro split_on_join) (auto simp: plain_name_def)
  with assms show ?thesis by (auto simp: path_names_def plain_name_def filter_id_conv)
qed

lemma path_names_absolute: "path_names (slash # p) = path_names p"
  by (simp add: path_names_def)

lemma is_absolute_Cons [simp]: "is_absolute (slash # p)"
  by (simp add: is_absolute_def)

lemma is_absolute_Nil [simp]: "\<not> is_absolute []"
  by (simp add: is_absolute_def)

lemma last_join_with: "ns \<noteq> [] \<Longrightarrow> last ns \<noteq> [] \<Longrightarrow> join_with c ns \<noteq> [] \<and> last (join_with c ns) = last (last ns)"
  by (induction c ns rule: join_with.induct) auto

lemma not_ends_with_slash_join:
  assumes "\<forall>n \<in> set ns. plain_name n"
  shows "\<not> ends_with_slash (join_with slash ns)"
proof (cases "ns = []")
  case True
  then show ?thesis by (simp add: ends_with_slash_def)
next
  case False
  with assms have "plain_name (last ns)" by simp
  then have "last ns \<noteq> []" "slash \<notin> set (last ns)" by (auto simp: plain_name_def)
  with last_join_with [OF False, of slash] show ?thesis
    by (metis ends_with_slash_def last_in_set)
qed

lemma hd_join_with: "ns \<noteq> [] \<Longrightarrow> hd ns \<noteq> [] \<Longrightarrow> join_with c ns \<noteq> [] \<and> hd (join_with c ns) = hd (hd ns)"
  by (induction c ns rule: join_with.induct) auto

lemma join_with_first:
  assumes "\<forall>n \<in> set ns. plain_name n" "ns \<noteq> []"
  shows "\<exists>x xs. join_with slash ns = x # xs \<and> x \<noteq> slash"
proof -
  from assms have "plain_name (hd ns)" by simp
  then obtain y ys where h: "hd ns = y # ys" "y \<noteq> slash"
    by (cases "hd ns") (auto simp: plain_name_def)
  with hd_join_with [OF assms(2), of slash] show ?thesis by (cases "join_with slash ns") auto
qed

lemma relative_path_absolute:
  assumes "\<forall>n \<in> set ns. plain_name n"
  shows "relative_path (absolute_path ns) = join_with slash ns"
  using join_with_first [OF assms]
  by (cases "ns = []") (auto simp: relative_path_def absolute_path_def)

lemma not_absolute_join:
  assumes "\<forall>n \<in> set ns. plain_name n"
  shows "\<not> is_absolute (join_with slash ns)"
  using join_with_first [OF assms] by (cases "ns = []") (auto simp: is_absolute_def)

lemma foldl_plain:
  assumes "\<forall>n \<in> set ns. plain_name n"
  shows "foldl (normal_step b) (st, r) ns = (rev ns @ st, if ns = [] then r else False)"
  using assms by (induction ns arbitrary: st r) (auto simp: normal_step_def plain_name_def)

text \<open>A path of plain names is its own normal form.\<close>

lemma lexically_normal_absolute:
  assumes "\<forall>n \<in> set ns. plain_name n"
  shows "lexically_normal (absolute_path ns) = absolute_path ns"
proof -
  have names: "path_names (absolute_path ns) = ns"
    using assms by (simp add: absolute_path_def path_names_absolute path_names_join)
  have "ns \<noteq> [] \<Longrightarrow> \<not> ends_with_slash (absolute_path ns)"
    using not_ends_with_slash_join [OF assms] last_join_with [of ns slash] assms
    by (auto simp: ends_with_slash_def absolute_path_def plain_name_def split: if_splits)
  then have "normal_names (absolute_path ns) = (ns, False)"
    using assms names by (auto simp: normal_names_def foldl_plain)
  then show ?thesis by (simp add: lexically_normal_def) (simp add: absolute_path_def)
qed

lemma path_elements_join:
  assumes "\<forall>n \<in> set ns. plain_name n"
  shows "path_elements (join_with slash ns) = ns"
  using not_ends_with_slash_join [OF assms] path_names_join [OF assms] not_absolute_join [OF assms]
  by (simp add: path_elements_def)

lemma path_elements_absolute_path:
  assumes "\<forall>n \<in> set ns. plain_name n"
  shows "path_elements (absolute_path ns) = [slash] # ns"
proof -
  have "ns \<noteq> [] \<Longrightarrow> \<not> ends_with_slash (absolute_path ns)"
    using not_ends_with_slash_join [OF assms] last_join_with [of ns slash] assms
    by (auto simp: ends_with_slash_def absolute_path_def plain_name_def split: if_splits)
  then show ?thesis using assms
    by (auto simp: path_elements_def absolute_path_def path_names_absolute path_names_join)
qed

end
