(* ===== verification/FtpUtils.thy ===== *)
theory FtpUtils
  imports Filesystem_Path Error_Codes
begin

text \<open>
  The directory navigator: \<^verbatim>\<open>src/protocol/FtpUtils.cpp\<close>. Its state is the path \<open>_current\<close>; the virtual
  members \<open>ftpCd\<close> and \<open>ftpSelectDrive\<close> are arguments, over the state \<open>'s\<close> of the session they act on.
\<close>

type_synonym 's change_dir = "string \<Rightarrow> 's \<Rightarrow> (unit expected outcome \<times> 's) option"

section \<open>Windows drives and roots\<close>

definition is_alpha :: "char \<Rightarrow> bool" where
  "is_alpha c \<longleftrightarrow> (let n = (of_char c :: nat) in 65 \<le> n \<and> n \<le> 90 \<or> 97 \<le> n \<and> n \<le> 122)"

definition hasWindowsDrive :: "path \<Rightarrow> bool" where
  "hasWindowsDrive p \<longleftrightarrow> (case p of c # d # _ \<Rightarrow> is_alpha c \<and> d = CHR '':'' | _ \<Rightarrow> False)"

definition extractWindowsDrive :: "path \<Rightarrow> string" where
  "extractWindowsDrive p =
     (case p of c # d # _ \<Rightarrow> if is_alpha c \<and> d = CHR '':'' then [c, d] else [] | _ \<Rightarrow> [])"

definition isPosixAbsolute :: "path \<Rightarrow> bool" where
  "isPosixAbsolute p \<longleftrightarrow> \<not> hasWindowsDrive p \<and> p \<noteq> [] \<and> p ! 0 = CHR ''/''"

definition backslash :: char where
  "backslash = CHR 0x5C"

definition stripWindowsDrive :: "path \<Rightarrow> path" where
  "stripWindowsDrive p =
     (case p of
        c # d # rest \<Rightarrow>
          if is_alpha c \<and> d = CHR '':'' then
            (case rest of
               e # rest' \<Rightarrow> if e = CHR ''/'' \<or> e = backslash then rest' else rest
             | [] \<Rightarrow> rest)
          else p
      | _ \<Rightarrow> p)"

section \<open>The navigator\<close>

definition normalize :: "path \<Rightarrow> path" where
  "normalize p = lexically_normal p"

definition split :: "path \<Rightarrow> path list" where
  "split p = filter (\<lambda>part. part \<noteq> ''.'' \<and> part \<noteq> ''..'') (path_elements p)"

definition new_SmartDirectoryNavigator :: "path \<Rightarrow> path" where
  "new_SmartDirectoryNavigator startPath = normalize startPath"

text \<open>A loop that calls \<open>ftpCd\<close> for each element and returns at the first error.\<close>

fun cd_each :: "'s change_dir \<Rightarrow> string list \<Rightarrow> 's \<Rightarrow> (unit expected outcome \<times> 's) option" where
  "cd_each cd [] s = Some (Returned (Inr ()), s)"
| "cd_each cd (d # ds) s =
     do {
       (r, s1) \<leftarrow> cd d s;
       case r of Returned (Inr _) \<Rightarrow> cd_each cd ds s1 | _ \<Rightarrow> Some (r, s1)
     }"

definition descendFromRoot :: "'s change_dir \<Rightarrow> path \<Rightarrow> 's \<Rightarrow> (unit expected outcome \<times> 's) option" where
  "descendFromRoot cd target s =
     cd_each cd (filter (\<lambda>part. part \<noteq> ''/'' \<and> part \<noteq> [backslash] \<and> part \<noteq> '''')
                  (path_elements (stripWindowsDrive target))) s"

text \<open>The \<open>while\<close> loop that counts the common components.\<close>

fun common_length :: "'a list \<Rightarrow> 'a list \<Rightarrow> nat" where
  "common_length (x # xs) (y # ys) = (if x = y then Suc (common_length xs ys) else 0)"
| "common_length _ _ = 0"

text \<open>\<open>_current = target;\<close> on success.\<close>

definition arrive ::
  "path \<Rightarrow> path \<Rightarrow> (unit expected outcome \<times> 's) option \<Rightarrow> (unit expected outcome \<times> path \<times> 's) option" where
  "arrive current target x =
     do { (r, s1) \<leftarrow> x; Some (r, if r = Returned (Inr ()) then target else current, s1) }"

definition changeDirectory ::
  "'s change_dir \<Rightarrow> 's change_dir \<Rightarrow> path \<Rightarrow> path \<Rightarrow> 's \<Rightarrow>
   (unit expected outcome \<times> path \<times> 's) option" where
  "changeDirectory cd selectDrive current targetPath s =
     (let target = normalize targetPath;
          currentDrive = extractWindowsDrive current;
          targetDrive = extractWindowsDrive target
      in
      if (hasWindowsDrive current \<or> hasWindowsDrive target) \<and> currentDrive \<noteq> targetDrive then
        arrive current target
          (if targetDrive \<noteq> '''' then
             do {
               (r, s1) \<leftarrow> selectDrive targetDrive s;
               case r of Returned (Inr _) \<Rightarrow> descendFromRoot cd target s1 | _ \<Rightarrow> Some (r, s1)
             }
           else descendFromRoot cd target s)
      else if isPosixAbsolute target \<and> \<not> isPosixAbsolute current then
        arrive current target (descendFromRoot cd target s)
      else
        let currentParts = split (relative_path current);
            targetParts = split (relative_path target);
            common = common_length currentParts targetParts
        in arrive current target
             (do {
                (r, s1) \<leftarrow> cd_each cd (replicate (length currentParts - common) ''..'') s;
                case r of
                  Returned (Inr _) \<Rightarrow> cd_each cd (drop common targetParts) s1
                | _ \<Rightarrow> Some (r, s1)
              }))"

section \<open>The server's view\<close>

text \<open>
  The session as an interface: \<open>cwd\<close> is the server's working directory below its root, \<open>cd\<close> moves it by
  one step when it succeeds.
\<close>

locale directory_session =
  fixes cd :: "'s change_dir"
    and cwd :: "'s \<Rightarrow> string list"
  assumes cd_up: "cd ''..'' s = Some (Returned (Inr ()), s') \<Longrightarrow> cwd s' = butlast (cwd s)"
    and cd_down: "plain_name d \<Longrightarrow> cd d s = Some (Returned (Inr ()), s') \<Longrightarrow> cwd s' = cwd s @ [d]"
begin

lemma cd_each_up:
  assumes "cd_each cd (replicate n ''..'') s = Some (Returned (Inr ()), s')"
  shows "cwd s' = take (length (cwd s) - n) (cwd s)"
  using assms
proof (induction n arbitrary: s)
  case (Suc n)
  then obtain s1 where s1: "cd ''..'' s = Some (Returned (Inr ()), s1)"
    "cd_each cd (replicate n ''..'') s1 = Some (Returned (Inr ()), s')"
    by (auto split: bind_splits outcome.splits sum.splits)
  from Suc.IH [OF s1(2)] cd_up [OF s1(1)] show ?case by (simp add: butlast_conv_take min_def)
qed simp

lemma cd_each_down:
  assumes "cd_each cd ds s = Some (Returned (Inr ()), s')" "\<forall>d \<in> set ds. plain_name d"
  shows "cwd s' = cwd s @ ds"
  using assms
proof (induction ds arbitrary: s)
  case (Cons d ds)
  then obtain s1 where s1: "cd d s = Some (Returned (Inr ()), s1)"
    "cd_each cd ds s1 = Some (Returned (Inr ()), s')"
    by (auto split: bind_splits outcome.splits sum.splits)
  from Cons.IH [OF s1(2)] Cons.prems(2) cd_down [OF _ s1(1)] show ?case by simp
qed simp

end

text \<open>
  Any primitive can be run with a record of where its acknowledged steps lead; this is a session in
  the sense above, whatever the primitive does.
\<close>

definition dir_step :: "string list \<Rightarrow> string \<Rightarrow> string list" where
  "dir_step c d = (if d = ''..'' then butlast c else c @ [d])"

definition acknowledged :: "'s change_dir \<Rightarrow> ('s \<times> string list) change_dir" where
  "acknowledged cd d sc =
     (case sc of (s, c) \<Rightarrow>
        do { (r, s1) \<leftarrow> cd d s; Some (r, s1, if r = Returned (Inr ()) then dir_step c d else c) })"

interpretation acknowledged: directory_session "acknowledged cd" snd for cd :: "'s change_dir"
  by unfold_locales (auto simp: acknowledged_def dir_step_def plain_name_def split: bind_splits prod.splits)

section \<open>Lemmas\<close>

lemma naive_steps:
  assumes "\<forall>n \<in> set ns. plain_name n"
  shows "foldl dir_step ms (replicate (length ms) ''..'' @ ns) = ns"
proof -
  have up: "foldl dir_step c (replicate n ''..'') = take (length c - n) c" for c n
    by (induction n arbitrary: c) (simp_all add: dir_step_def butlast_conv_take min_def)
  have down: "foldl dir_step c ns = c @ ns" for c
    using assms by (induction ns arbitrary: c) (auto simp: dir_step_def plain_name_def)
  show ?thesis by (simp add: up down)
qed

lemma cd_each_acknowledged:
  assumes "cd_each cd ds s = Some (Returned (Inr ()), s')"
  shows "cd_each (acknowledged cd) ds (s, c) = Some (Returned (Inr ()), s', foldl dir_step c ds)"
  using assms
proof (induction ds arbitrary: s c)
  case (Cons d ds)
  then obtain s1 where s1: "cd d s = Some (Returned (Inr ()), s1)"
    "cd_each cd ds s1 = Some (Returned (Inr ()), s')"
    by (auto split: bind_splits outcome.splits sum.splits)
  then show ?case using Cons.IH [OF s1(2)] by (simp add: acknowledged_def)
qed simp

lemma common_length_take: "take (common_length xs ys) xs = take (common_length xs ys) ys"
  by (induction xs ys rule: common_length.induct) auto

lemma common_length_le: "common_length xs ys \<le> length xs" "common_length xs ys \<le> length ys"
  by (induction xs ys rule: common_length.induct) auto

lemma common_length_maximal:
  "common_length xs ys < length xs \<Longrightarrow> common_length xs ys < length ys \<Longrightarrow>
   xs ! common_length xs ys \<noteq> ys ! common_length xs ys"
  by (induction xs ys rule: common_length.induct) (auto split: if_splits)

lemma absolute_no_drive [simp]: "\<not> hasWindowsDrive (absolute_path ns)"
  by (cases "join_with slash ns")
    (simp_all add: hasWindowsDrive_def absolute_path_def slash_def is_alpha_def)

lemma absolute_is_posix [simp]: "isPosixAbsolute (absolute_path ns)"
  using absolute_no_drive [of ns]
  by (simp add: isPosixAbsolute_def) (simp add: absolute_path_def slash_def)

lemma split_absolute:
  assumes "\<forall>n \<in> set ns. plain_name n"
  shows "split (relative_path (absolute_path ns)) = ns"
  using assms
  by (simp add: split_def relative_path_absolute path_elements_join filter_id_conv plain_name_def)

text \<open>Between two absolute paths: up to the common ancestor, then down.\<close>

lemma changeDirectory_absolute:
  assumes ms: "\<forall>n \<in> set ms. plain_name n" and ns: "\<forall>n \<in> set ns. plain_name n"
    and t: "lexically_normal t = absolute_path ns"
  shows "changeDirectory cd sel (absolute_path ms) t s =
    arrive (absolute_path ms) (absolute_path ns)
      (do { (r, s1) \<leftarrow> cd_each cd (replicate (length ms - common_length ms ns) ''..'') s;
            case r of Returned (Inr _) \<Rightarrow> cd_each cd (drop (common_length ms ns) ns) s1
                    | _ \<Rightarrow> Some (r, s1) })"
  using split_absolute [OF ms] split_absolute [OF ns]
  by (simp add: changeDirectory_def normalize_def t Let_def)

lemma cd_each_append:
  "cd_each cd (xs @ ys) s =
     do { (r, s1) \<leftarrow> cd_each cd xs s;
          case r of Returned (Inr _) \<Rightarrow> cd_each cd ys s1 | _ \<Rightarrow> Some (r, s1) }"
proof (induction xs arbitrary: s)
  case (Cons x xs)
  show ?case
    by (cases "cd x s") (auto simp: Cons split: outcome.splits sum.splits)
qed simp

lemma changeDirectory_commands:
  assumes "\<forall>n \<in> set ms. plain_name n" "\<forall>n \<in> set ns. plain_name n" "lexically_normal t = absolute_path ns"
  shows "changeDirectory cd sel (absolute_path ms) t s =
    arrive (absolute_path ms) (absolute_path ns)
      (cd_each cd (replicate (length ms - common_length ms ns) ''..'' @ drop (common_length ms ns) ns) s)"
  by (simp only: changeDirectory_absolute [OF assms] cd_each_append)

context directory_session
begin

lemma cd_each_to:
  assumes "cd_each cd (replicate (length (cwd s) - common_length (cwd s) ns) ''..'' @ drop (common_length (cwd s) ns) ns) s =
      Some (Returned (Inr ()), s')" and "\<forall>n \<in> set ns. plain_name n"
  shows "cwd s' = ns"
proof -
  let ?k = "common_length (cwd s) ns"
  obtain s1 where up: "cd_each cd (replicate (length (cwd s) - ?k) ''..'') s = Some (Returned (Inr ()), s1)"
    and down: "cd_each cd (drop ?k ns) s1 = Some (Returned (Inr ()), s')"
    using assms(1) by (auto simp: cd_each_append split: bind_splits outcome.splits sum.splits)
  have "cwd s1 = take ?k ns"
    using cd_each_up [OF up] common_length_le(1) [of "cwd s" ns] common_length_take [of "cwd s" ns] by simp
  moreover have "\<forall>d \<in> set (drop ?k ns). plain_name d" using assms(2) by (meson in_set_dropD)
  ultimately show ?thesis using cd_each_down [OF down] by simp
qed

end

text \<open>Whatever the paths are, a change of directory is a run of \<open>cd\<close> steps after at most one drive
  selection.\<close>

lemma changeDirectory_runs:
  assumes "changeDirectory cd sel current t s = Some (r, current', s')"
  obtains ds where "cd_each cd ds s = Some (r, s')"
  | d where "sel d s = Some (r, s')"
  | d x s1 ds where "sel d s = Some (Returned (Inr x), s1)" "cd_each cd ds s1 = Some (r, s')"
proof -
  let ?t = "normalize t"
  let ?x = "if (hasWindowsDrive current \<or> hasWindowsDrive ?t) \<and> extractWindowsDrive current \<noteq> extractWindowsDrive ?t
    then if extractWindowsDrive ?t \<noteq> ''''
         then do { (r, s1) \<leftarrow> sel (extractWindowsDrive ?t) s;
                   case r of Returned (Inr _) \<Rightarrow> descendFromRoot cd ?t s1 | _ \<Rightarrow> Some (r, s1) }
         else descendFromRoot cd ?t s
    else if isPosixAbsolute ?t \<and> \<not> isPosixAbsolute current then descendFromRoot cd ?t s
    else let currentParts = split (relative_path current); targetParts = split (relative_path ?t);
             common = common_length currentParts targetParts
         in cd_each cd (replicate (length currentParts - common) ''..'' @ drop common targetParts) s"
  have "changeDirectory cd sel current t s = arrive current ?t ?x"
    by (simp only: changeDirectory_def Let_def cd_each_append if_distrib [of "arrive current ?t"])
  with assms have x: "?x = Some (r, s')" by (auto simp: arrive_def split: bind_splits)
  show thesis
  proof (cases "(hasWindowsDrive current \<or> hasWindowsDrive ?t) \<and> extractWindowsDrive current \<noteq> extractWindowsDrive ?t \<and>
      extractWindowsDrive ?t \<noteq> ''''")
    case True
    with x obtain r1 s1 where sel: "sel (extractWindowsDrive ?t) s = Some (r1, s1)" by (auto split: bind_splits)
    show thesis
    proof (cases "\<exists>y. r1 = Returned (Inr y)")
      case True: True
      with x sel \<open>_ \<and> _ \<and> _\<close> that(3) show thesis by (auto simp: descendFromRoot_def)
    next
      case False
      with x sel \<open>_ \<and> _ \<and> _\<close> have "r = r1 \<and> s' = s1" by (auto split: outcome.splits sum.splits)
      with sel that(2) show thesis by blast
    qed
  next
    case False
    with x that(1) show thesis by (auto simp: descendFromRoot_def Let_def split: if_splits)
  qed
qed

section \<open>Properties\<close>

text \<open>
  C34: the navigator and the server agree: when \<open>_current\<close> names the server's working directory and
  \<open>changeDirectory\<close> to a path whose normal form is absolute succeeds, the server is in exactly that
  directory, and \<open>_current\<close> names it again. It takes one \<open>..\<close> per level up to the deepest common
  ancestor and one step down per remaining component, no more.
\<close>

theorem navigator_follows_server:
  assumes "directory_session cd cwd"
    and "current = absolute_path (cwd s)" and "\<forall>n \<in> set (cwd s). plain_name n"
    and "lexically_normal target = absolute_path ns" and "\<forall>n \<in> set ns. plain_name n"
    and "changeDirectory cd selectDrive current target s = Some (Returned (Inr ()), current', s')"
  shows "cwd s' = ns \<and> current' = absolute_path ns \<and>
    (\<exists>k \<le> length ns. take k ns = take k (cwd s) \<and>
       (k < length ns \<and> k < length (cwd s) \<longrightarrow> ns ! k \<noteq> cwd s ! k) \<and>
       cd_each cd (replicate (length (cwd s) - k) ''..'' @ drop k ns) s = Some (Returned (Inr ()), s'))"
proof -
  let ?k = "common_length (cwd s) ns"
  have cd: "cd_each cd (replicate (length (cwd s) - ?k) ''..'' @ drop ?k ns) s = Some (Returned (Inr ()), s')"
    and cur: "current' = absolute_path ns"
    using assms(6) unfolding assms(2) changeDirectory_commands [OF assms(3,5,4)]
    by (auto simp: arrive_def split: bind_splits)
  from directory_session.cd_each_to [OF assms(1) cd assms(5)] have "cwd s' = ns" .
  moreover have "?k < length ns \<and> ?k < length (cwd s) \<longrightarrow> ns ! ?k \<noteq> cwd s ! ?k"
    using common_length_maximal [of "cwd s" ns] by auto
  ultimately show ?thesis
    using cd cur common_length_le(2) [of "cwd s" ns] common_length_take [of "cwd s" ns] by auto
qed

text \<open>A server in which every directory exists but those named \<open>missing\<close>.\<close>

definition demo_cd :: "string list change_dir" where
  "demo_cd d s = (if d = ''..'' then Some (Returned (Inr ()), butlast s)
                  else if d = '''' \<or> d = ''missing'' then Some (Returned (Inl (make_error_code PROTOCOL_ERROR)), s)
                  else Some (Returned (Inr ()), s @ [d]))"

lemma demo_session: "directory_session demo_cd (\<lambda>s. s)"
  by unfold_locales (auto simp: demo_cd_def plain_name_def split: if_splits)

lemma demo_change:
  "changeDirectory demo_cd demo_cd (absolute_path [''a'', ''b'']) ''/a/x/../c'' [''a'', ''b''] =
     Some (Returned (Inr ()), absolute_path [''a'', ''c''], [''a'', ''c''])"
  by code_simp

theorem navigator_follows_server_witness:
  "\<exists>k \<le> 2. take k [''a'', ''c''] = take k [''a'', ''b''] \<and>
     cd_each demo_cd (replicate (2 - k) ''..'' @ drop k [''a'', ''c'']) [''a'', ''b''] =
       Some (Returned (Inr ()), [''a'', ''c''])"
proof -
  have "lexically_normal ''/a/x/../c'' = absolute_path [''a'', ''c'']" by code_simp
  then have "[''a'', ''c''] = [''a'', ''c''] \<and> absolute_path [''a'', ''c''] = absolute_path [''a'', ''c''] \<and>
    (\<exists>k \<le> length [''a'', ''c'']. take k [''a'', ''c''] = take k [''a'', ''b''] \<and>
       (k < length [''a'', ''c''] \<and> k < length [''a'', ''b''] \<longrightarrow> [''a'', ''c''] ! k \<noteq> [''a'', ''b''] ! k) \<and>
       cd_each demo_cd (replicate (length [''a'', ''b''] - k) ''..'' @ drop k [''a'', ''c'']) [''a'', ''b''] =
         Some (Returned (Inr ()), [''a'', ''c'']))"
    by (rule navigator_follows_server [OF demo_session _ _ _ _ demo_change, rotated 2])
      (simp_all add: plain_name_def slash_def)
  then obtain k where "k \<le> length [''a'', ''c'']" "take k [''a'', ''c''] = take k [''a'', ''b'']"
    "cd_each demo_cd (replicate (length [''a'', ''b''] - k) ''..'' @ drop k [''a'', ''c'']) [''a'', ''b''] =
       Some (Returned (Inr ()), [''a'', ''c''])" by blast
  then show ?thesis by (intro exI [of _ k]) (simp add: numeral_2_eq_2)
qed



text \<open>
  A target with a slash at its end makes the navigator send an empty directory name after the
  last component.
\<close>

theorem trailing_slash_sends_empty_name:
  assumes "plain_name a"
  shows "changeDirectory cd selectDrive ''/'' (absolute_path [a] @ ''/'') s =
           arrive ''/'' (absolute_path [a] @ ''/'') (cd_each cd [a, ''''] s)"
proof -
  let ?t = "slash # a @ [slash]"
  have s: "''/'' = [slash]" by (simp add: slash_def)
  have t: "absolute_path [a] @ ''/'' = ?t" by (simp add: absolute_path_def s)
  have a: "a \<noteq> []" "slash \<notin> set a" "hd a \<noteq> slash" "a \<noteq> ''.''" "a \<noteq> ''..''"
    using assms by (cases a; auto simp: plain_name_def)+
  have names: "path_names ?t = [a]" "path_names (a @ [slash]) = [a]"
    using a split_on_append [of slash a "[]"] by (simp_all add: path_names_def)
  have "foldl (normal_step True) ([], False) [a] = ([a], False)"
    using a by (simp add: normal_step_def)
  then have norm: "lexically_normal ?t = ?t"
    using names(1) a by (simp add: lexically_normal_def normal_names_def ends_with_slash_def)
  have rel: "relative_path ?t = a @ [slash]"
    using a by (cases a) (simp_all add: relative_path_def)
  have "path_elements (a @ [slash]) = [a, []]"
    using a names(2) by (cases a) (simp_all add: path_elements_def is_absolute_def ends_with_slash_def)
  then have parts: "split (relative_path ?t) = [a, []]" using a by (simp add: split_def rel)
  have drive: "\<not> hasWindowsDrive ?t" "isPosixAbsolute ?t" "\<not> hasWindowsDrive ''/''" "isPosixAbsolute ''/''"
    using a by (cases a; simp add: isPosixAbsolute_def hasWindowsDrive_def slash_def is_alpha_def)+
  have "split (relative_path ''/'') = []"
    by (simp add: split_def relative_path_def slash_def path_elements_def path_names_def)
  with parts drive show ?thesis unfolding t
    by (simp add: changeDirectory_def normalize_def norm Let_def)
qed

theorem trailing_slash_sends_empty_name_witness:
  "changeDirectory demo_cd demo_cd ''/'' ''/a/'' [] =
     Some (Returned (Inl (make_error_code PROTOCOL_ERROR)), ''/'', [''a''])"
  using trailing_slash_sends_empty_name [of "''a''" demo_cd demo_cd "[]"]
  by (simp add: plain_name_def slash_def absolute_path_def demo_cd_def arrive_def)

end
