(* ===== verification/Ftp_Protocol.thy ===== *)
theory Ftp_Protocol
  imports FtpUtils
begin

text \<open>
  The text side of the FTP client: the parsers of \<^verbatim>\<open>src/protocol/FtpFileTransfer.cpp\<close> for replies, PASV
  addresses, directory listings and feature lists. An exception of the standard library is \<open>Thrown\<close>.
\<close>

unbundle bit_operations_syntax

section \<open>Characters and numbers of the standard library\<close>

definition is_space :: "char \<Rightarrow> bool" where
  "is_space c \<longleftrightarrow> (let n = (of_char c :: nat) in n = 32 \<or> 9 \<le> n \<and> n \<le> 13)"

definition newline :: char where
  "newline = CHR 0x0A"

definition carriage_return :: char where
  "carriage_return = CHR 0x0D"

text \<open>\<open>std::stoi\<close>: leading white space, an optional sign, digits; \<open>None\<close> when it throws.\<close>

definition sign_digits :: "string \<Rightarrow> bool \<times> string" where
  "sign_digits s =
     (case s of
        c # rest \<Rightarrow> if c = CHR ''-'' then (True, rest) else if c = CHR ''+'' then (False, rest) else (False, s)
      | [] \<Rightarrow> (False, []))"

definition stoi :: "string \<Rightarrow> int option" where
  "stoi s =
     (case sign_digits (dropWhile is_space s) of (negative, rest) \<Rightarrow>
        let ds = takeWhile is_digit_char rest;
            v = (if negative then - int (decimal_value ds) else int (decimal_value ds))
        in if ds = [] \<or> v < - (2 ^ 31) \<or> 2 ^ 31 \<le> v then None else Some v)"

section \<open>Replies\<close>

text \<open>Remove trailing characters as long as they satisfy \<open>P\<close>.\<close>

definition trim_right :: "(char \<Rightarrow> bool) \<Rightarrow> string \<Rightarrow> string" where
  "trim_right P s = rev (dropWhile P (rev s))"

definition splitLines :: "string \<Rightarrow> string list" where
  "splitLines s =
     filter (\<lambda>l. l \<noteq> [])
       (map (trim_right (\<lambda>c. c = carriage_return \<or> c = newline)) (split_on newline s))"

definition isCompleteFtpResponse :: "string list \<Rightarrow> bool" where
  "isCompleteFtpResponse lines =
     (case lines of
        [] \<Rightarrow> False
      | first # _ \<Rightarrow>
          if length first < 4 \<or> \<not> is_digit_char (first ! 0) \<or> \<not> is_digit_char (first ! 1) \<or>
             \<not> is_digit_char (first ! 2) then False
          else if first ! 3 = CHR '' '' then True
          else if first ! 3 \<noteq> CHR ''-'' then False
          else list_ex (\<lambda>l. 4 \<le> length l \<and> take 3 l = take 3 first \<and> l ! 3 = CHR '' '') lines)"

section \<open>The PASV reply\<close>

definition trim_leading_space :: "string \<Rightarrow> string" where
  "trim_leading_space s = dropWhile is_space s"

text \<open>\<open>std::from_chars\<close> into a \<open>uint32_t\<close>: the longest run of digits, which has to fit.\<close>

definition parse_uint8 :: "string \<Rightarrow> uint32 expected" where
  "parse_uint8 s =
     (let str = trim_leading_space s;
          ds = takeWhile is_digit_char str
      in if str = [] then Inl (Generic_ec Invalid_argument)
         else if ds = [] then Inl (Generic_ec Invalid_argument)
         else if 2 ^ 32 \<le> decimal_value ds then Inl (Generic_ec Result_out_of_range)
         else if ds \<noteq> str then Inl (Generic_ec Invalid_argument)
         else if 255 < decimal_value ds then Inl (Generic_ec Result_out_of_range)
         else Inr (of_nat (decimal_value ds)))"

text \<open>The loop over the parameters; the number is how many of the six are still to come.\<close>

fun pasv_parts :: "nat \<Rightarrow> string \<Rightarrow> uint32 list option" where
  "pasv_parts 0 params = Some []"
| "pasv_parts (Suc n) params =
     (if params = [] then Some []
      else
        (case parse_uint8 (takeWhile (\<lambda>c. c \<noteq> CHR '','') params) of
           Inl _ \<Rightarrow> None
         | Inr val \<Rightarrow>
             (case dropWhile (\<lambda>c. c \<noteq> CHR '','') params of
                [] \<Rightarrow> Some [val]
              | _ # rest \<Rightarrow> map_option (\<lambda>vs. val # vs) (pasv_parts n rest))))"

type_synonym endpoint = "uint32 \<times> uint16"

definition parsePasvResponse :: "string \<Rightarrow> endpoint option" where
  "parsePasvResponse response =
     (case dropWhile (\<lambda>c. c \<noteq> CHR ''('') response of
        [] \<Rightarrow> None
      | _ # rest \<Rightarrow>
          if CHR '')'' \<notin> set rest then None
          else
            (case pasv_parts 6 (takeWhile (\<lambda>c. c \<noteq> CHR '')'') rest) of
               Some [p0, p1, p2, p3, p4, p5] \<Rightarrow>
                 Some (push_bit 24 p0 OR push_bit 16 p1 OR push_bit 8 p2 OR p3,
                       ucast (push_bit 8 p4 OR p5))
             | _ \<Rightarrow> None))"

section \<open>Directory listings\<close>

record file_list_data =
  file_date :: int
  file_size :: nat
  file_name :: string
  full_path :: path

text \<open>
  The clock of the system: the current year (\<^verbatim>\<open>localtime\<close> of \<^verbatim>\<open>now\<close>), \<^verbatim>\<open>mktime\<close> of year, month, day, hour
  and minute (\<open>None\<close> for its error value), and \<^verbatim>\<open>now\<close>.
\<close>

record clock =
  clock_year :: int
  clock_mktime :: "int \<Rightarrow> int \<Rightarrow> int \<Rightarrow> int \<Rightarrow> int \<Rightarrow> int option"
  clock_now :: int

definition month_names :: "string list" where
  "month_names = [''Jan'', ''Feb'', ''Mar'', ''Apr'', ''May'', ''Jun'',
                  ''Jul'', ''Aug'', ''Sep'', ''Oct'', ''Nov'', ''Dec'']"

definition monthMap :: "string \<Rightarrow> int option" where
  "monthMap s = map_of (zip month_names [0..11]) s"

definition parseFtpTimestamp :: "clock \<Rightarrow> string \<Rightarrow> string \<Rightarrow> string \<Rightarrow> int option" where
  "parseFtpTimestamp C month day time_or_year =
     do {
       monthNum \<leftarrow> monthMap month;
       dayNum \<leftarrow> stoi day;
       if dayNum < 1 \<or> 31 < dayNum then None
       else
         do {
           (year, hour, minute) \<leftarrow>
             (case dropWhile (\<lambda>c. c \<noteq> CHR '':'') time_or_year of
                _ # mm \<Rightarrow>
                  do { h \<leftarrow> stoi (takeWhile (\<lambda>c. c \<noteq> CHR '':'') time_or_year);
                       m \<leftarrow> stoi mm;
                       Some (clock_year C, h, m) }
              | [] \<Rightarrow> do { y \<leftarrow> stoi time_or_year; Some (y, 0, 0) });
           clock_mktime C year monthNum dayNum hour minute
         }
     }"

text \<open>Formatted extraction from a stream: the word or number and the rest, or failure.\<close>

definition extract_word :: "string \<Rightarrow> (string \<times> string) option" where
  "extract_word s =
     (let t = dropWhile is_space s; word = takeWhile (\<lambda>c. \<not> is_space c) t
      in if word = [] then None else Some (word, drop (length word) t))"

definition extract_uint64 :: "string \<Rightarrow> (nat \<times> string) option" where
  "extract_uint64 s =
     (case sign_digits (dropWhile is_space s) of (negative, t) \<Rightarrow>
        let ds = takeWhile is_digit_char t; v = decimal_value ds
        in if ds = [] \<or> 2 ^ 64 \<le> v then None
           else Some (if negative then (2 ^ 64 - v) mod 2 ^ 64 else v, drop (length ds) t))"

definition parseFtpLine :: "clock \<Rightarrow> string \<Rightarrow> file_list_data option outcome" where
  "parseFtpLine C line =
     (if line = [] then Returned None
      else
        (case
           do {
             (perms, s1) \<leftarrow> extract_word line;
             (link_count, s2) \<leftarrow> extract_word s1;
             (owner, s3) \<leftarrow> extract_word s2;
             (group, s4) \<leftarrow> extract_word s3;
             (sz, s5) \<leftarrow> extract_uint64 s4;
             (month, s6) \<leftarrow> extract_word s5;
             (day, s7) \<leftarrow> extract_word s6;
             (time_or_year, s8) \<leftarrow> extract_word s7;
             Some (sz, month, day, time_or_year, s8)
           } of
           None \<Rightarrow> Returned None
         | Some (sz, month, day, time_or_year, rest) \<Rightarrow>
             let name = dropWhile is_space (trim_right is_space (takeWhile (\<lambda>c. c \<noteq> newline) rest))
             in if name = [] then Returned None
                else (case parseFtpTimestamp C month day time_or_year of
                        None \<Rightarrow> Thrown
                      | Some date \<Rightarrow>
                          Returned (Some \<lparr>file_date = date, file_size = sz, file_name = name,
                                          full_path = ''''\<rparr>))))"

section \<open>Features\<close>

record ftp_capabilities =
  cap_mlst :: bool
  cap_nlst :: bool
  cap_list :: bool
  cap_size :: bool
  cap_mdtm :: bool
  cap_rename :: bool
  cap_epsv :: bool
  cap_pasv :: bool
  cap_feat :: bool

definition default_capabilities :: ftp_capabilities where
  "default_capabilities =
     \<lparr>cap_mlst = False, cap_nlst = False, cap_list = True, cap_size = False, cap_mdtm = False,
      cap_rename = False, cap_epsv = False, cap_pasv = True, cap_feat = False\<rparr>"

definition feature_line :: "string \<Rightarrow> ftp_capabilities \<Rightarrow> ftp_capabilities" where
  "feature_line line caps =
     (if length line < 2 then caps
      else if line ! 0 = CHR '' '' then
        let feature = trim_right (\<lambda>c. c = CHR '' '' \<or> c = carriage_return \<or> c = newline) (drop 1 line)
        in if prefix ''MLST'' feature then caps\<lparr>cap_mlst := True\<rparr>
           else if prefix ''NLST'' feature then caps\<lparr>cap_nlst := True\<rparr>
           else if prefix ''SIZE'' feature then caps\<lparr>cap_size := True\<rparr>
           else if prefix ''MDTM'' feature then caps\<lparr>cap_mdtm := True\<rparr>
           else if prefix ''RENAME'' feature then caps\<lparr>cap_rename := True\<rparr>
           else if prefix ''PASV'' feature then caps\<lparr>cap_pasv := True\<rparr>
           else if prefix ''FEAT'' feature then caps\<lparr>cap_feat := True\<rparr>
           else caps
      else caps)"

definition parseFeatures :: "string \<Rightarrow> ftp_capabilities \<Rightarrow> ftp_capabilities" where
  "parseFeatures feat_response caps = foldl (\<lambda>cs l. feature_line l cs) caps (splitLines feat_response)"

definition get_last_component :: "path \<Rightarrow> path" where
  "get_last_component p = (if filename p = [] then filename (parent_path p) else filename p)"

section \<open>Lemmas\<close>

lemma digit_not_space: "is_digit_char c \<Longrightarrow> \<not> is_space c"
  by (auto simp: is_digit_char_def is_space_def Let_def)

lemma digits_no_space [simp]: "dropWhile is_space (to_string n @ xs) = to_string n @ xs"
proof -
  obtain c cs where "to_string n = c # cs" by (metis neq_Nil_conv to_string_not_Nil)
  moreover from this have "\<not> is_space c" using to_string_digits [of c n] digit_not_space by simp
  ultimately show ?thesis by simp
qed

lemma digits_no_space_Nil [simp]: "dropWhile is_space (to_string n) = to_string n"
  using digits_no_space [of n "[]"] by (simp only: append_Nil2)

lemma takeWhile_to_string:
  "takeWhile is_digit_char (to_string n @ xs) = to_string n @ takeWhile is_digit_char xs"
  using to_string_digits by (simp add: takeWhile_append2)

lemma takeWhile_to_string_Nil [simp]: "takeWhile is_digit_char (to_string n) = to_string n"
  using takeWhile_to_string [of n "[]"] by (simp only: append_Nil2 takeWhile.simps)

lemma to_string_no: "\<not> is_digit_char c \<Longrightarrow> c \<notin> set (to_string n)"
  using to_string_digits by blast

lemma comma_not_digit: "\<not> is_digit_char (CHR '','')"
  by (simp add: is_digit_char_def)

lemma takeWhile_until: "c \<notin> set xs \<Longrightarrow> takeWhile (\<lambda>x. x \<noteq> c) (xs @ c # ys) = xs"
  by (induction xs) auto

lemma dropWhile_until: "c \<notin> set xs \<Longrightarrow> dropWhile (\<lambda>x. x \<noteq> c) (xs @ c # ys) = c # ys"
  by (induction xs) auto

lemma takeWhile_absent: "c \<notin> set xs \<Longrightarrow> takeWhile (\<lambda>x. x \<noteq> c) xs = xs"
  by (induction xs) auto

lemma dropWhile_absent: "c \<notin> set xs \<Longrightarrow> dropWhile (\<lambda>x. x \<noteq> c) xs = []"
  by (induction xs) auto

text \<open>The PASV parameters.\<close>

lemma parse_uint8_to_string: "n \<le> 255 \<Longrightarrow> parse_uint8 (to_string n) = Inr (of_nat n)"
  by (simp add: parse_uint8_def trim_leading_space_def Let_def)

lemma pasv_parts_print:
  assumes "ns \<noteq> []" "\<forall>n \<in> set ns. n \<le> 255"
  shows "pasv_parts (length ns) (join_with (CHR '','') (map to_string ns)) = Some (map of_nat ns)"
  using assms
proof (induction ns)
  case (Cons n ns)
  note c = to_string_no [OF comma_not_digit, of n]
  show ?case
  proof (cases ns)
    case Nil
    with Cons.prems c show ?thesis
      by (simp add: takeWhile_absent dropWhile_absent parse_uint8_to_string)
  next
    case (Cons m ms)
    let ?rest = "join_with (CHR '','') (map to_string ns)"
    have "join_with (CHR '','') (map to_string (n # ns)) = to_string n @ CHR '','' # ?rest"
      by (simp add: Cons)
    moreover have "pasv_parts (length ns) ?rest = Some (map of_nat ns)"
      using Cons.IH Cons.prems Cons by simp
    ultimately show ?thesis using Cons.prems c
      by (simp add: takeWhile_until dropWhile_until parse_uint8_to_string)
  qed
qed simp

lemma close_paren_not_in_params:
  "CHR '')'' \<notin> set (join_with (CHR '','') (map to_string ns))"
proof -
  have "set (join_with c ps) \<subseteq> insert c (\<Union> (set ` set ps))" for c :: char and ps
    by (induction c ps rule: join_with.induct) auto
  moreover have "CHR '')'' \<notin> set (to_string n)" for n
    by (rule to_string_no) (simp add: is_digit_char_def)
  ultimately show ?thesis by fastforce
qed

lemma parsePasvResponse_print:
  assumes "CHR ''('' \<notin> set pre" "length ns = 6" "\<forall>n \<in> set ns. n \<le> 255"
  shows "parsePasvResponse (pre @ ''('' @ join_with (CHR '','') (map to_string ns) @ '')'' @ post) =
    Some (push_bit 24 (of_nat (ns ! 0)) OR push_bit 16 (of_nat (ns ! 1)) OR
          push_bit 8 (of_nat (ns ! 2)) OR of_nat (ns ! 3),
          ucast (push_bit 8 (of_nat (ns ! 4)) OR of_nat (ns ! 5) :: uint32))"
proof -
  from assms(2) obtain a b c d e f where ns: "ns = [a, b, c, d, e, f]"
    by (auto simp: numeral_eq_Suc length_Suc_conv)
  let ?params = "join_with (CHR '','') (map to_string ns)"
  have "ns \<noteq> []" using assms(2) by auto
  from pasv_parts_print [OF this assms(3)]
  have "pasv_parts 6 ?params = Some (map of_nat ns)" unfolding assms(2) .
  moreover have "takeWhile (\<lambda>c. c \<noteq> CHR '')'') (?params @ CHR '')'' # post) = ?params"
    by (rule takeWhile_until) (rule close_paren_not_in_params)
  moreover have "dropWhile (\<lambda>c. c \<noteq> CHR ''('') (pre @ ''('' @ ?params @ '')'' @ post) =
      CHR ''('' # ?params @ CHR '')'' # post"
    using dropWhile_until [OF assms(1)] by simp
  ultimately show ?thesis by (simp add: parsePasvResponse_def) (simp add: ns)
qed

text \<open>The fields of a listing.\<close>

definition word :: "string \<Rightarrow> bool" where
  "word s \<longleftrightarrow> s \<noteq> [] \<and> (\<forall>c \<in> set s. \<not> is_space c)"

lemma is_space_blank [simp]: "is_space (CHR '' '')"
  by (simp add: is_space_def)

lemma word_no_lead: "word v \<Longrightarrow> dropWhile is_space (v @ xs) = v @ xs"
  by (cases v) (auto simp: word_def)

lemma word_take: "word v \<Longrightarrow> is_space c \<Longrightarrow> takeWhile (\<lambda>c. \<not> is_space c) (v @ c # xs) = v"
  by (auto simp: word_def takeWhile_append2)

lemma extract_word_blank:
  assumes "word v"
  shows "extract_word (v @ CHR '' '' # xs) = Some (v, CHR '' '' # xs)"
    "extract_word (CHR '' '' # v @ CHR '' '' # xs) = Some (v, CHR '' '' # xs)"
  using assms word_no_lead [OF assms] word_take [OF assms is_space_blank]
  by (simp_all add: extract_word_def Let_def word_def)

lemma sign_digits_to_string [simp]: "sign_digits (to_string n @ xs) = (False, to_string n @ xs)"
proof -
  obtain c cs where "to_string n = c # cs" by (metis neq_Nil_conv to_string_not_Nil)
  moreover from this have "is_digit_char c" using to_string_digits [of c n] by simp
  then have "c \<noteq> CHR ''-''" "c \<noteq> CHR ''+''" by (auto simp: is_digit_char_def)
  ultimately show ?thesis by (simp add: sign_digits_def)
qed

lemma extract_uint64_blank:
  "n < 2 ^ 64 \<Longrightarrow> extract_uint64 (CHR '' '' # to_string n @ CHR '' '' # xs) = Some (n, CHR '' '' # xs)"
  by (simp add: extract_uint64_def takeWhile_to_string Let_def is_digit_char_def)

lemma of_nat_octet: "n \<le> 255 \<Longrightarrow> (of_nat n :: uint32) = ucast (of_nat n :: byte)"
  by (simp add: word_unat_eq_iff unat_of_nat unsigned_ucast_eq take_bit_nat_eq_self)

lemma port_value:
  assumes "e \<le> 255" "f \<le> 255"
  shows "unat (ucast (push_bit 8 (of_nat e) OR of_nat f :: uint32) :: uint16) = 256 * e + f"
proof -
  have "push_bit 8 (of_nat e) AND of_nat f = (0 :: uint32)"
    using assms(2) by (auto intro!: bit_word_eqI simp: bit_simps of_nat_octet dest: bit_imp_le_length)
  then have "push_bit 8 (of_nat e) OR of_nat f = (of_nat (256 * e + f) :: uint32)"
    by (simp add: disjunctive_add_eq_or [symmetric] push_bit_eq_mult)
  moreover have "unat (of_nat (256 * e + f) :: uint32) = 256 * e + f"
    using assms by (subst unat_of_nat) simp
  ultimately show ?thesis using assms by (simp add: unsigned_ucast_eq take_bit_nat_eq_self)
qed

section \<open>Properties\<close>

text \<open>
  C35: a well-formed PASV reply, six decimal octets in the first parentheses of the text, parses to
  the announced address (most significant octet first) and port.
\<close>

theorem pasv_reply_round_trip:
  assumes "CHR ''('' \<notin> set pre" and "\<forall>n \<in> {a, b, c, d, e, f}. n \<le> 255"
  shows "\<exists>ip port.
    parsePasvResponse (pre @ ''('' @ join_with (CHR '','') (map to_string [a, b, c, d, e, f]) @ '')'' @ post) =
      Some (ip, port) \<and>
    [ucast (drop_bit 24 ip), ucast (drop_bit 16 ip), ucast (drop_bit 8 ip), ucast ip] =
      (map of_nat [a, b, c, d] :: byte list) \<and>
    unat port = 256 * e + f"
proof -
  note r = parsePasvResponse_print [OF assms(1), of "[a, b, c, d, e, f]" post]
  have oct: "(of_nat n :: uint32) = ucast (of_nat n :: byte)" if "n \<in> {a, b, c, d, e, f}" for n
    using assms(2) that by (blast intro: of_nat_octet)
  have ip: "push_bit 24 (of_nat a) OR push_bit 16 (of_nat b) OR push_bit 8 (of_nat c) OR of_nat d =
      join_octets (of_nat a) (of_nat b) (of_nat c) (of_nat d)"
    unfolding join_octets_def using oct [of a] oct [of b] oct [of c] oct [of d] by simp
  have "parsePasvResponse (pre @ ''('' @ join_with (CHR '','') (map to_string [a, b, c, d, e, f]) @ '')'' @ post) =
      Some (join_octets (of_nat a) (of_nat b) (of_nat c) (of_nat d),
            ucast (push_bit 8 (of_nat e) OR of_nat f :: uint32))"
    using r assms(2) ip by simp
  then show ?thesis using port_value [of e f] assms(2) by (simp add: octets_of_join)
qed

theorem pasv_reply_round_trip_witness:
  "\<exists>ip port.
    parsePasvResponse (''227 Entering Passive Mode '' @ ''('' @
        join_with (CHR '','') (map to_string [127, 0, 0, 1, 4, 1]) @ '')'' @ ''.'') = Some (ip, port) \<and>
    unat port = 1025"
proof -
  have "CHR ''('' \<notin> set ''227 Entering Passive Mode ''" "\<forall>n \<in> {127, 0, 0, 1, 4, 1 :: nat}. n \<le> 255"
    by simp_all
  from pasv_reply_round_trip [OF this, of "''.''"] show ?thesis by auto
qed


definition demo_clock :: clock where
  "demo_clock = \<lparr>clock_year = 2025, clock_mktime = (\<lambda>y mo d h mi. Some ((y * 12 + mo) * 31 + d)), clock_now = 0\<rparr>"


end
