(* ===== verification/Connection_Env.thy ===== *)
theory Connection_Env
  imports Socket_Properties
begin

text \<open>
  What client and server need to establish connections: the option structs of
  \<^verbatim>\<open>include/socket/TcpOptions.h\<close> and \<^verbatim>\<open>include/socket/TlsOptions.h\<close>, the TLS context of
  \<^verbatim>\<open>src/core/TlsContextWrapper.cpp\<close> with the settings it collects, and the environment record
  \<open>net\<close>: name resolution, connecting, accepting, socket options and the OpenSSL calls, which belong to
  asio, OpenSSL and the operating system. Logging is left out.
\<close>

section \<open>Options\<close>

text \<open>Durations are milliseconds.\<close>

record tcp_options =
  reuse_addr :: bool
  reuse_port :: bool
  nodelay :: bool
  keepalive_idle :: "int option"
  keepalive_interval :: "int option"
  keepalive_count :: "int option"
  send_buf_size :: "nat option"
  recv_buf_size :: "nat option"
  linger_timeout :: "int option"

definition default_tcp_options :: tcp_options where
  "default_tcp_options =
     \<lparr>reuse_addr = True, reuse_port = False, nodelay = True, keepalive_idle = None,
      keepalive_interval = None, keepalive_count = None, send_buf_size = None, recv_buf_size = None,
      linger_timeout = None\<rparr>"

datatype tls_version = Auto | TLS1_2 | TLS1_3

record tls_options =
  min_version :: tls_version
  max_version :: tls_version
  cipher_suites :: "string list"
  ecdh_curves :: "string list"
  enable_session_tickets :: bool
  ticket_lifetime :: "int option"
  restrict_cipher_on_resume :: bool
  verify_peer :: bool
  verify_depth :: int
  handshake_timeout_ms :: "int option"

definition default_tls_options :: tls_options where
  "default_tls_options =
     \<lparr>min_version = TLS1_2, max_version = TLS1_3, cipher_suites = [],
      ecdh_curves = [''x25519'', ''secp256r1''], enable_session_tickets = True,
      ticket_lifetime = Some (24 * 60 * 60 * 1000), restrict_cipher_on_resume = True,
      verify_peer = False, verify_depth = 5, handshake_timeout_ms = None\<rparr>"

record tls_server_options =
  cert_chain_path :: string
  private_key_path :: string

section \<open>The TLS context\<close>

datatype tls_method = Tlsv12_client | Tlsv12_server | Tlsv13_client | Tlsv13_server

datatype ssl_flag =
    Op_no_sslv2 | Op_no_sslv3 | Op_no_compression
  | Op_no_tlsv1 | Op_no_tlsv1_1 | Op_no_tlsv1_2 | Op_no_tlsv1_3

text \<open>
  The settings handed to \<^verbatim>\<open>asio::ssl::context\<close>: \<open>None\<close> where the code leaves the default. A certificate
  or key file that cannot be loaded is only logged, and so is a refused cipher or curve list.
\<close>

record tls_context =
  ctx_method :: tls_method
  ctx_flags :: "ssl_flag set"
  ctx_ciphers :: "string option"
  ctx_curves :: "string option"
  ctx_timeout :: int
  ctx_verify_peer :: "bool option"
  ctx_verify_depth :: "int option"
  ctx_default_paths :: bool
  ctx_cert_file :: "string option"
  ctx_key_file :: "string option"

definition context_method :: "tls_version \<Rightarrow> bool \<Rightarrow> tls_method" where
  "context_method v is_server =
     (case v of
        TLS1_2 \<Rightarrow> (if is_server then Tlsv12_server else Tlsv12_client)
      | TLS1_3 \<Rightarrow> (if is_server then Tlsv13_server else Tlsv13_client)
      | Auto \<Rightarrow> (if is_server then Tlsv12_server else Tlsv12_client))"

definition context_flags :: "tls_version \<Rightarrow> tls_version \<Rightarrow> ssl_flag set" where
  "context_flags vmin vmax =
     {Op_no_sslv2, Op_no_sslv3, Op_no_compression} \<union>
     (case vmin of
        TLS1_2 \<Rightarrow> {Op_no_tlsv1, Op_no_tlsv1_1}
      | TLS1_3 \<Rightarrow> {Op_no_tlsv1, Op_no_tlsv1_1, Op_no_tlsv1_2}
      | Auto \<Rightarrow> {}) \<union>
     (case vmax of TLS1_2 \<Rightarrow> {Op_no_tlsv1_3} | _ \<Rightarrow> {})"

text \<open>The loops that join cipher and curve names with colons; an empty list is not passed on.\<close>

definition colon_list :: "string list \<Rightarrow> string option" where
  "colon_list xs = (if xs = [] then None else Some (join_with (CHR '':'') xs))"

text \<open>C++ division of a duration truncates towards zero.\<close>

definition truncated_div :: "int \<Rightarrow> int \<Rightarrow> int" where
  "truncated_div a b = (if a < 0 then - ((- a) div b) else a div b)"

definition new_TlsContext :: "tls_options \<Rightarrow> tls_server_options option \<Rightarrow> tls_context" where
  "new_TlsContext cfg server_opts =
     \<lparr>ctx_method = context_method (min_version cfg) (server_opts \<noteq> None),
      ctx_flags = context_flags (min_version cfg) (max_version cfg),
      ctx_ciphers = colon_list (cipher_suites cfg),
      ctx_curves = colon_list (ecdh_curves cfg),
      ctx_timeout = (case ticket_lifetime cfg of None \<Rightarrow> 86400 | Some ms \<Rightarrow> truncated_div ms 1000),
      ctx_verify_peer = (if server_opts = None then Some True else None),
      ctx_verify_depth =
        (if server_opts = None \<and> verify_depth cfg > 0 then Some (verify_depth cfg) else None),
      ctx_default_paths = (server_opts = None),
      ctx_cert_file =
        (case server_opts of
           None \<Rightarrow> None
         | Some so \<Rightarrow> if cert_chain_path so = [] then None else Some (cert_chain_path so)),
      ctx_key_file =
        (case server_opts of
           None \<Rightarrow> None
         | Some so \<Rightarrow> if private_key_path so = [] then None else Some (private_key_path so))\<rparr>"

section \<open>The environment\<close>

datatype socket_option =
    No_delay bool | Keep_alive bool | Send_buffer_size int | Receive_buffer_size int
  | Linger bool int | Reuse_address bool

datatype verify_mode = Verify_none | Verify_peer_required

text \<open>The per-connection settings of an \<^verbatim>\<open>asio::ssl::stream\<close>, on top of those of its context.\<close>

record ssl_stream =
  str_fd :: nat
  str_context :: tls_context
  str_ciphers :: "string option"
  str_curves :: "string option"
  str_verify_mode :: "verify_mode option"
  str_verify_depth :: "int option"
  str_no_ticket :: bool

text \<open>
  \<^item> \<open>net_resolve host service\<close>: \<^verbatim>\<open>async_resolve\<close>, which has no timer and may never complete.
  \<^item> \<open>net_connect endpoints t\<close>: a new socket, \<^verbatim>\<open>async_connect\<close> raced against a timer in a parallel group:
    whether the timer was first, the completion code of the connect, the native socket.
  \<^item> \<open>net_set_option\<close>: \<^verbatim>\<open>set_option\<close> on a connected socket.
  \<^item> \<open>net_id_counter\<close>, \<open>net_store_id_counter\<close>: the static counter of \<^verbatim>\<open>SocketBase.cpp\<close>.
  \<^item> \<open>net_file_exists\<close>: \<^verbatim>\<open>std::filesystem::exists\<close> without exceptions.
  \<^item> \<open>ssl_native\<close>, \<open>ssl_cipher_list\<close>, \<open>ssl_curves_list\<close>: whether the stream has a native handle, and
    whether OpenSSL accepts the list.
  \<^item> \<open>ssl_handshake server stream t\<close>: \<^verbatim>\<open>async_handshake\<close> raced against a timer, as for reads.
\<close>

record 'w net =
  net_resolve :: "string \<Rightarrow> string \<Rightarrow> 'w \<Rightarrow> (error_code \<times> string list \<times> 'w) option"
  net_connect :: "string list \<Rightarrow> int \<Rightarrow> 'w \<Rightarrow> bool \<times> error_code \<times> nat \<times> 'w"
  net_set_option :: "nat \<Rightarrow> socket_option \<Rightarrow> 'w \<Rightarrow> error_code \<times> 'w"
  net_id_counter :: "'w \<Rightarrow> uint32"
  net_store_id_counter :: "uint32 \<Rightarrow> 'w \<Rightarrow> 'w"
  net_file_exists :: "string \<Rightarrow> 'w \<Rightarrow> bool"
  ssl_native :: "nat \<Rightarrow> tls_context \<Rightarrow> bool"
  ssl_cipher_list :: "string \<Rightarrow> bool"
  ssl_curves_list :: "string \<Rightarrow> bool"
  ssl_handshake :: "bool \<Rightarrow> ssl_stream \<Rightarrow> int \<Rightarrow> 'w \<Rightarrow> error_code \<times> bool \<times> 'w"

definition createTlsContextWrapper ::
  "'w net \<Rightarrow> tls_options \<Rightarrow> tls_server_options option \<Rightarrow> 'w \<Rightarrow> tls_context expected" where
  "createTlsContextWrapper N cfg server_opts w =
     (case server_opts of
        None \<Rightarrow> Inr (new_TlsContext cfg None)
      | Some so \<Rightarrow>
          if cert_chain_path so \<noteq> [] \<and> \<not> net_file_exists N (cert_chain_path so) w then
            Inl (make_error_code TLS_CERT_LOAD_FAILURE)
          else if private_key_path so \<noteq> [] \<and> \<not> net_file_exists N (private_key_path so) w then
            Inl (make_error_code TLS_CERT_LOAD_FAILURE)
          else Inr (new_TlsContext cfg (Some so)))"

text \<open>A new stream around a socket: nothing set yet.\<close>

definition new_ssl_stream :: "nat \<Rightarrow> tls_context \<Rightarrow> ssl_stream" where
  "new_ssl_stream fd ctx =
     \<lparr>str_fd = fd, str_context = ctx, str_ciphers = None, str_curves = None, str_verify_mode = None,
      str_verify_depth = None, str_no_ticket = False\<rparr>"

text \<open>The constructors \<open>TcpSocket(sock)\<close> and \<open>TlsSocket(stream)\<close> with the shared counter.\<close>

definition make_socket :: "'w net \<Rightarrow> socket_kind \<Rightarrow> nat \<Rightarrow> 'w \<Rightarrow> dual_socket \<times> 'w" where
  "make_socket N kind fd w =
     (case new_socket kind fd (net_id_counter N w) of (s, c) \<Rightarrow> (s, net_store_id_counter N c w))"

definition new_TcpSocket :: "'w net \<Rightarrow> nat \<Rightarrow> 'w \<Rightarrow> dual_socket \<times> 'w" where
  "new_TcpSocket N sock w = make_socket N Tcp_Socket sock w"

definition new_TlsSocket :: "'w net \<Rightarrow> nat \<Rightarrow> 'w \<Rightarrow> dual_socket \<times> 'w" where
  "new_TlsSocket N stream w = make_socket N Tls_Socket stream w"

definition TcpSocketFactory_create :: "'w net \<Rightarrow> nat \<Rightarrow> 'w \<Rightarrow> dual_socket \<times> 'w" where
  "TcpSocketFactory_create N sock w = new_TcpSocket N sock w"

definition TlsSocketFactory_create :: "'w net \<Rightarrow> nat \<Rightarrow> 'w \<Rightarrow> dual_socket \<times> 'w" where
  "TlsSocketFactory_create N stream w = new_TlsSocket N stream w"

section \<open>Laws\<close>

text \<open>
  Resolving, setting options, the counter and the handshake move no application bytes and open or
  close nothing. A connect works on a new socket, one that was not open before (there is one as long
  as only finitely many are); it has no history, and it is open when the connect succeeds.
\<close>

definition same_sockets ::
  "'w asio \<Rightarrow> (nat \<Rightarrow> 'w \<Rightarrow> byte list) \<Rightarrow> (nat \<Rightarrow> 'w \<Rightarrow> byte list) \<Rightarrow> nat set \<Rightarrow> 'w \<Rightarrow> 'w \<Rightarrow> bool" where
  "same_sockets A rcvd sent S w w' \<longleftrightarrow>
     (\<forall>g. g \<notin> S \<longrightarrow> rcvd g w' = rcvd g w \<and> sent g w' = sent g w \<and> as_is_open A g w' = as_is_open A g w)"

definition connect_laws ::
  "'w asio \<Rightarrow> 'w net \<Rightarrow> (nat \<Rightarrow> 'w \<Rightarrow> byte list) \<Rightarrow> (nat \<Rightarrow> 'w \<Rightarrow> byte list) \<Rightarrow> bool" where
  "connect_laws A N rcvd sent \<longleftrightarrow>
     (\<forall>eps t w timer_first ec fd w'.
        net_connect N eps t w = (timer_first, ec, fd, w') \<longrightarrow> finite {g. as_is_open A g w} \<longrightarrow>
          \<not> as_is_open A fd w \<and> rcvd fd w' = [] \<and> sent fd w' = [] \<and>
          same_sockets A rcvd sent {fd} w w' \<and>
          (\<not> timer_first \<longrightarrow> \<not> ec_set ec \<longrightarrow> as_is_open A fd w'))"

definition net_laws ::
  "'w asio \<Rightarrow> 'w net \<Rightarrow> (nat \<Rightarrow> 'w \<Rightarrow> byte list) \<Rightarrow> (nat \<Rightarrow> 'w \<Rightarrow> byte list) \<Rightarrow> bool" where
  "net_laws A N rcvd sent \<longleftrightarrow>
     connect_laws A N rcvd sent \<and>
     (\<forall>host service w ec eps w'. net_resolve N host service w = Some (ec, eps, w') \<longrightarrow>
        same_sockets A rcvd sent {} w w') \<and>
     (\<forall>fd x w. same_sockets A rcvd sent {} w (snd (net_set_option N fd x w))) \<and>
     (\<forall>c w. same_sockets A rcvd sent {} w (net_store_id_counter N c w)) \<and>
     (\<forall>is_server st t w. same_sockets A rcvd sent {} w (snd (snd (ssl_handshake N is_server st t w))))"

locale net_env = asio_env A rcvd sent
  for A :: "'w asio" and rcvd sent :: "nat \<Rightarrow> 'w \<Rightarrow> byte list" +
  fixes N :: "'w net"
  assumes net_laws: "net_laws A N rcvd sent"
begin

lemma same_sockets_refl [simp]: "same_sockets A rcvd sent S w w"
  by (simp add: same_sockets_def)

lemma same_sockets_trans:
  "same_sockets A rcvd sent S w w1 \<Longrightarrow> same_sockets A rcvd sent T w1 w2 \<Longrightarrow>
   same_sockets A rcvd sent (S \<union> T) w w2"
  by (simp add: same_sockets_def)

lemma connect_law:
  assumes "net_connect N eps t w = (timer_first, ec, fd, w')" "finite {g. as_is_open A g w}"
  shows "\<not> as_is_open A fd w" "rcvd fd w' = []" "sent fd w' = []" "same_sockets A rcvd sent {fd} w w'"
    "\<not> timer_first \<Longrightarrow> \<not> ec_set ec \<Longrightarrow> as_is_open A fd w'"
proof -
  have "connect_laws A N rcvd sent" using net_laws by (simp add: net_laws_def)
  from this [unfolded connect_laws_def, rule_format, OF assms]
  show "\<not> as_is_open A fd w" "rcvd fd w' = []" "sent fd w' = []" "same_sockets A rcvd sent {fd} w w'"
    "\<not> timer_first \<Longrightarrow> \<not> ec_set ec \<Longrightarrow> as_is_open A fd w'" by simp_all
qed

lemma resolve_law: "net_resolve N host service w = Some (ec, eps, w') \<Longrightarrow> same_sockets A rcvd sent {} w w'"
  using net_laws unfolding net_laws_def by blast

lemma set_option_law: "net_set_option N fd x w = (ec, w') \<Longrightarrow> same_sockets A rcvd sent {} w w'"
  using net_laws unfolding net_laws_def by (metis snd_conv)

lemma store_id_law: "same_sockets A rcvd sent {} w (net_store_id_counter N c w)"
  using net_laws unfolding net_laws_def by blast

lemma handshake_law:
  "ssl_handshake N is_server st t w = (ec, fired, w') \<Longrightarrow> same_sockets A rcvd sent {} w w'"
  using net_laws unfolding net_laws_def by (metis snd_conv)

lemma cancel_law: "same_sockets A rcvd sent {} w (as_cancel A fd w)"
  by (simp add: same_sockets_def env_laws)

lemma spawn_same: "as_spawn A w = (o1, w') \<Longrightarrow> same_sockets A rcvd sent {} w w'"
  by (simp add: same_sockets_def spawn_law)

text \<open>A new socket that is closed again leaves no trace on the others and is not open.\<close>

lemma close_new:
  assumes "same_sockets A rcvd sent {fd} w w1" "\<not> as_is_open A fd w"
  shows "as_is_open A g (as_close A fd w1) = as_is_open A g w"
    "same_sockets A rcvd sent {fd} w (as_close A fd w1)"
  using assms by (auto simp: same_sockets_def env_laws)

lemma same_sockets_finite:
  assumes "same_sockets A rcvd sent {} w w'" "finite {g. as_is_open A g w}"
  shows "finite {g. as_is_open A g w'}"
proof -
  have "{g. as_is_open A g w'} = {g. as_is_open A g w}" using assms(1) by (simp add: same_sockets_def)
  with assms(2) show ?thesis by simp
qed

end

section \<open>A scripted network\<close>

text \<open>
  The scripted world of the socket layer with connections: a new socket is the first one that is not
  open, and its script is the one already in place. Names resolve to themselves.
\<close>

partial_function (option) free_fd :: "nat \<Rightarrow> script_world \<Rightarrow> nat option" where
  "free_fd n w = (if \<not> sw_open w n then Some n else free_fd (Suc n) w)"

definition script_connect ::
  "string list \<Rightarrow> int \<Rightarrow> script_world \<Rightarrow> bool \<times> error_code \<times> nat \<times> script_world" where
  "script_connect eps t w =
     (case free_fd 0 w of
        None \<Rightarrow> (False, Asio_ec Connection_refused, 0, w)
      | Some fd \<Rightarrow>
          (False, No_ec, fd,
           w\<lparr>sw_rcvd := (sw_rcvd w)(fd := []), sw_sent := (sw_sent w)(fd := []), sw_open := (sw_open w)(fd := True)\<rparr>))"

definition script_net :: "script_world net" where
  "script_net =
     \<lparr>net_resolve = (\<lambda>host service w. Some (if host = [] then Asio_ec Host_not_found else No_ec, [host], w)),
      net_connect = script_connect,
      net_set_option = (\<lambda>fd x w. (No_ec, w)),
      net_id_counter = sw_counter,
      net_store_id_counter = (\<lambda>c w. w\<lparr>sw_counter := c\<rparr>),
      net_file_exists = (\<lambda>p w. p \<noteq> []),
      ssl_native = (\<lambda>fd ctx. True),
      ssl_cipher_list = (\<lambda>l. l \<noteq> ''bad''),
      ssl_curves_list = (\<lambda>l. l \<noteq> ''bad''),
      ssl_handshake = (\<lambda>is_server st t w. (No_ec, False, w))\<rparr>"

lemma free_fd_result:
  assumes "free_fd n w = Some fd"
  shows "\<not> sw_open w fd"
  by (rule free_fd.raw_induct [where P = "\<lambda>n w fd. \<not> sw_open w fd", OF _ assms]) (metis option.inject)

lemma free_fd_finds:
  assumes "\<not> sw_open w (n + k)"
  shows "\<exists>fd. free_fd n w = Some fd"
  using assms
proof (induction k arbitrary: n)
  case 0
  then show ?case by (subst free_fd.simps) simp
next
  case (Suc k)
  then show ?case by (subst free_fd.simps) simp
qed

lemma free_fd_finite:
  assumes "finite {g. sw_open w g}"
  shows "\<exists>fd. free_fd 0 w = Some fd"
proof -
  have "\<exists>k. \<not> sw_open w k" using ex_new_if_finite [OF infinite_UNIV_nat assms] by simp
  then show ?thesis using free_fd_finds [of w 0] by auto
qed

lemma script_connect_laws:
  "connect_laws script_asio script_net (\<lambda>fd w. sw_rcvd w fd) (\<lambda>fd w. sw_sent w fd)"
  unfolding connect_laws_def
proof (intro allI impI)
  fix eps t w timer_first ec fd w'
  assume "net_connect script_net eps t w = (timer_first, ec, fd, w')" "finite {g. as_is_open script_asio g w}"
  moreover from this(2) obtain fd' where "free_fd 0 w = Some fd'"
    using free_fd_finite [of w] by (auto simp: script_asio_def)
  ultimately show "\<not> as_is_open script_asio fd w \<and> sw_rcvd w' fd = [] \<and> sw_sent w' fd = [] \<and>
      same_sockets script_asio (\<lambda>fd w. sw_rcvd w fd) (\<lambda>fd w. sw_sent w fd) {fd} w w' \<and>
      (\<not> timer_first \<longrightarrow> \<not> ec_set ec \<longrightarrow> as_is_open script_asio fd w')"
    using free_fd_result [of 0 w fd']
    by (auto simp: script_net_def script_connect_def script_asio_def same_sockets_def)
qed

interpretation script_net: net_env script_asio "\<lambda>fd w. sw_rcvd w fd" "\<lambda>fd w. sw_sent w fd" script_net
proof
  show "net_laws script_asio script_net (\<lambda>fd w. sw_rcvd w fd) (\<lambda>fd w. sw_sent w fd)"
    unfolding net_laws_def using script_connect_laws
    by (simp add: script_net_def same_sockets_def script_asio_def)
qed

end
