(* ===== verification/Client.thy ===== *)
theory Client
  imports Connection_Env
begin

text \<open>
  Connection establishment on the client side: \<^verbatim>\<open>src/client/Client.cpp\<close> and \<^verbatim>\<open>ClientBase.cpp\<close>.
  The asio socket is a local variable of the coroutine: on every path that does not hand it on, its
  destructor closes it. The build without \<^verbatim>\<open>OPENSSL_API_3\<close> is modelled, which no file of the
  repository defines.
\<close>

record client =
  cl_host :: string
  cl_port :: uint16

definition new_Client :: "string \<Rightarrow> uint16 \<Rightarrow> client" where
  "new_Client host port = \<lparr>cl_host = host, cl_port = port\<rparr>"

section \<open>Socket options\<close>

text \<open>The options that are set, in order; the first refusal ends the function.\<close>

definition wanted_options :: "tcp_options \<Rightarrow> socket_option list" where
  "wanted_options opts =
     (if nodelay opts then [No_delay True] else []) @
     (if keepalive_idle opts \<noteq> None \<or> keepalive_interval opts \<noteq> None \<or> keepalive_count opts \<noteq> None
      then [Keep_alive True] else []) @
     (case send_buf_size opts of None \<Rightarrow> [] | Some n \<Rightarrow> [Send_buffer_size (cast_int (int n))]) @
     (case recv_buf_size opts of None \<Rightarrow> [] | Some n \<Rightarrow> [Receive_buffer_size (cast_int (int n))]) @
     (case linger_timeout opts of
        None \<Rightarrow> []
      | Some ms \<Rightarrow> [Linger True (cast_int (truncated_div ms 1000))])"

fun set_options :: "'w net \<Rightarrow> nat \<Rightarrow> socket_option list \<Rightarrow> 'w \<Rightarrow> error_code \<times> 'w" where
  "set_options N fd [] w = (No_ec, w)"
| "set_options N fd (x # xs) w =
     (case net_set_option N fd x w of (ec, w1) \<Rightarrow>
        if ec_set ec then (makeOptionError ec, w1) else set_options N fd xs w1)"

definition applyPreConnectTcpOptions ::
  "'w net \<Rightarrow> nat \<Rightarrow> tcp_options \<Rightarrow> 'w \<Rightarrow> error_code \<times> 'w" where
  "applyPreConnectTcpOptions N fd opts w = set_options N fd (wanted_options opts) w"

definition applyPreConnectTlsOptions ::
  "'w net \<Rightarrow> tls_options \<Rightarrow> ssl_stream \<Rightarrow> error_code \<times> ssl_stream" where
  "applyPreConnectTlsOptions N opts st =
     (let refused = makeOptionError (make_error_code OPTION_ERROR) in
      if \<not> ssl_native N (str_fd st) (str_context st) then (refused, st)
      else
        let (ec1, st1) =
              (case colon_list (cipher_suites opts) of
                 None \<Rightarrow> (No_ec, st)
               | Some cipher_list \<Rightarrow>
                   if ssl_cipher_list N cipher_list then (No_ec, st\<lparr>str_ciphers := Some cipher_list\<rparr>)
                   else (refused, st));
            (ec2, st2) =
              (case colon_list (ecdh_curves opts) of
                 None \<Rightarrow> (ec1, st1)
               | Some curve_list \<Rightarrow>
                   if ssl_curves_list N curve_list then (ec1, st1\<lparr>str_curves := Some curve_list\<rparr>)
                   else (refused, st1));
            st3 = st2\<lparr>str_verify_mode := Some (if verify_peer opts then Verify_peer_required else Verify_none),
                      str_verify_depth := Some (verify_depth opts)\<rparr>;
            st4 = (if \<not> enable_session_tickets opts then st3\<lparr>str_no_ticket := False\<rparr>
                   else (st3\<lparr>str_no_ticket := True\<rparr>)\<lparr>str_no_ticket := False\<rparr>)
        in (ec2, st4))"

section \<open>Connecting\<close>

text \<open>The common first half of both coroutines: a connected native socket with its options set.\<close>

definition open_connection ::
  "'w asio \<Rightarrow> 'w net \<Rightarrow> client \<Rightarrow> int \<Rightarrow> tcp_options \<Rightarrow> 'w \<Rightarrow> (nat expected \<times> 'w) option" where
  "open_connection A N c t tcp_opts w =
     do {
       (ec, endpoints, w1) \<leftarrow> net_resolve N (cl_host c) (to_string (unat (cl_port c))) w;
       if ec_set ec then Some (Inl (makeDnsError ec), w1)
       else
         (case net_connect N endpoints t w1 of (timer_first, ec1, sock, w2) \<Rightarrow>
            if timer_first then Some (Inl makeTimeoutError, as_close A sock w2)
            else if ec_set ec1 then Some (Inl (makeConnectionError ec1), as_close A sock w2)
            else
              (case applyPreConnectTcpOptions N sock tcp_opts w2 of (opts_ec, w3) \<Rightarrow>
                 if ec_set opts_ec then Some (Inl opts_ec, as_close A sock w3)
                 else Some (Inr sock, w3)))
     }"

definition Client_asyncConnect ::
  "'w asio \<Rightarrow> 'w net \<Rightarrow> client \<Rightarrow> int \<Rightarrow> tcp_options \<Rightarrow> 'w \<Rightarrow> (dual_socket expected \<times> 'w) option" where
  "Client_asyncConnect A N c t tcp_opts w =
     do {
       (r, w1) \<leftarrow> open_connection A N c t tcp_opts w;
       case r of
         Inl e \<Rightarrow> Some (Inl e, w1)
       | Inr sock \<Rightarrow> (case make_socket N Tcp_Socket sock w1 of (s, w2) \<Rightarrow> Some (Inr s, w2))
     }"

text \<open>
  The handshake, the same on both sides: the handler of the timer, when it runs, cancels the socket;
  the error is the timeout or the translated code.
\<close>

definition tls_handshake ::
  "'w asio \<Rightarrow> 'w net \<Rightarrow> bool \<Rightarrow> ssl_stream \<Rightarrow> tls_options \<Rightarrow> 'w \<Rightarrow> error_code \<times> 'w" where
  "tls_handshake A N is_server st tls_opts w =
     (case ssl_handshake N is_server st (effective_timeout (handshake_timeout_ms tls_opts)) w of
        (hs_ec, hs_timed_out, w1) \<Rightarrow>
          (if hs_ec = Asio_ec Operation_aborted \<and> hs_timed_out then makeTimeoutError
           else if ec_set hs_ec then makeTlsError hs_ec
           else No_ec,
           if hs_timed_out then as_cancel A (str_fd st) w1 else w1))"

definition Client_asyncConnectTls ::
  "'w asio \<Rightarrow> 'w net \<Rightarrow> client \<Rightarrow> int \<Rightarrow> tcp_options \<Rightarrow> tls_options \<Rightarrow> 'w \<Rightarrow>
   (dual_socket expected \<times> 'w) option" where
  "Client_asyncConnectTls A N c t tcp_opts tls_opts w =
     do {
       (r, w1) \<leftarrow> open_connection A N c t tcp_opts w;
       case r of
         Inl e \<Rightarrow> Some (Inl e, w1)
       | Inr sock \<Rightarrow>
           (case createTlsContextWrapper N tls_opts None w1 of
              Inl e \<Rightarrow> Some (Inl e, as_close A sock w1)
            | Inr ctx \<Rightarrow>
                (case applyPreConnectTlsOptions N tls_opts (new_ssl_stream sock ctx) of (tls_ec, st) \<Rightarrow>
                   if ec_set tls_ec then Some (Inl tls_ec, as_close A sock w1)
                   else
                     (case tls_handshake A N False st tls_opts w1 of (hs_ec, w2) \<Rightarrow>
                        if ec_set hs_ec then Some (Inl hs_ec, as_close A sock w2)
                        else
                          (case make_socket N Tls_Socket sock w2 of (s, w3) \<Rightarrow> Some (Inr s, w3)))))
     }"

definition Client_connect ::
  "'w asio \<Rightarrow> 'w net \<Rightarrow> client \<Rightarrow> int \<Rightarrow> tcp_options \<Rightarrow> 'w \<Rightarrow> (dual_socket expected \<times> 'w) option" where
  "Client_connect A N c t tcp_opts w =
     spawn_and_get A (Client_asyncConnect A N c t tcp_opts)
       (\<lambda>w1. (Inl (makeReadError (Generic_ec Operation_canceled)), w1)) w"

definition Client_connectTls ::
  "'w asio \<Rightarrow> 'w net \<Rightarrow> client \<Rightarrow> int \<Rightarrow> tcp_options \<Rightarrow> tls_options \<Rightarrow> 'w \<Rightarrow>
   (dual_socket expected \<times> 'w) option" where
  "Client_connectTls A N c t tcp_opts tls_opts w =
     spawn_and_get A (Client_asyncConnectTls A N c t tcp_opts tls_opts)
       (\<lambda>w1. (Inl (makeReadError (Generic_ec Operation_canceled)), w1)) w"

section \<open>Lemmas\<close>

text \<open>
  What a connection attempt may do: hand out a new, open socket without history, or report a set
  error code and leave exactly the sockets open that were open before.
\<close>

definition connection_outcome ::
  "'w asio \<Rightarrow> (nat \<Rightarrow> 'w \<Rightarrow> byte list) \<Rightarrow> (nat \<Rightarrow> 'w \<Rightarrow> byte list) \<Rightarrow> ('a \<Rightarrow> nat) \<Rightarrow> 'w \<Rightarrow>
   'a expected \<Rightarrow> 'w \<Rightarrow> bool" where
  "connection_outcome A rcvd sent fd_of w r w' \<longleftrightarrow>
     (case r of
        Inr s \<Rightarrow> \<not> as_is_open A (fd_of s) w \<and> as_is_open A (fd_of s) w' \<and>
          rcvd (fd_of s) w' = [] \<and> sent (fd_of s) w' = [] \<and> same_sockets A rcvd sent {fd_of s} w w'
      | Inl e \<Rightarrow> ec_set e \<and> (\<forall>g. as_is_open A g w' = as_is_open A g w) \<and>
          (\<exists>fd. \<not> as_is_open A fd w \<and> same_sockets A rcvd sent {fd} w w'))"

lemma set_options_prefix:
  assumes "set_options N fd xs w = (ec, w')"
  shows "\<exists>n \<le> length xs. w' = foldl (\<lambda>w x. snd (net_set_option N fd x w)) w (take n xs) \<and>
    (if ec_set ec then ec = make_error_code OPTION_ERROR else n = length xs)"
  using assms
proof (induction xs arbitrary: w)
  case (Cons x xs)
  obtain ec1 w1 where s: "net_set_option N fd x w = (ec1, w1)" by (metis prod.exhaust)
  show ?case
  proof (cases "ec_set ec1")
    case True
    with Cons.prems s show ?thesis by (intro exI [of _ 1]) (auto simp: makeOptionError_def)
  next
    case False
    with Cons.prems s have "set_options N fd xs w1 = (ec, w')" by simp
    from Cons.IH [OF this] obtain n where "n \<le> length xs"
      "w' = foldl (\<lambda>w x. snd (net_set_option N fd x w)) w1 (take n xs)"
      "if ec_set ec then ec = make_error_code OPTION_ERROR else n = length xs" by blast
    with s show ?thesis by (intro exI [of _ "Suc n"]) auto
  qed
qed simp

context net_env
begin

lemma set_options_same: "set_options N fd xs w = (ec, w') \<Longrightarrow> same_sockets A rcvd sent {} w w'"
proof (induction xs arbitrary: w)
  case (Cons x xs)
  obtain ec1 w1 where s: "net_set_option N fd x w = (ec1, w1)" by (metis prod.exhaust)
  note set_option_law [OF s]
  moreover have "same_sockets A rcvd sent {} w1 w'" using Cons s by (auto split: if_splits)
  ultimately show ?case using same_sockets_trans [of "{}" w w1 "{}" w'] by simp
qed simp

lemma same_after: "same_sockets A rcvd sent {} w w1 \<Longrightarrow> same_sockets A rcvd sent S w1 w2 \<Longrightarrow>
    same_sockets A rcvd sent S w w2"
  "same_sockets A rcvd sent S w w1 \<Longrightarrow> same_sockets A rcvd sent {} w1 w2 \<Longrightarrow>
    same_sockets A rcvd sent S w w2"
  by (auto simp: same_sockets_def)

lemma exists_closed: "finite {g. as_is_open A g w} \<Longrightarrow> \<exists>fd. \<not> as_is_open A fd w"
  using ex_new_if_finite [OF infinite_UNIV_nat, of "{g. as_is_open A g w}"] by simp

text \<open>The three ways an attempt goes on once its socket exists.\<close>

lemma outcome_closed:
  assumes "same_sockets A rcvd sent {fd} w w1" "\<not> as_is_open A fd w" "ec_set e"
  shows "connection_outcome A rcvd sent fd_of w (Inl e) (as_close A fd w1)"
  using close_new [OF assms(1,2)] assms(2,3) by (auto simp: connection_outcome_def)

lemma outcome_step:
  assumes "connection_outcome A rcvd sent fd_of w r w1" "same_sockets A rcvd sent {} w1 w2"
  shows "connection_outcome A rcvd sent fd_of w r w2"
  using assms by (auto simp: connection_outcome_def same_sockets_def split: sum.splits)

lemma outcome_before:
  assumes "same_sockets A rcvd sent {} w w1" "connection_outcome A rcvd sent fd_of w1 r w2"
  shows "connection_outcome A rcvd sent fd_of w r w2"
  using assms by (auto simp: connection_outcome_def same_sockets_def split: sum.splits)

lemma outcome_lost:
  assumes "connection_outcome A rcvd sent fd_of w (Inr x) w1" "ec_set e"
  shows "connection_outcome A rcvd sent fd_of' w (Inl e) (as_close A (fd_of x) w1)"
  using assms outcome_closed [of "fd_of x" w w1 e] by (simp add: connection_outcome_def)

lemma outcome_make_socket:
  assumes "connection_outcome A rcvd sent (\<lambda>fd. fd) w (Inr fd) w1" "make_socket N kind fd w1 = (s, w2)"
  shows "connection_outcome A rcvd sent sock_fd w (Inr s) w2" "sock_kind s = kind" "read_buffer s = []"
proof -
  have s: "sock_fd s = fd" "sock_kind s = kind" "read_buffer s = []"
    and w2: "\<exists>c. w2 = net_store_id_counter N c w1"
    using assms(2) by (auto simp: make_socket_def new_socket_def)
  from w2 have "same_sockets A rcvd sent {} w1 w2" using store_id_law by blast
  from outcome_step [OF assms(1) this] s(1)
  show "connection_outcome A rcvd sent sock_fd w (Inr s) w2" by (simp add: connection_outcome_def)
  show "sock_kind s = kind" "read_buffer s = []" by (fact s)+
qed

lemma open_connection_outcome:
  assumes "open_connection A N c t opts w = Some (r, w')" "finite {g. as_is_open A g w}"
  shows "connection_outcome A rcvd sent (\<lambda>fd. fd) w r w'"
proof -
  from assms(1) obtain ec eps w1 where rs:
    "net_resolve N (cl_host c) (to_string (unat (cl_port c))) w = Some (ec, eps, w1)"
    by (auto simp: open_connection_def split: bind_splits)
  note same1 = resolve_law [OF rs]
  note fin = same_sockets_finite [OF same1 assms(2)]
  show ?thesis
  proof (cases "ec_set ec")
    case True
    with assms(1) rs have "r = Inl (makeDnsError ec)" "w' = w1" by (simp_all add: open_connection_def)
    then show ?thesis using True same1 exists_closed [OF assms(2)]
      by (auto simp: connection_outcome_def same_sockets_def)
  next
    case False
    obtain first ec1 fd w2 where cn: "net_connect N eps t w1 = (first, ec1, fd, w2)" by (metis prod_cases4)
    obtain oec w3 where op: "applyPreConnectTcpOptions N fd opts w2 = (oec, w3)" by (metis prod.exhaust)
    note cl = connect_law [OF cn fin]
    note same3 = set_options_same [OF op [unfolded applyPreConnectTcpOptions_def]]
    note same2 = same_after(2) [OF cl(4) same3]
    have "connection_outcome A rcvd sent (\<lambda>fd. fd) w1 r w'"
    proof (cases "first \<or> ec_set ec1 \<or> ec_set oec")
      case True
      then have "\<exists>e. r = Inl e \<and> ec_set e \<and> (w' = as_close A fd w2 \<or> w' = as_close A fd w3)"
        using assms(1) rs False cn op by (auto simp: open_connection_def split: if_splits)
      then show ?thesis using outcome_closed [OF cl(4,1)] outcome_closed [OF same2 cl(1)] by blast
    next
      case ok: False
      then have "r = Inr fd" "w' = w3" using assms(1) rs False cn op by (auto simp: open_connection_def)
      with cl ok same2 same3 show ?thesis by (auto simp: connection_outcome_def same_sockets_def)
    qed
    then show ?thesis using same1 by (rule outcome_before [rotated])
  qed
qed

lemma asyncConnect_outcome:
  assumes "Client_asyncConnect A N c t opts w = Some (r, w')" "finite {g. as_is_open A g w}"
  shows "connection_outcome A rcvd sent sock_fd w r w' \<and>
    (\<forall>s. r = Inr s \<longrightarrow> sock_kind s = Tcp_Socket \<and> read_buffer s = [])"
proof -
  from assms(1) obtain r1 w1 where oc: "open_connection A N c t opts w = Some (r1, w1)"
    by (auto simp: Client_asyncConnect_def split: bind_splits)
  note o1 = open_connection_outcome [OF this assms(2)]
  show ?thesis
  proof (cases r1)
    case (Inl e)
    with assms(1) oc o1 show ?thesis by (auto simp: Client_asyncConnect_def connection_outcome_def)
  next
    case (Inr fd)
    obtain s w2 where ms: "make_socket N Tcp_Socket fd w1 = (s, w2)" by (metis prod.exhaust)
    with assms(1) oc Inr have "r = Inr s" "w' = w2" by (simp_all add: Client_asyncConnect_def)
    with outcome_make_socket [OF o1 [unfolded Inr] ms] show ?thesis by simp
  qed
qed

lemma tls_handshake_same:
  assumes "tls_handshake A N b st opts w = (ec, w')"
  shows "same_sockets A rcvd sent {} w w'"
proof -
  obtain e fired w1 where hs:
    "ssl_handshake N b st (effective_timeout (handshake_timeout_ms opts)) w = (e, fired, w1)"
    by (metis prod_cases3)
  have "w' = w1 \<or> w' = as_cancel A (str_fd st) w1"
    using assms hs by (auto simp: tls_handshake_def split: if_splits)
  with handshake_law [OF hs] same_after(1) [OF handshake_law [OF hs] cancel_law] show ?thesis by blast
qed

lemma asyncConnectTls_outcome:
  assumes "Client_asyncConnectTls A N c t opts topts w = Some (r, w')" "finite {g. as_is_open A g w}"
  shows "connection_outcome A rcvd sent sock_fd w r w' \<and>
    (\<forall>s. r = Inr s \<longrightarrow> sock_kind s = Tls_Socket \<and> read_buffer s = [])"
proof -
  from assms(1) obtain r1 w1 where oc: "open_connection A N c t opts w = Some (r1, w1)"
    by (auto simp: Client_asyncConnectTls_def split: bind_splits)
  note o1 = open_connection_outcome [OF this assms(2)]
  show ?thesis
  proof (cases r1)
    case (Inl e)
    with assms(1) oc o1 show ?thesis by (auto simp: Client_asyncConnectTls_def connection_outcome_def)
  next
    case (Inr fd)
    obtain tec st where ap: "applyPreConnectTlsOptions N topts (new_ssl_stream fd (new_TlsContext topts None)) = (tec, st)"
      by (metis prod.exhaust)
    obtain hec w2 where hs: "tls_handshake A N False st topts w1 = (hec, w2)" by (metis prod.exhaust)
    obtain s w3 where ms: "make_socket N Tls_Socket fd w2 = (s, w3)" by (metis prod.exhaust)
    note run = assms(1) [unfolded Client_asyncConnectTls_def createTlsContextWrapper_def, simplified oc Inr, simplified,
        simplified ap, simplified, simplified hs, simplified]
    note o2 = outcome_step [OF o1 tls_handshake_same [OF hs], unfolded Inr]
    show ?thesis
      using run outcome_lost [OF o1 [unfolded Inr]] outcome_lost [OF o2] outcome_make_socket [OF o2 ms]
      by (auto simp: ms split: if_splits)
  qed
qed

lemma spawned_outcome:
  assumes "spawn_and_get A body (\<lambda>w1. (Inl e, w1)) w = Some (r, w')" "ec_set e"
    and "finite {g. as_is_open A g w}"
    and "\<And>w0. body w0 = Some (r, w') \<Longrightarrow> finite {g. as_is_open A g w0} \<Longrightarrow>
           connection_outcome A rcvd sent sock_fd w0 r w' \<and> P r"
    and "P (Inl e)"
  shows "connection_outcome A rcvd sent sock_fd w r w' \<and> P r"
proof -
  obtain o1 w0 where sp: "as_spawn A w = (o1, w0)" by (metis prod.exhaust)
  note same = spawn_same [OF sp]
  show ?thesis
  proof (cases o1)
    case Spawn_runs
    with assms(1) sp have "body w0 = Some (r, w')" by (simp add: spawn_and_get_def)
    from assms(4) [OF this same_sockets_finite [OF same assms(3)]] same show ?thesis
      using outcome_before by blast
  next
    case Spawn_dropped
    with assms(1,2,5) sp same exists_closed [OF assms(3)] show ?thesis
      by (auto simp: spawn_and_get_def connection_outcome_def same_sockets_def)
  next
    case Spawn_blocks
    with assms(1) sp show ?thesis by (simp add: spawn_and_get_def)
  qed
qed

lemma connect_outcome:
  assumes "Client_connect A N c t opts w = Some (r, w')" "finite {g. as_is_open A g w}"
  shows "connection_outcome A rcvd sent sock_fd w r w' \<and>
    (\<forall>s. r = Inr s \<longrightarrow> sock_kind s = Tcp_Socket \<and> read_buffer s = [])"
  using assms(1) [unfolded Client_connect_def] _ assms(2)
  by (rule spawned_outcome) (simp_all add: asyncConnect_outcome)

lemma connectTls_outcome:
  assumes "Client_connectTls A N c t opts topts w = Some (r, w')" "finite {g. as_is_open A g w}"
  shows "connection_outcome A rcvd sent sock_fd w r w' \<and>
    (\<forall>s. r = Inr s \<longrightarrow> sock_kind s = Tls_Socket \<and> read_buffer s = [])"
  using assms(1) [unfolded Client_connectTls_def] _ assms(2)
  by (rule spawned_outcome) (simp_all add: asyncConnectTls_outcome)

end

section \<open>Properties\<close>

text \<open>
  C8: connecting, synchronously or not, with or without TLS, either returns a new socket object of
  the right class around a socket that was not open before, is open now and has carried no byte; or
  it returns a set error code, and then no socket stays open that was not open before. No other
  socket is touched in either case.
\<close>

theorem connect_fresh_or_nothing:
  assumes "asio_laws A rcvd sent" and "net_laws A N rcvd sent" and "finite {g. as_is_open A g w}"
    and "Client_connect A N c t opts w = Some (r, w') \<and> kind = Tcp_Socket \<or>
         Client_asyncConnect A N c t opts w = Some (r, w') \<and> kind = Tcp_Socket \<or>
         Client_connectTls A N c t opts topts w = Some (r, w') \<and> kind = Tls_Socket \<or>
         Client_asyncConnectTls A N c t opts topts w = Some (r, w') \<and> kind = Tls_Socket"
  shows "(case r of
            Inr s \<Rightarrow> sock_kind s = kind \<and> read_buffer s = [] \<and>
              \<not> as_is_open A (sock_fd s) w \<and> as_is_open A (sock_fd s) w' \<and>
              rcvd (sock_fd s) w' = [] \<and> sent (sock_fd s) w' = []
          | Inl e \<Rightarrow> ec_set e \<and> (\<forall>g. as_is_open A g w' = as_is_open A g w)) \<and>
         (\<exists>fd. \<not> as_is_open A fd w \<and>
            (\<forall>g. g \<noteq> fd \<longrightarrow> rcvd g w' = rcvd g w \<and> sent g w' = sent g w \<and>
                            as_is_open A g w' = as_is_open A g w))"
proof -
  have net: "net_env A rcvd sent N" using assms(1,2) by (simp add: net_env_def asio_env_def net_env_axioms_def)
  have "connection_outcome A rcvd sent sock_fd w r w' \<and>
      (\<forall>s. r = Inr s \<longrightarrow> sock_kind s = kind \<and> read_buffer s = [])"
    using assms(4)
    by (elim disjE conjE)
      (simp_all add: net_env.connect_outcome [OF net _ assms(3)] net_env.asyncConnect_outcome [OF net _ assms(3)]
        net_env.connectTls_outcome [OF net _ assms(3)] net_env.asyncConnectTls_outcome [OF net _ assms(3)])
  then show ?thesis by (cases r) (auto simp: connection_outcome_def same_sockets_def)
qed

definition quiet_world :: script_world where
  "quiet_world = (script_start [])\<lparr>sw_open := (\<lambda>_. False)\<rparr>"

lemma demo_connect:
  "Client_connectTls script_asio script_net (new_Client ''host'' 80) 500 default_tcp_options default_tls_options
     quiet_world = Some (Inr \<lparr>sock_kind = Tls_Socket, sock_id = 0, sock_fd = 0, read_buffer = []\<rparr>,
       quiet_world\<lparr>sw_open := (\<lambda>_. False)(0 := True), sw_counter := 1\<rparr>)"
  by (simp add: Client_connectTls_def Client_asyncConnectTls_def spawn_and_get_def script_simps quiet_world_def
      open_connection_def script_net_def script_connect_def free_fd.simps applyPreConnectTcpOptions_def
      wanted_options_def default_tcp_options_def createTlsContextWrapper_def new_Client_def
      applyPreConnectTlsOptions_def default_tls_options_def colon_list_def new_ssl_stream_def tls_handshake_def
      make_socket_def new_socket_def Let_def fun_upd_def)

theorem connect_fresh_or_nothing_witness:
  "\<exists>s w'. Client_connectTls script_asio script_net (new_Client ''host'' 80) 500 default_tcp_options
             default_tls_options quiet_world = Some (Inr s, w') \<and>
     sock_kind s = Tls_Socket \<and> sw_open w' (sock_fd s) \<and> \<not> sw_open quiet_world (sock_fd s)"
  using connect_fresh_or_nothing [OF script_laws script_net.net_laws _ disjI2 [OF disjI2 [OF disjI1 [OF conjI [OF demo_connect refl]]]]]
    demo_connect
  by (simp add: quiet_world_def script_simps)

text \<open>
  Which TCP options reach the operating system: they are set in a fixed order, up to and including
  the first that is refused, which makes the connection attempt fail with \<open>OPTION_ERROR\<close>; buffer sizes
  and the linger time are narrowed to 32 bits.
\<close>

theorem tcp_options_applied_in_order:
  assumes "applyPreConnectTcpOptions N fd opts w = (ec, w')"
  shows "(\<exists>n \<le> length (wanted_options opts).
            w' = foldl (\<lambda>w x. snd (net_set_option N fd x w)) w (take n (wanted_options opts)) \<and>
            (if ec_set ec then ec = make_error_code OPTION_ERROR else n = length (wanted_options opts))) \<and>
         (\<forall>m. send_buf_size opts = Some m \<longrightarrow>
            (\<exists>n \<in> {- (2 ^ 31)..<2 ^ 31}. Send_buffer_size n \<in> set (wanted_options opts) \<and>
               (m < 2 ^ 31 \<longrightarrow> n = int m)))"
proof (intro conjI allI impI)
  have "set_options N fd (wanted_options opts) w = (ec, w')"
    using assms by (simp add: applyPreConnectTcpOptions_def)
  then show "\<exists>n \<le> length (wanted_options opts).
            w' = foldl (\<lambda>w x. snd (net_set_option N fd x w)) w (take n (wanted_options opts)) \<and>
            (if ec_set ec then ec = make_error_code OPTION_ERROR else n = length (wanted_options opts))"
    by (rule set_options_prefix)
next
  fix m
  assume "send_buf_size opts = Some m"
  then have "Send_buffer_size (cast_int (int m)) \<in> set (wanted_options opts)" by (simp add: wanted_options_def)
  then show "\<exists>n \<in> {- (2 ^ 31)..<2 ^ 31}. Send_buffer_size n \<in> set (wanted_options opts) \<and>
               (m < 2 ^ 31 \<longrightarrow> n = int m)"
    using cast_int_range [of "int m"] cast_int_id [of "int m"] by (intro bexI [of _ "cast_int (int m)"]) auto
qed

theorem tcp_options_applied_in_order_witness:
  "\<exists>n \<in> {- (2 ^ 31)..<2 ^ 31}. Send_buffer_size n \<in>
     set (wanted_options (default_tcp_options\<lparr>send_buf_size := Some (2 ^ 32 + 5)\<rparr>))"
proof -
  have "applyPreConnectTcpOptions script_net 0 (default_tcp_options\<lparr>send_buf_size := Some (2 ^ 32 + 5)\<rparr>) quiet_world =
      (No_ec, quiet_world)"
    by (simp add: applyPreConnectTcpOptions_def wanted_options_def default_tcp_options_def script_net_def)
  from conjunct2 [OF tcp_options_applied_in_order [OF this]] show ?thesis by simp
qed

text \<open>
  What a client or server connection is set up with: peer verification exactly as the options ask,
  the colon-separated lists OpenSSL accepted, and an error exactly when a list that is not empty was
  refused. Session tickets stay allowed whatever \<open>enable_session_tickets\<close> says.
\<close>

theorem tls_stream_settings:
  assumes "ssl_native N fd ctx"
    and "applyPreConnectTlsOptions N opts (new_ssl_stream fd ctx) = (ec, st)"
  shows "str_fd st = fd \<and> str_context st = ctx \<and>
    str_verify_mode st = Some (if verify_peer opts then Verify_peer_required else Verify_none) \<and>
    str_verify_depth st = Some (verify_depth opts) \<and> \<not> str_no_ticket st \<and>
    (ec_set ec \<longleftrightarrow>
       cipher_suites opts \<noteq> [] \<and> \<not> ssl_cipher_list N (join_with (CHR '':'') (cipher_suites opts)) \<or>
       ecdh_curves opts \<noteq> [] \<and> \<not> ssl_curves_list N (join_with (CHR '':'') (ecdh_curves opts))) \<and>
    (\<not> ec_set ec \<longrightarrow> str_ciphers st = colon_list (cipher_suites opts) \<and> str_curves st = colon_list (ecdh_curves opts))"
  using assms
  by (auto simp: applyPreConnectTlsOptions_def new_ssl_stream_def colon_list_def Let_def
      split: if_splits prod.splits)

theorem tls_stream_settings_witness:
  "\<exists>ec st. applyPreConnectTlsOptions script_net
       (default_tls_options\<lparr>enable_session_tickets := False, cipher_suites := [''bad'']\<rparr>)
       (new_ssl_stream 3 (new_TlsContext default_tls_options None)) = (ec, st) \<and> ec_set ec \<and> \<not> str_no_ticket st"
proof -
  obtain ec st where a: "applyPreConnectTlsOptions script_net
       (default_tls_options\<lparr>enable_session_tickets := False, cipher_suites := [''bad'']\<rparr>)
       (new_ssl_stream 3 (new_TlsContext default_tls_options None)) = (ec, st)" by (metis prod.exhaust)
  have "ssl_native script_net 3 (new_TlsContext default_tls_options None)" by (simp add: script_net_def)
  from tls_stream_settings [OF this a] a show ?thesis by (simp add: script_net_def)
qed

text \<open>
  The protocol versions a context can negotiate: those of its asio method (\<open>M\<close>, as asio documents the
  method constants) without the ones its flags exclude.
\<close>

datatype tls_protocol = Protocol_TLS1_0 | Protocol_TLS1_1 | Protocol_TLS1_2 | Protocol_TLS1_3

fun excluding_flag :: "tls_protocol \<Rightarrow> ssl_flag" where
  "excluding_flag Protocol_TLS1_0 = Op_no_tlsv1"
| "excluding_flag Protocol_TLS1_1 = Op_no_tlsv1_1"
| "excluding_flag Protocol_TLS1_2 = Op_no_tlsv1_2"
| "excluding_flag Protocol_TLS1_3 = Op_no_tlsv1_3"

definition negotiable :: "(tls_method \<Rightarrow> tls_protocol set) \<Rightarrow> tls_context \<Rightarrow> tls_protocol set" where
  "negotiable M ctx = {v \<in> M (ctx_method ctx). excluding_flag v \<notin> ctx_flags ctx}"

text \<open>
  C38: with the method constants \<open>tlsv12\<close> and \<open>tlsv13\<close> standing for exactly these versions, a context
  offers one version at most: 1.2 unless the minimum is 1.3, then 1.3, and none when the maximum is
  1.2 at the same time. In particular the default options, 1.2 to 1.3, never negotiate 1.3, and
  neither does \<open>Auto\<close>.
\<close>

theorem tls_versions_offered:
  assumes "M Tlsv12_client = {Protocol_TLS1_2}" and "M Tlsv12_server = {Protocol_TLS1_2}"
    and "M Tlsv13_client = {Protocol_TLS1_3}" and "M Tlsv13_server = {Protocol_TLS1_3}"
  shows "negotiable M (new_TlsContext cfg so) =
    (if min_version cfg \<noteq> TLS1_3 then {Protocol_TLS1_2}
     else if max_version cfg = TLS1_2 then {} else {Protocol_TLS1_3})"
proof -
  have m: "M (ctx_method (new_TlsContext cfg so)) = (if min_version cfg = TLS1_3 then {Protocol_TLS1_3} else {Protocol_TLS1_2})"
    using assms by (cases "min_version cfg") (auto simp: new_TlsContext_def context_method_def)
  have f: "ctx_flags (new_TlsContext cfg so) = context_flags (min_version cfg) (max_version cfg)"
    by (simp add: new_TlsContext_def)
  show ?thesis unfolding negotiable_def m f
    by (cases "min_version cfg"; cases "max_version cfg") (auto simp: context_flags_def)
qed

definition demo_method :: "tls_method \<Rightarrow> tls_protocol set" where
  "demo_method x = (if x = Tlsv12_client \<or> x = Tlsv12_server then {Protocol_TLS1_2} else {Protocol_TLS1_3})"

theorem tls_versions_offered_witness:
  "negotiable demo_method (new_TlsContext default_tls_options None) = {Protocol_TLS1_2}"
  using tls_versions_offered [of demo_method default_tls_options None]
  by (simp add: demo_method_def default_tls_options_def)

end
