(* ===== verification/FtpFileTransfer.thy ===== *)
theory FtpFileTransfer
  imports Ftp_Protocol Client
begin

text \<open>
  The FTP client: \<^verbatim>\<open>src/protocol/FtpFileTransfer.cpp\<close>. An operation takes the client object and the world
  and returns its outcome with both changed; a call that never returns is \<open>None\<close>. The client's
  environment \<open>ftp_env\<close> is the socket environment, the connection environment that \<open>Client\<close> uses, the
  textual form of an address, and the clock. Logging is left out.
\<close>

record 'w ftp_env =
  env_asio :: "'w asio"
  env_net :: "'w net"
  env_address :: "uint32 \<Rightarrow> string"
  env_clock :: "'w \<Rightarrow> clock"

record connect_options =
  opt_username :: string
  opt_password :: string
  opt_timeout :: int
  opt_data_timeout :: "int option"
  opt_use_passive :: bool

definition default_options :: connect_options where
  "default_options =
     \<lparr>opt_username = ''anonymous'', opt_password = ''anonymous@'', opt_timeout = 10000,
      opt_data_timeout = None, opt_use_passive = False\<rparr>"

record answer =
  full_msg :: string
  ans_code :: int

text \<open>\<open>ftp_current\<close> is the member \<open>_current\<close> of the navigator.\<close>

record ftp =
  ftp_host :: string
  ftp_port :: uint16
  ftp_current :: path
  ftp_socket :: "dual_socket option"
  ftp_options :: connect_options
  ftp_caps :: ftp_capabilities

type_synonym ('a, 'w) ftp_call = "('a expected outcome \<times> ftp \<times> 'w) option"

definition new_FtpFileTransfer :: "string \<Rightarrow> uint16 \<Rightarrow> ftp" where
  "new_FtpFileTransfer host port =
     \<lparr>ftp_host = host, ftp_port = port, ftp_current = new_SmartDirectoryNavigator ''/'', ftp_socket = None,
      ftp_options = default_options, ftp_caps = default_capabilities\<rparr>"

text \<open>\<open>Client(host, port, io).connect({t})\<close>: the TCP options are the default ones.\<close>

definition connect_to ::
  "'w ftp_env \<Rightarrow> string \<Rightarrow> uint16 \<Rightarrow> int \<Rightarrow> 'w \<Rightarrow> (dual_socket expected \<times> 'w) option" where
  "connect_to E host port t w =
     Client_connect (env_asio E) (env_net E) (new_Client host port) t default_tcp_options w"

text \<open>\<open>if (!r) return unexpected(r.error());\<close> and on with the value; exceptions pass through.\<close>

definition on_ok :: "('a, 'w) ftp_call \<Rightarrow> ('a \<Rightarrow> ftp \<Rightarrow> 'w \<Rightarrow> ('b, 'w) ftp_call) \<Rightarrow> ('b, 'w) ftp_call" where
  "on_ok x k =
     do {
       (r, f, w) \<leftarrow> x;
       case r of
         Returned (Inr a) \<Rightarrow> k a f w
       | Returned (Inl e) \<Rightarrow> Some (Returned (Inl e), f, w)
       | Thrown \<Rightarrow> Some (Thrown, f, w)
       | Undefined \<Rightarrow> Some (Undefined, f, w)
     }"

definition ok :: "'a \<Rightarrow> ftp \<Rightarrow> 'w \<Rightarrow> ('a, 'w) ftp_call" where
  "ok a f w = Some (Returned (Inr a), f, w)"

definition fails :: "error_code \<Rightarrow> ftp \<Rightarrow> 'w \<Rightarrow> ('a, 'w) ftp_call" where
  "fails e f w = Some (Returned (Inl e), f, w)"

abbreviation protocol_error :: error_code where
  "protocol_error \<equiv> make_error_code PROTOCOL_ERROR"

definition getDataTimeout :: "ftp \<Rightarrow> int" where
  "getDataTimeout f =
     (case opt_data_timeout (ftp_options f) of Some t \<Rightarrow> t | None \<Rightarrow> opt_timeout (ftp_options f))"

definition isAlive :: "'w ftp_env \<Rightarrow> ftp \<Rightarrow> 'w \<Rightarrow> bool" where
  "isAlive E f w = (case ftp_socket f of None \<Rightarrow> False | Some s \<Rightarrow> isConnected (env_asio E) s w)"

section \<open>Commands and replies\<close>

definition sendCommand_on ::
  "'w asio \<Rightarrow> dual_socket \<Rightarrow> string \<Rightarrow> int \<Rightarrow> 'w \<Rightarrow> (unit expected \<times> 'w) option" where
  "sendCommand_on A s cmd t w =
     do {
       (r, w1) \<leftarrow> sync_writeAll A s (bytes_of_string (cmd @ crlf)) (Some t) w;
       Some (case r of Inl e \<Rightarrow> Inl e | Inr _ \<Rightarrow> Inr (), w1)
     }"

partial_function (option) response_loop ::
  "'w asio \<Rightarrow> int \<Rightarrow> string \<Rightarrow> byte list \<Rightarrow> dual_socket \<Rightarrow> 'w \<Rightarrow>
   (string expected \<times> dual_socket \<times> 'w) option" where
  "response_loop A t buf tmp s w =
     do {
       (r, s1, tmp1, w1) \<leftarrow> sync_readUntil A s tmp crlf (Some t) w;
       case r of
         Inl e \<Rightarrow> Some (Inl e, s1, w1)
       | Inr n \<Rightarrow>
           if n = 0 then Some (Inl (make_error_code CONNECTION_LOST), s1, w1)
           else
             let buf1 = buf @ string_of_bytes (take n tmp1)
             in if isCompleteFtpResponse (splitLines buf1) then Some (Inr buf1, s1, w1)
                else response_loop A t buf1 tmp1 s1 w1
     }"

definition answer_of :: "string \<Rightarrow> answer expected outcome" where
  "answer_of buf =
     (if length buf < 3 then Returned (Inl protocol_error)
      else (case stoi (take 3 buf) of
              None \<Rightarrow> Thrown
            | Some code \<Rightarrow> Returned (Inr \<lparr>full_msg = buf, ans_code = code\<rparr>)))"

definition receiveResponse_on ::
  "'w asio \<Rightarrow> dual_socket \<Rightarrow> int \<Rightarrow> 'w \<Rightarrow> (answer expected outcome \<times> dual_socket \<times> 'w) option" where
  "receiveResponse_on A s t w =
     do {
       (r, s1, w1) \<leftarrow> response_loop A t [] (replicate 1024 0) s w;
       Some (case r of Inl e \<Rightarrow> Returned (Inl e) | Inr buf \<Rightarrow> answer_of buf, s1, w1)
     }"

partial_function (option) raw_loop ::
  "'w asio \<Rightarrow> int \<Rightarrow> byte list \<Rightarrow> byte list \<Rightarrow> dual_socket \<Rightarrow> 'w \<Rightarrow>
   (byte list expected \<times> dual_socket \<times> 'w) option" where
  "raw_loop A t buf tmp s w =
     do {
       (r, s1, tmp1, w1) \<leftarrow> sync_readSome A s tmp (Some t) w;
       case r of
         Inl e \<Rightarrow> Some (if e = Asio_ec Eof then Inr buf else Inl e, s1, w1)
       | Inr n \<Rightarrow>
           if n = 0 then Some (Inr buf, s1, w1)
           else raw_loop A t (buf @ take n tmp1) tmp1 s1 w1
     }"

definition receiveRawResponse ::
  "'w asio \<Rightarrow> dual_socket \<Rightarrow> int \<Rightarrow> 'w \<Rightarrow> (byte list expected \<times> dual_socket \<times> 'w) option" where
  "receiveRawResponse A s t w = raw_loop A t [] (replicate 1024 0) s w"

definition sendAndReceiveResponse_on ::
  "'w asio \<Rightarrow> dual_socket \<Rightarrow> string \<Rightarrow> int \<Rightarrow> 'w \<Rightarrow>
   (answer expected outcome \<times> dual_socket \<times> 'w) option" where
  "sendAndReceiveResponse_on A s cmd t w =
     do {
       (r, w1) \<leftarrow> sendCommand_on A s cmd t w;
       case r of
         Inl e \<Rightarrow> Some (Returned (Inl e), s, w1)
       | Inr _ \<Rightarrow> receiveResponse_on A s t w1
     }"

text \<open>The members on the control connection dereference \<open>_socket\<close>.\<close>

definition sendCommand :: "'w ftp_env \<Rightarrow> string \<Rightarrow> ftp \<Rightarrow> 'w \<Rightarrow> (unit, 'w) ftp_call" where
  "sendCommand E cmd f w =
     (case ftp_socket f of
        None \<Rightarrow> Some (Undefined, f, w)
      | Some s \<Rightarrow>
          do {
            (r, w1) \<leftarrow> sendCommand_on (env_asio E) s cmd (opt_timeout (ftp_options f)) w;
            Some (Returned r, f, w1)
          })"

definition receiveResponse :: "'w ftp_env \<Rightarrow> ftp \<Rightarrow> 'w \<Rightarrow> (answer, 'w) ftp_call" where
  "receiveResponse E f w =
     (case ftp_socket f of
        None \<Rightarrow> Some (Undefined, f, w)
      | Some s \<Rightarrow>
          do {
            (r, s1, w1) \<leftarrow> receiveResponse_on (env_asio E) s (opt_timeout (ftp_options f)) w;
            Some (r, f\<lparr>ftp_socket := Some s1\<rparr>, w1)
          })"

definition sendAndReceiveResponse :: "'w ftp_env \<Rightarrow> string \<Rightarrow> ftp \<Rightarrow> 'w \<Rightarrow> (answer, 'w) ftp_call" where
  "sendAndReceiveResponse E cmd f w =
     (case ftp_socket f of
        None \<Rightarrow> Some (Undefined, f, w)
      | Some s \<Rightarrow>
          do {
            (r, s1, w1) \<leftarrow> sendAndReceiveResponse_on (env_asio E) s cmd (opt_timeout (ftp_options f)) w;
            Some (r, f\<lparr>ftp_socket := Some s1\<rparr>, w1)
          })"

section \<open>Navigation\<close>

definition ftpCd :: "'w ftp_env \<Rightarrow> string \<Rightarrow> ftp \<Rightarrow> 'w \<Rightarrow> (unit, 'w) ftp_call" where
  "ftpCd E dir f w =
     on_ok (sendAndReceiveResponse E (''CWD '' @ dir) f w) (\<lambda>r f w.
       if ans_code r \<noteq> 250 then fails protocol_error f w else ok () f w)"

definition ftpSelectDrive :: "'w ftp_env \<Rightarrow> string \<Rightarrow> ftp \<Rightarrow> 'w \<Rightarrow> (unit, 'w) ftp_call" where
  "ftpSelectDrive E drive f w =
     on_ok (sendAndReceiveResponse E (''CWD '' @ drive) f w) (\<lambda>r f w.
       if ans_code r \<noteq> 250 then fails protocol_error f w else ok () f w)"

text \<open>\<open>_navigator.changeDirectory(path)\<close>.\<close>

definition navigate :: "'w ftp_env \<Rightarrow> path \<Rightarrow> ftp \<Rightarrow> 'w \<Rightarrow> (unit, 'w) ftp_call" where
  "navigate E p f w =
     do {
       (r, current, f1, w1) \<leftarrow>
         changeDirectory (\<lambda>d (f, w). ftpCd E d f w) (\<lambda>d (f, w). ftpSelectDrive E d f w)
           (ftp_current f) p (f, w);
       Some (r, f1\<lparr>ftp_current := current\<rparr>, w1)
     }"

section \<open>Data connections\<close>

definition openDataConnection :: "'w ftp_env \<Rightarrow> ftp \<Rightarrow> 'w \<Rightarrow> (dual_socket, 'w) ftp_call" where
  "openDataConnection E f w =
     on_ok (sendAndReceiveResponse E ''PASV'' f w) (\<lambda>r f w.
       if ans_code r \<noteq> 227 then fails protocol_error f w
       else (case parsePasvResponse (full_msg r) of
               None \<Rightarrow> Some (Undefined, f, w)
             | Some (ip, port) \<Rightarrow>
                 do {
                   (c, w1) \<leftarrow> connect_to E (env_address E ip) port (getDataTimeout f) w;
                   Some (Returned c, f, w1)
                 }))"

text \<open>The local \<open>data_socket\<close> goes out of scope on every path out of the function.\<close>

definition closing :: "'w ftp_env \<Rightarrow> dual_socket \<Rightarrow> ('a, 'w) ftp_call \<Rightarrow> ('a, 'w) ftp_call" where
  "closing E s x = do { (r, f, w) \<leftarrow> x; Some (r, f, destroy_socket (env_asio E) s w) }"

section \<open>Operations\<close>

text \<open>The loop of \<open>list\<close> over the lines; an exception of the parser leaves it.\<close>

fun parse_lines :: "clock \<Rightarrow> string list \<Rightarrow> file_list_data list outcome" where
  "parse_lines C [] = Returned []"
| "parse_lines C (l # ls) =
     (case parseFtpLine C l of
        Thrown \<Rightarrow> Thrown
      | Undefined \<Rightarrow> Undefined
      | Returned x \<Rightarrow>
          (case parse_lines C ls of
             Returned fs \<Rightarrow> Returned (case x of None \<Rightarrow> fs | Some file \<Rightarrow> file # fs)
           | y \<Rightarrow> y))"

definition ftp_list :: "'w ftp_env \<Rightarrow> path \<Rightarrow> ftp \<Rightarrow> 'w \<Rightarrow> (file_list_data list, 'w) ftp_call" where
  "ftp_list E p f w =
     on_ok (navigate E p f w) (\<lambda>_ f w.
     on_ok (openDataConnection E f w) (\<lambda>s f w.
       closing E s
         (on_ok (sendAndReceiveResponse E ''LIST'' f w) (\<lambda>r f w.
            if ans_code r \<noteq> 150 then fails protocol_error f w
            else
              do {
                (list_result, s1, w1) \<leftarrow> receiveRawResponse (env_asio E) s (getDataTimeout f) w;
                case list_result of
                  Inl e \<Rightarrow> fails e f w1
                | Inr bytes \<Rightarrow>
                    (case parse_lines (env_clock E w1) (splitLines (string_of_bytes bytes)) of
                       Thrown \<Rightarrow> Some (Thrown, f, w1)
                     | Undefined \<Rightarrow> Some (Undefined, f, w1)
                     | Returned files \<Rightarrow>
                         on_ok (receiveResponse E f w1) (\<lambda>_ f w. ok files f w))
              }))))"

definition existsMlst :: "'w ftp_env \<Rightarrow> string \<Rightarrow> ftp \<Rightarrow> 'w \<Rightarrow> (bool, 'w) ftp_call" where
  "existsMlst E name f w =
     (if \<not> cap_mlst (ftp_caps f) then ok False f w
      else
        on_ok (sendAndReceiveResponse E (''MLST '' @ name) f w) (\<lambda>r f w.
          if ans_code r = 250 then ok True f w
          else if ans_code r = 550 then ok False f w
          else fails protocol_error f w))"

text \<open>\<open>_navigator.ftpCd("..").has_value()\<close>: the error is dropped, an exception is not.\<close>

definition has_value :: "('a, 'w) ftp_call \<Rightarrow> (bool, 'w) ftp_call" where
  "has_value x =
     do {
       (r, f, w) \<leftarrow> x;
       case r of
         Returned (Inr _) \<Rightarrow> ok True f w
       | Returned (Inl _) \<Rightarrow> ok False f w
       | Thrown \<Rightarrow> Some (Thrown, f, w)
       | Undefined \<Rightarrow> Some (Undefined, f, w)
     }"

definition existsCwd :: "'w ftp_env \<Rightarrow> string \<Rightarrow> ftp \<Rightarrow> 'w \<Rightarrow> (bool, 'w) ftp_call" where
  "existsCwd E name f w =
     on_ok (sendAndReceiveResponse E (''CWD '' @ name) f w) (\<lambda>r f w.
       if ans_code r = 250 then on_ok (has_value (ftpCd E ''..'' f w)) (\<lambda>_ f w. ok True f w)
       else if ans_code r = 550 then ok False f w
       else fails protocol_error f w)"

definition existsSize :: "'w ftp_env \<Rightarrow> string \<Rightarrow> ftp \<Rightarrow> 'w \<Rightarrow> (bool, 'w) ftp_call" where
  "existsSize E name f w =
     on_ok (sendAndReceiveResponse E (''SIZE '' @ name) f w) (\<lambda>r f w.
       if ans_code r = 213 then ok True f w
       else if ans_code r = 550 \<or> ans_code r = 500 then ok False f w
       else fails protocol_error f w)"

text \<open>A test whose positive answer is returned; an error or a negative answer goes on with \<open>k\<close>.\<close>

definition or_else :: "(bool, 'w) ftp_call \<Rightarrow> (ftp \<Rightarrow> 'w \<Rightarrow> (bool, 'w) ftp_call) \<Rightarrow> (bool, 'w) ftp_call" where
  "or_else x k =
     do {
       (r, f, w) \<leftarrow> x;
       case r of
         Returned (Inr b) \<Rightarrow> if b then ok b f w else k f w
       | Returned (Inl _) \<Rightarrow> k f w
       | Thrown \<Rightarrow> Some (Thrown, f, w)
       | Undefined \<Rightarrow> Some (Undefined, f, w)
     }"

definition ftp_exists :: "'w ftp_env \<Rightarrow> path \<Rightarrow> ftp \<Rightarrow> 'w \<Rightarrow> (bool, 'w) ftp_call" where
  "ftp_exists E p f w =
     (let name = filename p in
      if name = [] then ok True f w
      else
        on_ok (navigate E (parent_path p) f w) (\<lambda>_ f w.
          or_else (if cap_mlst (ftp_caps f) then existsMlst E name f w else ok False f w) (\<lambda>f w.
          or_else (if cap_size (ftp_caps f) then existsSize E name f w else ok False f w) (\<lambda>f w.
          or_else (existsCwd E name f w) (\<lambda>f w. ok False f w)))))"

definition createDir :: "'w ftp_env \<Rightarrow> path \<Rightarrow> ftp \<Rightarrow> 'w \<Rightarrow> (unit, 'w) ftp_call" where
  "createDir E p f w =
     on_ok (ftp_exists E p f w) (\<lambda>there f w.
       if there then ok () f w
       else
         on_ok (navigate E (parent_path p) f w) (\<lambda>_ f w.
         on_ok (sendAndReceiveResponse E (''MKD '' @ get_last_component p) f w) (\<lambda>r f w.
           if ans_code r \<noteq> 257 then fails protocol_error f w else ok () f w)))"

definition isDirectoryMlst :: "'w ftp_env \<Rightarrow> string \<Rightarrow> ftp \<Rightarrow> 'w \<Rightarrow> (bool, 'w) ftp_call" where
  "isDirectoryMlst E name f w =
     (if \<not> cap_mlst (ftp_caps f) then ok False f w
      else
        on_ok (sendAndReceiveResponse E (''MLST '' @ name) f w) (\<lambda>r f w.
          if ans_code r = 250 then
            (let msg = full_msg r; start = std_search msg ''type=''
             in if start = length msg then fails protocol_error f w
                else
                  (let type_field = takeWhile (\<lambda>c. c \<noteq> CHR '';'') (drop start msg)
                   in ok (std_search type_field ''type=dir'' \<noteq> length type_field) f w))
          else fails protocol_error f w))"

definition isDirectoryCwd :: "'w ftp_env \<Rightarrow> string \<Rightarrow> ftp \<Rightarrow> 'w \<Rightarrow> (bool, 'w) ftp_call" where
  "isDirectoryCwd E name f w =
     on_ok (sendAndReceiveResponse E (''CWD '' @ name) f w) (\<lambda>r f w.
       if ans_code r = 250 then
         on_ok (has_value (ftpCd E ''..'' f w)) (\<lambda>restore_ok f w.
           if restore_ok then ok True f w else fails protocol_error f w)
       else if ans_code r = 550 then
         (if cap_size (ftp_caps f) then
            on_ok (existsSize E name f w) (\<lambda>exists f w.
              if exists then ok False f w else fails protocol_error f w)
          else fails protocol_error f w)
       else fails protocol_error f w)"

definition isDirectory :: "'w ftp_env \<Rightarrow> path \<Rightarrow> ftp \<Rightarrow> 'w \<Rightarrow> (bool, 'w) ftp_call" where
  "isDirectory E p f w =
     (let name = filename p in
      if name = [] then ok True f w
      else
        on_ok (navigate E (parent_path p) f w) (\<lambda>_ f w.
          if cap_mlst (ftp_caps f) then
            do {
              (r, f, w) \<leftarrow> isDirectoryMlst E name f w;
              case r of
                Returned (Inl _) \<Rightarrow> isDirectoryCwd E name f w
              | x \<Rightarrow> Some (x, f, w)
            }
          else isDirectoryCwd E name f w))"

definition ftp_remove :: "'w ftp_env \<Rightarrow> path \<Rightarrow> ftp \<Rightarrow> 'w \<Rightarrow> (unit, 'w) ftp_call" where
  "ftp_remove E p f w =
     on_ok (isDirectory E p f w) (\<lambda>is_dir f w.
       let cmd = (if is_dir then ''RMD'' else ''DELE'') in
       on_ok (navigate E (parent_path p) f w) (\<lambda>_ f w.
       on_ok (sendAndReceiveResponse E (cmd @ '' '' @ filename p) f w) (\<lambda>r f w.
         if ans_code r \<noteq> 250 then fails protocol_error f w else ok () f w)))"

section \<open>Transfers\<close>

text \<open>The beginning that the four transfer functions share: navigate, open, send the command.\<close>

definition start_transfer ::
  "'w ftp_env \<Rightarrow> string \<Rightarrow> path \<Rightarrow> ftp \<Rightarrow> 'w \<Rightarrow>
   (dual_socket \<Rightarrow> ftp \<Rightarrow> 'w \<Rightarrow> ('a, 'w) ftp_call) \<Rightarrow> ('a, 'w) ftp_call" where
  "start_transfer E cmd p f w k =
     on_ok (navigate E (parent_path p) f w) (\<lambda>_ f w.
     on_ok (openDataConnection E f w) (\<lambda>s f w.
       closing E s
         (on_ok (sendAndReceiveResponse E (cmd @ filename p) f w) (\<lambda>r f w.
            if ans_code r \<noteq> 150 then fails protocol_error f w else k s f w))))"

text \<open>The end: the completion reply has to be 226.\<close>

definition finish_transfer :: "'w ftp_env \<Rightarrow> (ftp \<Rightarrow> 'w \<Rightarrow> 'a) \<Rightarrow> ftp \<Rightarrow> 'w \<Rightarrow> ('a, 'w) ftp_call" where
  "finish_transfer E result f w =
     on_ok (receiveResponse E f w) (\<lambda>r f w.
       if ans_code r \<noteq> 226 then fails protocol_error f w else ok (result f w) f w)"

definition ftp_read :: "'w ftp_env \<Rightarrow> path \<Rightarrow> ftp \<Rightarrow> 'w \<Rightarrow> (byte list, 'w) ftp_call" where
  "ftp_read E p f w =
     start_transfer E ''RETR '' p f w (\<lambda>s f w.
       do {
         (r, s1, w1) \<leftarrow> receiveRawResponse (env_asio E) s (getDataTimeout f) w;
         case r of
           Inl e \<Rightarrow> fails e f w1
         | Inr buffer \<Rightarrow> finish_transfer E (\<lambda>_ _. buffer) f w1
       })"

type_synonym 'w read_callback = "byte list \<Rightarrow> 'w \<Rightarrow> nat expected outcome \<times> 'w"
type_synonym 'w write_callback = "'w \<Rightarrow> byte list expected outcome \<times> 'w"

partial_function (option) read_loop ::
  "'w asio \<Rightarrow> int \<Rightarrow> 'w read_callback \<Rightarrow> nat \<Rightarrow> byte list \<Rightarrow> dual_socket \<Rightarrow> 'w \<Rightarrow>
   (nat expected outcome \<times> 'w) option" where
  "read_loop A t callback total_bytes buffer s w =
     do {
       (r, s1, buffer1, w1) \<leftarrow> sync_readSome A s buffer (Some t) w;
       case r of
         Inl e \<Rightarrow> Some (if e = Asio_ec Eof then Returned (Inr total_bytes) else Returned (Inl e), w1)
       | Inr n \<Rightarrow>
           if n = 0 then Some (Returned (Inr total_bytes), w1)
           else
             (case callback (take n buffer1) w1 of
                (Thrown, w2) \<Rightarrow> Some (Thrown, w2)
              | (Undefined, w2) \<Rightarrow> Some (Undefined, w2)
              | (Returned (Inl e), w2) \<Rightarrow> Some (Returned (Inl e), w2)
              | (Returned (Inr m), w2) \<Rightarrow>
                  if m \<noteq> n then Some (Returned (Inl protocol_error), w2)
                  else read_loop A t callback (total_bytes + n) buffer1 s1 w2)
     }"

definition lift_call :: "ftp \<Rightarrow> ('a expected outcome \<times> 'w) option \<Rightarrow> ('a, 'w) ftp_call" where
  "lift_call f x = do { (r, w) \<leftarrow> x; Some (r, f, w) }"

definition ftp_read_callback ::
  "'w ftp_env \<Rightarrow> path \<Rightarrow> 'w read_callback \<Rightarrow> ftp \<Rightarrow> 'w \<Rightarrow> (nat, 'w) ftp_call" where
  "ftp_read_callback E p callback f w =
     start_transfer E ''RETR '' p f w (\<lambda>s f w.
       on_ok (lift_call f (read_loop (env_asio E) (getDataTimeout f) callback 0 (replicate 16384 0) s w))
         (\<lambda>n f w. finish_transfer E (\<lambda>_ _. n) f w))"

definition stored_file :: "'w ftp_env \<Rightarrow> path \<Rightarrow> nat \<Rightarrow> int \<Rightarrow> file_list_data" where
  "stored_file E p n date = \<lparr>file_date = date, file_size = n, file_name = filename p, full_path = p\<rparr>"

text \<open>
  After the data \<open>data_socket.reset()\<close> destroys the data socket before the completion reply is awaited;
  an early return destroys it too.
\<close>

definition ftp_write ::
  "'w ftp_env \<Rightarrow> path \<Rightarrow> byte list \<Rightarrow> ftp \<Rightarrow> 'w \<Rightarrow> (file_list_data, 'w) ftp_call" where
  "ftp_write E p data f w =
     on_ok (navigate E (parent_path p) f w) (\<lambda>_ f w.
     on_ok (openDataConnection E f w) (\<lambda>s f w.
       (case
          on_ok (sendAndReceiveResponse E (''STOR '' @ filename p) f w) (\<lambda>r f w.
            if ans_code r \<noteq> 150 then fails protocol_error f w
            else
              do {
                (r, w1) \<leftarrow> sync_writeAll (env_asio E) s data (Some (getDataTimeout f)) w;
                Some (Returned r, f, w1)
              }) of
          None \<Rightarrow> None
        | Some (r, f, w) \<Rightarrow>
            on_ok (Some (r, f, destroy_socket (env_asio E) s w)) (\<lambda>_ f w.
              finish_transfer E (\<lambda>f w. stored_file E p (length data) (clock_now (env_clock E w))) f w))))"

partial_function (option) write_loop ::
  "'w asio \<Rightarrow> int \<Rightarrow> 'w write_callback \<Rightarrow> nat \<Rightarrow> dual_socket \<Rightarrow> 'w \<Rightarrow>
   (nat expected outcome \<times> 'w) option" where
  "write_loop A t next_chunk total_bytes s w =
     (case next_chunk w of
        (Thrown, w1) \<Rightarrow> Some (Thrown, w1)
      | (Undefined, w1) \<Rightarrow> Some (Undefined, w1)
      | (Returned (Inl e), w1) \<Rightarrow> Some (Returned (Inl e), w1)
      | (Returned (Inr chunk), w1) \<Rightarrow>
          if chunk = [] then Some (Returned (Inr total_bytes), w1)
          else
            do {
              (r, w2) \<leftarrow> sync_writeAll A s chunk (Some t) w1;
              case r of
                Inl e \<Rightarrow> Some (Returned (Inl e), w2)
              | Inr n \<Rightarrow> write_loop A t next_chunk (total_bytes + n) s w2
            })"

definition ftp_write_callback ::
  "'w ftp_env \<Rightarrow> path \<Rightarrow> 'w write_callback \<Rightarrow> ftp \<Rightarrow> 'w \<Rightarrow> (file_list_data, 'w) ftp_call" where
  "ftp_write_callback E p next_chunk f w =
     on_ok (navigate E (parent_path p) f w) (\<lambda>_ f w.
     on_ok (openDataConnection E f w) (\<lambda>s f w.
       (case
          on_ok (sendAndReceiveResponse E (''STOR '' @ filename p) f w) (\<lambda>r f w.
            if ans_code r \<noteq> 150 then fails protocol_error f w
            else
              let date = clock_now (env_clock E w) in
              on_ok (lift_call f (write_loop (env_asio E) (getDataTimeout f) next_chunk 0 s w))
                (\<lambda>n f w. ok (stored_file E p n date) f w)) of
          None \<Rightarrow> None
        | Some (r, f, w) \<Rightarrow>
            on_ok (Some (r, f, destroy_socket (env_asio E) s w)) (\<lambda>file f w.
              finish_transfer E (\<lambda>_ _. file) f w))))"

section \<open>Connecting\<close>

definition reset_socket :: "'w ftp_env \<Rightarrow> ftp \<Rightarrow> 'w \<Rightarrow> ftp \<times> 'w" where
  "reset_socket E f w =
     (f\<lparr>ftp_socket := None\<rparr>,
      case ftp_socket f of None \<Rightarrow> w | Some s \<Rightarrow> destroy_socket (env_asio E) s w)"

text \<open>One step of the login: an error or an unexpected code resets the socket.\<close>

definition login_step ::
  "'w ftp_env \<Rightarrow> bool \<Rightarrow> string \<Rightarrow> int set \<Rightarrow> ftp \<Rightarrow> 'w \<Rightarrow> (unit, 'w) ftp_call" where
  "login_step E needed cmd codes f w =
     (if \<not> needed then ok () f w
      else
        do {
          (r, f, w) \<leftarrow> sendAndReceiveResponse E cmd f w;
          case r of
            Returned (Inl e) \<Rightarrow> (case reset_socket E f w of (f, w) \<Rightarrow> fails e f w)
          | Returned (Inr a) \<Rightarrow>
              if ans_code a \<notin> codes then (case reset_socket E f w of (f, w) \<Rightarrow> fails protocol_error f w)
              else ok () f w
          | Thrown \<Rightarrow> Some (Thrown, f, w)
          | Undefined \<Rightarrow> Some (Undefined, f, w)
        })"

definition query_features :: "'w ftp_env \<Rightarrow> ftp \<Rightarrow> 'w \<Rightarrow> (unit, 'w) ftp_call" where
  "query_features E f w =
     do {
       (r, f, w) \<leftarrow> sendAndReceiveResponse E ''FEAT'' f w;
       case r of
         Returned (Inl _) \<Rightarrow> ok () f w
       | Returned (Inr a) \<Rightarrow>
           if ans_code a = 211 then ok () (f\<lparr>ftp_caps := parseFeatures (full_msg a) (ftp_caps f)\<rparr>) w
           else ok () f w
       | Thrown \<Rightarrow> Some (Thrown, f, w)
       | Undefined \<Rightarrow> Some (Undefined, f, w)
     }"

text \<open>Assigning to \<open>_socket\<close> destroys the one held before; the greeting is only logged.\<close>

definition ftp_connect :: "'w ftp_env \<Rightarrow> connect_options \<Rightarrow> ftp \<Rightarrow> 'w \<Rightarrow> (unit, 'w) ftp_call" where
  "ftp_connect E opts f w =
     do {
       (c, w) \<leftarrow> connect_to E (ftp_host f) (ftp_port f) (opt_timeout opts) w;
       case c of
         Inl e \<Rightarrow> fails e f w
       | Inr s \<Rightarrow>
           (case reset_socket E f w of (f, w) \<Rightarrow>
              do {
                (recv, s1, buffer, w) \<leftarrow> sync_readUntil (env_asio E) s (replicate 512 0) crlf None w;
                let f = f\<lparr>ftp_socket := Some s1\<rparr>;
                case recv of
                  Inl e \<Rightarrow> fails e f w
                | Inr _ \<Rightarrow>
                    on_ok (login_step E (opt_username opts \<noteq> []) (''USER '' @ opt_username opts) {331, 230} f w)
                      (\<lambda>_ f w.
                    on_ok (login_step E (opt_password opts \<noteq> []) (''PASS '' @ opt_password opts) {230, 231} f w)
                      (\<lambda>_ f w. query_features E f w))
              })
     }"

text \<open>A failed connection destroys the client object and with it its socket.\<close>

definition openFtpConnection ::
  "'w ftp_env \<Rightarrow> string \<Rightarrow> uint16 \<Rightarrow> connect_options \<Rightarrow> 'w \<Rightarrow> (ftp expected outcome \<times> 'w) option" where
  "openFtpConnection E host port opts w =
     do {
       (r, f, w) \<leftarrow> ftp_connect E opts (new_FtpFileTransfer host port) w;
       Some (case r of
               Returned (Inr _) \<Rightarrow> (Returned (Inr f), w)
             | Returned (Inl e) \<Rightarrow> (Returned (Inl e), snd (reset_socket E f w))
             | Thrown \<Rightarrow> (Thrown, snd (reset_socket E f w))
             | Undefined \<Rightarrow> (Undefined, w))
     }"

end
