(* ===== verification/Ftp_Stream.thy ===== *)
theory Ftp_Stream
  imports FtpFileTransfer
begin

text \<open>
  What the reply and data loops of the FTP client do to their socket: they take bytes off the front
  of its stream and touch nothing else. \<open>took A rcvd sent s w bs s' w'\<close> says that between the two
  states exactly the bytes \<open>bs\<close> were taken from the socket; such steps compose.
\<close>

definition read_frame ::
  "'w asio \<Rightarrow> (nat \<Rightarrow> 'w \<Rightarrow> byte list) \<Rightarrow> (nat \<Rightarrow> 'w \<Rightarrow> byte list) \<Rightarrow> dual_socket \<Rightarrow> 'w \<Rightarrow> dual_socket \<Rightarrow> 'w \<Rightarrow> bool" where
  "read_frame A rcvd sent s w s' w' \<longleftrightarrow>
     s' = s\<lparr>read_buffer := read_buffer s'\<rparr> \<and> (\<forall>g. sent g w' = sent g w) \<and>
     (\<forall>g. as_is_open A g w' = as_is_open A g w) \<and> (\<forall>g. g \<noteq> sock_fd s \<longrightarrow> rcvd g w' = rcvd g w)"

definition took ::
  "'w asio \<Rightarrow> (nat \<Rightarrow> 'w \<Rightarrow> byte list) \<Rightarrow> (nat \<Rightarrow> 'w \<Rightarrow> byte list) \<Rightarrow> dual_socket \<Rightarrow> 'w \<Rightarrow> byte list \<Rightarrow>
   dual_socket \<Rightarrow> 'w \<Rightarrow> bool" where
  "took A rcvd sent s w bs s' w' \<longleftrightarrow>
     read_frame A rcvd sent s w s' w' \<and>
     (\<exists>d. rcvd (sock_fd s) w' = rcvd (sock_fd s) w @ d \<and> bs @ read_buffer s' = read_buffer s @ d)"

context asio_env
begin

lemma read_frame_refl: "read_frame A rcvd sent s w s w"
  by (simp add: read_frame_def)

lemma read_frame_trans:
  assumes "read_frame A rcvd sent s w s1 w1" "read_frame A rcvd sent s1 w1 s2 w2"
  shows "read_frame A rcvd sent s w s2 w2"
proof -
  have "sock_fd s1 = sock_fd s" using assms(1) by (metis dual_socket.select_convs(3) dual_socket.surjective
        dual_socket.update_convs(4) read_frame_def)
  moreover have "s2 = s\<lparr>read_buffer := read_buffer s2\<rparr>"
    using assms by (metis dual_socket.surjective dual_socket.update_convs(4) read_frame_def)
  ultimately show ?thesis using assms unfolding read_frame_def by metis
qed

lemma read_frame_fd: "read_frame A rcvd sent s w s' w' \<Longrightarrow> sock_fd s' = sock_fd s"
  unfolding read_frame_def by (metis dual_socket.select_convs(3) dual_socket.surjective dual_socket.update_convs(4))

lemma read_frame_before:
  assumes "read_frame A rcvd sent s w0 s' w'" "\<And>g. rcvd g w0 = rcvd g w" "\<And>g. sent g w0 = sent g w"
    and "\<And>g. as_is_open A g w0 = as_is_open A g w"
  shows "read_frame A rcvd sent s w s' w'"
  using assms by (simp add: read_frame_def)

lemma took_refl: "took A rcvd sent s w [] s w"
  by (simp add: took_def read_frame_refl)

lemma took_trans:
  assumes "took A rcvd sent s w bs s1 w1" "took A rcvd sent s1 w1 cs s2 w2"
  shows "took A rcvd sent s w (bs @ cs) s2 w2"
proof -
  have fr: "read_frame A rcvd sent s w s1 w1" "read_frame A rcvd sent s1 w1 s2 w2"
    using assms by (simp_all add: took_def)
  obtain d where d: "rcvd (sock_fd s) w1 = rcvd (sock_fd s) w @ d" "bs @ read_buffer s1 = read_buffer s @ d"
    using assms(1) by (auto simp: took_def)
  obtain e where e: "rcvd (sock_fd s) w2 = rcvd (sock_fd s) w1 @ e" "cs @ read_buffer s2 = read_buffer s1 @ e"
    using assms(2) read_frame_fd [OF fr(1)] by (auto simp: took_def)
  have "bs @ cs @ read_buffer s2 = read_buffer s @ d @ e" using d(2) e(2) by (metis append_assoc)
  with read_frame_trans [OF fr] d(1) e(1) show ?thesis by (auto simp: took_def)
qed

text \<open>The synchronous members, either class.\<close>

lemma sync_readUntil_frame:
  assumes "sync_readUntil A s out delim t w = Some (r, s', out', w')"
  shows "read_frame A rcvd sent s w s' w' \<and> length out' = length out \<and>
    (\<forall>k. r = Inr k \<longrightarrow> took A rcvd sent s w (take k out') s' w')"
proof -
  have "spawn_and_get A (asyncReadUntilCommon A s out delim t)
      (\<lambda>w1. (Inl (makeReadError (Generic_ec Operation_canceled)), s, out, w1)) w = Some (r, s', out', w')"
    using assms by (cases "sock_kind s") (simp_all add: sync_readUntil_def member_defs [abs_def])
  then show ?thesis
  proof (cases rule: spawn_and_get_cases)
    case (runs w0)
    show ?thesis
    proof (cases "as_is_open A (sock_fd s) w0")
      case True
      from asyncReadUntilCommon_result [OF runs(4) True] runs(1-3) show ?thesis
        by (auto simp: until_result_def took_def read_frame_def)
    next
      case False
      with runs show ?thesis by (auto simp: asyncReadUntilCommon_def read_frame_def)
    qed
  next
    case (dropped w0)
    then show ?thesis by (auto simp: read_frame_def)
  qed
qed

lemma asyncReadSomeCommon_frame:
  assumes "asyncReadSomeCommon A s out timeout w = Some (r, s', out', w')"
  shows "read_frame A rcvd sent s w s' w'"
proof -
  let ?b = "read_buffer s" and ?n = "length out"
  obtain r1 v w1 where st:
    "asyncReadWithTimeout A s (as_prepare A ?b ?n) (length ?b) ?n (effective_timeout timeout) w = (r1, v, w1)"
    by (metis prod_cases3)
  from st have fr: "\<And>g. sent g w1 = sent g w" "\<And>g. as_is_open A g w1 = as_is_open A g w"
    "\<And>g. g \<noteq> sock_fd s \<Longrightarrow> rcvd g w1 = rcvd g w"
    by (rule asyncReadWithTimeout_step, blast)+
  have "(\<exists>b. s' = s\<lparr>read_buffer := b\<rparr>) \<and> (w' = w1 \<or> w' = w)"
    using assms st
    by (auto simp: asyncReadSomeCommon_def Let_def move_data_def split: if_splits sum.splits prod.splits
        intro: exI [of _ "read_buffer s"])
  with fr show ?thesis by (auto simp: read_frame_def)
qed

lemma sync_readSome_frame:
  assumes "sync_readSome A s out t w = Some (r, s', out', w')" "length out \<le> size_max"
  shows "read_frame A rcvd sent s w s' w' \<and>
    (\<forall>k. r = Inr k \<longrightarrow> took A rcvd sent s w (take k out') s' w' \<and> (k = 0 \<longleftrightarrow> out = []) \<and> length out' = length out) \<and>
    (r = Inl (Asio_ec Eof) \<longrightarrow> read_buffer s = [] \<and> rcvd (sock_fd s) w' = rcvd (sock_fd s) w)"
proof -
  have "spawn_and_get A (asyncReadSomeCommon A s out t)
      (\<lambda>w1. (Inl (makeReadError (Generic_ec Operation_canceled)), s, out, w1)) w = Some (r, s', out', w')"
    using assms by (cases "sock_kind s") (simp_all add: sync_readSome_def member_defs [abs_def])
  then show ?thesis
  proof (cases rule: spawn_and_get_cases)
    case (runs w0)
    note fr = read_frame_before [OF asyncReadSomeCommon_frame [OF runs(4)] runs(1-3)]
    show ?thesis
    proof (intro conjI impI allI)
      show "read_frame A rcvd sent s w s' w'" by (fact fr)
      fix k assume "r = Inr k"
      note ok = asyncReadSomeCommon_ok [OF runs(4) [unfolded this] assms(2)]
      show "took A rcvd sent s w (take k out') s' w'" using ok fr runs(1) by (auto simp: took_def)
      show "k = 0 \<longleftrightarrow> out = []" using ok by blast
      show "length out' = length out" using runs(4)
        by (auto simp: asyncReadSomeCommon_def move_data_def Let_def split: if_splits sum.splits prod.splits)
    next
      assume e: "r = Inl (Asio_ec Eof)"
      have "as_is_open A (sock_fd s) w0" using runs(4) e by (auto simp: asyncReadSomeCommon_def split: if_splits)
      from asyncReadSomeCommon_error [OF runs(4) [unfolded e] this] runs(1)
      show "read_buffer s = []" "rcvd (sock_fd s) w' = rcvd (sock_fd s) w" by simp_all
    qed
  next
    case (dropped w0)
    then show ?thesis by (auto simp: read_frame_def makeReadError_def make_error_code_def)
  qed
qed

lemma sync_writeAll_frame:
  assumes "sync_writeAll A s bs t w = Some (r, w')"
  shows "(\<forall>g. rcvd g w' = rcvd g w) \<and> (\<forall>g. as_is_open A g w' = as_is_open A g w) \<and>
    (\<forall>g. g \<noteq> sock_fd s \<longrightarrow> sent g w' = sent g w) \<and>
    (\<exists>n. sent (sock_fd s) w' = sent (sock_fd s) w @ take n bs) \<and>
    (\<forall>k. r = Inr k \<longrightarrow> k = length bs \<and> sent (sock_fd s) w' = sent (sock_fd s) w @ bs)"
proof -
  have "spawn_and_get A (\<lambda>w1. Some (asyncWriteAllCommon A s bs t w1))
      (\<lambda>w1. (Inl (makeWriteError (Generic_ec Operation_canceled)), w1)) w = Some (r, w')"
    using assms by (cases "sock_kind s") (simp_all add: sync_writeAll_def member_defs [abs_def])
  then show ?thesis
  proof (cases rule: spawn_and_get_cases)
    case (runs w0)
    then have a: "asyncWriteAllCommon A s bs t w0 = (r, w')" by simp
    note fr = asyncWriteAllCommon_frame [OF a]
    have "k = length bs \<and> sent (sock_fd s) w' = sent (sock_fd s) w @ bs" if "r = Inr k" for k
      using asyncWriteAllCommon_ok [OF a [unfolded that]] runs(2) by simp
    moreover have "\<exists>n. sent (sock_fd s) w' = sent (sock_fd s) w @ take n bs" using fr(4) runs(2) by auto
    ultimately show ?thesis using fr(1-3) runs(1-3) by auto
  next
    case (dropped w0)
    then show ?thesis by (auto intro: exI [of _ 0])
  qed
qed

section \<open>The loops\<close>

text \<open>
  What the two loops may have done when they return, relative to the text collected so far. A further
  turn adds to an outcome what the turn before has taken.
\<close>

definition response_outcome :: "string \<Rightarrow> dual_socket \<Rightarrow> 'w \<Rightarrow> string expected \<times> dual_socket \<times> 'w \<Rightarrow> bool" where
  "response_outcome buf s w = (\<lambda>(r, s', w'). read_frame A rcvd sent s w s' w' \<and>
     (\<forall>buf'. r = Inr buf' \<longrightarrow>
        isCompleteFtpResponse (splitLines buf') \<and>
        (\<exists>bs. buf' = buf @ string_of_bytes bs \<and> took A rcvd sent s w bs s' w')))"

lemma response_outcome_later:
  assumes "took A rcvd sent s w bs s1 w1" "read_frame A rcvd sent s w s1 w1"
    and "response_outcome (buf @ string_of_bytes bs) s1 w1 (r, s', w')"
  shows "response_outcome buf s w (r, s', w')"
proof -
  have "\<exists>cs. buf' = buf @ string_of_bytes cs \<and> took A rcvd sent s w cs s' w'" if r: "r = Inr buf'" for buf'
  proof -
    from assms(3) r obtain cs where "buf' = (buf @ string_of_bytes bs) @ string_of_bytes cs"
      "took A rcvd sent s1 w1 cs s' w'" by (auto simp: response_outcome_def)
    with took_trans [OF assms(1)] show ?thesis by (intro exI [of _ "bs @ cs"]) simp
  qed
  with assms(2,3) read_frame_trans show ?thesis by (auto simp: response_outcome_def)
qed

lemma response_loop_outcome:
  assumes "response_loop A t buf tmp s w = Some y"
  shows "response_outcome buf s w y"
proof -
  have "A = A \<longrightarrow> response_outcome buf s w y"
  proof (rule response_loop.raw_induct [where P = "\<lambda>A' t buf tmp s w y. A' = A \<longrightarrow> response_outcome buf s w y",
        OF _ assms], goal_cases)
    case (1 f A' t buf tmp s w y)
    show ?case
    proof
      assume A': "A' = A"
      from 1(2) obtain r s1 tmp1 w1 where rd: "sync_readUntil A s tmp crlf (Some t) w = Some (r, s1, tmp1, w1)"
        by (auto simp: A' split: bind_splits)
      note fr = sync_readUntil_frame [OF rd]
      show "response_outcome buf s w y"
      proof (cases "\<exists>n. r = Inr n \<and> n \<noteq> 0 \<and> \<not> isCompleteFtpResponse (splitLines (buf @ string_of_bytes (take n tmp1)))")
        case True
        then obtain n where n: "r = Inr n" and "f A t (buf @ string_of_bytes (take n tmp1)) tmp1 s1 w1 = Some y"
          using 1(2) rd by (auto simp: A')
        with 1(1) have "response_outcome (buf @ string_of_bytes (take n tmp1)) s1 w1 y" by blast
        with response_outcome_later [of s w "take n tmp1" s1 w1 buf] fr n show ?thesis by (cases y) blast
      next
        case False
        with 1(2) rd fr show ?thesis
          by (auto simp: A' response_outcome_def Let_def split: sum.splits if_splits)
      qed
    qed
  qed
  then show ?thesis by simp
qed

definition raw_outcome :: "byte list \<Rightarrow> dual_socket \<Rightarrow> 'w \<Rightarrow> byte list expected \<times> dual_socket \<times> 'w \<Rightarrow> bool" where
  "raw_outcome buf s w = (\<lambda>(r, s', w'). read_frame A rcvd sent s w s' w' \<and>
     (\<forall>buf'. r = Inr buf' \<longrightarrow>
        (\<exists>d. rcvd (sock_fd s) w' = rcvd (sock_fd s) w @ d \<and> buf' = buf @ read_buffer s @ d)))"

lemma raw_outcome_later:
  assumes "took A rcvd sent s w bs s1 w1" "read_frame A rcvd sent s w s1 w1"
    and "raw_outcome (buf @ bs) s1 w1 (r, s', w')"
  shows "raw_outcome buf s w (r, s', w')"
proof -
  obtain d where d: "rcvd (sock_fd s) w1 = rcvd (sock_fd s) w @ d" "bs @ read_buffer s1 = read_buffer s @ d"
    using assms(1) by (auto simp: took_def)
  have fd: "sock_fd s1 = sock_fd s" using assms(2) read_frame_fd by blast
  have "\<exists>d. rcvd (sock_fd s) w' = rcvd (sock_fd s) w @ d \<and> buf' = buf @ read_buffer s @ d" if r: "r = Inr buf'" for buf'
  proof -
    from assms(3) r obtain e where "rcvd (sock_fd s) w' = rcvd (sock_fd s) w1 @ e" "buf' = buf @ bs @ read_buffer s1 @ e"
      by (auto simp: raw_outcome_def fd)
    with d have "rcvd (sock_fd s) w' = rcvd (sock_fd s) w @ d @ e" "buf' = buf @ read_buffer s @ d @ e"
      by (simp, metis append_assoc)
    then show ?thesis by blast
  qed
  with assms(2,3) read_frame_trans show ?thesis by (auto simp: raw_outcome_def)
qed

lemma raw_loop_outcome:
  assumes "raw_loop A t buf tmp s w = Some y" "tmp \<noteq> []" "length tmp \<le> size_max"
  shows "raw_outcome buf s w y"
proof -
  have "A = A \<longrightarrow> tmp \<noteq> [] \<longrightarrow> length tmp \<le> size_max \<longrightarrow> raw_outcome buf s w y"
  proof (rule raw_loop.raw_induct
      [where P = "\<lambda>A' t buf tmp s w y. A' = A \<longrightarrow> tmp \<noteq> [] \<longrightarrow> length tmp \<le> size_max \<longrightarrow> raw_outcome buf s w y",
        OF _ assms(1)], goal_cases)
    case (1 f A' t buf tmp s w y)
    show ?case
    proof (intro impI)
      assume A': "A' = A" and ne: "tmp \<noteq> []" "length tmp \<le> size_max"
      from 1(2) obtain r s1 tmp1 w1 where rd: "sync_readSome A s tmp (Some t) w = Some (r, s1, tmp1, w1)"
        by (auto simp: A' split: bind_splits)
      note fr = sync_readSome_frame [OF rd ne(2)]
      show "raw_outcome buf s w y"
      proof (cases r)
        case (Inl e)
        with 1(2) rd fr show ?thesis by (auto simp: A' raw_outcome_def split: if_splits)
      next
        case (Inr n)
        then have n: "n \<noteq> 0" "length tmp1 = length tmp" using fr ne by auto
        have "f A t (buf @ take n tmp1) tmp1 s1 w1 = Some y" using 1(2) rd Inr n by (simp add: A')
        moreover have "tmp1 \<noteq> []" "length tmp1 \<le> size_max" using n(2) ne by auto
        ultimately have "raw_outcome (buf @ take n tmp1) s1 w1 y" using 1(1) by blast
        with raw_outcome_later [of s w "take n tmp1" s1 w1 buf] fr Inr show ?thesis by (cases y) blast
      qed
    qed
  qed
  with assms(2,3) show ?thesis by simp
qed

lemma receiveResponse_on_took:
  assumes "receiveResponse_on A s t w = Some (r, s', w')"
  shows "read_frame A rcvd sent s w s' w' \<and>
    (\<forall>a. r = Returned (Inr a) \<longrightarrow>
       isCompleteFtpResponse (splitLines (full_msg a)) \<and> stoi (take 3 (full_msg a)) = Some (ans_code a) \<and>
       (\<exists>bs. full_msg a = string_of_bytes bs \<and> took A rcvd sent s w bs s' w'))"
proof -
  from assms obtain r1 where lp: "response_loop A t [] (replicate 1024 0) s w = Some (r1, s', w')"
    and r: "r = (case r1 of Inl e \<Rightarrow> Returned (Inl e) | Inr buf \<Rightarrow> answer_of buf)"
    by (auto simp: receiveResponse_on_def split: bind_splits)
  from response_loop_outcome [OF lp] r show ?thesis
    by (auto simp: response_outcome_def answer_of_def split: sum.splits if_splits option.splits)
qed

end

end
