(* ===== verification/Ftp_Client.thy ===== *)
theory Ftp_Client
  imports Ftp_Stream
begin

text \<open>
  What the FTP client promises about its connections. Every command leaves the control connection
  in place and touches no other socket; every transfer opens one data connection, moves the bytes of
  the file over it and closes it again.
\<close>

section \<open>Steps on the control connection\<close>

text \<open>
  \<open>control_step A rcvd sent c S f w f' w'\<close>: the client keeps its control socket \<open>c\<close>, no socket was
  opened or closed for good, and only \<open>c\<close> and the sockets of \<open>S\<close> carried bytes.
\<close>

definition on_control :: "nat \<Rightarrow> ftp \<Rightarrow> bool" where
  "on_control c f \<longleftrightarrow> map_option sock_fd (ftp_socket f) = Some c"

definition control_step ::
  "'w asio \<Rightarrow> (nat \<Rightarrow> 'w \<Rightarrow> byte list) \<Rightarrow> (nat \<Rightarrow> 'w \<Rightarrow> byte list) \<Rightarrow> nat \<Rightarrow> nat set \<Rightarrow>
   ftp \<Rightarrow> 'w \<Rightarrow> ftp \<Rightarrow> 'w \<Rightarrow> bool" where
  "control_step A rcvd sent c S f w f' w' \<longleftrightarrow>
     on_control c f \<and> on_control c f' \<and> same_sockets A rcvd sent (insert c S) w w' \<and>
     (\<forall>g. as_is_open A g w' = as_is_open A g w)"

definition keeps ::
  "'w asio \<Rightarrow> (nat \<Rightarrow> 'w \<Rightarrow> byte list) \<Rightarrow> (nat \<Rightarrow> 'w \<Rightarrow> byte list) \<Rightarrow> nat \<Rightarrow> nat set \<Rightarrow>
   ftp \<Rightarrow> 'w \<Rightarrow> ('a, 'w) ftp_call \<Rightarrow> bool" where
  "keeps A rcvd sent c S f w x \<longleftrightarrow>
     (\<forall>r f' w'. x = Some (r, f', w') \<longrightarrow> control_step A rcvd sent c S f w f' w')"

text \<open>
  \<open>data_open A rcvd sent c s w w'\<close>: since \<open>w\<close> the data connection \<open>s\<close> has been opened; it is new and has
  carried nothing, and otherwise only the control connection was used.
\<close>

definition data_open ::
  "'w asio \<Rightarrow> (nat \<Rightarrow> 'w \<Rightarrow> byte list) \<Rightarrow> (nat \<Rightarrow> 'w \<Rightarrow> byte list) \<Rightarrow> nat \<Rightarrow> dual_socket \<Rightarrow> 'w \<Rightarrow> 'w \<Rightarrow> bool" where
  "data_open A rcvd sent c s w w' \<longleftrightarrow>
     read_buffer s = [] \<and> \<not> as_is_open A (sock_fd s) w \<and> sock_fd s \<noteq> c \<and>
     rcvd (sock_fd s) w' = [] \<and> sent (sock_fd s) w' = [] \<and>
     same_sockets A rcvd sent {c, sock_fd s} w w' \<and>
     (\<forall>g. as_is_open A g w' = (g = sock_fd s \<or> as_is_open A g w))"

lemma on_ok_cases [consumes 1, case_names goes_on stops]:
  assumes "on_ok x k = Some (r, f', w')"
  obtains a f1 w1 where "x = Some (Returned (Inr a), f1, w1)" "k a f1 w1 = Some (r, f', w')"
  | r1 where "x = Some (r1, f', w')" "\<And>a. r1 \<noteq> Returned (Inr a)" "\<And>a. r \<noteq> Returned (Inr a)"
proof -
  from assms obtain r1 f1 w1 where x: "x = Some (r1, f1, w1)"
    by (auto simp: on_ok_def split: bind_splits)
  show thesis
  proof (cases "\<exists>a. r1 = Returned (Inr a)")
    case True
    with assms x that(1) show thesis by (auto simp: on_ok_def)
  next
    case False
    with assms x that(2) [of r1] show thesis
      by (auto simp: on_ok_def split: outcome.splits sum.splits)
  qed
qed

locale ftp_environment = net_env "env_asio E" rcvd sent "env_net E"
  for E :: "'w ftp_env" and rcvd sent :: "nat \<Rightarrow> 'w \<Rightarrow> byte list"
begin

abbreviation step where "step \<equiv> control_step (env_asio E) rcvd sent"
abbreviation kept where "kept c \<equiv> keeps (env_asio E) rcvd sent c {}"
abbreviation kept_with where "kept_with \<equiv> keeps (env_asio E) rcvd sent"

lemma step_refl: "on_control c f \<Longrightarrow> step c S f w f w"
  by (simp add: control_step_def)

lemma step_trans: "step c S f w f1 w1 \<Longrightarrow> step c S f1 w1 f2 w2 \<Longrightarrow> step c S f w f2 w2"
  by (simp add: control_step_def same_sockets_def)

lemma step_mono: "step c S f w f1 w1 \<Longrightarrow> S \<subseteq> T \<Longrightarrow> step c T f w f1 w1"
  by (auto simp: control_step_def same_sockets_def)

lemma step_on_control: "step c S f w f1 w1 \<Longrightarrow> on_control c f1"
  by (simp add: control_step_def)

lemma step_finite:
  "step c S f w f1 w1 \<Longrightarrow> finite {g. as_is_open (env_asio E) g w} \<Longrightarrow> finite {g. as_is_open (env_asio E) g w1}"
  by (simp add: control_step_def)

lemma keptD: "kept_with c S f w x \<Longrightarrow> x = Some (r, f', w') \<Longrightarrow> step c S f w f' w'"
  by (simp add: keeps_def)

lemma kept_done:
  assumes "on_control c f"
  shows "kept_with c S f w (ok a f w)" "kept_with c S f w (fails e f w)" "kept_with c S f w (Some (r, f, w))"
  using assms by (simp_all add: keeps_def ok_def fails_def step_refl)

lemma kept_on_ok:
  assumes "kept_with c S f w x" "\<And>a f1 w1. on_control c f1 \<Longrightarrow> kept_with c S f1 w1 (k a f1 w1)"
  shows "kept_with c S f w (on_ok x k)"
  unfolding keeps_def
proof (intro allI impI)
  fix r f' w'
  assume "on_ok x k = Some (r, f', w')"
  then show "step c S f w f' w'"
  proof (cases rule: on_ok_cases)
    case (goes_on a f1 w1)
    note s = keptD [OF assms(1) goes_on(1)]
    from step_trans [OF s] keptD [OF assms(2) [OF step_on_control [OF s]] goes_on(2)] show ?thesis .
  next
    case (stops r1)
    then show ?thesis using keptD [OF assms(1)] by blast
  qed
qed

lemma kept_mono: "kept c f w x \<Longrightarrow> kept_with c S f w x"
  by (auto simp: keeps_def intro: step_mono)

lemma read_step:
  assumes "read_frame (env_asio E) rcvd sent s w s' w'" "ftp_socket f = Some s"
  shows "step (sock_fd s) {} f w (f\<lparr>ftp_socket := Some s'\<rparr>) w'"
  using assms read_frame_fd [OF assms(1)]
  by (auto simp: control_step_def on_control_def read_frame_def same_sockets_def)

lemma receiveResponse_kept: "on_control c f \<Longrightarrow> kept c f w (receiveResponse E f w)"
  unfolding keeps_def
proof (intro allI impI)
  fix r f' w'
  assume c: "on_control c f" and rr: "receiveResponse E f w = Some (r, f', w')"
  then obtain s s1 where s: "ftp_socket f = Some s" "sock_fd s = c" "f' = f\<lparr>ftp_socket := Some s1\<rparr>"
    and on: "receiveResponse_on (env_asio E) s (opt_timeout (ftp_options f)) w = Some (r, s1, w')"
    by (auto simp: on_control_def receiveResponse_def split: bind_splits)
  show "step c {} f w f' w'"
    using read_step [OF conjunct1 [OF receiveResponse_on_took [OF on]] s(1)] s(2,3) by simp
qed

lemma write_same:
  assumes "sync_writeAll (env_asio E) s bs t w = Some (r, w')"
  shows "same_sockets (env_asio E) rcvd sent {sock_fd s} w w'"
    "as_is_open (env_asio E) g w' = as_is_open (env_asio E) g w"
  using sync_writeAll_frame [OF assms] by (auto simp: same_sockets_def)

lemma sendAndReceiveResponse_kept: "on_control c f \<Longrightarrow> kept c f w (sendAndReceiveResponse E cmd f w)"
  unfolding keeps_def
proof (intro allI impI)
  fix r f' w'
  assume c: "on_control c f" and sr: "sendAndReceiveResponse E cmd f w = Some (r, f', w')"
  then obtain s s1 where s: "ftp_socket f = Some s" "sock_fd s = c" "f' = f\<lparr>ftp_socket := Some s1\<rparr>"
    and on: "sendAndReceiveResponse_on (env_asio E) s cmd (opt_timeout (ftp_options f)) w = Some (r, s1, w')"
    by (auto simp: on_control_def sendAndReceiveResponse_def split: bind_splits)
  then obtain r1 w1 where wr: "sync_writeAll (env_asio E) s (bytes_of_string (cmd @ crlf))
      (Some (opt_timeout (ftp_options f))) w = Some (r1, w1)"
    and rest: "(\<exists>e. r1 = Inl e \<and> s1 = s \<and> w' = w1) \<or>
      receiveResponse_on (env_asio E) s (opt_timeout (ftp_options f)) w1 = Some (r, s1, w')"
    by (auto simp: sendAndReceiveResponse_on_def sendCommand_on_def split: bind_splits sum.splits)
  have one: "step c {} f w f w1" using c s(2) write_same [OF wr] by (simp add: control_step_def)
  from rest show "step c {} f w f' w'"
  proof (elim disjE exE conjE)
    fix e assume "s1 = s" "w' = w1"
    then show ?thesis using one s c by (simp add: control_step_def on_control_def)
  next
    assume "receiveResponse_on (env_asio E) s (opt_timeout (ftp_options f)) w1 = Some (r, s1, w')"
    from read_step [OF conjunct1 [OF receiveResponse_on_took [OF this]] s(1)] s(2,3)
    have "step c {} f w1 f' w'" by simp
    with one show ?thesis by (rule step_trans)
  qed
qed

section \<open>Navigation and queries\<close>

lemma command_kept:
  assumes "on_control c f" "\<And>a f1 w1. on_control c f1 \<Longrightarrow> kept c f1 w1 (k a f1 w1)"
  shows "kept c f w (on_ok (sendAndReceiveResponse E cmd f w) k)"
  using kept_on_ok [OF sendAndReceiveResponse_kept [OF assms(1)] assms(2)] .

lemma ftpCd_kept: "on_control c f \<Longrightarrow> kept c f w (ftpCd E d f w)"
  unfolding ftpCd_def by (rule command_kept) (simp_all add: kept_done)

lemma ftpSelectDrive_kept: "on_control c f \<Longrightarrow> kept c f w (ftpSelectDrive E d f w)"
  unfolding ftpSelectDrive_def by (rule command_kept) (simp_all add: kept_done)

lemma cd_each_step:
  assumes "cd_each (\<lambda>d (f, w). ftpCd E d f w) ds (f, w) = Some (r, f', w')" "on_control c f"
  shows "step c {} f w f' w'"
  using assms
proof (induction ds arbitrary: f w)
  case Nil
  then show ?case by (simp add: step_refl)
next
  case (Cons d ds)
  from Cons.prems(1) obtain r1 f1 w1 where cd: "ftpCd E d f w = Some (r1, f1, w1)"
    and rest: "r = r1 \<and> f' = f1 \<and> w' = w1 \<or> cd_each (\<lambda>d (f, w). ftpCd E d f w) ds (f1, w1) = Some (r, f', w')"
    by (auto split: bind_splits outcome.splits sum.splits)
  note s = keptD [OF ftpCd_kept [OF Cons.prems(2)] cd]
  from rest show ?case
    using s Cons.IH [OF _ step_on_control [OF s]] step_trans [OF s] by blast
qed

lemma navigate_kept:
  assumes "on_control c f"
  shows "kept c f w (navigate E p f w)"
  unfolding keeps_def
proof (intro allI impI)
  let ?cd = "\<lambda>d (f, w). ftpCd E d f w" and ?sel = "\<lambda>d (f, w). ftpSelectDrive E d f w"
  fix r f' w'
  assume "navigate E p f w = Some (r, f', w')"
  then obtain cur f1 where ch: "changeDirectory ?cd ?sel (ftp_current f) p (f, w) = Some (r, cur, f1, w')"
    and f': "f' = f1\<lparr>ftp_current := cur\<rparr>"
    by (auto simp: navigate_def split: bind_splits)
  have each: "step c {} f0 w0 f1 w'" if "cd_each ?cd ds (f0, w0) = Some (r, f1, w')" "on_control c f0" for ds f0 w0
    using cd_each_step that by blast
  from ch have "step c {} f w f1 w'"
  proof (cases rule: changeDirectory_runs)
    case (1 ds)
    from each [OF this assms] show ?thesis .
  next
    case (2 d)
    with keptD [OF ftpSelectDrive_kept [OF assms]] show ?thesis by simp
  next
    case (3 d x s1 ds)
    obtain f2 w2 where s1: "s1 = (f2, w2)" by (metis prod.exhaust)
    from keptD [OF ftpSelectDrive_kept [OF assms], of d w] 3(1) s1 have s: "step c {} f w f2 w2" by simp
    from each [OF 3(2) [unfolded s1] step_on_control [OF s]] show ?thesis by (rule step_trans [OF s])
  qed
  then show "step c {} f w f' w'" by (simp add: f' control_step_def on_control_def)
qed

lemma has_value_kept: "kept c f w x \<Longrightarrow> kept c f w (has_value x)"
  by (auto simp: keeps_def has_value_def ok_def split: bind_splits outcome.splits sum.splits)

lemma or_else_kept:
  assumes "kept c f w x" "\<And>f1 w1. on_control c f1 \<Longrightarrow> kept c f1 w1 (k f1 w1)"
  shows "kept c f w (or_else x k)"
  unfolding keeps_def
proof (intro allI impI)
  fix r f' w'
  assume oe: "or_else x k = Some (r, f', w')"
  then obtain r1 f1 w1 where x: "x = Some (r1, f1, w1)" by (auto simp: or_else_def split: bind_splits)
  note s = keptD [OF assms(1) x]
  have "k f1 w1 = Some (r, f', w') \<or> f' = f1 \<and> w' = w1"
    using oe x by (auto simp: or_else_def ok_def split: outcome.splits sum.splits if_splits)
  then show "step c {} f w f' w'"
    using s step_trans [OF s] keptD [OF assms(2) [OF step_on_control [OF s]]] by blast
qed

lemma queries_kept:
  assumes "on_control c f"
  shows "kept c f w (existsMlst E name f w)" "kept c f w (existsSize E name f w)"
    "kept c f w (existsCwd E name f w)" "kept c f w (isDirectoryMlst E name f w)"
    "kept c f w (isDirectoryCwd E name f w)"
proof -
  have size: "kept c f w (existsSize E name f w)" if "on_control c f" for f w
    unfolding existsSize_def using that by (intro command_kept) (simp_all add: kept_done)
  from size [OF assms] show "kept c f w (existsSize E name f w)" .
  show "kept c f w (existsMlst E name f w)"
    unfolding existsMlst_def using assms by (auto simp: kept_done intro!: command_kept)
  show "kept c f w (existsCwd E name f w)"
    unfolding existsCwd_def using assms
    by (auto simp: kept_done intro!: kept_on_ok sendAndReceiveResponse_kept has_value_kept ftpCd_kept)
  show "kept c f w (isDirectoryMlst E name f w)"
    unfolding isDirectoryMlst_def using assms by (auto simp: kept_done Let_def intro!: command_kept)
  show "kept c f w (isDirectoryCwd E name f w)"
    unfolding isDirectoryCwd_def using assms
    by (auto simp: kept_done intro!: kept_on_ok sendAndReceiveResponse_kept has_value_kept ftpCd_kept size)
qed

lemma ftp_exists_kept: "on_control c f \<Longrightarrow> kept c f w (ftp_exists E p f w)"
  by (auto simp: ftp_exists_def Let_def kept_done queries_kept
      intro!: kept_on_ok navigate_kept or_else_kept)

lemma isDirectory_kept:
  assumes "on_control c f"
  shows "kept c f w (isDirectory E p f w)"
proof -
  have fallback: "kept c f w (do {
        (r, f, w) \<leftarrow> isDirectoryMlst E name f w;
        case r of Returned (Inl _) \<Rightarrow> isDirectoryCwd E name f w | x \<Rightarrow> Some (x, f, w) })"
    if c: "on_control c f" for name f w
    unfolding keeps_def
  proof (intro allI impI)
    fix r f' w'
    assume run: "do { (r, f, w) \<leftarrow> isDirectoryMlst E name f w;
        case r of Returned (Inl _) \<Rightarrow> isDirectoryCwd E name f w | x \<Rightarrow> Some (x, f, w) } = Some (r, f', w')"
    then obtain r1 f1 w1 where m: "isDirectoryMlst E name f w = Some (r1, f1, w1)" by (auto split: bind_splits)
    note s = keptD [OF queries_kept(4) [OF c] m]
    have "isDirectoryCwd E name f1 w1 = Some (r, f', w') \<or> f' = f1 \<and> w' = w1"
      using run m by (auto split: outcome.splits sum.splits)
    then show "step c {} f w f' w'"
      using s step_trans [OF s] keptD [OF queries_kept(5) [OF step_on_control [OF s]]] by blast
  qed
  show ?thesis
    using assms
    by (auto simp: isDirectory_def Let_def kept_done queries_kept intro!: kept_on_ok navigate_kept fallback)
qed

lemma createDir_kept: "on_control c f \<Longrightarrow> kept c f w (createDir E p f w)"
  by (auto simp: createDir_def kept_done intro!: kept_on_ok navigate_kept ftp_exists_kept sendAndReceiveResponse_kept)

lemma ftp_remove_kept: "on_control c f \<Longrightarrow> kept c f w (ftp_remove E p f w)"
  by (auto simp: ftp_remove_def Let_def kept_done intro!: kept_on_ok navigate_kept isDirectory_kept sendAndReceiveResponse_kept)

section \<open>Data connections\<close>

abbreviation opened where "opened \<equiv> data_open (env_asio E) rcvd sent"
abbreviation is_open where "is_open \<equiv> as_is_open (env_asio E)"

lemma opened_before: "step c {} f w f1 w1 \<Longrightarrow> opened c s w1 w2 \<Longrightarrow> opened c s w w2"
  by (auto simp: control_step_def data_open_def same_sockets_def)

lemma opened_after: "opened c s w w1 \<Longrightarrow> step c {} f w1 f1 w2 \<Longrightarrow> opened c s w w2"
  by (auto simp: control_step_def data_open_def same_sockets_def)

lemma opened_closed:
  assumes "opened c s w w1" "step c {sock_fd s} f1 w1 f2 w2" "on_control c f"
  shows "step c {sock_fd s} f w f2 (destroy_socket (env_asio E) s w2)"
  using assms by (auto simp: control_step_def data_open_def same_sockets_def destroy_socket_open env_laws)

lemma connect_to_opened:
  assumes "connect_to E host port t w = Some (r, w')" "finite {g. is_open g w}" "is_open c w" "on_control c f"
  shows "case r of Inr s \<Rightarrow> opened c s w w' | Inl e \<Rightarrow> \<exists>fd. \<not> is_open fd w \<and> step c {fd} f w f w'"
  using connect_outcome [OF assms(1) [unfolded connect_to_def] assms(2)] assms(3,4)
  by (auto simp: connection_outcome_def data_open_def control_step_def same_sockets_def split: sum.splits) metis

lemma openDataConnection_outcome:
  assumes "openDataConnection E f w = Some (r, f', w')" "on_control c f" "is_open c w" "finite {g. is_open g w}"
  shows "on_control c f'" and "r = Returned (Inr s) \<Longrightarrow> opened c s w w'"
    and "(\<And>s. r \<noteq> Returned (Inr s)) \<Longrightarrow> \<exists>fd. \<not> is_open fd w \<and> step c {fd} f w f' w'"
proof -
  have "on_control c f' \<and> (\<forall>s. r = Returned (Inr s) \<longrightarrow> opened c s w w') \<and>
      ((\<forall>s. r \<noteq> Returned (Inr s)) \<longrightarrow> (\<exists>fd. \<not> is_open fd w \<and> step c {fd} f w f' w'))"
    using assms(1) unfolding openDataConnection_def
  proof (cases rule: on_ok_cases)
    case (goes_on a f1 w1)
    note s = keptD [OF sendAndReceiveResponse_kept [OF assms(2)] goes_on(1)]
    have c1: "is_open c w1" using s assms(3) by (simp add: control_step_def)
    note same = step_mono [OF s, of "{fd}" for fd]
    have "f' = f1 \<and> w' = w1 \<and> (\<forall>s. r \<noteq> Returned (Inr s)) \<or>
        f' = f1 \<and> (\<exists>host port t x. connect_to E host port t w1 = Some (x, w') \<and> r = Returned x)"
      using goes_on(2) by (fastforce simp: fails_def split: if_splits option.splits bind_splits)
    then show ?thesis
    proof (elim disjE conjE exE)
      assume "f' = f1" "w' = w1" "\<forall>s. r \<noteq> Returned (Inr s)"
      then show ?thesis using s same exists_closed [OF assms(4)] by (auto simp: step_on_control)
    next
      fix host port t x
      assume f': "f' = f1" and ct: "connect_to E host port t w1 = Some (x, w')" and r: "r = Returned x"
      note o = connect_to_opened [OF ct step_finite [OF s assms(4)] c1 step_on_control [OF s]]
      show ?thesis
      proof (cases x)
        case (Inr s1)
        with o opened_before [OF s] r f' step_on_control [OF s] show ?thesis by auto
      next
        case (Inl e)
        with o obtain fd where fd: "\<not> is_open fd w1" "step c {fd} f1 w1 f1 w'" by auto
        have "\<not> is_open fd w" using s fd(1) by (simp add: control_step_def)
        with step_trans [OF same fd(2)] Inl r f' step_on_control [OF s] show ?thesis by auto
      qed
    qed
  next
    case (stops r1)
    note s = keptD [OF sendAndReceiveResponse_kept [OF assms(2)] stops(1)]
    from step_mono [OF s] exists_closed [OF assms(4)] stops(3) step_on_control [OF s] show ?thesis by auto
  qed
  then show "on_control c f'" "r = Returned (Inr s) \<Longrightarrow> opened c s w w'"
    "(\<And>s. r \<noteq> Returned (Inr s)) \<Longrightarrow> \<exists>fd. \<not> is_open fd w \<and> step c {fd} f w f' w'" by auto
qed

text \<open>Navigate, open a data connection, go on: either the rest runs on an open data connection or the
  operation has failed without leaving one behind.\<close>

lemma with_data_cases [consumes 4, case_names data failed]:
  assumes "on_ok (navigate E p f w) (\<lambda>_ f w. on_ok (openDataConnection E f w) k) = Some (r, f', w')"
    and "on_control c f" "is_open c w" "finite {g. is_open g w}"
  obtains s f1 w1 where "opened c s w w1" "on_control c f1" "k s f1 w1 = Some (r, f', w')"
  | fd where "\<not> is_open fd w" "step c {fd} f w f' w'" "\<And>a. r \<noteq> Returned (Inr a)"
  using assms(1)
proof (cases rule: on_ok_cases)
  case (goes_on a f1 w1)
  note s = keptD [OF navigate_kept [OF assms(2)] goes_on(1)]
  have c1: "is_open c w1" using s assms(3) by (simp add: control_step_def)
  note fin = step_finite [OF s assms(4)]
  from goes_on(2) show thesis
  proof (cases rule: on_ok_cases)
    case (goes_on x f2 w2)
    note o = openDataConnection_outcome [OF goes_on(1) step_on_control [OF s] c1 fin]
    from that(1) [OF opened_before [OF s o(2) [OF refl]] o(1) goes_on(2)] show thesis .
  next
    case (stops r1)
    from openDataConnection_outcome(3) [OF stops(1) step_on_control [OF s] c1 fin stops(2)]
    obtain fd where fd: "\<not> is_open fd w1" "step c {fd} f1 w1 f' w'" by blast
    have "\<not> is_open fd w" using s fd(1) by (simp add: control_step_def)
    from that(2) [OF this step_trans [OF step_mono [OF s] fd(2)] stops(3)] show thesis by simp
  qed
next
  case (stops r1)
  obtain fd where fd: "\<not> is_open fd w" using exists_closed [OF assms(4)] by blast
  from that(2) [OF this step_mono [OF keptD [OF navigate_kept [OF assms(2)] stops(1)]] stops(3)]
  show thesis by simp
qed

section \<open>Transfers\<close>

lemma finish_transfer_kept: "on_control c f \<Longrightarrow> kept c f w (finish_transfer E g f w)"
  unfolding finish_transfer_def by (rule kept_on_ok [OF receiveResponse_kept]) (simp_all add: kept_done)

lemma finish_transfer_ok:
  assumes "finish_transfer E g f w = Some (Returned (Inr x), f', w')"
  obtains a where "receiveResponse E f w = Some (Returned (Inr a), f', w')" "ans_code a = 226" "x = g f' w'"
  using assms unfolding finish_transfer_def
proof (cases rule: on_ok_cases)
  case (goes_on a f1 w1)
  then show thesis using that by (auto simp: ok_def fails_def split: if_splits)
qed blast

lemma raw_step:
  assumes "receiveRawResponse (env_asio E) s t w = Some (r, s', w')" "on_control c f" "read_buffer s = []"
  shows "step c {sock_fd s} f w f w'" "r = Inr bs \<Longrightarrow> rcvd (sock_fd s) w' = rcvd (sock_fd s) w @ bs"
proof -
  note lp = raw_loop_outcome [OF assms(1) [unfolded receiveRawResponse_def], unfolded raw_outcome_def prod.case]
  then show "step c {sock_fd s} f w f w'" using assms(2)
    by (auto simp: control_step_def read_frame_def same_sockets_def size_max_def)
  show "rcvd (sock_fd s) w' = rcvd (sock_fd s) w @ bs" if "r = Inr bs"
    using lp that assms(3) by (auto simp: size_max_def)
qed

text \<open>
  The rest of a transfer once its command was answered with 150, on an open data connection that is
  destroyed afterwards; everything before that fails cleanly.
\<close>

lemma transfer_command:
  assumes "on_ok (sendAndReceiveResponse E cmd f1 w1)
      (\<lambda>a f w. if ans_code a \<noteq> 150 then fails protocol_error f w else k f w) = Some (r, f', w')"
    and "opened c s w w1" "on_control c f1"
  obtains f2 w2 where "opened c s w w2" "on_control c f2" "k f2 w2 = Some (r, f', w')"
  | "step c {sock_fd s} f1 w1 f' w'" "\<And>a. r \<noteq> Returned (Inr a)"
  using assms(1)
proof (cases rule: on_ok_cases)
  case (goes_on a f2 w2)
  note st = keptD [OF sendAndReceiveResponse_kept [OF assms(3)] goes_on(1)]
  show thesis
  proof (cases "ans_code a = 150")
    case True
    with goes_on(2) have "k f2 w2 = Some (r, f', w')" by simp
    from that(1) [OF opened_after [OF assms(2) st] step_on_control [OF st] this] show thesis .
  next
    case False
    with goes_on(2) have "f' = f2" "w' = w2" "\<And>a. r \<noteq> Returned (Inr a)" by (auto simp: fails_def)
    with that(2) step_mono [OF st] show thesis by simp
  qed
next
  case (stops r1)
  from that(2) [OF step_mono [OF keptD [OF sendAndReceiveResponse_kept [OF assms(3)] stops(1)]] stops(3)]
  show thesis by simp
qed

lemma start_transfer_cases [consumes 4, case_names data failed]:
  assumes "start_transfer E cmd p f w k = Some (r, f', w')"
    and "on_control c f" "is_open c w" "finite {g. is_open g w}"
  obtains s f1 w1 w2 where "opened c s w w1" "on_control c f1" "k s f1 w1 = Some (r, f', w2)"
      "w' = destroy_socket (env_asio E) s w2"
  | fd where "\<not> is_open fd w" "step c {fd} f w f' w'" "\<And>a. r \<noteq> Returned (Inr a)"
  using assms unfolding start_transfer_def
proof (cases rule: with_data_cases)
  case (data s f1 w1)
  from data(3) obtain w2 where x: "on_ok (sendAndReceiveResponse E (cmd @ filename p) f1 w1)
      (\<lambda>a f w. if ans_code a \<noteq> 150 then fails protocol_error f w else k s f w) = Some (r, f', w2)"
    and w': "w' = destroy_socket (env_asio E) s w2"
    by (auto simp: closing_def split: bind_splits)
  from x data(1,2) show thesis
  proof (cases rule: transfer_command)
    case (1 f2 w3)
    with w' that(1) show thesis by blast
  next
    case 2
    have "\<not> is_open (sock_fd s) w" using data(1) by (simp add: data_open_def)
    with that(2) opened_closed [OF data(1) 2(1) assms(2)] 2(2) w' show thesis by blast
  qed
qed blast

text \<open>\<open>read\<close> takes the whole data connection.\<close>

lemma ftp_read_outcome:
  assumes "ftp_read E p f w = Some (r, f', w')" "on_control c f" "is_open c w" "finite {g. is_open g w}"
  shows "\<exists>fd. \<not> is_open fd w \<and> step c {fd} f w f' w' \<and>
    (\<forall>bytes. r = Returned (Inr bytes) \<longrightarrow> bytes = rcvd fd w' \<and>
       (\<exists>f1 w1 a w2. rcvd fd w1 = bytes \<and> receiveResponse E f1 w1 = Some (Returned (Inr a), f', w2) \<and> ans_code a = 226))"
  using assms(1) assms(2-4) unfolding ftp_read_def
proof (cases rule: start_transfer_cases)
  case (failed fd)
  then show ?thesis by auto
next
  case (data s f1 w1 w2)
  let ?fd = "sock_fd s"
  have s: "read_buffer s = []" "rcvd ?fd w1 = []" "\<not> is_open ?fd w" "?fd \<noteq> c" using data(1) by (simp_all add: data_open_def)
  from data(3) obtain r1 s1 w3 where raw: "receiveRawResponse (env_asio E) s (getDataTimeout f1) w1 = Some (r1, s1, w3)"
    by (auto split: bind_splits)
  note st = raw_step(1) [OF raw data(2) s(1)]
  consider e where "r = Returned (Inl e)" "f' = f1" "w2 = w3"
    | b where "r1 = Inr b" "finish_transfer E (\<lambda>_ _. b) f1 w3 = Some (r, f', w2)"
    using data(3) raw by (auto simp: fails_def split: sum.splits)
  then show ?thesis
  proof cases
    case 1
    with opened_closed [OF data(1) st assms(2)] s(3) data(4) show ?thesis by auto
  next
    case (2 b)
    note fin = keptD [OF finish_transfer_kept [OF data(2)] 2(2)]
    have got: "rcvd ?fd w3 = b" using raw_step(2) [OF raw data(2) s(1) 2(1)] s(2) by simp
    have "rcvd ?fd w' = b" using fin s(4) got data(4) by (simp add: control_step_def same_sockets_def env_laws)
    moreover have "x = b \<and> (\<exists>a. receiveResponse E f1 w3 = Some (Returned (Inr a), f', w2) \<and> ans_code a = 226)"
      if "r = Returned (Inr x)" for x
      using finish_transfer_ok [OF 2(2) [unfolded that]] by blast
    moreover have "step c {?fd} f w f' w'"
      using opened_closed [OF data(1) step_trans [OF st step_mono [OF fin]] assms(2)] data(4) by simp
    ultimately show ?thesis using s(3) got by (intro exI [of _ ?fd]) blast
  qed
qed

text \<open>\<open>list\<close> opens and closes its data connection in the same way.\<close>

lemma list_rest_outcome:
  assumes "do {
        (list_result, s1, w1) \<leftarrow> receiveRawResponse (env_asio E) s (getDataTimeout f1) w1;
        case list_result of
          Inl e \<Rightarrow> fails e f1 w1
        | Inr bytes \<Rightarrow>
            (case parse_lines (env_clock E w1) (splitLines (string_of_bytes bytes)) of
               Thrown \<Rightarrow> Some (Thrown, f1, w1)
             | Undefined \<Rightarrow> Some (Undefined, f1, w1)
             | Returned files \<Rightarrow> on_ok (receiveResponse E f1 w1) (\<lambda>_ f w. ok files f w)) } = Some (r, f', w')"
    and "opened c s w w1" "on_control c f1" "on_control c f"
  shows "step c {sock_fd s} f w f' (destroy_socket (env_asio E) s w') \<and>
    (\<forall>files. r = Returned (Inr files) \<longrightarrow>
       (\<exists>w1. parse_lines (env_clock E w1) (splitLines (string_of_bytes (rcvd (sock_fd s) w'))) = Returned files))"
proof -
  have s: "read_buffer s = []" "sock_fd s \<noteq> c" using assms(2) by (simp_all add: data_open_def)
  from assms(1) obtain r1 s1 w4 where raw: "receiveRawResponse (env_asio E) s (getDataTimeout f1) w1 = Some (r1, s1, w4)"
    by (auto split: bind_splits)
  note st = raw_step(1) [OF raw assms(3) s(1)]
  have kept: "kept c f1 w4 (on_ok (receiveResponse E f1 w4) (\<lambda>_ f w. ok files f w))" for files
    by (rule kept_on_ok [OF receiveResponse_kept [OF assms(3)]]) (simp add: kept_done)
  consider "f' = f1" "w' = w4" "\<And>a. r \<noteq> Returned (Inr a)"
    | b files where "r1 = Inr b" "parse_lines (env_clock E w4) (splitLines (string_of_bytes b)) = Returned files"
        "on_ok (receiveResponse E f1 w4) (\<lambda>_ f w. ok files f w) = Some (r, f', w')"
    using assms(1) raw by (auto simp: fails_def split: sum.splits outcome.splits)
  then show ?thesis
  proof cases
    case 1
    with opened_closed [OF assms(2) st assms(4)] show ?thesis by blast
  next
    case (2 b files)
    note fin = keptD [OF kept 2(3)]
    have "rcvd (sock_fd s) w' = b"
      using raw_step(2) [OF raw assms(3) s(1) 2(1)] assms(2) fin s(2)
      by (simp add: control_step_def same_sockets_def env_laws data_open_def)
    moreover have "x = files" if "r = Returned (Inr x)" for x
      using 2(3) that by (cases rule: on_ok_cases) (auto simp: ok_def)
    ultimately show ?thesis
      using opened_closed [OF assms(2) step_trans [OF st step_mono [OF fin]] assms(4)] 2(2) by auto
  qed
qed

lemma ftp_list_outcome:
  assumes "ftp_list E p f w = Some (r, f', w')" "on_control c f" "is_open c w" "finite {g. is_open g w}"
  shows "\<exists>fd. \<not> is_open fd w \<and> step c {fd} f w f' w' \<and>
    (\<forall>files. r = Returned (Inr files) \<longrightarrow>
       (\<exists>w1. parse_lines (env_clock E w1) (splitLines (string_of_bytes (rcvd fd w'))) = Returned files))"
  using assms(1) assms(2-4) unfolding ftp_list_def
proof (cases rule: with_data_cases)
  case (failed fd)
  then show ?thesis by auto
next
  case (data s f1 w1)
  from data(3) obtain w2 where x: "on_ok (sendAndReceiveResponse E ''LIST'' f1 w1)
      (\<lambda>a f w. if ans_code a \<noteq> 150 then fails protocol_error f w
         else do {
           (list_result, s1, w1) \<leftarrow> receiveRawResponse (env_asio E) s (getDataTimeout f) w;
           case list_result of
             Inl e \<Rightarrow> fails e f w1
           | Inr bytes \<Rightarrow>
               (case parse_lines (env_clock E w1) (splitLines (string_of_bytes bytes)) of
                  Thrown \<Rightarrow> Some (Thrown, f, w1)
                | Undefined \<Rightarrow> Some (Undefined, f, w1)
                | Returned files \<Rightarrow> on_ok (receiveResponse E f w1) (\<lambda>_ f w. ok files f w)) }) = Some (r, f', w2)"
    and w': "w' = destroy_socket (env_asio E) s w2"
    by (auto simp: closing_def split: bind_splits)
  have s: "\<not> is_open (sock_fd s) w" using data(1) by (simp add: data_open_def)
  from x data(1,2) show ?thesis
  proof (cases rule: transfer_command)
    case 2
    then show ?thesis using opened_closed [OF data(1) 2(1) assms(2)] s w' by blast
  next
    case (1 f2 w3)
    from list_rest_outcome [OF 1(3,1,2) assms(2)] s w' show ?thesis
      by (intro exI [of _ "sock_fd s"]) (simp add: env_laws)
  qed
qed

text \<open>\<open>write\<close> sends all bytes, closes the data connection and only then awaits the completion.\<close>

lemma stor_outcome:
  assumes "on_ok (sendAndReceiveResponse E cmd f1 w1)
      (\<lambda>a f w. if ans_code a \<noteq> 150 then fails protocol_error f w
         else do { (r, w1) \<leftarrow> sync_writeAll (env_asio E) s bytes (Some (getDataTimeout f)) w; Some (Returned r, f, w1) }) =
      Some (r, f', w')"
    and "opened c s w w1" "on_control c f1" "on_control c f"
  shows "step c {sock_fd s} f w f' (destroy_socket (env_asio E) s w')"
    and "r = Returned (Inr n) \<Longrightarrow> sent (sock_fd s) w' = bytes"
proof -
  from assms(1-3) have "step c {sock_fd s} f w f' (destroy_socket (env_asio E) s w') \<and>
      (\<forall>n. r = Returned (Inr n) \<longrightarrow> sent (sock_fd s) w' = bytes)"
  proof (cases rule: transfer_command)
    case 2
    then show ?thesis using opened_closed [OF assms(2) 2(1) assms(4)] by blast
  next
    case (1 f2 w2)
    from 1(3) obtain r2 where wr: "sync_writeAll (env_asio E) s bytes (Some (getDataTimeout f2)) w2 = Some (r2, w')"
      and r: "r = Returned r2" "f' = f2" by (auto split: bind_splits)
    have "step c {sock_fd s} f2 w2 f2 w'"
      using 1(2) write_same [OF wr] by (auto simp: control_step_def same_sockets_def)
    moreover have "sent (sock_fd s) w' = bytes" if "r2 = Inr n" for n
      using sync_writeAll_frame [OF wr] that 1(1) by (simp add: data_open_def)
    ultimately show ?thesis using opened_closed [OF 1(1) _ assms(4)] r by blast
  qed
  then show "step c {sock_fd s} f w f' (destroy_socket (env_asio E) s w')"
    and "r = Returned (Inr n) \<Longrightarrow> sent (sock_fd s) w' = bytes" by blast+
qed

lemma ftp_write_outcome:
  assumes "ftp_write E p bytes f w = Some (r, f', w')" "on_control c f" "is_open c w" "finite {g. is_open g w}"
  shows "\<exists>fd. \<not> is_open fd w \<and> step c {fd} f w f' w' \<and>
    (\<forall>file. r = Returned (Inr file) \<longrightarrow> sent fd w' = bytes \<and>
       file_size file = length bytes \<and> file_name file = filename p \<and> full_path file = p \<and>
       (\<exists>f1 w1 a. \<not> is_open fd w1 \<and> sent fd w1 = bytes \<and>
          receiveResponse E f1 w1 = Some (Returned (Inr a), f', w') \<and> ans_code a = 226))"
  using assms(1) assms(2-4) unfolding ftp_write_def
proof (cases rule: with_data_cases)
  case (failed fd)
  then show ?thesis by auto
next
  case (data s f1 w1)
  let ?fd = "sock_fd s"
  let ?g = "\<lambda>f w. stored_file E p (length bytes) (clock_now (env_clock E w))"
  have s: "\<not> is_open ?fd w" "?fd \<noteq> c" using data(1) by (simp_all add: data_open_def)
  from data(3) obtain r1 f2 w2 where x: "on_ok (sendAndReceiveResponse E (''STOR '' @ filename p) f1 w1)
      (\<lambda>a f w. if ans_code a \<noteq> 150 then fails protocol_error f w
         else do { (r, w1) \<leftarrow> sync_writeAll (env_asio E) s bytes (Some (getDataTimeout f)) w; Some (Returned r, f, w1) }) =
      Some (r1, f2, w2)"
    and y: "on_ok (Some (r1, f2, destroy_socket (env_asio E) s w2)) (\<lambda>_ f w. finish_transfer E ?g f w) = Some (r, f', w')"
    by (auto split: option.splits)
  note st = stor_outcome(1) [OF x data(1,2) assms(2)]
  from y show ?thesis
  proof (cases rule: on_ok_cases)
    case (stops r2)
    with st s(1) show ?thesis by auto
  next
    case (goes_on n f3 w3)
    then have w3: "w3 = destroy_socket (env_asio E) s w2" "f3 = f2" and b: "sent ?fd w2 = bytes"
      using stor_outcome(2) [OF x data(1,2) assms(2)] by auto
    note fin = keptD [OF finish_transfer_kept [OF step_on_control [OF st]] goes_on(2) [unfolded w3]]
    have all: "sent ?fd w' = bytes" using fin s(2) b by (simp add: control_step_def same_sockets_def env_laws)
    have early: "\<not> is_open ?fd w3" "sent ?fd w3 = bytes" using b by (simp_all add: w3 destroy_socket_open env_laws)
    have ended: "x = ?g f' w' \<and> (\<exists>a. receiveResponse E f2 w3 = Some (Returned (Inr a), f', w') \<and> ans_code a = 226)"
      if "r = Returned (Inr x)" for x
      using finish_transfer_ok [OF goes_on(2) [unfolded that]] w3 by blast
    show ?thesis
    proof (intro exI [of _ ?fd] conjI allI impI)
      show "\<not> is_open ?fd w" by (fact s(1))
      show "step c {?fd} f w f' w'" using step_trans [OF st step_mono [OF fin]] by simp
      fix x assume r: "r = Returned (Inr x)"
      show "sent ?fd w' = bytes" by (fact all)
      show "file_size x = length bytes" "file_name x = filename p" "full_path x = p"
        using ended [OF r] by (simp_all add: stored_file_def)
      from ended [OF r] early show "\<exists>f1 w1 a. \<not> is_open ?fd w1 \<and> sent ?fd w1 = bytes \<and>
          receiveResponse E f1 w1 = Some (Returned (Inr a), f', w') \<and> ans_code a = 226" by blast
    qed
  qed
qed

end

end
