(* ===== verification/Ftp_Script.thy ===== *)
theory Ftp_Script
  imports Ftp_Client
begin

text \<open>
  Conversations on the scripted network: what a command and its reply, a data connection and a whole
  transfer come to when the server's lines are given. The runs that the FTP properties are applied to
  are computed with these rules.
\<close>

definition heard :: "nat \<Rightarrow> byte list \<Rightarrow> (error_code \<times> byte list \<times> bool) list \<Rightarrow> script_world \<Rightarrow> script_world" where
  "heard fd bs rest w =
     w\<lparr>sw_rx := (sw_rx w)(fd := rest), sw_rcvd := (sw_rcvd w)(fd := sw_rcvd w fd @ bs)\<rparr>"

definition said :: "nat \<Rightarrow> byte list \<Rightarrow> script_world \<Rightarrow> script_world" where
  "said fd bs w = w\<lparr>sw_sent := (sw_sent w)(fd := sw_sent w fd @ bs)\<rparr>"

definition reply :: "string \<Rightarrow> error_code \<times> byte list \<times> bool" where
  "reply l = (No_ec, bytes_of_string (l @ crlf), False)"

lemma heard_said_simps [simp]:
  "sw_rx (heard fd bs rest w) = (sw_rx w)(fd := rest)" "sw_tx (heard fd bs rest w) = sw_tx w"
  "sw_rcvd (heard fd bs rest w) = (sw_rcvd w)(fd := sw_rcvd w fd @ bs)" "sw_sent (heard fd bs rest w) = sw_sent w"
  "sw_open (heard fd bs rest w) = sw_open w" "sw_spawn (heard fd bs rest w) = sw_spawn w"
  "sw_rx (said fd bs w) = sw_rx w" "sw_tx (said fd bs w) = sw_tx w" "sw_rcvd (said fd bs w) = sw_rcvd w"
  "sw_sent (said fd bs w) = (sw_sent w)(fd := sw_sent w fd @ bs)"
  "sw_open (said fd bs w) = sw_open w" "sw_spawn (said fd bs w) = sw_spawn w"
  by (simp_all add: heard_def said_def)

lemma std_search_line: "13 \<notin> set l \<Longrightarrow> std_search (l @ [13, 10]) [13, 10] = length (l :: byte list)"
  by (induction l) auto

lemma byte_of_char_cr: "byte_of_char c = 13 \<longleftrightarrow> c = CHR 0x0D"
  by (metis bytes_of_crlf bytes_of_string_eq_iff crlf_def bytes_of_string_def list.map(2) list.inject)

text \<open>A TCP socket with an empty buffer in a world in which spawned coroutines run.\<close>

definition ready :: "dual_socket \<Rightarrow> script_world \<Rightarrow> bool" where
  "ready s w \<longleftrightarrow> sock_kind s = Tcp_Socket \<and> read_buffer s = [] \<and> sw_open w (sock_fd s) \<and> sw_spawn w = []"

lemma scripted_line:
  assumes "ready s w" "sw_rx w (sock_fd s) = (No_ec, l @ [13, 10], False) # rest"
    and "13 \<notin> set l" "length l + 2 \<le> length out"
  shows "sync_readUntil script_asio s out crlf t w =
    Some (Inr (length l + 2), s, (l @ [13, 10]) @ drop (length l + 2) out, heard (sock_fd s) (l @ [13, 10]) rest w)"
proof -
  let ?n = "length out" and ?l = "l @ [13, 10 :: byte]"
  have rd: "asyncReadWithTimeout script_asio s (as_prepare script_asio (read_buffer s) ?n) (length (read_buffer s)) ?n
      (effective_timeout t) w = (Inr (length ?l), ?l @ replicate (?n - length ?l) 0, heard (sock_fd s) ?l rest w)"
    using assms by (simp add: asyncReadWithTimeout_def ready_def script_simps heard_def overwrite_def)
  have cm: "as_commit script_asio (?l @ replicate (?n - length ?l) 0) (length (read_buffer s)) (length ?l) = ?l"
    using assms by (simp add: ready_def script_asio_def)
  have "readUntil_loop script_asio (effective_timeout t) [13, 10] out (s\<lparr>read_buffer := ?l\<rparr>) w1 =
      Some (Inr (length ?l), s, ?l @ drop (length ?l) out, w1)" for w1
    using assms std_search_line [OF assms(3)]
    by (subst readUntil_loop.simps) (simp add: Let_def move_data_def ready_def)
  moreover have "std_search (read_buffer s) [13, 10] = length (read_buffer s)" using assms(1) by (simp add: ready_def)
  ultimately have "readUntil_loop script_asio (effective_timeout t) [13, 10] out s w =
      Some (Inr (length ?l), s, ?l @ drop (length ?l) out, heard (sock_fd s) ?l rest w)"
    using readUntil_loop_turns(3) [OF _ rd] cm by simp
  then show ?thesis using assms(1)
    by (simp add: ready_def sync_readUntil_def member_defs spawn_and_get_def script_asio_def [unfolded script_spawn_def]
        asyncReadUntilCommon_def bytes_of_crlf)
qed

lemma scripted_response:
  assumes "ready s w" "sw_rx w (sock_fd s) = reply l # rest" "CHR 0x0D \<notin> set l" "length l \<le> 1000"
    and "isCompleteFtpResponse (splitLines (l @ crlf))"
  shows "receiveResponse_on script_asio s t w =
    Some (answer_of (l @ crlf), s, heard (sock_fd s) (bytes_of_string (l @ crlf)) rest w)"
proof -
  let ?b = "bytes_of_string l"
  have "13 \<notin> set ?b"
  proof
    assume "13 \<in> set ?b"
    then obtain c where "c \<in> set l" "byte_of_char c = 13" unfolding bytes_of_string_def set_map by (metis imageE)
    then have "c = CHR 0x0D" by (simp only: byte_of_char_cr)
    with \<open>c \<in> set l\<close> assms(3) show False by simp
  qed
  moreover have "sw_rx w (sock_fd s) = (No_ec, ?b @ [13, 10], False) # rest"
    using assms(2) by (simp add: reply_def bytes_of_crlf)
  ultimately have "sync_readUntil script_asio s (replicate 1024 0) crlf (Some t) w =
      Some (Inr (length ?b + 2), s, (?b @ [13, 10]) @ drop (length ?b + 2) (replicate 1024 0),
        heard (sock_fd s) (?b @ [13, 10]) rest w)"
    using assms(1,4) by (intro scripted_line) simp_all
  moreover have "string_of_bytes (?b @ [13, 10]) = l @ crlf"
    using bytes_of_crlf by (metis bytes_of_string_append string_of_bytes_of_string)
  ultimately show ?thesis using assms(5)
    by (simp add: receiveResponse_on_def response_loop.simps bytes_of_crlf Let_def)
qed

lemma scripted_write:
  assumes "ready s w" "sw_tx w (sock_fd s) = []"
  shows "sync_writeAll script_asio s bs t w = Some (Inr (length bs), said (sock_fd s) bs w)"
  using assms
  by (simp add: sync_writeAll_def ready_def member_defs spawn_and_get_def script_asio_def script_spawn_def
      asyncWriteAllCommon_def script_write_def said_def)

lemma ready_heard [simp]: "ready s (heard fd bs rest w) = ready s w" "ready s (said fd bs w) = ready s w"
  by (simp_all add: ready_def)

lemma scripted_command:
  assumes "env_asio E = script_asio" "ftp_socket f = Some s" "ready s w" "sw_tx w (sock_fd s) = []"
    and "sw_rx w (sock_fd s) = reply l # rest" "CHR 0x0D \<notin> set l" "length l \<le> 1000"
    and "isCompleteFtpResponse (splitLines (l @ crlf))"
  shows "sendAndReceiveResponse E cmd f w =
    Some (answer_of (l @ crlf), f,
      heard (sock_fd s) (bytes_of_string (l @ crlf)) rest (said (sock_fd s) (bytes_of_string (cmd @ crlf)) w))"
  using assms scripted_write [OF assms(3,4)]
    scripted_response [of s "said (sock_fd s) (bytes_of_string (cmd @ crlf)) w" l rest]
  by (simp add: sendAndReceiveResponse_def sendAndReceiveResponse_on_def sendCommand_on_def)

lemma scripted_reply:
  assumes "env_asio E = script_asio" "ftp_socket f = Some s" "ready s w"
    and "sw_rx w (sock_fd s) = reply l # rest" "CHR 0x0D \<notin> set l" "length l \<le> 1000"
    and "isCompleteFtpResponse (splitLines (l @ crlf))"
  shows "receiveResponse E f w =
    Some (answer_of (l @ crlf), f, heard (sock_fd s) (bytes_of_string (l @ crlf)) rest w)"
  using assms scripted_response [OF assms(3,4,5,6,7)]
  by (simp add: receiveResponse_def)

text \<open>A data connection that delivers one chunk and is then closed by the server.\<close>

lemma scripted_some:
  assumes "ready s w" "sw_rx w (sock_fd s) = (No_ec, bs, False) # rest" "bs \<noteq> []" "length bs \<le> length out"
    "length out \<le> size_max"
  shows "sync_readSome script_asio s out t w =
    Some (Inr (length bs), s, bs @ replicate (length out - length bs) 0, heard (sock_fd s) bs rest w)"
proof -
  have "out \<noteq> []" using assms(3,4) by auto
  then show ?thesis using assms
    by (simp add: sync_readSome_def ready_def member_defs spawn_and_get_def script_asio_def script_spawn_def
        asyncReadSomeCommon_def Let_def asyncReadWithTimeout_def script_read_def overwrite_def move_data_def heard_def)
qed

lemma scripted_eof:
  assumes "ready s w" "sw_rx w (sock_fd s) = []" "out \<noteq> []"
  shows "\<exists>s' out'. sync_readSome script_asio s out t w = Some (Inl (Asio_ec Eof), s', out', w)"
  using assms
  by (simp add: sync_readSome_def ready_def member_defs spawn_and_get_def script_asio_def script_spawn_def
      asyncReadSomeCommon_def Let_def asyncReadWithTimeout_def script_read_def)

lemma scripted_raw:
  assumes "ready s w" "sw_rx w (sock_fd s) = [(No_ec, bs, False)]" "bs \<noteq> []" "length bs \<le> 1024"
  shows "\<exists>s'. receiveRawResponse script_asio s t w = Some (Inr bs, s', heard (sock_fd s) bs [] w)"
proof -
  let ?w = "heard (sock_fd s) bs [] w" and ?o = "bs @ replicate (1024 - length bs) 0"
  have rd: "sync_readSome script_asio s (replicate 1024 0) (Some t) w = Some (Inr (length bs), s, ?o, ?w)"
    using scripted_some [OF assms(1,2,3), of "replicate 1024 0" "Some t"] assms(4) by simp
  obtain s' out' where "sync_readSome script_asio s ?o (Some t) ?w = Some (Inl (Asio_ec Eof), s', out', ?w)"
    using scripted_eof [of s ?w ?o "Some t"] assms(1,3) by auto
  then have "raw_loop script_asio t bs ?o s ?w = Some (Inr bs, s', ?w)" by (subst raw_loop.simps) simp
  then show ?thesis using assms(3) unfolding receiveRawResponse_def
    by (subst raw_loop.simps) (simp add: rd)
qed

section \<open>A client in the middle of a session\<close>

definition demo_ftp_env :: "script_world ftp_env" where
  "demo_ftp_env =
     \<lparr>env_asio = script_asio, env_net = script_net, env_address = (\<lambda>_. ''127.0.0.1''), env_clock = (\<lambda>_. demo_clock)\<rparr>"

definition control_socket :: dual_socket where
  "control_socket = \<lparr>sock_kind = Tcp_Socket, sock_id = 0, sock_fd = 0, read_buffer = []\<rparr>"

definition demo_ftp :: ftp where
  "demo_ftp = (new_FtpFileTransfer ''host'' 21)\<lparr>ftp_socket := Some control_socket\<rparr>"

text \<open>Only the control connection is open; the server's side of it, and of the data connection, is given.\<close>

definition session :: "string list \<Rightarrow> (error_code \<times> byte list \<times> bool) list \<Rightarrow> script_world" where
  "session replies chunks =
     (script_start [])\<lparr>sw_open := (\<lambda>g. g = 0), sw_rx := (\<lambda>g. if g = 0 then map reply replies else chunks)\<rparr>"

interpretation demo_ftp: ftp_environment demo_ftp_env "\<lambda>fd w. sw_rcvd w fd" "\<lambda>fd w. sw_sent w fd"
  unfolding demo_ftp_env_def ftp_environment_def by (simp add: script_net.net_env_axioms)

lemma demo_ftp_env_simps [simp]:
  "env_asio demo_ftp_env = script_asio" "env_net demo_ftp_env = script_net" "env_clock demo_ftp_env w = demo_clock"
  "env_address demo_ftp_env ip = ''127.0.0.1''"
  by (simp_all add: demo_ftp_env_def)

text \<open>Connecting takes the first socket that is not open.\<close>

definition connected :: "nat \<Rightarrow> script_world \<Rightarrow> script_world" where
  "connected fd w =
     w\<lparr>sw_rcvd := (sw_rcvd w)(fd := []), sw_sent := (sw_sent w)(fd := []), sw_open := (sw_open w)(fd := True),
       sw_counter := sw_counter w + 1\<rparr>"

definition connection :: "nat \<Rightarrow> script_world \<Rightarrow> dual_socket" where
  "connection fd w = \<lparr>sock_kind = Tcp_Socket, sock_id = sw_counter w, sock_fd = fd, read_buffer = []\<rparr>"

lemma connected_simps [simp]:
  "sw_rx (connected fd w) = sw_rx w" "sw_tx (connected fd w) = sw_tx w" "sw_spawn (connected fd w) = sw_spawn w"
  "sw_open (connected fd w) = (sw_open w)(fd := True)" "sock_fd (connection fd w) = fd"
  by (simp_all add: connected_def connection_def)

lemma ready_connected [simp]:
  "ready (connection fd w0) (connected fd w) = (sw_spawn w = [])"
  "ready s w \<Longrightarrow> ready s (connected fd w)"
  by (simp_all add: ready_def connection_def)

lemma scripted_connect:
  assumes "sw_spawn w = []" "free_fd 0 w = Some fd" "host \<noteq> []"
  shows "connect_to demo_ftp_env host port t w = Some (Inr (connection fd w), connected fd w)"
  using assms
  by (simp add: connect_to_def Client_connect_def spawn_and_get_def script_asio_def script_spawn_def
      Client_asyncConnect_def open_connection_def script_net_def script_connect_def applyPreConnectTcpOptions_def
      wanted_options_def default_tcp_options_def new_Client_def make_socket_def new_socket_def
      connection_def connected_def)

lemma demo_current: "ftp_current demo_ftp = absolute_path []"
proof -
  have "lexically_normal ''/'' = absolute_path []" by code_simp
  then show ?thesis
    by (simp add: demo_ftp_def new_FtpFileTransfer_def new_SmartDirectoryNavigator_def normalize_def)
qed

lemma demo_navigate_root: "navigate demo_ftp_env ''/'' demo_ftp w = Some (Returned (Inr ()), demo_ftp, w)"
proof -
  have n: "lexically_normal ''/'' = absolute_path []" by code_simp
  have upd: "demo_ftp\<lparr>ftp_current := absolute_path []\<rparr> = demo_ftp" using demo_current by simp
  show ?thesis
    unfolding navigate_def demo_current
    by (subst changeDirectory_commands [OF _ _ n]) (simp_all add: arrive_def upd)
qed

definition pasv_line :: string where
  "pasv_line = ''227 (127,0,0,1,4,1)''"

lemma demo_lines:
  "answer_of (pasv_line @ crlf) = Returned (Inr \<lparr>full_msg = pasv_line @ crlf, ans_code = 227\<rparr>)"
  "answer_of (''150 x'' @ crlf) = Returned (Inr \<lparr>full_msg = ''150 x'' @ crlf, ans_code = 150\<rparr>)"
  "answer_of (''226 x'' @ crlf) = Returned (Inr \<lparr>full_msg = ''226 x'' @ crlf, ans_code = 226\<rparr>)"
  "isCompleteFtpResponse (splitLines (pasv_line @ crlf))"
  "isCompleteFtpResponse (splitLines (''150 x'' @ crlf))"
  "isCompleteFtpResponse (splitLines (''226 x'' @ crlf))"
  by code_simp+

lemma pasv_line_parses: "\<exists>ip port. parsePasvResponse (pasv_line @ crlf) = Some (ip, port)"
proof -
  have e: "pasv_line @ crlf = ''227 '' @ ''('' @ join_with (CHR '','') (map to_string [127, 0, 0, 1, 4, 1]) @ '')'' @ crlf"
    by code_simp
  show ?thesis unfolding e using parsePasvResponse_print [of "''227 ''" "[127, 0, 0, 1, 4, 1]" crlf] by simp
qed

lemma demo_socket_of [simp]: "ftp_socket demo_ftp = Some control_socket" "sock_fd control_socket = 0"
  by (simp_all add: demo_ftp_def control_socket_def)

lemma demo_ready: "ready control_socket (session ls cs)"
  by (simp add: ready_def control_socket_def session_def script_start_def)

text \<open>
  The client holds the control connection 0; 1 is free for the next data connection. \<open>served ls cs\<close>: the
  server has the replies \<open>ls\<close> to give and sends \<open>cs\<close> over the data connection.
\<close>

definition served :: "string list \<Rightarrow> (error_code \<times> byte list \<times> bool) list \<Rightarrow> script_world \<Rightarrow> bool" where
  "served ls cs w \<longleftrightarrow> ready control_socket w \<and> \<not> sw_open w 1 \<and> sw_tx w = (\<lambda>_. []) \<and>
     sw_rx w 0 = map reply ls \<and> sw_rx w 1 = cs"

lemma session_served: "served ls cs (session ls cs)"
  by (simp add: served_def demo_ready) (simp add: session_def script_start_def)

lemma control_open: "ready control_socket w \<Longrightarrow> sw_open w 0"
  by (simp add: ready_def)

text \<open>The passive connection and the transfer command, as the transfer functions start.\<close>

definition went_passive :: "string list \<Rightarrow> script_world \<Rightarrow> script_world" where
  "went_passive ls w =
     connected 1 (heard 0 (bytes_of_string (pasv_line @ crlf)) (map reply ls) (said 0 (bytes_of_string (''PASV'' @ crlf)) w))"

definition started :: "string \<Rightarrow> string list \<Rightarrow> script_world \<Rightarrow> script_world" where
  "started cmd ls w =
     heard 0 (bytes_of_string (''150 x'' @ crlf)) (map reply ls)
       (said 0 (bytes_of_string (cmd @ crlf)) (went_passive (''150 x'' # ls) w))"

lemma started_simps [simp]:
  "sw_rx (started cmd ls w) = (sw_rx w)(0 := map reply ls)" "sw_tx (started cmd ls w) = sw_tx w"
  "ready control_socket w \<Longrightarrow> ready control_socket (started cmd ls w)"
  "ready (connection (Suc 0) w0) (started cmd ls w) = (sw_spawn w = [])"
  by (simp_all add: started_def went_passive_def)

lemma scripted_open:
  assumes "served (pasv_line # ls) cs w"
  shows "openDataConnection demo_ftp_env demo_ftp w = Some (Returned (Inr (connection 1 w)), demo_ftp, went_passive ls w)"
proof -
  let ?w1 = "heard 0 (bytes_of_string (pasv_line @ crlf)) (map reply ls) (said 0 (bytes_of_string (''PASV'' @ crlf)) w)"
  have r: "ready control_socket w" "\<not> sw_open w 1" "sw_tx w 0 = []" "sw_rx w 0 = reply pasv_line # map reply ls"
    using assms by (simp_all add: served_def)
  have "CHR 0x0D \<notin> set pasv_line" "length pasv_line \<le> 1000" by (simp_all add: pasv_line_def)
  then have "sendAndReceiveResponse demo_ftp_env ''PASV'' demo_ftp w =
      Some (Returned (Inr \<lparr>full_msg = pasv_line @ crlf, ans_code = 227\<rparr>), demo_ftp, ?w1)"
    using scripted_command [of demo_ftp_env demo_ftp control_socket w pasv_line "map reply ls" "''PASV''"] r demo_lines(1,4)
    by simp
  moreover obtain ip port where "parsePasvResponse (pasv_line @ crlf) = Some (ip, port)"
    using pasv_line_parses by blast
  moreover have "free_fd 0 ?w1 = Some 1" using r(2) control_open [OF r(1)] by (simp add: free_fd.simps)
  moreover have "sw_spawn ?w1 = []" using r(1) by (simp add: ready_def)
  moreover have "connection 1 ?w1 = connection 1 w" by (simp add: connection_def heard_def said_def)
  ultimately show ?thesis by (simp add: openDataConnection_def on_ok_def scripted_connect went_passive_def)
qed

lemma scripted_start:
  assumes "served (pasv_line # ''150 x'' # ls) cs w" "CHR 0x0D \<notin> set cmd"
  shows "sendAndReceiveResponse demo_ftp_env cmd demo_ftp (went_passive (''150 x'' # ls) w) =
    Some (Returned (Inr \<lparr>full_msg = ''150 x'' @ crlf, ans_code = 150\<rparr>), demo_ftp, started cmd ls w)"
  using scripted_command [of demo_ftp_env demo_ftp control_socket "went_passive (''150 x'' # ls) w" "''150 x''" "map reply ls" cmd]
    assms demo_lines(2,5) by (simp add: served_def went_passive_def started_def)

lemma scripted_finish:
  assumes "ready control_socket w" "sw_rx w 0 = [reply ''226 x'']"
  shows "finish_transfer demo_ftp_env g demo_ftp w =
    (let w' = heard 0 (bytes_of_string (''226 x'' @ crlf)) [] w in ok (g demo_ftp w') demo_ftp w')"
  using scripted_reply [of demo_ftp_env demo_ftp control_socket w "''226 x''" "[]"] assms demo_lines(3,6)
  by (simp add: finish_transfer_def on_ok_def Let_def)

lemma demo_path: "parent_path ''/f'' = ''/''" "filename ''/f'' = ''f''"
  by code_simp+

lemma scripted_transfer:
  assumes "served (pasv_line # ''150 x'' # ls) cs w" "CHR 0x0D \<notin> set cmd"
    and "k (connection 1 w) demo_ftp (started (cmd @ ''f'') ls w) = Some (r, f', w')"
  shows "start_transfer demo_ftp_env cmd ''/f'' demo_ftp w k = Some (r, f', destroy_socket script_asio (connection 1 w) w')"
  using assms scripted_open [OF assms(1)] scripted_start [OF assms(1), of "cmd @ ''f''"]
  by (simp add: start_transfer_def demo_path demo_navigate_root on_ok_def closing_def)

text \<open>Reading a file that comes in one piece, whole or through a callback.\<close>

lemma scripted_read:
  assumes "served [pasv_line, ''150 x'', ''226 x''] [(No_ec, bs, False)] w" "bs \<noteq> []" "length bs \<le> 1024"
  shows "\<exists>w'. ftp_read demo_ftp_env ''/f'' demo_ftp w = Some (Returned (Inr bs), demo_ftp, w')"
proof -
  let ?w3 = "started ''RETR f'' [''226 x''] w" and ?d = "connection 1 w"
  have w: "ready control_socket w" "sw_spawn w = []" "sw_rx w 1 = [(No_ec, bs, False)]"
    using assms(1) by (simp_all add: served_def ready_def)
  obtain s' where "receiveRawResponse script_asio ?d (getDataTimeout demo_ftp) ?w3 = Some (Inr bs, s', heard 1 bs [] ?w3)"
    using scripted_raw [of ?d ?w3 bs "getDataTimeout demo_ftp"] w assms(2,3) by auto
  moreover have "finish_transfer demo_ftp_env (\<lambda>_ _. bs) demo_ftp (heard 1 bs [] ?w3) =
      ok bs demo_ftp (heard 0 (bytes_of_string (''226 x'' @ crlf)) [] (heard 1 bs [] ?w3))"
    using w(1) by (subst scripted_finish) (simp_all add: Let_def)
  ultimately show ?thesis unfolding ftp_read_def
    by - (rule exI, rule scripted_transfer [OF assms(1)], simp_all add: ok_def)
qed

text \<open>A callback that leaves the conversation with the server alone.\<close>

definition aside :: "script_world \<Rightarrow> script_world \<Rightarrow> bool" where
  "aside w w' \<longleftrightarrow> sw_rx w' = sw_rx w \<and> sw_tx w' = sw_tx w \<and> sw_open w' = sw_open w \<and> sw_spawn w' = sw_spawn w"

lemma aside_ready: "aside w w' \<Longrightarrow> ready s w' = ready s w"
  by (simp add: aside_def ready_def)

lemma scripted_read_loop:
  assumes "ready s w" "sw_rx w (sock_fd s) = [(No_ec, bs, False)]" "bs \<noteq> []" "length bs \<le> 16384"
    and cb: "callback bs (heard (sock_fd s) bs [] w) = (Returned (Inr (length bs)), w')"
      "aside (heard (sock_fd s) bs [] w) w'"
  shows "read_loop script_asio t callback 0 (replicate 16384 0) s w = Some (Returned (Inr (length bs)), w')"
proof -
  let ?o = "bs @ replicate (16384 - length bs) 0"
  have rd: "sync_readSome script_asio s (replicate 16384 0) (Some t) w =
      Some (Inr (length bs), s, ?o, heard (sock_fd s) bs [] w)"
    using scripted_some [OF assms(1,2,3), of "replicate 16384 0" "Some t"] assms(4) by (simp add: size_max_def)
  have "ready s w'" "sw_rx w' (sock_fd s) = []" using assms(1) cb(2) aside_ready [OF cb(2), of s] by (simp_all add: aside_def)
  then obtain s' out' where "sync_readSome script_asio s ?o (Some t) w' = Some (Inl (Asio_ec Eof), s', out', w')"
    using scripted_eof [of s w' ?o "Some t"] assms(3) by auto
  then have "read_loop script_asio t callback (length bs) ?o s w' = Some (Returned (Inr (length bs)), w')"
    by (subst read_loop.simps) simp
  then show ?thesis using assms(3) cb(1) by (subst read_loop.simps) (simp add: rd)
qed

lemma scripted_read_callback:
  assumes "served [pasv_line, ''150 x'', ''226 x''] [(No_ec, bs, False)] w" "bs \<noteq> []" "length bs \<le> 16384"
    and cb: "\<And>w. fst (callback bs w) = Returned (Inr (length bs))" "\<And>w. aside w (snd (callback bs w))"
  shows "\<exists>w'. ftp_read_callback demo_ftp_env ''/f'' callback demo_ftp w = Some (Returned (Inr (length bs)), demo_ftp, w')"
proof -
  let ?w3 = "started ''RETR f'' [''226 x''] w" and ?d = "connection 1 w"
  let ?w4 = "heard 1 bs [] ?w3"
  have w: "ready control_socket w" "sw_spawn w = []" "sw_rx w 1 = [(No_ec, bs, False)]"
    using assms(1) by (simp_all add: served_def ready_def)
  obtain w5 where c: "callback bs ?w4 = (Returned (Inr (length bs)), w5)" and as: "aside ?w4 w5"
    using cb [of ?w4] by (cases "callback bs ?w4") simp
  have "read_loop script_asio (getDataTimeout demo_ftp) callback 0 (replicate 16384 0) ?d ?w3 =
      Some (Returned (Inr (length bs)), w5)"
    using scripted_read_loop [of ?d ?w3 bs callback w5] w assms(2,3) c as by simp
  moreover have "finish_transfer demo_ftp_env (\<lambda>_ _. length bs) demo_ftp w5 =
      ok (length bs) demo_ftp (heard 0 (bytes_of_string (''226 x'' @ crlf)) [] w5)"
    using w(1) as aside_ready [OF as, of control_socket] by (subst scripted_finish) (simp_all add: Let_def aside_def)
  ultimately show ?thesis unfolding ftp_read_callback_def
    by - (rule exI, rule scripted_transfer [OF assms(1)], simp_all add: ok_def on_ok_def lift_call_def)
qed

text \<open>Writing: the data connection is closed before the server confirms.\<close>

lemma destroy_data:
  "sw_rx (destroy_socket script_asio (connection (Suc 0) w0) w) = sw_rx w"
  "ready control_socket (destroy_socket script_asio (connection (Suc 0) w0) w) = ready control_socket w"
  by (auto simp: destroy_socket_def destroy_TcpSocket_def connection_defs script_asio_def ready_def
      control_socket_def connection_def Let_def)

lemma scripted_stored:
  assumes "ready control_socket w" "sw_rx w 0 = [reply ''226 x'']"
  shows "\<exists>w'. finish_transfer demo_ftp_env g demo_ftp (destroy_socket script_asio (connection 1 w0) w) =
    Some (Returned (Inr (g demo_ftp w')), demo_ftp, w')"
  using assms by (subst scripted_finish) (auto simp: destroy_data Let_def ok_def)

lemma scripted_write_file:
  assumes "served [pasv_line, ''150 x'', ''226 x''] [] w"
  shows "\<exists>stored w'. ftp_write demo_ftp_env ''/f'' bs demo_ftp w = Some (Returned (Inr stored), demo_ftp, w')"
proof -
  let ?w3 = "started ''STOR f'' [''226 x''] w" and ?d = "connection 1 w"
  have w: "ready control_socket w" "sw_spawn w = []" "sw_tx w = (\<lambda>_. [])" using assms by (simp_all add: served_def ready_def)
  have "sync_writeAll script_asio ?d bs t ?w3 = Some (Inr (length bs), said 1 bs ?w3)" for t
    using scripted_write [of ?d ?w3 bs t] w by simp
  moreover obtain w' where "finish_transfer demo_ftp_env
      (\<lambda>f w. stored_file demo_ftp_env ''/f'' (length bs) (clock_now (env_clock demo_ftp_env w))) demo_ftp
      (destroy_socket script_asio ?d (said 1 bs ?w3)) =
    Some (Returned (Inr (stored_file demo_ftp_env ''/f'' (length bs) (clock_now (env_clock demo_ftp_env w')))), demo_ftp, w')"
    using scripted_stored [of "said 1 bs ?w3"] w(1) by auto
  ultimately show ?thesis
    using scripted_open [OF assms] scripted_start [OF assms, of "''STOR f''"]
    by (simp add: ftp_write_def demo_path demo_navigate_root on_ok_def)
qed

lemma scripted_write_callback:
  assumes "served [pasv_line, ''150 x'', ''226 x''] [] w"
    and "write_loop script_asio (getDataTimeout demo_ftp) next_chunk 0 (connection 1 w) (started ''STOR f'' [''226 x''] w) =
      Some (Returned (Inr n), w1)"
    and "ready control_socket w1" "sw_rx w1 0 = [reply ''226 x'']"
  shows "\<exists>stored w'. ftp_write_callback demo_ftp_env ''/f'' next_chunk demo_ftp w = Some (Returned (Inr stored), demo_ftp, w')"
proof -
  obtain w' where "finish_transfer demo_ftp_env (\<lambda>_ _. stored_file demo_ftp_env ''/f'' n (clock_now demo_clock)) demo_ftp
      (destroy_socket script_asio (connection 1 w) w1) =
    Some (Returned (Inr (stored_file demo_ftp_env ''/f'' n (clock_now demo_clock))), demo_ftp, w')"
    using scripted_stored [OF assms(3,4), of "\<lambda>_ _. stored_file demo_ftp_env ''/f'' n (clock_now demo_clock)"] by blast
  then show ?thesis
    using scripted_open [OF assms(1)] scripted_start [OF assms(1), of "''STOR f''"] assms(2)
    by (simp add: ftp_write_callback_def demo_path demo_navigate_root on_ok_def lift_call_def ok_def Let_def)
qed

lemma demo_read:
  "\<exists>f' w'. ftp_read demo_ftp_env ''/f'' demo_ftp
      (session [pasv_line, ''150 x'', ''226 x''] [(No_ec, [7, 8, 9], False)]) = Some (Returned (Inr [7, 8, 9]), f', w')"
  using scripted_read [OF session_served, of "[7, 8, 9]"] by auto

lemma demo_write:
  "\<exists>stored f' w'. ftp_write demo_ftp_env ''/f'' [1, 2] demo_ftp
      (session [pasv_line, ''150 x'', ''226 x''] []) = Some (Returned (Inr stored), f', w')"
  using scripted_write_file [OF session_served] by blast

end
