(* ===== verification/Ftp_Properties.thy ===== *)
theory Ftp_Properties
  imports Ftp_Script
begin

text \<open>
  The properties of the FTP client: transfers move exactly the bytes of the file over a connection of
  their own, operations leave no socket behind, replies are taken off the control stream one at a
  time, and the smart navigation leads where a naive one would.
\<close>

lemma ftp_environmentI:
  assumes "asio_laws (env_asio E) rcvd sent" "net_laws (env_asio E) (env_net E) rcvd sent"
  shows "ftp_environment E rcvd sent"
  using assms by (simp add: ftp_environment_def net_env_def asio_env_def net_env_axioms_def)

lemma alive_control:
  assumes "isAlive E f w"
  obtains c where "on_control c f" "as_is_open (env_asio E) c w"
  using assms by (auto simp: isAlive_def on_control_def split: option.splits)

text \<open>
  C5: a \<open>read\<close> that succeeds returns exactly the bytes that arrived on a data connection of its own: one
  that was not open before and is closed again. All of them had arrived before the client read the
  completion reply, whose code was 226. No other socket is opened or closed.
\<close>

theorem ftp_read_returns_file:
  assumes "asio_laws (env_asio E) rcvd sent" and "net_laws (env_asio E) (env_net E) rcvd sent"
    and "finite {g. as_is_open (env_asio E) g w}" and "isAlive E f w"
    and "ftp_read E p f w = Some (Returned (Inr bytes), f', w')"
  shows "\<exists>fd. \<not> as_is_open (env_asio E) fd w \<and> bytes = rcvd fd w' \<and>
    (\<forall>g. as_is_open (env_asio E) g w' = as_is_open (env_asio E) g w) \<and>
    (\<exists>f1 w1 a w2. rcvd fd w1 = bytes \<and>
       receiveResponse E f1 w1 = Some (Returned (Inr a), f', w2) \<and> ans_code a = 226)"
proof -
  obtain c where c: "on_control c f" "as_is_open (env_asio E) c w" using assms(4) by (rule alive_control)
  from ftp_environment.ftp_read_outcome [OF ftp_environmentI [OF assms(1,2)] assms(5) c assms(3)]
  show ?thesis unfolding control_step_def by blast
qed

lemma demo_alive: "isAlive demo_ftp_env demo_ftp (session ls cs)"
  "finite {g. as_is_open (env_asio demo_ftp_env) g (session ls cs)}"
  by (simp_all add: isAlive_def session_def script_simps)

lemma demo_laws: "asio_laws (env_asio demo_ftp_env) demo_rcvd demo_sent"
  "net_laws (env_asio demo_ftp_env) (env_net demo_ftp_env) demo_rcvd demo_sent"
  using script_laws script_net.net_laws by simp_all

theorem ftp_read_returns_file_witness:
  "\<exists>fd f' w'. ftp_read demo_ftp_env ''/f'' demo_ftp
       (session [pasv_line, ''150 x'', ''226 x''] [(No_ec, [7, 8, 9], False)]) = Some (Returned (Inr [7, 8, 9]), f', w') \<and>
     sw_rcvd w' fd = [7, 8, 9]"
proof -
  obtain f' w' where run: "ftp_read demo_ftp_env ''/f'' demo_ftp
      (session [pasv_line, ''150 x'', ''226 x''] [(No_ec, [7, 8, 9], False)]) = Some (Returned (Inr [7, 8, 9]), f', w')"
    using demo_read by blast
  from ftp_read_returns_file [OF demo_laws demo_alive(2,1) run] obtain fd where "[7, 8, 9] = sw_rcvd w' fd" by blast
  with run show ?thesis by (intro exI conjI) auto
qed

text \<open>
  C6: a \<open>write\<close> that succeeds has sent exactly the given bytes over a data connection of its own, which
  was closed before the client read the completion reply with code 226; the record it returns has
  their number, the name and the path. No other socket is opened or closed.
\<close>

theorem ftp_write_stores_file:
  assumes "asio_laws (env_asio E) rcvd sent" and "net_laws (env_asio E) (env_net E) rcvd sent"
    and "finite {g. as_is_open (env_asio E) g w}" and "isAlive E f w"
    and "ftp_write E p bytes f w = Some (Returned (Inr stored), f', w')"
  shows "\<exists>fd. \<not> as_is_open (env_asio E) fd w \<and> sent fd w' = bytes \<and>
    file_size stored = length bytes \<and> file_name stored = filename p \<and> full_path stored = p \<and>
    (\<forall>g. as_is_open (env_asio E) g w' = as_is_open (env_asio E) g w) \<and>
    (\<exists>f1 w1 a. \<not> as_is_open (env_asio E) fd w1 \<and> sent fd w1 = bytes \<and>
       receiveResponse E f1 w1 = Some (Returned (Inr a), f', w') \<and> ans_code a = 226)"
proof -
  obtain c where c: "on_control c f" "as_is_open (env_asio E) c w" using assms(4) by (rule alive_control)
  from ftp_environment.ftp_write_outcome [OF ftp_environmentI [OF assms(1,2)] assms(5) c assms(3)]
  show ?thesis unfolding control_step_def by blast
qed

theorem ftp_write_stores_file_witness:
  "\<exists>fd stored f' w'. ftp_write demo_ftp_env ''/f'' [1, 2] demo_ftp (session [pasv_line, ''150 x'', ''226 x''] []) =
       Some (Returned (Inr stored), f', w') \<and> sw_sent w' fd = [1, 2] \<and> file_size stored = 2"
proof -
  obtain stored f' w' where run: "ftp_write demo_ftp_env ''/f'' [1, 2] demo_ftp
      (session [pasv_line, ''150 x'', ''226 x''] []) = Some (Returned (Inr stored), f', w')"
    using demo_write by blast
  from ftp_write_stores_file [OF demo_laws demo_alive(2,1) run]
  obtain fd where "sw_sent w' fd = [1, 2]" "file_size stored = 2" by auto
  with run show ?thesis by blast
qed

text \<open>
  C7: whatever an operation ends with, a value, an error, an exception, a reply that cannot be parsed,
  exactly the sockets are open that were open before, and the client still has its control
  connection. The only sockets that carried bytes are the control connection and at most one socket
  that was not open before.
\<close>

theorem ftp_operations_leave_no_socket:
  assumes "asio_laws (env_asio E) rcvd sent" and "net_laws (env_asio E) (env_net E) rcvd sent"
    and "finite {g. as_is_open (env_asio E) g w}" and "isAlive E f w"
    and "(\<exists>r. ftp_list E p f w = Some (r, f', w')) \<or> (\<exists>r. ftp_read E p f w = Some (r, f', w')) \<or>
         (\<exists>r. ftp_write E p bytes f w = Some (r, f', w')) \<or> (\<exists>r. ftp_exists E p f w = Some (r, f', w')) \<or>
         (\<exists>r. createDir E p f w = Some (r, f', w')) \<or> (\<exists>r. ftp_remove E p f w = Some (r, f', w')) \<or>
         (\<exists>r. isDirectory E p f w = Some (r, f', w')) \<or> (\<exists>r. navigate E p f w = Some (r, f', w'))"
  shows "(\<forall>g. as_is_open (env_asio E) g w' = as_is_open (env_asio E) g w) \<and> isAlive E f' w' \<and>
    (\<exists>s fd. ftp_socket f = Some s \<and> \<not> as_is_open (env_asio E) fd w \<and>
       (\<forall>g. g \<noteq> sock_fd s \<longrightarrow> g \<noteq> fd \<longrightarrow> rcvd g w' = rcvd g w \<and> sent g w' = sent g w))"
proof -
  obtain c where c: "on_control c f" "as_is_open (env_asio E) c w" using assms(4) by (rule alive_control)
  have E: "ftp_environment E rcvd sent" using assms(1,2) by (rule ftp_environmentI)
  note kept = ftp_environment.keptD [OF E] ftp_environment.ftp_exists_kept [OF E c(1)]
    ftp_environment.createDir_kept [OF E c(1)] ftp_environment.ftp_remove_kept [OF E c(1)]
    ftp_environment.isDirectory_kept [OF E c(1)] ftp_environment.navigate_kept [OF E c(1)]
  have net: "net_env (env_asio E) rcvd sent (env_net E)" using E by (simp add: ftp_environment_def)
  have some: "\<exists>fd. \<not> as_is_open (env_asio E) fd w" using net_env.exists_closed [OF net assms(3)] .
  have "\<exists>fd. \<not> as_is_open (env_asio E) fd w \<and> control_step (env_asio E) rcvd sent c {fd} f w f' w'"
    using assms(5)
    apply (elim disjE exE)
           apply (blast dest: ftp_environment.ftp_list_outcome [OF E _ c assms(3)])
          apply (blast dest: ftp_environment.ftp_read_outcome [OF E _ c assms(3)])
         apply (blast dest: ftp_environment.ftp_write_outcome [OF E _ c assms(3)])
    using kept some ftp_environment.step_mono [OF E, of c "{}" f w f' w'] by blast+
  then obtain fd where fd: "\<not> as_is_open (env_asio E) fd w" "control_step (env_asio E) rcvd sent c {fd} f w f' w'" by blast
  then show ?thesis using c
    by (auto simp: control_step_def on_control_def same_sockets_def isAlive_def)
qed

theorem ftp_operations_leave_no_socket_witness:
  "\<exists>f' w'. ftp_read demo_ftp_env ''/f'' demo_ftp
       (session [pasv_line, ''150 x'', ''226 x''] [(No_ec, [7, 8, 9], False)]) = Some (Returned (Inr [7, 8, 9]), f', w') \<and>
     (\<forall>g. sw_open w' g = (g = 0))"
proof -
  let ?w = "session [pasv_line, ''150 x'', ''226 x''] [(No_ec, [7, 8, 9], False)]"
  obtain f' w' where run: "ftp_read demo_ftp_env ''/f'' demo_ftp ?w = Some (Returned (Inr [7, 8, 9]), f', w')"
    using demo_read by blast
  then have "\<exists>r. ftp_read demo_ftp_env ''/f'' demo_ftp ?w = Some (r, f', w')" by blast
  from ftp_operations_leave_no_socket [OF demo_laws demo_alive(2,1) disjI2 [OF disjI1 [OF this]]]
  have "\<forall>g. sw_open w' g = (g = 0)" by (simp add: script_asio_def session_def)
  with run show ?thesis by blast
qed



text \<open>
  C11: the smart navigation is as good as the naive one: the directory steps that \<open>changeDirectory\<close> sends,
  all acknowledged with code 250, lead from the old directory where going up to the root and down the
  whole target path would lead, with at most as many steps; afterwards the client's record names that
  directory.
\<close>

theorem navigate_equals_naive:
  assumes "ftp_current f = absolute_path ms" and "\<forall>n \<in> set ms. plain_name n"
    and "lexically_normal p = absolute_path ns" and "\<forall>n \<in> set ns. plain_name n"
    and "navigate E p f w = Some (Returned (Inr ()), f', w')"
  shows "\<exists>ds f1. cd_each (\<lambda>d (f, w). ftpCd E d f w) ds (f, w) = Some (Returned (Inr ()), f1, w') \<and>
    f' = f1\<lparr>ftp_current := absolute_path ns\<rparr> \<and>
    foldl dir_step ms ds = foldl dir_step ms (replicate (length ms) ''..'' @ ns) \<and>
    foldl dir_step ms ds = ns \<and> length ds \<le> length ms + length ns"
proof -
  let ?cd = "\<lambda>d (f, w). ftpCd E d f w" and ?k = "common_length ms ns"
  let ?ds = "replicate (length ms - ?k) ''..'' @ drop ?k ns"
  obtain f1 where run: "cd_each ?cd ?ds (f, w) = Some (Returned (Inr ()), f1, w')"
    and f': "f' = f1\<lparr>ftp_current := absolute_path ns\<rparr>"
    using assms(5) unfolding navigate_def assms(1) changeDirectory_commands [OF assms(2,4,3)]
    by (auto simp: arrive_def split: bind_splits)
  note ack = cd_each_acknowledged [OF run, of ms]
  have "foldl dir_step ms ?ds = ns"
    using acknowledged.cd_each_to [of ?cd "((f, w), ms)" ns "((f1, w'), foldl dir_step ms ?ds)"] ack assms(4) by simp
  moreover have "foldl dir_step ms (replicate (length ms) ''..'' @ ns) = ns"
    using naive_steps [OF assms(4)] .
  moreover have "length ?ds \<le> length ms + length ns" by simp
  ultimately show ?thesis using run f' by (intro exI [of _ ?ds] exI [of _ f1]) simp
qed

lemma demo_navigate:
  "\<exists>f' w'. navigate demo_ftp_env ''/b/../a'' demo_ftp (session [''250 x''] []) = Some (Returned (Inr ()), f', w')"
proof -
  have line: "answer_of (''250 x'' @ crlf) = Returned (Inr \<lparr>full_msg = ''250 x'' @ crlf, ans_code = 250\<rparr>)"
    "isCompleteFtpResponse (splitLines (''250 x'' @ crlf))" by code_simp+
  obtain w' where run: "sendAndReceiveResponse demo_ftp_env ''CWD a'' demo_ftp (session [''250 x''] []) =
      Some (Returned (Inr \<lparr>full_msg = ''250 x'' @ crlf, ans_code = 250\<rparr>), demo_ftp, w')"
    using scripted_command [of demo_ftp_env demo_ftp control_socket "session [''250 x''] []" "''250 x''" "[]" "''CWD a''"]
      demo_ready line by (simp add: session_def script_start_def)
  have n: "lexically_normal ''/b/../a'' = absolute_path [''a'']" by code_simp
  show ?thesis unfolding navigate_def demo_current
    using run by (subst changeDirectory_commands [OF _ _ n])
      (simp_all add: plain_name_def slash_def arrive_def ftpCd_def on_ok_def ok_def)
qed

theorem navigate_equals_naive_witness:
  "\<exists>ds f1 w'. cd_each (\<lambda>d (f, w). ftpCd demo_ftp_env d f w) ds (demo_ftp, session [''250 x''] []) =
     Some (Returned (Inr ()), f1, w') \<and> foldl dir_step [] ds = [''a'']"
proof -
  obtain f' w' where run: "navigate demo_ftp_env ''/b/../a'' demo_ftp (session [''250 x''] []) =
      Some (Returned (Inr ()), f', w')" using demo_navigate by blast
  have n: "lexically_normal ''/b/../a'' = absolute_path [''a'']" by code_simp
  from navigate_equals_naive [OF demo_current _ n _ run] show ?thesis by (auto simp: plain_name_def slash_def)
qed

text \<open>
  For a path that ends with a slash \<open>createDir\<close> reports success, \<open>exists\<close> says yes and \<open>isDirectory\<close>
  says yes, all without a single command to the server.
\<close>

theorem trailing_slash_exists_unasked:
  "createDir E (q @ ''/'') f w = Some (Returned (Inr ()), f, w) \<and>
   ftp_exists E (q @ ''/'') f w = Some (Returned (Inr True), f, w) \<and>
   isDirectory E (q @ ''/'') f w = Some (Returned (Inr True), f, w)"
proof -
  have "filename (q @ ''/'') = []" by (simp add: filename_def ends_with_slash_def slash_def)
  then show ?thesis by (simp add: createDir_def ftp_exists_def isDirectory_def ok_def on_ok_def)
qed

end
