(* ===== verification/Ftp_Callback.thy ===== *)
theory Ftp_Callback
  imports Ftp_Client
begin

text \<open>
  The transfers that hand the file over in pieces: \<open>read(path, callback)\<close> and \<open>write(path, next)\<close> of
  \<^verbatim>\<open>protocol/FtpFileTransfer.cpp\<close>. A callback is code of the application. What is assumed of it is that
  it opens and closes no socket and uses only the sockets of a set \<open>S\<close> of its own; then the pieces,
  one after the other, are the file. Where the pieces go to or come from is observed at a socket of
  \<open>S\<close>: a callback that forwards each piece to a connection forwards the file.
\<close>

definition tame ::
  "'w asio \<Rightarrow> (nat \<Rightarrow> 'w \<Rightarrow> byte list) \<Rightarrow> (nat \<Rightarrow> 'w \<Rightarrow> byte list) \<Rightarrow> nat set \<Rightarrow> 'w \<Rightarrow> 'w \<Rightarrow> bool" where
  "tame A rcvd sent S w w' \<longleftrightarrow>
     same_sockets A rcvd sent S w w' \<and> (\<forall>g. as_is_open A g w' = as_is_open A g w)"

text \<open>The callback of \<open>read\<close> that accepts a piece has sent it on over \<open>g\<close>.\<close>

definition forwards :: "(nat \<Rightarrow> 'w \<Rightarrow> byte list) \<Rightarrow> nat \<Rightarrow> 'w read_callback \<Rightarrow> bool" where
  "forwards sent g callback \<longleftrightarrow>
     (\<forall>bs w n w'. callback bs w = (Returned (Inr n), w') \<longrightarrow> sent g w' = sent g w @ bs)"

text \<open>The callback of \<open>write\<close> that returns a piece has received it on \<open>g\<close>.\<close>

definition fetches :: "(nat \<Rightarrow> 'w \<Rightarrow> byte list) \<Rightarrow> nat \<Rightarrow> 'w write_callback \<Rightarrow> bool" where
  "fetches rcvd g next_chunk \<longleftrightarrow>
     (\<forall>w chunk w'. next_chunk w = (Returned (Inr chunk), w') \<longrightarrow> rcvd g w' = rcvd g w @ chunk)"

lemma tame_refl [simp]: "tame A rcvd sent S w w"
  by (simp add: tame_def same_sockets_def)

lemma tame_trans: "tame A rcvd sent S w w1 \<Longrightarrow> tame A rcvd sent S w1 w2 \<Longrightarrow> tame A rcvd sent S w w2"
  by (simp add: tame_def same_sockets_def)

lemma tame_mono: "tame A rcvd sent S w w1 \<Longrightarrow> S \<subseteq> T \<Longrightarrow> tame A rcvd sent T w w1"
  by (auto simp: tame_def same_sockets_def)

context asio_env
begin

section \<open>The loops\<close>

lemma read_frame_tame:
  assumes "read_frame A rcvd sent s w s' w'" "sock_fd s \<in> S"
  shows "tame A rcvd sent S w w'"
proof (rule tame_mono [of _ _ _ "{sock_fd s}"])
  show "tame A rcvd sent {sock_fd s} w w'" using assms(1) by (simp add: read_frame_def tame_def same_sockets_def)
qed (use assms(2) in simp)

lemma sync_writeAll_tame:
  assumes "sync_writeAll A s bs t w = Some (r, w')" "sock_fd s \<in> S"
  shows "tame A rcvd sent S w w'"
proof (rule tame_mono [of _ _ _ "{sock_fd s}"])
  show "tame A rcvd sent {sock_fd s} w w'"
    using sync_writeAll_frame [OF assms(1)] by (simp add: tame_def same_sockets_def)
qed (use assms(2) in simp)

lemma sync_readSome_le:
  assumes "sync_readSome A s out t w = Some (Inr k, s', out', w')"
  shows "k \<le> length out"
proof -
  have "spawn_and_get A (asyncReadSomeCommon A s out t)
      (\<lambda>w1. (Inl (makeReadError (Generic_ec Operation_canceled)), s, out, w1)) w = Some (Inr k, s', out', w')"
    using assms by (cases "sock_kind s") (simp_all add: sync_readSome_def member_defs [abs_def])
  then show ?thesis
    by (cases rule: spawn_and_get_cases)
      (auto simp: asyncReadSomeCommon_def move_data_def Let_def split: if_splits sum.splits prod.splits)
qed

text \<open>
  What the loop of \<open>read\<close> may have done, relative to the bytes already counted: everything that arrived
  was counted and, at a socket the callback forwards to, sent on.
\<close>

definition passed_on ::
  "nat set \<Rightarrow> 'w read_callback \<Rightarrow> nat \<Rightarrow> dual_socket \<Rightarrow> 'w \<Rightarrow> nat expected outcome \<times> 'w \<Rightarrow> bool" where
  "passed_on S callback n0 s w = (\<lambda>(r, w').
     tame A rcvd sent (insert (sock_fd s) S) w w' \<and>
     (\<forall>n. r = Returned (Inr n) \<longrightarrow>
        (\<exists>d. rcvd (sock_fd s) w' = rcvd (sock_fd s) w @ d \<and> n = n0 + length (read_buffer s @ d) \<and>
           (\<forall>g \<in> S. forwards sent g callback \<longrightarrow> sent g w' = sent g w @ read_buffer s @ d))))"

lemma passed_on_later:
  assumes "took A rcvd sent s w bs s1 w1" "callback bs w1 = (Returned (Inr (length bs)), w2)"
    and "tame A rcvd sent S w1 w2" "sock_fd s \<notin> S"
    and "passed_on S callback (n0 + length bs) s1 w2 (r, w')"
  shows "passed_on S callback n0 s w (r, w')"
proof -
  let ?fd = "sock_fd s"
  have fr: "read_frame A rcvd sent s w s1 w1" using assms(1) by (simp add: took_def)
  have fd: "sock_fd s1 = ?fd" using read_frame_fd [OF fr] .
  obtain d where d: "rcvd ?fd w1 = rcvd ?fd w @ d" "bs @ read_buffer s1 = read_buffer s @ d"
    using assms(1) by (auto simp: took_def)
  have w2: "rcvd ?fd w2 = rcvd ?fd w1" using assms(3,4) by (simp add: tame_def same_sockets_def)
  have "tame A rcvd sent (insert ?fd S) w2 w'" using assms(5) fd by (simp add: passed_on_def)
  then have "tame A rcvd sent (insert ?fd S) w w'"
    using tame_trans [OF read_frame_tame [OF fr] tame_trans [OF tame_mono [OF assms(3)]]] by blast
  moreover have "\<exists>d. rcvd ?fd w' = rcvd ?fd w @ d \<and> n = n0 + length (read_buffer s @ d) \<and>
      (\<forall>g \<in> S. forwards sent g callback \<longrightarrow> sent g w' = sent g w @ read_buffer s @ d)" if r: "r = Returned (Inr n)" for n
  proof -
    from assms(5) r obtain e where e: "rcvd ?fd w' = rcvd ?fd w2 @ e"
      "n = n0 + length bs + length (read_buffer s1 @ e)"
      "\<And>g. g \<in> S \<Longrightarrow> forwards sent g callback \<Longrightarrow> sent g w' = sent g w2 @ read_buffer s1 @ e"
      by (auto simp: passed_on_def fd)
    have all: "read_buffer s @ d @ e = bs @ read_buffer s1 @ e" using d(2) by (metis append_assoc)
    have "sent g w' = sent g w @ read_buffer s @ d @ e" if g: "g \<in> S" "forwards sent g callback" for g
    proof -
      have "sent g w2 = sent g w1 @ bs" using g(2) assms(2) by (simp add: forwards_def)
      with e(3) [OF g] fr show ?thesis unfolding all by (simp add: read_frame_def)
    qed
    moreover have "n = n0 + length (read_buffer s @ d @ e)" unfolding all using e(2) by simp
    ultimately show ?thesis using e(1) w2 d(1) by (intro exI [of _ "d @ e"]) simp
  qed
  ultimately show ?thesis by (simp add: passed_on_def)
qed

lemma read_loop_passed_on:
  assumes "read_loop A t callback n0 buffer s w = Some y" "buffer \<noteq> []" "length buffer \<le> size_max"
    and cb: "\<And>bs w. tame A rcvd sent S w (snd (callback bs w))" and "sock_fd s \<notin> S"
  shows "passed_on S callback n0 s w y"
proof -
  let ?P = "\<lambda>A' (t :: int) cb n0 buffer s w y. A' = A \<longrightarrow> cb = callback \<longrightarrow> buffer \<noteq> [] \<longrightarrow> length buffer \<le> size_max \<longrightarrow>
    sock_fd s \<notin> S \<longrightarrow> passed_on S callback n0 s w y"
  have "?P A t callback n0 buffer s w y"
  proof (rule read_loop.raw_induct [where P = ?P, OF _ assms(1)], goal_cases)
    case (1 f A' t cb' n0 buffer s w y)
    show ?case
    proof (intro impI)
      assume eqs: "A' = A" "cb' = callback" and b: "buffer \<noteq> []" "length buffer \<le> size_max" and fd: "sock_fd s \<notin> S"
      from 1(2) obtain r s1 buffer1 w1 where rd: "sync_readSome A s buffer (Some t) w = Some (r, s1, buffer1, w1)"
        by (auto simp: eqs split: bind_splits)
      note fr = sync_readSome_frame [OF rd b(2)]
      note tm = read_frame_tame [OF conjunct1 [OF fr]]
      show "passed_on S callback n0 s w y"
      proof (cases r)
        case (Inl e)
        moreover have "sent g w1 = sent g w" for g using fr by (simp add: read_frame_def)
        ultimately show ?thesis using 1(2) rd fr tm by (auto simp: eqs passed_on_def split: if_splits)
      next
        case (Inr n)
        have tk: "took A rcvd sent s w (take n buffer1) s1 w1" and n: "n \<noteq> 0" "length buffer1 = length buffer"
          using fr Inr b by auto
        have len: "length (take n buffer1) = n" using sync_readSome_le [OF rd [unfolded Inr]] n(2) by simp
        obtain r2 w2 where c: "callback (take n buffer1) w1 = (r2, w2)" by (metis prod.exhaust)
        have c_tame: "tame A rcvd sent S w1 w2" using cb [of w1 "take n buffer1"] c by simp
        show ?thesis
        proof (cases "r2 = Returned (Inr n)")
          case True
          then have "f A t callback (n0 + n) buffer1 s1 w2 = Some y" using 1(2) rd Inr n c by (simp add: eqs)
          moreover have "sock_fd s1 = sock_fd s" using read_frame_fd fr by blast
          moreover have "buffer1 \<noteq> []" "length buffer1 \<le> size_max" using n(2) b by auto
          ultimately have "passed_on S callback (n0 + n) s1 w2 y" using 1(1) fd by metis
          with passed_on_later [OF tk _ c_tame fd, of callback n0] c True len show ?thesis by (cases y) simp
        next
          case False
          then have "\<exists>r3. y = (r3, w2) \<and> (\<forall>m. r3 \<noteq> Returned (Inr m))"
            using 1(2) n(1) by (cases r2) (auto simp: eqs rd Inr c split: sum.splits if_splits)
          with tame_trans [OF tm tame_mono [OF c_tame]] show ?thesis by (auto simp: passed_on_def)
        qed
      qed
    qed
  qed
  with assms(2,3,5) show ?thesis by blast
qed

text \<open>The loop of \<open>write\<close>: everything the callback returned was sent and counted.\<close>

definition supplied ::
  "nat set \<Rightarrow> 'w write_callback \<Rightarrow> nat \<Rightarrow> dual_socket \<Rightarrow> 'w \<Rightarrow> nat expected outcome \<times> 'w \<Rightarrow> bool" where
  "supplied S next_chunk n0 s w = (\<lambda>(r, w').
     tame A rcvd sent (insert (sock_fd s) S) w w' \<and>
     (\<forall>n. r = Returned (Inr n) \<longrightarrow>
        (\<exists>d. sent (sock_fd s) w' = sent (sock_fd s) w @ d \<and> n = n0 + length d \<and>
           (\<forall>g \<in> S. fetches rcvd g next_chunk \<longrightarrow> rcvd g w' = rcvd g w @ d))))"

lemma supplied_later:
  assumes "next_chunk w = (Returned (Inr chunk), w1)" "tame A rcvd sent S w w1" "sock_fd s \<notin> S"
    and "sync_writeAll A s chunk t w1 = Some (Inr n, w2)" "supplied S next_chunk (n0 + n) s w2 (r, w')"
  shows "supplied S next_chunk n0 s w (r, w')"
proof -
  let ?fd = "sock_fd s"
  note wr = sync_writeAll_frame [OF assms(4)]
  have "tame A rcvd sent (insert ?fd S) w2 w'" using assms(5) by (simp add: supplied_def)
  then have "tame A rcvd sent (insert ?fd S) w w'"
    using tame_trans [OF tame_mono [OF assms(2)] tame_trans [OF sync_writeAll_tame [OF assms(4)]]] by blast
  moreover have "\<exists>d. sent ?fd w' = sent ?fd w @ d \<and> n1 = n0 + length d \<and>
      (\<forall>g \<in> S. fetches rcvd g next_chunk \<longrightarrow> rcvd g w' = rcvd g w @ d)" if r: "r = Returned (Inr n1)" for n1
  proof -
    from assms(5) r obtain d where d: "sent ?fd w' = sent ?fd w2 @ d" "n1 = n0 + n + length d"
      "\<And>g. g \<in> S \<Longrightarrow> fetches rcvd g next_chunk \<Longrightarrow> rcvd g w' = rcvd g w2 @ d"
      by (auto simp: supplied_def)
    have "sent ?fd w2 = sent ?fd w @ chunk" "n = length chunk"
      using wr assms(2,3) by (simp_all add: tame_def same_sockets_def)
    moreover have "rcvd g w2 = rcvd g w @ chunk" if "fetches rcvd g next_chunk" for g
      using wr that assms(1) by (simp add: fetches_def)
    ultimately show ?thesis using d by (intro exI [of _ "chunk @ d"]) simp
  qed
  ultimately show ?thesis by (simp add: supplied_def)
qed

lemma write_loop_supplied:
  assumes "write_loop A t next_chunk n0 s w = Some y"
    and cb: "\<And>w. tame A rcvd sent S w (snd (next_chunk w))" and "sock_fd s \<notin> S"
  shows "supplied S next_chunk n0 s w y"
proof -
  let ?P = "\<lambda>A' (t :: int) cb n0 s w y. A' = A \<longrightarrow> cb = next_chunk \<longrightarrow> sock_fd s \<notin> S \<longrightarrow> supplied S next_chunk n0 s w y"
  have "?P A t next_chunk n0 s w y"
  proof (rule write_loop.raw_induct [where P = ?P, OF _ assms(1)], goal_cases)
    case (1 f A' t cb' n0 s w y)
    show ?case
    proof (intro impI)
      assume eqs: "A' = A" "cb' = next_chunk" and fd: "sock_fd s \<notin> S"
      obtain r1 w1 where c: "next_chunk w = (r1, w1)" by (metis prod.exhaust)
      have c_tame: "tame A rcvd sent S w w1" using cb [of w] c by simp
      note tm = tame_mono [OF c_tame, of "insert (sock_fd s) S"]
      show "supplied S next_chunk n0 s w y"
      proof (cases "\<exists>chunk. r1 = Returned (Inr chunk) \<and> chunk \<noteq> []")
        case True
        then obtain chunk where r1: "r1 = Returned (Inr chunk)" "chunk \<noteq> []" by blast
        with 1(2) c obtain r2 w2 where wr: "sync_writeAll A s chunk (Some t) w1 = Some (r2, w2)"
          by (auto simp: eqs split: bind_splits)
        show ?thesis
        proof (cases r2)
          case (Inl e)
          with 1(2) c r1 wr tame_trans [OF tm sync_writeAll_tame [OF wr]] show ?thesis
            by (auto simp: eqs supplied_def)
        next
          case (Inr n)
          with 1(2) c r1 wr have "f A t next_chunk (n0 + n) s w2 = Some y" by (simp add: eqs)
          with 1(1) fd have "supplied S next_chunk (n0 + n) s w2 y" by metis
          with supplied_later [of next_chunk w chunk w1 S s "Some t" n w2 n0] c r1 c_tame fd wr Inr
          show ?thesis by (cases y) simp
        qed
      next
        case False
        then have "y = (Returned (Inr n0), w1) \<and> r1 = Returned (Inr []) \<or> y = (case r1 of Returned (Inl e) \<Rightarrow> Returned (Inl e)
            | Returned (Inr _) \<Rightarrow> Thrown | Thrown \<Rightarrow> Thrown | Undefined \<Rightarrow> Undefined, w1)"
          using 1(2) by (cases r1) (auto simp: eqs c split: sum.splits)
        moreover have "rcvd g w1 = rcvd g w" if "fetches rcvd g next_chunk" "r1 = Returned (Inr [])" for g
          using that c by (simp add: fetches_def)
        moreover have "sent (sock_fd s) w1 = sent (sock_fd s) w" using c_tame fd by (simp add: tame_def same_sockets_def)
        ultimately show ?thesis using tm by (auto simp: supplied_def split: outcome.splits sum.splits)
      qed
    qed
  qed
  with assms(3) show ?thesis by blast
qed

end

section \<open>The operations\<close>

context ftp_environment
begin

lemma opened_closed_with:
  assumes "opened c s w w1" "step c (insert (sock_fd s) S) f1 w1 f2 w2" "on_control c f"
  shows "step c (insert (sock_fd s) S) f w f2 (destroy_socket (env_asio E) s w2)"
  using assms by (auto simp: control_step_def data_open_def same_sockets_def destroy_socket_open env_laws)

lemma tame_step:
  assumes "tame (env_asio E) rcvd sent S w w'" "on_control c f"
  shows "step c S f w f w'"
  using assms by (auto simp: tame_def control_step_def same_sockets_def)

lemma control_bytes:
  assumes "step c S f w f' w'" "g \<noteq> c" "g \<notin> S"
  shows "rcvd g w' = rcvd g w" "sent g w' = sent g w"
  using assms by (simp_all add: control_step_def same_sockets_def)

lemma opened_bytes:
  assumes "opened c s w w1" "g \<noteq> c" "is_open g w"
  shows "g \<noteq> sock_fd s" "rcvd g w1 = rcvd g w" "sent g w1 = sent g w"
  using assms by (auto simp: data_open_def same_sockets_def)

text \<open>
  \<open>S\<close> are open sockets of the application, apart from the control connection. The file is what arrives
  on a new connection; the callback has got all of it before the completion reply was read.
\<close>

lemma ftp_read_callback_outcome:
  assumes "ftp_read_callback E p callback f w = Some (r, f', w')" "on_control c f" "is_open c w" "finite {g. is_open g w}"
    and cb: "\<And>bs w. tame (env_asio E) rcvd sent S w (snd (callback bs w))"
    and S: "c \<notin> S" "\<And>g. g \<in> S \<Longrightarrow> is_open g w"
  shows "\<exists>fd. \<not> is_open fd w \<and> step c (insert fd S) f w f' w' \<and>
    (\<forall>n. r = Returned (Inr n) \<longrightarrow> n = length (rcvd fd w') \<and>
       (\<forall>g \<in> S. forwards sent g callback \<longrightarrow> sent g w' = sent g w @ rcvd fd w') \<and>
       (\<exists>f1 w1 a w2. rcvd fd w1 = rcvd fd w' \<and> receiveResponse E f1 w1 = Some (Returned (Inr a), f', w2) \<and> ans_code a = 226))"
  using assms(1) assms(2-4) unfolding ftp_read_callback_def
proof (cases rule: start_transfer_cases)
  case (failed fd)
  then show ?thesis using step_mono by blast
next
  case (data s f1 w1 w2)
  let ?fd = "sock_fd s" and ?T = "insert (sock_fd s) S"
  have s: "read_buffer s = []" "rcvd ?fd w1 = []" "\<not> is_open ?fd w" "?fd \<noteq> c" using data(1) by (simp_all add: data_open_def)
  have fd: "?fd \<notin> S" using s(3) S(2) by blast
  note other = opened_bytes [OF data(1) _ S(2)]
  from data(3) obtain r1 w3 where lp: "read_loop (env_asio E) (getDataTimeout f1) callback 0 (replicate 16384 0) s w1 = Some (r1, w3)"
    and y: "on_ok (Some (r1, f1, w3)) (\<lambda>n f w. finish_transfer E (\<lambda>_ _. n) f w) = Some (r, f', w2)"
    by (auto simp: lift_call_def on_ok_def split: bind_splits)
  have po: "passed_on S callback 0 s w1 (r1, w3)"
    by (rule read_loop_passed_on [OF lp _ _ cb fd]) (auto simp: size_max_def)
  have st: "step c ?T f1 w1 f1 w3" using po data(2) by (auto simp: passed_on_def intro: tame_step)
  from y show ?thesis
  proof (cases rule: on_ok_cases)
    case (stops r2)
    with opened_closed_with [OF data(1) st assms(2)] s(3) data(4) show ?thesis by auto
  next
    case (goes_on n f3 w4)
    then have fin: "finish_transfer E (\<lambda>_ _. n) f1 w3 = Some (r, f', w2)" and r1: "r1 = Returned (Inr n)" by auto
    note k = keptD [OF finish_transfer_kept [OF data(2)] fin]
    obtain d where d: "rcvd ?fd w3 = d" "n = length d"
      "\<And>g. g \<in> S \<Longrightarrow> forwards sent g callback \<Longrightarrow> sent g w3 = sent g w1 @ d"
      using po r1 s(1,2) by (auto simp: passed_on_def)
    have got: "rcvd ?fd w' = d" using control_bytes(1) [OF k s(4)] d(1) data(4) by (simp add: env_laws)
    have "sent g w' = sent g w @ d" if g: "g \<in> S" "forwards sent g callback" for g
    proof -
      have "g \<noteq> c" using g(1) S(1) by blast
      then show ?thesis
        using control_bytes(2) [OF k, of g] d(3) [OF g] other(3) [OF _ g(1)] data(4) by (simp add: env_laws)
    qed
    moreover have "x = n \<and> (\<exists>a. receiveResponse E f1 w3 = Some (Returned (Inr a), f', w2) \<and> ans_code a = 226)"
      if "r = Returned (Inr x)" for x
      using finish_transfer_ok [OF fin [unfolded that]] by blast
    moreover have "step c ?T f w f' w'"
      using opened_closed_with [OF data(1) step_trans [OF st step_mono [OF k]] assms(2)] data(4) by simp
    ultimately have "step c ?T f w f' w' \<and> (\<forall>x. r = Returned (Inr x) \<longrightarrow> x = length d \<and>
        (\<forall>g \<in> S. forwards sent g callback \<longrightarrow> sent g w' = sent g w @ d) \<and>
        (\<exists>f1 w1 a w2. rcvd ?fd w1 = d \<and> receiveResponse E f1 w1 = Some (Returned (Inr a), f', w2) \<and> ans_code a = 226))"
      using d(1,2) by blast
    then show ?thesis using s(3) got by auto
  qed
qed

text \<open>
  \<open>write\<close>: the file is what the callback returned, all of it sent before the data connection was closed
  and before the completion reply was read.
\<close>

lemma stor_callback_outcome:
  assumes "on_ok (sendAndReceiveResponse E cmd f1 w1)
      (\<lambda>a f w. if ans_code a \<noteq> 150 then fails protocol_error f w
         else let date = clock_now (env_clock E w) in
           on_ok (lift_call f (write_loop (env_asio E) (getDataTimeout f) next_chunk 0 s w))
             (\<lambda>n f w. ok (stored_file E p n date) f w)) = Some (r, f', w')"
    and o: "opened c s w w1" and "on_control c f1" "on_control c f"
    and cb: "\<And>w. tame (env_asio E) rcvd sent S w (snd (next_chunk w))"
    and S: "c \<notin> S" "\<And>g. g \<in> S \<Longrightarrow> is_open g w"
  shows "step c (insert (sock_fd s) S) f w f' (destroy_socket (env_asio E) s w') \<and>
    (\<forall>x. r = Returned (Inr x) \<longrightarrow>
       file_size x = length (sent (sock_fd s) w') \<and> file_name x = filename p \<and> full_path x = p \<and>
       (\<forall>g \<in> S. fetches rcvd g next_chunk \<longrightarrow> rcvd g w' = rcvd g w @ sent (sock_fd s) w'))"
  using assms(1-3)
proof (cases rule: transfer_command)
  case 2
  then show ?thesis using opened_closed_with [OF o step_mono [OF 2(1)] assms(4)] by blast
next
  case (1 f2 w2)
  let ?fd = "sock_fd s"
  have fd: "?fd \<notin> S" "sent ?fd w2 = []" using 1(1) S(2) by (auto simp: data_open_def)
  from 1(3) obtain r1 w3 where lp: "write_loop (env_asio E) (getDataTimeout f2) next_chunk 0 s w2 = Some (r1, w3)"
    and y: "on_ok (Some (r1, f2, w3)) (\<lambda>n f w. ok (stored_file E p n (clock_now (env_clock E w2))) f w) = Some (r, f', w')"
    by (auto simp: lift_call_def on_ok_def split: bind_splits)
  have su: "supplied S next_chunk 0 s w2 (r1, w3)" by (rule write_loop_supplied [OF lp cb fd(1)])
  have st: "step c (insert ?fd S) f2 w2 f2 w3" using su 1(2) by (auto simp: supplied_def intro: tame_step)
  from y have same: "f' = f2" "w' = w3" by (auto simp: on_ok_def ok_def split: outcome.splits sum.splits)
  have "file_size x = length (sent ?fd w') \<and> file_name x = filename p \<and> full_path x = p \<and>
      (\<forall>g \<in> S. fetches rcvd g next_chunk \<longrightarrow> rcvd g w' = rcvd g w @ sent ?fd w')" if "r = Returned (Inr x)" for x
  proof -
    from y that obtain n where n: "r1 = Returned (Inr n)" "x = stored_file E p n (clock_now (env_clock E w2))"
      by (cases rule: on_ok_cases) (auto simp: ok_def)
    have "rcvd g w2 = rcvd g w" if "g \<in> S" for g
      using opened_bytes(2) [OF 1(1)] S that by metis
    with su n fd(2) show ?thesis by (auto simp: supplied_def same stored_file_def)
  qed
  with opened_closed_with [OF 1(1) st assms(4)] same show ?thesis by blast
qed

lemma ftp_write_callback_outcome:
  assumes "ftp_write_callback E p next_chunk f w = Some (r, f', w')" "on_control c f" "is_open c w" "finite {g. is_open g w}"
    and cb: "\<And>w. tame (env_asio E) rcvd sent S w (snd (next_chunk w))"
    and S: "c \<notin> S" "\<And>g. g \<in> S \<Longrightarrow> is_open g w"
  shows "\<exists>fd. \<not> is_open fd w \<and> step c (insert fd S) f w f' w' \<and>
    (\<forall>x. r = Returned (Inr x) \<longrightarrow>
       file_size x = length (sent fd w') \<and> file_name x = filename p \<and> full_path x = p \<and>
       (\<forall>g \<in> S. fetches rcvd g next_chunk \<longrightarrow> rcvd g w' = rcvd g w @ sent fd w') \<and>
       (\<exists>f1 w1 a. \<not> is_open fd w1 \<and> sent fd w1 = sent fd w' \<and>
          receiveResponse E f1 w1 = Some (Returned (Inr a), f', w') \<and> ans_code a = 226))"
  using assms(1) assms(2-4) unfolding ftp_write_callback_def
proof (cases rule: with_data_cases)
  case (failed fd)
  then show ?thesis using step_mono by blast
next
  case (data s f1 w1)
  let ?fd = "sock_fd s"
  have s: "\<not> is_open ?fd w" "?fd \<noteq> c" using data(1) by (simp_all add: data_open_def)
  from data(3) obtain r1 f2 w2 where x: "on_ok (sendAndReceiveResponse E (''STOR '' @ filename p) f1 w1)
      (\<lambda>a f w. if ans_code a \<noteq> 150 then fails protocol_error f w
         else let date = clock_now (env_clock E w) in
           on_ok (lift_call f (write_loop (env_asio E) (getDataTimeout f) next_chunk 0 s w))
             (\<lambda>n f w. ok (stored_file E p n date) f w)) = Some (r1, f2, w2)"
    and y: "on_ok (Some (r1, f2, destroy_socket (env_asio E) s w2)) (\<lambda>file f w. finish_transfer E (\<lambda>_ _. file) f w) =
      Some (r, f', w')"
    by (auto split: option.splits)
  note so = stor_callback_outcome [OF x data(1,2) assms(2) cb S]
  note st = conjunct1 [OF so]
  from y show ?thesis
  proof (cases rule: on_ok_cases)
    case (stops r2)
    with st s(1) show ?thesis by auto
  next
    case (goes_on x f3 w3)
    then have w3: "w3 = destroy_socket (env_asio E) s w2" "f3 = f2" and r1: "r1 = Returned (Inr x)" by auto
    note fin = keptD [OF finish_transfer_kept [OF step_on_control [OF st]] goes_on(2) [unfolded w3]]
    have all: "sent ?fd w' = sent ?fd w2" using control_bytes(2) [OF fin s(2)] by (simp add: env_laws)
    have from_g: "rcvd g w' = rcvd g w @ sent ?fd w2" if "g \<in> S" "fetches rcvd g next_chunk" for g
      using so r1 that control_bytes(1) [OF fin, where g = g] S(1) by (auto simp: env_laws)
    have early: "\<not> is_open ?fd w3" "sent ?fd w3 = sent ?fd w2" by (simp_all add: w3 destroy_socket_open env_laws)
    have ended: "y = x \<and> (\<exists>a. receiveResponse E f2 w3 = Some (Returned (Inr a), f', w') \<and> ans_code a = 226)"
      if "r = Returned (Inr y)" for y
      using finish_transfer_ok [OF goes_on(2) [unfolded that]] w3 by blast
    show ?thesis
    proof (intro exI [of _ ?fd] conjI allI impI ballI, unfold all)
      show "\<not> is_open ?fd w" by (fact s(1))
      show "step c (insert ?fd S) f w f' w'" using step_trans [OF st step_mono [OF fin]] by simp
      fix y assume r: "r = Returned (Inr y)"
      show "file_size y = length (sent ?fd w2)" "file_name y = filename p" "full_path y = p"
        using so r1 ended [OF r] by simp_all
      show "rcvd g w' = rcvd g w @ sent ?fd w2" if "g \<in> S" "fetches rcvd g next_chunk" for g using from_g that .
      from ended [OF r] early show "\<exists>f1 w1 a. \<not> is_open ?fd w1 \<and> sent ?fd w1 = sent ?fd w2 \<and>
          receiveResponse E f1 w1 = Some (Returned (Inr a), f', w') \<and> ans_code a = 226" by blast
    qed
  qed
qed

end

end
