(* ===== verification/Ftp_Session.thy ===== *)
theory Ftp_Session
  imports Ftp_Callback
begin

text \<open>
  The life of an FTP client: \<open>openFtpConnection\<close> with the login, any sequence of operations, and the
  destructor. \<open>login_outcome\<close> describes what is known after a part of the login: only the control
  connection \<open>c\<close> was used, and it is still held, or given up and closed after a refusal.
\<close>

section \<open>Login\<close>

definition login_outcome ::
  "'w asio \<Rightarrow> (nat \<Rightarrow> 'w \<Rightarrow> byte list) \<Rightarrow> (nat \<Rightarrow> 'w \<Rightarrow> byte list) \<Rightarrow> nat \<Rightarrow> byte list set \<Rightarrow> 'w \<Rightarrow>
   unit expected outcome \<Rightarrow> ftp \<Rightarrow> 'w \<Rightarrow> bool" where
  "login_outcome A rcvd sent c B w r f' w' \<longleftrightarrow>
     same_sockets A rcvd sent {c} w w' \<and> r \<noteq> Undefined \<and>
     (on_control c f' \<and> (\<forall>g. as_is_open A g w' = as_is_open A g w) \<or>
      (\<exists>e. r = Returned (Inl e)) \<and> ftp_socket f' = None \<and>
        (\<forall>g. as_is_open A g w' = (g \<noteq> c \<and> as_is_open A g w))) \<and>
     (r = Returned (Inr ()) \<longrightarrow> (\<exists>b \<in> B. sent c w' = sent c w @ b))"

text \<open>The commands of a login, and a prefix of the last one, whose failure is ignored.\<close>

definition login_bytes :: "connect_options \<Rightarrow> byte list set" where
  "login_bytes opts =
     {(if opt_username opts \<noteq> [] then bytes_of_string (''USER '' @ opt_username opts @ crlf) else []) @
      (if opt_password opts \<noteq> [] then bytes_of_string (''PASS '' @ opt_password opts @ crlf) else []) @
      take n (bytes_of_string (''FEAT'' @ crlf)) | n. True}"

context ftp_environment
begin

abbreviation login where "login \<equiv> login_outcome (env_asio E) rcvd sent"

lemma command_sent:
  assumes "sendAndReceiveResponse E cmd f w = Some (r, f', w')" "on_control c f"
  shows "r \<noteq> Undefined" "\<exists>n. sent c w' = sent c w @ take n (bytes_of_string (cmd @ crlf))"
    "r = Returned (Inr a) \<Longrightarrow> sent c w' = sent c w @ bytes_of_string (cmd @ crlf)"
proof -
  let ?b = "bytes_of_string (cmd @ crlf)"
  from assms obtain s s1 where s: "ftp_socket f = Some s" "sock_fd s = c"
    and on: "sendAndReceiveResponse_on (env_asio E) s cmd (opt_timeout (ftp_options f)) w = Some (r, s1, w')"
    by (auto simp: on_control_def sendAndReceiveResponse_def split: bind_splits)
  then obtain r1 w1 where wr: "sync_writeAll (env_asio E) s ?b (Some (opt_timeout (ftp_options f))) w = Some (r1, w1)"
    and rest: "(\<exists>e. r1 = Inl e \<and> r = Returned (Inl e) \<and> w' = w1) \<or>
      (\<exists>n. r1 = Inr n) \<and> receiveResponse_on (env_asio E) s (opt_timeout (ftp_options f)) w1 = Some (r, s1, w')"
    by (auto simp: sendAndReceiveResponse_on_def sendCommand_on_def split: bind_splits sum.splits)
  note w = sync_writeAll_frame [OF wr, unfolded s(2)]
  have reply: "r \<noteq> Undefined \<and> sent c w' = sent c w1"
    if "receiveResponse_on (env_asio E) s (opt_timeout (ftp_options f)) w1 = Some (r, s1, w')"
    using receiveResponse_on_took [OF that] that
    by (auto simp: read_frame_def receiveResponse_on_def answer_of_def split: bind_splits sum.splits option.splits if_splits)
  show "r \<noteq> Undefined" using rest reply by auto
  have "sent c w' = sent c w1" using rest reply by auto
  with w show "\<exists>n. sent c w' = sent c w @ take n ?b" by metis
  show "sent c w' = sent c w @ ?b" if "r = Returned (Inr a)" using rest reply w that by auto
qed

lemma reset_socket_outcome:
  assumes "reset_socket E f w = (f', w')"
  shows "ftp_socket f' = None" "rcvd g w' = rcvd g w" "sent g w' = sent g w"
    "on_control c f \<Longrightarrow> is_open g w' = (g \<noteq> c \<and> is_open g w)" "ftp_socket f = None \<Longrightarrow> w' = w"
  using assms by (auto simp: reset_socket_def on_control_def destroy_socket_open env_laws split: option.splits)

lemma login_step_outcome:
  assumes "login_step E needed cmd codes f w = Some (r, f', w')" "on_control c f"
  shows "login c {if needed then bytes_of_string (cmd @ crlf) else []} w r f' w'"
proof (cases needed)
  case False
  with assms show ?thesis by (auto simp: login_step_def ok_def login_outcome_def same_sockets_def)
next
  case True
  with assms obtain r1 f1 w1 where cmd: "sendAndReceiveResponse E cmd f w = Some (r1, f1, w1)"
    by (auto simp: login_step_def split: bind_splits)
  note st = keptD [OF sendAndReceiveResponse_kept [OF assms(2)] cmd] and sn = command_sent [OF cmd assms(2)]
  obtain f2 w2 where rs: "reset_socket E f1 w1 = (f2, w2)" by (metis prod.exhaust)
  note closed = reset_socket_outcome [OF rs]
  have "(\<exists>e. r = Returned (Inl e)) \<and> f' = f2 \<and> w' = w2 \<or> r = Thrown \<and> f' = f1 \<and> w' = w1 \<or>
      r = Returned (Inr ()) \<and> (\<exists>a. r1 = Returned (Inr a)) \<and> f' = f1 \<and> w' = w1"
    using assms(1) True cmd rs sn(1)
    by (auto simp: login_step_def ok_def fails_def split: outcome.splits sum.splits if_splits)
  then show ?thesis
    using st closed(1-3) closed(4) [OF step_on_control [OF st]] sn(3) True
    by (auto simp: login_outcome_def control_step_def same_sockets_def)
qed

lemma query_features_outcome:
  assumes "query_features E f w = Some (r, f', w')" "on_control c f"
  shows "login c {take n (bytes_of_string (''FEAT'' @ crlf)) | n. True} w r f' w'"
proof -
  from assms obtain r1 f1 w1 where cmd: "sendAndReceiveResponse E ''FEAT'' f w = Some (r1, f1, w1)"
    by (auto simp: query_features_def split: bind_splits)
  note st = keptD [OF sendAndReceiveResponse_kept [OF assms(2)] cmd] and sn = command_sent [OF cmd assms(2)]
  have "w' = w1 \<and> r \<noteq> Undefined \<and> ftp_socket f' = ftp_socket f1"
    using assms(1) cmd sn(1) by (auto simp: query_features_def ok_def split: outcome.splits sum.splits if_splits)
  then show ?thesis using st sn(2)
    by (auto simp: login_outcome_def control_step_def same_sockets_def on_control_def)
qed

lemma login_on_ok:
  assumes "on_ok x k = Some (r, f', w')"
    and "\<And>r1 f1 w1. x = Some (r1, f1, w1) \<Longrightarrow> login c B w r1 f1 w1"
    and "\<And>a f1 w1. x = Some (Returned (Inr a), f1, w1) \<Longrightarrow> on_control c f1 \<Longrightarrow> k a f1 w1 = Some (r, f', w') \<Longrightarrow>
      login c B' w1 r f' w'"
  shows "login c {b @ b' | b b'. b \<in> B \<and> b' \<in> B'} w r f' w'"
  using assms(1)
proof (cases rule: on_ok_cases)
  case (stops r1)
  then have "login c B w r1 f' w'" "r1 = r" using assms(1,2) by (auto simp: on_ok_def split: outcome.splits sum.splits)
  with stops(3) show ?thesis by (auto simp: login_outcome_def)
next
  case (goes_on a f1 w1)
  have one: "login c B w (Returned (Inr ())) f1 w1" using assms(2) [OF goes_on(1)] by simp
  then have c: "on_control c f1" by (simp add: login_outcome_def)
  obtain b where b: "b \<in> B" "sent c w1 = sent c w @ b" using one by (auto simp: login_outcome_def)
  have two: "login c B' w1 r f' w'" by (rule assms(3) [OF goes_on(1) c goes_on(2)])
  have "\<exists>x \<in> {b @ b' | b b'. b \<in> B \<and> b' \<in> B'}. sent c w' = sent c w @ x" if r: "r = Returned (Inr ())"
  proof -
    from two r obtain b' where "b' \<in> B'" "sent c w' = sent c w1 @ b'" by (auto simp: login_outcome_def)
    with b show ?thesis by auto
  qed
  with one two show ?thesis by (auto simp: login_outcome_def same_sockets_def)
qed

lemma ftp_connect_outcome:
  assumes "ftp_connect E opts f w = Some (r, f', w')" "ftp_socket f = None" "finite {g. is_open g w}"
  shows "(\<exists>e fd. r = Returned (Inl e) \<and> f' = f \<and> \<not> is_open fd w \<and> same_sockets (env_asio E) rcvd sent {fd} w w' \<and>
      (\<forall>g. is_open g w' = is_open g w)) \<or>
    (\<exists>c w1. \<not> is_open c w \<and> (\<forall>g. is_open g w1 = (g = c \<or> is_open g w)) \<and> sent c w1 = [] \<and>
      same_sockets (env_asio E) rcvd sent {c} w w1 \<and> login c (login_bytes opts) w1 r f' w')"
proof -
  from assms(1) obtain x w1 where ct: "connect_to E (ftp_host f) (ftp_port f) (opt_timeout opts) w = Some (x, w1)"
    by (auto simp: ftp_connect_def split: bind_splits)
  note co = connect_outcome [OF ct [unfolded connect_to_def] assms(3)]
  show ?thesis
  proof (cases x)
    case (Inl e)
    with assms(1) ct co show ?thesis by (auto simp: ftp_connect_def fails_def connection_outcome_def)
  next
    case (Inr s)
    let ?c = "sock_fd s"
    from assms(1,2) ct Inr obtain recv s1 buffer w2 where
      rd: "sync_readUntil (env_asio E) s (replicate 512 0) crlf None w1 = Some (recv, s1, buffer, w2)"
      by (auto simp: ftp_connect_def reset_socket_def split: bind_splits)
    let ?f = "f\<lparr>ftp_socket := Some s1\<rparr>"
    note fr = conjunct1 [OF sync_readUntil_frame [OF rd]]
    have c: "on_control ?c ?f" using read_frame_fd [OF fr] by (simp add: on_control_def)
    have new: "\<not> is_open ?c w" "sent ?c w2 = []" "same_sockets (env_asio E) rcvd sent {?c} w w2"
      using co Inr fr by (auto simp: connection_outcome_def read_frame_def same_sockets_def)
    have opens: "is_open g w2 = (g = ?c \<or> is_open g w)" for g
      using co Inr fr by (cases "g = ?c") (simp_all add: connection_outcome_def read_frame_def same_sockets_def)
    have fN: "f\<lparr>ftp_socket := None\<rparr> = f" using assms(2) by simp
    have "login ?c (login_bytes opts) w2 r f' w'"
    proof (cases recv)
      case Inl
      with assms(1,2) ct Inr rd c show ?thesis
        by (auto simp: ftp_connect_def reset_socket_def fails_def login_outcome_def same_sockets_def fN)
    next
      case (Inr n)
      let ?user = "login_step E (opt_username opts \<noteq> []) (''USER '' @ opt_username opts) {331, 230} ?f w2"
      from assms(1,2) ct \<open>x = Inr s\<close> rd Inr have run: "on_ok ?user (\<lambda>_ f w.
          on_ok (login_step E (opt_password opts \<noteq> []) (''PASS '' @ opt_password opts) {230, 231} f w)
            (\<lambda>_ f w. query_features E f w)) = Some (r, f', w')"
        by (simp add: ftp_connect_def reset_socket_def fN)
      let ?U = "{if opt_username opts \<noteq> [] then bytes_of_string ((''USER '' @ opt_username opts) @ crlf) else []}"
      let ?P = "{if opt_password opts \<noteq> [] then bytes_of_string ((''PASS '' @ opt_password opts) @ crlf) else []}"
      let ?F = "{take n (bytes_of_string (''FEAT'' @ crlf)) | n. True}"
      have "login ?c {b @ b' | b b'. b \<in> ?U \<and> b' \<in> {b @ b' | b b'. b \<in> ?P \<and> b' \<in> ?F}} w2 r f' w'"
      proof (rule login_on_ok [OF run])
        fix r1 f1 w3
        assume "?user = Some (r1, f1, w3)"
        then show "login ?c ?U w2 r1 f1 w3" by (rule login_step_outcome [OF _ c])
      next
        fix a f1 w3
        assume c1: "on_control ?c f1"
          and rest: "on_ok (login_step E (opt_password opts \<noteq> []) (''PASS '' @ opt_password opts) {230, 231} f1 w3)
            (\<lambda>_ f w. query_features E f w) = Some (r, f', w')"
        show "login ?c {b @ b' | b b'. b \<in> ?P \<and> b' \<in> ?F} w3 r f' w'"
          by (rule login_on_ok [OF rest]) (erule login_step_outcome [OF _ c1], erule (1) query_features_outcome)
      qed
      moreover have "{b @ b' | b b'. b \<in> ?U \<and> b' \<in> {b @ b' | b b'. b \<in> ?P \<and> b' \<in> ?F}} = login_bytes opts"
        by (auto simp: login_bytes_def)
      ultimately show ?thesis by simp
    qed
    with new opens show ?thesis by blast
  qed
qed

lemma openFtpConnection_outcome:
  assumes "openFtpConnection E host port opts w = Some (r, w')" "finite {g. is_open g w}"
  shows "\<exists>c. \<not> is_open c w \<and> same_sockets (env_asio E) rcvd sent {c} w w' \<and>
    (case r of
       Returned (Inr f) \<Rightarrow> on_control c f \<and> (\<forall>g. is_open g w' = (g = c \<or> is_open g w)) \<and> sent c w' \<in> login_bytes opts
     | Returned (Inl e) \<Rightarrow> \<forall>g. is_open g w' = is_open g w
     | Thrown \<Rightarrow> \<forall>g. is_open g w' = is_open g w
     | Undefined \<Rightarrow> False)"
proof -
  let ?f = "new_FtpFileTransfer host port"
  from assms(1) obtain r1 f1 w1 where cn: "ftp_connect E opts ?f w = Some (r1, f1, w1)"
    by (auto simp: openFtpConnection_def split: bind_splits)
  obtain f2 w2 where rs: "reset_socket E f1 w1 = (f2, w2)" by (metis prod.exhaust)
  note closed = reset_socket_outcome [OF rs]
  have r: "(r, w') = (case r1 of Returned (Inr _) \<Rightarrow> (Returned (Inr f1), w1) | Returned (Inl e) \<Rightarrow> (Returned (Inl e), w2)
      | Thrown \<Rightarrow> (Thrown, w2) | Undefined \<Rightarrow> (Undefined, w1))"
    using assms(1) cn rs by (auto simp: openFtpConnection_def split: outcome.splits sum.splits)
  have "ftp_socket ?f = None" by (simp add: new_FtpFileTransfer_def)
  from ftp_connect_outcome [OF cn this assms(2)] show ?thesis
  proof (elim disjE exE conjE)
    fix e fd
    assume "r1 = Returned (Inl e)" "f1 = ?f" "\<not> is_open fd w" "same_sockets (env_asio E) rcvd sent {fd} w w1"
      "\<forall>g. is_open g w1 = is_open g w"
    with r closed(5) \<open>ftp_socket ?f = None\<close> show ?thesis by auto
  next
    fix c w3
    assume c: "\<not> is_open c w" "\<forall>g. is_open g w3 = (g = c \<or> is_open g w)" "sent c w3 = []"
      "same_sockets (env_asio E) rcvd sent {c} w w3" and lg: "login c (login_bytes opts) w3 r1 f1 w1"
    have bytes: "same_sockets (env_asio E) rcvd sent {c} w w1" using c lg by (auto simp: same_sockets_def login_outcome_def)
    have after: "same_sockets (env_asio E) rcvd sent {c} w w2" "\<And>g. is_open g w2 = is_open g w"
      using c lg closed by (auto simp: same_sockets_def login_outcome_def)
    from c lg bytes after r show ?thesis
      by (intro exI [of _ c]) (auto simp: login_outcome_def split: outcome.splits sum.splits)
  qed
qed

end

section \<open>Sessions\<close>

text \<open>
  The operations of the interface \<open>IAbstractFileTransfer\<close>, and what a call of one of them does to the
  client object and the world, whatever it returns or throws. A reply after which the code has no
  defined behaviour ends the session.
\<close>

datatype 'w ftp_op =
    List_op path | Read_op path | Read_callback_op path "'w read_callback"
  | Write_op path "byte list" | Write_callback_op path "'w write_callback"
  | Create_op path | Exists_op path | Remove_op path | Is_directory_op path

inductive ftp_step :: "'w ftp_env \<Rightarrow> ftp \<Rightarrow> 'w \<Rightarrow> 'w ftp_op \<Rightarrow> ftp \<Rightarrow> 'w \<Rightarrow> bool" for E :: "'w ftp_env" where
  "ftp_list E p f w = Some (r, f', w') \<Longrightarrow> r \<noteq> Undefined \<Longrightarrow> ftp_step E f w (List_op p) f' w'"
| "ftp_read E p f w = Some (r, f', w') \<Longrightarrow> r \<noteq> Undefined \<Longrightarrow> ftp_step E f w (Read_op p) f' w'"
| "ftp_read_callback E p cb f w = Some (r, f', w') \<Longrightarrow> r \<noteq> Undefined \<Longrightarrow> ftp_step E f w (Read_callback_op p cb) f' w'"
| "ftp_write E p bytes f w = Some (r, f', w') \<Longrightarrow> r \<noteq> Undefined \<Longrightarrow> ftp_step E f w (Write_op p bytes) f' w'"
| "ftp_write_callback E p nx f w = Some (r, f', w') \<Longrightarrow> r \<noteq> Undefined \<Longrightarrow> ftp_step E f w (Write_callback_op p nx) f' w'"
| "createDir E p f w = Some (r, f', w') \<Longrightarrow> r \<noteq> Undefined \<Longrightarrow> ftp_step E f w (Create_op p) f' w'"
| "ftp_exists E p f w = Some (r, f', w') \<Longrightarrow> r \<noteq> Undefined \<Longrightarrow> ftp_step E f w (Exists_op p) f' w'"
| "ftp_remove E p f w = Some (r, f', w') \<Longrightarrow> r \<noteq> Undefined \<Longrightarrow> ftp_step E f w (Remove_op p) f' w'"
| "isDirectory E p f w = Some (r, f', w') \<Longrightarrow> r \<noteq> Undefined \<Longrightarrow> ftp_step E f w (Is_directory_op p) f' w'"

inductive_simps ftp_step_simps:
  "ftp_step E f w (List_op p) f' w'" "ftp_step E f w (Read_op p) f' w'" "ftp_step E f w (Read_callback_op p cb) f' w'"
  "ftp_step E f w (Write_op p bytes) f' w'" "ftp_step E f w (Write_callback_op p nx) f' w'"
  "ftp_step E f w (Create_op p) f' w'" "ftp_step E f w (Exists_op p) f' w'" "ftp_step E f w (Remove_op p) f' w'"
  "ftp_step E f w (Is_directory_op p) f' w'"

inductive ftp_run :: "'w ftp_env \<Rightarrow> ftp \<Rightarrow> 'w \<Rightarrow> 'w ftp_op list \<Rightarrow> ftp \<Rightarrow> 'w \<Rightarrow> bool" for E :: "'w ftp_env" where
  ftp_run_Nil: "ftp_run E f w [] f w"
| ftp_run_Cons: "ftp_step E f w op f1 w1 \<Longrightarrow> ftp_run E f1 w1 ops f' w' \<Longrightarrow> ftp_run E f w (op # ops) f' w'"

text \<open>The callbacks of an operation use only the sockets of \<open>S\<close>.\<close>

fun op_tame ::
  "'w asio \<Rightarrow> (nat \<Rightarrow> 'w \<Rightarrow> byte list) \<Rightarrow> (nat \<Rightarrow> 'w \<Rightarrow> byte list) \<Rightarrow> nat set \<Rightarrow> 'w ftp_op \<Rightarrow> bool" where
  "op_tame A rcvd sent S (Read_callback_op p cb) = (\<forall>bs w. tame A rcvd sent S w (snd (cb bs w)))"
| "op_tame A rcvd sent S (Write_callback_op p nx) = (\<forall>w. tame A rcvd sent S w (snd (nx w)))"
| "op_tame A rcvd sent S _ = True"

context ftp_environment
begin

abbreviation tame_op where "tame_op \<equiv> op_tame (env_asio E) rcvd sent"

lemma kept_uses_one:
  assumes "kept c f w x" "x = Some (r, f', w')" "finite {g. is_open g w}"
  shows "\<exists>fd. \<not> is_open fd w \<and> step c (insert fd S) f w f' w'"
  using exists_closed [OF assms(3)] step_mono [OF keptD [OF assms(1,2)]] by blast

lemma ftp_step_kept:
  assumes "ftp_step E f w op f' w'" "on_control c f" "is_open c w" "finite {g. is_open g w}"
    and S: "tame_op S op" "c \<notin> S" "\<And>g. g \<in> S \<Longrightarrow> is_open g w"
  shows "\<exists>fd. \<not> is_open fd w \<and> step c (insert fd S) f w f' w'"
proof -
  have one: "\<exists>fd. \<not> is_open fd w \<and> step c {fd} f w f' w' \<Longrightarrow> ?thesis" using step_mono by blast
  note quiet = kept_uses_one [OF _ _ assms(4)]
  show ?thesis
  proof (cases op)
    case (Read_callback_op p cb)
    then have "tame (env_asio E) rcvd sent S w (snd (cb bs w))" for bs w using S(1) by simp
    moreover obtain r where "ftp_read_callback E p cb f w = Some (r, f', w')" using assms(1) Read_callback_op by (auto simp: ftp_step_simps)
    ultimately show ?thesis using ftp_read_callback_outcome [OF _ assms(2-4) _ S(2,3)] by blast
  next
    case (Write_callback_op p nx)
    then have "tame (env_asio E) rcvd sent S w (snd (nx w))" for w using S(1) by simp
    moreover obtain r where "ftp_write_callback E p nx f w = Some (r, f', w')" using assms(1) Write_callback_op by (auto simp: ftp_step_simps)
    ultimately show ?thesis using ftp_write_callback_outcome [OF _ assms(2-4) _ S(2,3)] by blast
  next
    case List_op
    show ?thesis using assms(1) unfolding List_op ftp_step_simps using ftp_list_outcome [OF _ assms(2-4)] one by blast
  next
    case Read_op
    show ?thesis using assms(1) unfolding Read_op ftp_step_simps using ftp_read_outcome [OF _ assms(2-4)] one by blast
  next
    case Write_op
    show ?thesis using assms(1) unfolding Write_op ftp_step_simps using ftp_write_outcome [OF _ assms(2-4)] one by blast
  next
    case Create_op
    show ?thesis using assms(1) unfolding Create_op ftp_step_simps using quiet [OF createDir_kept [OF assms(2)]] by blast
  next
    case Exists_op
    show ?thesis using assms(1) unfolding Exists_op ftp_step_simps using quiet [OF ftp_exists_kept [OF assms(2)]] by blast
  next
    case Remove_op
    show ?thesis using assms(1) unfolding Remove_op ftp_step_simps using quiet [OF ftp_remove_kept [OF assms(2)]] by blast
  next
    case Is_directory_op
    show ?thesis using assms(1) unfolding Is_directory_op ftp_step_simps using quiet [OF isDirectory_kept [OF assms(2)]] by blast
  qed
qed

lemma ftp_run_kept:
  assumes "ftp_run E f w ops f' w'" "on_control c f" "is_open c w" "finite {g. is_open g w}"
    and "\<And>op. op \<in> set ops \<Longrightarrow> tame_op S op" "c \<notin> S" "\<And>g. g \<in> S \<Longrightarrow> is_open g w"
  shows "on_control c f' \<and> (\<forall>g. is_open g w' = is_open g w) \<and>
    (\<forall>g. g \<noteq> c \<longrightarrow> g \<notin> S \<longrightarrow> is_open g w \<longrightarrow> rcvd g w' = rcvd g w \<and> sent g w' = sent g w)"
  using assms
proof (induction rule: ftp_run.induct)
  case (ftp_run_Nil f w)
  then show ?case by simp
next
  case (ftp_run_Cons f w op f1 w1 ops f' w')
  from ftp_step_kept [OF ftp_run_Cons.hyps(1) ftp_run_Cons.prems(1-3) _ ftp_run_Cons.prems(5,6)] ftp_run_Cons.prems(4)
  obtain fd where fd: "\<not> is_open fd w" "step c (insert fd S) f w f1 w1" by auto
  then have open1: "is_open g w1 = is_open g w" and c1: "on_control c f1" for g by (simp_all add: control_step_def)
  have "on_control c f' \<and> (\<forall>g. is_open g w' = is_open g w1) \<and>
      (\<forall>g. g \<noteq> c \<longrightarrow> g \<notin> S \<longrightarrow> is_open g w1 \<longrightarrow> rcvd g w' = rcvd g w1 \<and> sent g w' = sent g w1)"
    using ftp_run_Cons.IH [OF c1] ftp_run_Cons.prems by (simp add: open1)
  moreover have "rcvd g w1 = rcvd g w \<and> sent g w1 = sent g w" if "g \<noteq> c" "g \<notin> S" "is_open g w" for g
    using control_bytes [OF fd(2) that(1)] fd(1) that by auto
  ultimately show ?case by (auto simp: open1)
qed

end

end
