(* ===== verification/Ftp_Returns.thy ===== *)
theory Ftp_Returns
  imports Ftp_Session
begin

text \<open>
  When the FTP operations return. All timeouts of the client are per read, so a server that keeps
  sending can hold it in a loop for ever; a server that sends only finitely many bytes cannot.
  \<open>limit fd w\<close> bounds what will ever have been received on \<open>fd\<close>. The other condition is that the thread
  pool runs or drops what it is given and that name resolution answers, for which the code has no
  timeout.
\<close>

definition finite_peers :: "'w asio \<Rightarrow> (nat \<Rightarrow> 'w \<Rightarrow> byte list) \<Rightarrow> (nat \<Rightarrow> 'w \<Rightarrow> nat) \<Rightarrow> bool" where
  "finite_peers A rcvd limit \<longleftrightarrow>
     (\<forall>g w. length (rcvd g w) \<le> limit g w) \<and>
     (\<forall>g fd t n w. limit g (snd (snd (snd (as_read_some A fd t n w)))) \<le> limit g w) \<and>
     (\<forall>g fd w. limit g (as_emit A fd w) \<le> limit g w) \<and>
     (\<forall>g fd w. limit g (as_cancel A fd w) \<le> limit g w) \<and>
     (\<forall>g w. limit g (snd (as_spawn A w)) \<le> limit g w)"

definition responsive :: "'w asio \<Rightarrow> 'w net \<Rightarrow> bool" where
  "responsive A N \<longleftrightarrow>
     (\<forall>w. fst (as_spawn A w) \<noteq> Spawn_blocks) \<and> (\<forall>host service w. net_resolve N host service w \<noteq> None)"

definition ends :: "'a option \<Rightarrow> bool" where
  "ends x \<longleftrightarrow> x \<noteq> None"

lemma ends_Some [simp]: "ends (Some y)"
  by (simp add: ends_def)

lemma endsI: "\<exists>y. x = Some y \<Longrightarrow> ends x"
  by (auto simp: ends_def)

lemma ends_bind: "ends x \<Longrightarrow> (\<And>y. ends (k y)) \<Longrightarrow> ends (Option.bind x k)"
  by (cases x) (auto simp: ends_def)

lemma ends_case: "ends x \<Longrightarrow> (\<And>r f w. ends (k r f w)) \<Longrightarrow> ends (case x of None \<Rightarrow> None | Some (r, f, w) \<Rightarrow> k r f w)"
  by (auto simp: ends_def)

lemma ends_on_ok: "ends x \<Longrightarrow> (\<And>a f w. ends (k a f w)) \<Longrightarrow> ends (on_ok x k)"
  by (auto simp: on_ok_def intro!: ends_bind split: prod.split outcome.split sum.split)

lemma ends_done [simp]: "ends (ok a f w)" "ends (fails e f w)"
  by (simp_all add: ok_def fails_def)

text \<open>A callback that neither gives the server new bytes to send nor takes back received ones.\<close>

definition patient :: "(nat \<Rightarrow> 'w \<Rightarrow> byte list) \<Rightarrow> (nat \<Rightarrow> 'w \<Rightarrow> nat) \<Rightarrow> 'w read_callback \<Rightarrow> bool" where
  "patient rcvd limit callback \<longleftrightarrow>
     (\<forall>g bs w. limit g (snd (callback bs w)) \<le> limit g w \<and>
        length (rcvd g w) \<le> length (rcvd g (snd (callback bs w))))"

locale finite_session = ftp_environment E rcvd sent
  for E :: "'w ftp_env" and rcvd sent :: "nat \<Rightarrow> 'w \<Rightarrow> byte list" +
  fixes limit :: "nat \<Rightarrow> 'w \<Rightarrow> nat"
  assumes peers: "finite_peers (env_asio E) rcvd limit"
    and resp: "responsive (env_asio E) (env_net E)"
begin

section \<open>Socket operations\<close>

abbreviation A where "A \<equiv> env_asio E"

lemma limit_bound: "length (rcvd g w) \<le> limit g w"
  using peers by (simp add: finite_peers_def)

lemma limit_read: "as_read_some A fd t n w = (ec, data, fired, w') \<Longrightarrow> limit g w' \<le> limit g w"
  using peers by (metis finite_peers_def snd_conv)

lemma limit_cancel: "limit g (cancelSocket A s w) \<le> limit g w"
proof -
  have "limit g (as_emit A fd v) \<le> limit g v" "limit g (as_cancel A fd v) \<le> limit g v" for fd v
    using peers by (simp_all add: finite_peers_def)
  note le = this
  show ?thesis
    using le(1) [of "sock_fd s" w] order_trans [OF le(2) le(1), of "sock_fd s" "sock_fd s" w]
    by (auto simp: connection_defs Let_def split: socket_kind.split)
qed

lemma limit_timed_read:
  assumes "asyncReadWithTimeout A s v m n t w = (r, v', w')"
  shows "limit g w' \<le> limit g w"
proof -
  obtain ec data fired w1 where rd: "as_read_some A (sock_fd s) t n w = (ec, data, fired, w1)" by (metis prod_cases4)
  then have "w' = (if fired then cancelSocket A s w1 else w1)" using assms by (auto simp: asyncReadWithTimeout_def)
  then show ?thesis using limit_read [OF rd, of g] limit_cancel [of g s w1] by (auto intro: order_trans)
qed

lemma spawn_and_get_ends:
  assumes "\<And>w. \<exists>y. body w = Some y \<and> limit g (world y) \<le> limit g w" "\<And>w. world (on_exception w) = w"
  shows "\<exists>y. spawn_and_get A body on_exception w = Some y \<and> limit g (world y) \<le> limit g w"
proof -
  obtain x w0 where sp: "as_spawn A w = (x, w0)" by (metis prod.exhaust)
  have le: "limit g w0 \<le> limit g w" using peers sp by (metis finite_peers_def snd_conv)
  have "x \<noteq> Spawn_blocks" using resp sp by (metis responsive_def fst_conv)
  then show ?thesis using assms(1) [of w0] assms(2) [of w0] le sp
    by (cases x) (auto simp: spawn_and_get_def intro: order_trans)
qed

lemma readUntil_loop_ends:
  "\<exists>r s' out' w'. readUntil_loop A t delim out s w = Some (r, s', out', w') \<and> limit g w' \<le> limit g w"
proof (induction "limit (sock_fd s) w - length (rcvd (sock_fd s) w)" arbitrary: s w rule: less_induct)
  case less
  let ?b = "read_buffer s" and ?n = "length out" and ?fd = "sock_fd s"
  obtain r v w1 where st: "asyncReadWithTimeout A s (as_prepare A ?b ?n) (length ?b) ?n t w = (r, v, w1)"
    by (metis prod_cases3)
  note le = limit_timed_read [OF st]
  from st obtain data where d: "rcvd ?fd w1 = rcvd ?fd w @ data" "\<And>k. r = Inr k \<Longrightarrow> k = length data"
    by (rule asyncReadWithTimeout_step) blast
  show ?case
  proof (cases "std_search ?b delim = length ?b \<and> (\<exists>k. r = Inr k \<and> k \<noteq> 0)")
    case True
    then obtain k where k: "r = Inr k" "k \<noteq> 0" by blast
    let ?s = "s\<lparr>read_buffer := as_commit A v (length ?b) k\<rparr>"
    have "limit ?fd w1 - length (rcvd ?fd w1) < limit ?fd w - length (rcvd ?fd w)"
      using d(1) d(2) [OF k(1)] k(2) le [of ?fd] limit_bound [of ?fd w1] by (cases data) auto
    then have "limit (sock_fd ?s) w1 - length (rcvd (sock_fd ?s) w1) < limit ?fd w - length (rcvd ?fd w)" by simp
    from less [OF this] obtain r2 s2 out2 w2 where
      "readUntil_loop A t delim out ?s w1 = Some (r2, s2, out2, w2)" "limit g w2 \<le> limit g w1" by blast
    with le [of g] show ?thesis using True k st by (subst readUntil_loop.simps) simp
  next
    case False
    then show ?thesis using st le [of g]
      by (subst readUntil_loop.simps) (auto simp: Let_def split: sum.splits prod.splits)
  qed
qed

lemma sync_readUntil_ends:
  "\<exists>r s' out' w'. sync_readUntil A s out delim t w = Some (r, s', out', w') \<and> limit g w' \<le> limit g w"
proof -
  have "\<exists>y. asyncReadUntilCommon A s out delim t w = Some y \<and> limit g (snd (snd (snd y))) \<le> limit g w" for w
    using readUntil_loop_ends [of "effective_timeout t" "bytes_of_string delim" out s w g]
    by (auto simp: asyncReadUntilCommon_def)
  from spawn_and_get_ends [OF this, where on_exception = "\<lambda>w1. (Inl (makeReadError (Generic_ec Operation_canceled)), s, out, w1)"]
  show ?thesis by (cases "sock_kind s") (force simp: sync_readUntil_def member_defs [abs_def])+
qed

lemma sync_readSome_ends:
  "\<exists>r s' out' w'. sync_readSome A s out t w = Some (r, s', out', w') \<and> limit g w' \<le> limit g w"
proof -
  have "\<exists>y. asyncReadSomeCommon A s out t w = Some y \<and> limit g (snd (snd (snd y))) \<le> limit g w" for w
    using limit_timed_read [of s _ _ _ _ w]
    by (auto simp: asyncReadSomeCommon_def Let_def move_data_def split: prod.splits sum.splits)
  from spawn_and_get_ends [OF this, where on_exception = "\<lambda>w1. (Inl (makeReadError (Generic_ec Operation_canceled)), s, out, w1)"]
  show ?thesis by (cases "sock_kind s") (force simp: sync_readSome_def member_defs [abs_def])+
qed

lemma sync_writeAll_ends: "\<exists>y. sync_writeAll A s bs t w = Some y"
proof -
  obtain x w0 where sp: "as_spawn A w = (x, w0)" by (metis prod.exhaust)
  moreover have "x \<noteq> Spawn_blocks" using resp sp by (metis responsive_def fst_conv)
  ultimately show ?thesis
    by (cases x; cases "sock_kind s") (simp_all add: sync_writeAll_def member_defs spawn_and_get_def)
qed

section \<open>The loops\<close>

text \<open>
  What is still to come on a connection: bytes not yet received and bytes received but not yet taken.
  Every turn of a loop takes at least one.
\<close>

definition pending :: "dual_socket \<Rightarrow> 'w \<Rightarrow> nat" where
  "pending s w = limit (sock_fd s) w - length (rcvd (sock_fd s) w) + length (read_buffer s)"

lemma pending_took:
  assumes "took A rcvd sent s w bs s1 w1" "limit (sock_fd s) w1 \<le> limit (sock_fd s) w" "bs \<noteq> []"
  shows "pending s1 w1 < pending s w"
proof -
  let ?fd = "sock_fd s"
  have fd: "sock_fd s1 = ?fd" using assms(1) read_frame_fd unfolding took_def by blast
  from assms(1) obtain d where d: "rcvd ?fd w1 = rcvd ?fd w @ d" "bs @ read_buffer s1 = read_buffer s @ d"
    by (auto simp: took_def)
  have "length bs + length (read_buffer s1) = length (read_buffer s) + length d"
    using arg_cong [OF d(2), of length] by simp
  moreover have "length (rcvd ?fd w1) = length (rcvd ?fd w) + length d" using d(1) by simp
  moreover have "0 < length bs" using assms(3) by simp
  ultimately show ?thesis
    using limit_bound [of ?fd w1] assms(2) unfolding pending_def fd by linarith
qed

lemma response_loop_ends:
  "tmp \<noteq> [] \<Longrightarrow> \<exists>y. response_loop A t buf tmp s w = Some y"
proof (induction "pending s w" arbitrary: buf tmp s w rule: less_induct)
  case less
  obtain r s1 tmp1 w1 where rd: "sync_readUntil A s tmp crlf (Some t) w = Some (r, s1, tmp1, w1)"
    and le: "limit (sock_fd s) w1 \<le> limit (sock_fd s) w"
    using sync_readUntil_ends by blast
  note fr = sync_readUntil_frame [OF rd]
  have tmp1: "tmp1 \<noteq> []" using fr less.prems by auto
  show ?case
  proof (cases "\<exists>n. r = Inr n \<and> n \<noteq> 0")
    case True
    then obtain n where n: "r = Inr n" "n \<noteq> 0" by blast
    have "take n tmp1 \<noteq> []" using n(2) tmp1 by simp
    then have "pending s1 w1 < pending s w" using fr n(1) le by (intro pending_took) auto
    from less.hyps [OF this tmp1] obtain y where
      "response_loop A t (buf @ string_of_bytes (take n tmp1)) tmp1 s1 w1 = Some y" by blast
    with rd n show ?thesis by (cases y, subst response_loop.simps) (simp add: Let_def)
  next
    case False
    with rd show ?thesis by (subst response_loop.simps) (auto split: sum.splits)
  qed
qed

lemma raw_loop_ends:
  "tmp \<noteq> [] \<Longrightarrow> length tmp \<le> size_max \<Longrightarrow> \<exists>y. raw_loop A t buf tmp s w = Some y"
proof (induction "pending s w" arbitrary: buf tmp s w rule: less_induct)
  case less
  obtain r s1 tmp1 w1 where rd: "sync_readSome A s tmp (Some t) w = Some (r, s1, tmp1, w1)"
    and le: "limit (sock_fd s) w1 \<le> limit (sock_fd s) w"
    using sync_readSome_ends by blast
  note fr = sync_readSome_frame [OF rd less.prems(2)]
  show ?case
  proof (cases "\<exists>n. r = Inr n \<and> n \<noteq> 0")
    case True
    then obtain n where n: "r = Inr n" "n \<noteq> 0" by blast
    then have tmp1: "length tmp1 = length tmp" "tmp1 \<noteq> []" using fr less.prems by auto
    then have "take n tmp1 \<noteq> []" using n(2) by simp
    then have "pending s1 w1 < pending s w" using fr n(1) le by (intro pending_took) auto
    from less.hyps [OF this tmp1(2)] less.prems(2) obtain y where
      "raw_loop A t (buf @ take n tmp1) tmp1 s1 w1 = Some y" unfolding tmp1(1) by blast
    with rd n show ?thesis by (cases y, subst raw_loop.simps) simp
  next
    case False
    with rd show ?thesis by (subst raw_loop.simps) (auto split: sum.splits)
  qed
qed

lemma read_loop_ends:
  assumes "patient rcvd limit callback"
  shows "buffer \<noteq> [] \<Longrightarrow> length buffer \<le> size_max \<Longrightarrow> \<exists>y. read_loop A t callback n0 buffer s w = Some y"
proof (induction "pending s w" arbitrary: n0 buffer s w rule: less_induct)
  case less
  obtain r s1 buffer1 w1 where rd: "sync_readSome A s buffer (Some t) w = Some (r, s1, buffer1, w1)"
    and le: "limit (sock_fd s) w1 \<le> limit (sock_fd s) w"
    using sync_readSome_ends by blast
  note fr = sync_readSome_frame [OF rd less.prems(2)]
  show ?case
  proof (cases "\<exists>n. r = Inr n \<and> n \<noteq> 0")
    case True
    then obtain n where n: "r = Inr n" "n \<noteq> 0" by blast
    then have b: "length buffer1 = length buffer" "buffer1 \<noteq> []" using fr less.prems by auto
    then have "take n buffer1 \<noteq> []" using n(2) by simp
    then have lt: "pending s1 w1 < pending s w" using fr n(1) le by (intro pending_took) auto
    obtain r2 w2 where cb: "callback (take n buffer1) w1 = (r2, w2)" by (metis prod.exhaust)
    have "limit (sock_fd s1) w2 \<le> limit (sock_fd s1) w1" "length (rcvd (sock_fd s1) w1) \<le> length (rcvd (sock_fd s1) w2)"
      using assms cb by (metis patient_def snd_conv)+
    then have "pending s1 w2 < pending s w" using lt by (auto simp: pending_def)
    from less.hyps [OF this b(2)] less.prems(2) obtain y where
      "read_loop A t callback (n0 + n) buffer1 s1 w2 = Some y" unfolding b(1) by blast
    with rd n cb show ?thesis by (cases y, subst read_loop.simps) (auto split: outcome.splits sum.splits)
  next
    case False
    with rd show ?thesis by (subst read_loop.simps) (auto split: sum.splits)
  qed
qed

section \<open>The operations\<close>

lemma receiveResponse_on_ends: "ends (receiveResponse_on A s t w)"
  using response_loop_ends [of "replicate 1024 0" t "[]" s w] by (auto simp: receiveResponse_on_def)

lemma receiveResponse_ends: "ends (receiveResponse E f w)"
  by (auto simp: receiveResponse_def intro!: ends_bind receiveResponse_on_ends split: option.split prod.split)

lemma command_ends: "ends (sendAndReceiveResponse E cmd f w)"
  by (auto simp: sendAndReceiveResponse_def sendAndReceiveResponse_on_def sendCommand_on_def
      intro!: ends_bind receiveResponse_on_ends endsI [OF sync_writeAll_ends] split: option.split prod.split sum.split)

lemma ftpCd_ends: "ends (ftpCd E d f w)" "ends (ftpSelectDrive E d f w)"
  by (auto simp: ftpCd_def ftpSelectDrive_def intro!: ends_on_ok command_ends)

lemma cd_each_ends: "ends (cd_each (\<lambda>d (f, w). ftpCd E d f w) ds v)"
  by (induction ds arbitrary: v) (auto intro!: ends_bind ftpCd_ends split: prod.split outcome.split sum.split)

lemma navigate_ends: "ends (navigate E p f w)"
  by (auto simp: navigate_def changeDirectory_def arrive_def descendFromRoot_def Let_def
      intro!: ends_bind cd_each_ends ftpCd_ends split: prod.split outcome.split sum.split)

lemma connect_to_ends: "ends (connect_to E host port t w)"
proof -
  have "net_resolve (env_net E) h s w \<noteq> None" for h s w using resp by (simp add: responsive_def)
  then have "ends (Client_asyncConnect A (env_net E) c t opts w)" for c t opts w
    by (auto simp: Client_asyncConnect_def open_connection_def ends_def [of "net_resolve _ _ _ _"]
        intro!: ends_bind split: prod.split sum.split)
  moreover have "fst (as_spawn A w) \<noteq> Spawn_blocks" using resp by (simp add: responsive_def)
  ultimately show ?thesis
    by (auto simp: connect_to_def Client_connect_def spawn_and_get_def split: prod.split spawn_outcome.split)
qed

lemma openDataConnection_ends: "ends (openDataConnection E f w)"
  by (auto simp: openDataConnection_def intro!: ends_on_ok ends_bind command_ends connect_to_ends split: option.split prod.split)

lemma finish_transfer_ends: "ends (finish_transfer E g f w)"
  by (auto simp: finish_transfer_def intro!: ends_on_ok receiveResponse_ends)

lemma start_transfer_ends: "(\<And>s f w. ends (k s f w)) \<Longrightarrow> ends (start_transfer E cmd p f w k)"
  by (auto simp: start_transfer_def closing_def
      intro!: ends_on_ok ends_bind navigate_ends openDataConnection_ends command_ends)

lemma receiveRawResponse_ends: "ends (receiveRawResponse A s t w)"
  unfolding receiveRawResponse_def by (rule endsI, rule raw_loop_ends) (simp_all add: size_max_def)

lemma query_ends:
  "ends (existsMlst E name f w)" "ends (existsSize E name f w)" "ends (existsCwd E name f w)"
  "ends (isDirectoryMlst E name f w)" "ends (isDirectoryCwd E name f w)"
  by (auto simp: existsMlst_def existsSize_def existsCwd_def isDirectoryMlst_def isDirectoryCwd_def has_value_def Let_def
      intro!: ends_on_ok ends_bind command_ends ftpCd_ends split: prod.split outcome.split sum.split)

lemma ftp_exists_ends: "ends (ftp_exists E p f w)"
  by (auto simp: ftp_exists_def or_else_def Let_def
      intro!: ends_on_ok ends_bind navigate_ends query_ends split: prod.split outcome.split sum.split)

lemma isDirectory_ends: "ends (isDirectory E p f w)"
  by (auto simp: isDirectory_def Let_def
      intro!: ends_on_ok ends_bind navigate_ends query_ends split: prod.split outcome.split sum.split)

lemma createDir_ends: "ends (createDir E p f w)"
  by (auto simp: createDir_def intro!: ends_on_ok ftp_exists_ends navigate_ends command_ends)

lemma ftp_remove_ends: "ends (ftp_remove E p f w)"
  by (auto simp: ftp_remove_def Let_def intro!: ends_on_ok isDirectory_ends navigate_ends command_ends)

lemma ftp_list_ends: "ends (ftp_list E p f w)"
  by (auto simp: ftp_list_def closing_def
      intro!: ends_on_ok ends_bind navigate_ends openDataConnection_ends command_ends receiveRawResponse_ends
        receiveResponse_ends split: prod.split sum.split outcome.split)

lemma ftp_read_ends: "ends (ftp_read E p f w)"
  by (auto simp: ftp_read_def intro!: start_transfer_ends ends_bind receiveRawResponse_ends finish_transfer_ends
      split: prod.split sum.split)

lemma ftp_read_callback_ends:
  assumes "patient rcvd limit callback"
  shows "ends (ftp_read_callback E p callback f w)"
proof -
  have "ends (read_loop A t callback 0 (replicate 16384 0) s w)" for t s w
    by (rule endsI, rule read_loop_ends [OF assms]) (simp_all add: size_max_def)
  then show ?thesis
    by (auto simp: ftp_read_callback_def lift_call_def
        intro!: start_transfer_ends ends_on_ok ends_bind finish_transfer_ends split: prod.split)
qed

lemma ftp_write_ends: "ends (ftp_write E p bytes f w)"
  by (auto simp: ftp_write_def
      intro!: ends_on_ok ends_bind ends_case navigate_ends openDataConnection_ends command_ends finish_transfer_ends
        endsI [OF sync_writeAll_ends])

lemma login_step_ends: "ends (login_step E needed cmd codes f w)"
  by (auto simp: login_step_def intro!: ends_bind command_ends split: prod.split outcome.split sum.split)

lemma ftp_connect_ends: "ends (ftp_connect E opts f w)"
proof -
  have "ends (sync_readUntil A s out delim t w)" for s out delim t w
    using sync_readUntil_ends [of s out delim t w] by (blast intro: endsI)
  then show ?thesis
    by (auto simp: ftp_connect_def query_features_def Let_def
        intro!: ends_bind ends_on_ok connect_to_ends login_step_ends command_ends
        split: prod.split sum.split outcome.split)
qed

lemma openFtpConnection_ends: "ends (openFtpConnection E host port opts w)"
  by (auto simp: openFtpConnection_def intro!: ends_bind ftp_connect_ends split: prod.split)

end

section \<open>The scripted network\<close>

text \<open>
  A script holds only finitely many bytes. In the scripted world coroutines may be dropped or block;
  here they all run.
\<close>

definition eager_asio :: "script_world asio" where
  "eager_asio = script_asio\<lparr>as_spawn := \<lambda>w. (Spawn_runs, w)\<rparr>"

definition eager_env :: "script_world ftp_env" where
  "eager_env =
     \<lparr>env_asio = eager_asio, env_net = script_net, env_address = (\<lambda>_. ''127.0.0.1''), env_clock = (\<lambda>_. demo_clock)\<rparr>"

definition script_limit :: "nat \<Rightarrow> script_world \<Rightarrow> nat" where
  "script_limit g w = length (sw_rcvd w g) + sum_list (map (\<lambda>(_, data, _). length data) (sw_rx w g))"

lemma eager_env_simps [simp]: "env_asio eager_env = eager_asio" "env_net eager_env = script_net"
  by (simp_all add: eager_env_def)

lemma eager_laws: "asio_laws eager_asio (\<lambda>fd w. sw_rcvd w fd) (\<lambda>fd w. sw_sent w fd)"
  using script_laws
  by (simp add: asio_laws_def eager_asio_def dynamic_buffer_laws_def read_laws_def write_laws_def close_laws_def
      quiet_def)

lemma eager_net_laws: "net_laws eager_asio script_net (\<lambda>fd w. sw_rcvd w fd) (\<lambda>fd w. sw_sent w fd)"
  using script_net.net_laws by (simp add: net_laws_def connect_laws_def same_sockets_def eager_asio_def)

lemma eager_finite: "finite_peers eager_asio (\<lambda>fd w. sw_rcvd w fd) script_limit"
  by (auto simp: finite_peers_def eager_asio_def script_limit_def script_asio_def script_read_def split: list.split)

lemma eager_responsive: "responsive eager_asio script_net"
  by (simp add: responsive_def eager_asio_def script_net_def)

interpretation eager: finite_session eager_env "\<lambda>fd w. sw_rcvd w fd" "\<lambda>fd w. sw_sent w fd" script_limit
  by unfold_locales (simp_all add: eager_laws eager_net_laws eager_finite eager_responsive)

end
