(* ===== verification/Error_Results.thy ===== *)
theory Error_Results
  imports Ftp_Session
begin

text \<open>
  The type discipline of the results: an operation that fails, of type \<^verbatim>\<open>std::expected\<close>, carries an error
  code that tests as an error. Callers print and compare \<open>r.error()\<close>; the code 0 there would read as
  \<open>success\<close>. No law of the environment is needed: every failing path sets the code itself or passes on
  one it has tested.
\<close>

definition proper :: "'a expected \<Rightarrow> bool" where
  "proper r \<longleftrightarrow> (case r of Inl e \<Rightarrow> ec_set e | Inr _ \<Rightarrow> True)"

fun proper_outcome :: "'a expected outcome \<Rightarrow> bool" where
  "proper_outcome (Returned r) = proper r"
| "proper_outcome _ = True"

text \<open>\<open>yields P x\<close>: whatever \<open>x\<close> returns satisfies \<open>P\<close>.\<close>

definition yields :: "('a \<Rightarrow> bool) \<Rightarrow> 'a option \<Rightarrow> bool" where
  "yields P x \<longleftrightarrow> (\<forall>y. x = Some y \<longrightarrow> P y)"

lemma proper_simps [simp]: "proper (Inl e) = ec_set e" "proper (Inr a)"
  by (simp_all add: proper_def)

lemma yields_simps [simp]: "yields P (Some y) = P y" "yields P None"
  by (simp_all add: yields_def)

lemma yields_bind: "yields Q x \<Longrightarrow> (\<And>y. Q y \<Longrightarrow> yields P (k y)) \<Longrightarrow> yields P (Option.bind x k)"
  by (cases x) simp_all

lemma yields_case:
  "yields (\<lambda>(r, _). Q r) x \<Longrightarrow> (\<And>r f w. Q r \<Longrightarrow> yields P (k r f w)) \<Longrightarrow>
   yields P (case x of None \<Rightarrow> None | Some (r, f, w) \<Rightarrow> k r f w)"
  by (auto simp: yields_def split: option.splits)

section \<open>Sockets\<close>

abbreviation proper_read :: "'w read_outcome \<Rightarrow> bool" where
  "proper_read \<equiv> yields (\<lambda>(r, _). proper r)"

lemma ec_set_timeout [simp]: "ec_set makeTimeoutError"
  by (simp add: makeTimeoutError_def)

lemma timed_read_proper: "proper (fst (asyncReadWithTimeout A s v m n t w))"
  by (auto simp: asyncReadWithTimeout_def split: prod.split)

lemma readExact_loop_proper: "yields (\<lambda>(r, _). proper r) (readExact_loop A t n s w)"
  unfolding yields_def
proof (intro allI impI)
  fix y assume "readExact_loop A t n s w = Some y"
  then show "case y of (r, _) \<Rightarrow> proper r"
  proof (rule readExact_loop.raw_induct [where P = "\<lambda>A t n s w y. case y of (r, _) \<Rightarrow> proper r", rotated], goal_cases)
    case (1 f A t n s w y)
    then show ?case
      using timed_read_proper [of A s "as_prepare A (read_buffer s) n" "length (read_buffer s)" n t w]
      by (auto split: if_splits prod.splits sum.splits)
  qed
qed

lemma readUntil_loop_proper: "proper_read (readUntil_loop A t delim out s w)"
  unfolding yields_def
proof (intro allI impI)
  fix y assume "readUntil_loop A t delim out s w = Some y"
  then show "case y of (r, _) \<Rightarrow> proper r"
  proof (rule readUntil_loop.raw_induct [where P = "\<lambda>A t delim out s w y. case y of (r, _) \<Rightarrow> proper r", rotated], goal_cases)
    case (1 f A t delim out s w y)
    then show ?case
      using timed_read_proper [of A s "as_prepare A (read_buffer s) (length out)" "length (read_buffer s)" "length out" t w]
      by (auto simp: Let_def split: if_splits prod.splits sum.splits)
  qed
qed

lemma coroutines_proper:
  "proper_read (asyncReadSomeCommon A s out timeout w)" "proper_read (asyncReadExactCommon A s out timeout w)"
  "proper_read (asyncReadUntilCommon A s out delim timeout w)" "proper (fst (asyncWriteAllCommon A s bs timeout w))"
proof -
  show "proper_read (asyncReadSomeCommon A s out timeout w)"
    using timed_read_proper [of A s "as_prepare A (read_buffer s) (length out)" "length (read_buffer s)" "length out"
        "effective_timeout timeout" w]
    by (auto simp: asyncReadSomeCommon_def Let_def split: prod.splits sum.splits)
  show "proper_read (asyncReadExactCommon A s out timeout w)"
    using readExact_loop_proper
    by (auto simp: asyncReadExactCommon_def Let_def intro!: yields_bind [where Q = "\<lambda>(r, _). proper r"] split: prod.splits sum.splits)
  show "proper_read (asyncReadUntilCommon A s out delim timeout w)"
    unfolding asyncReadUntilCommon_def by (cases "isConnected A s w") (simp_all add: readUntil_loop_proper del: yields_simps, simp)
  show "proper (fst (asyncWriteAllCommon A s bs timeout w))"
    by (auto simp: asyncWriteAllCommon_def split: prod.split)
qed

lemma spawn_and_get_proper:
  "(\<And>w. yields P (body w)) \<Longrightarrow> (\<And>w. P (on_exception w)) \<Longrightarrow> yields P (spawn_and_get A body on_exception w)"
  by (auto simp: spawn_and_get_def split: prod.split spawn_outcome.split)

lemma sync_proper:
  "proper_read (sync_readSome A s out timeout w)" "proper_read (sync_readUntil A s out delim timeout w)"
  "yields (\<lambda>(r, _). proper r) (sync_writeAll A s bs timeout w)"
proof -
  let ?ex = "\<lambda>w1. (Inl (makeReadError (Generic_ec Operation_canceled)), s, out, w1)"
  have "proper_read (spawn_and_get A (asyncReadSomeCommon A s out timeout) ?ex w)"
    by (rule spawn_and_get_proper, rule coroutines_proper) simp
  then show "proper_read (sync_readSome A s out timeout w)"
    by (cases "sock_kind s") (simp_all add: sync_readSome_def member_defs [abs_def])
  have "proper_read (spawn_and_get A (asyncReadUntilCommon A s out delim timeout) ?ex w)"
    by (rule spawn_and_get_proper, rule coroutines_proper) simp
  then show "proper_read (sync_readUntil A s out delim timeout w)"
    by (cases "sock_kind s") (simp_all add: sync_readUntil_def member_defs [abs_def])
  have "yields (\<lambda>(r, _). proper r) (spawn_and_get A (\<lambda>w. Some (asyncWriteAllCommon A s bs timeout w))
      (\<lambda>w1. (Inl (makeWriteError (Generic_ec Operation_canceled)), w1)) w)"
  proof (rule spawn_and_get_proper)
    show "yields (\<lambda>(r, _). proper r) (Some (asyncWriteAllCommon A s bs timeout w))" for w
      using coroutines_proper(4) [of A s bs timeout w] by (simp add: case_prod_beta)
  qed simp
  then show "yields (\<lambda>(r, _). proper r) (sync_writeAll A s bs timeout w)"
    by (cases "sock_kind s") (simp_all add: sync_writeAll_def member_defs [abs_def])
qed

section \<open>Connecting\<close>

lemma set_options_proper: "ec_set (fst (set_options N fd xs w)) \<or> fst (set_options N fd xs w) = No_ec"
  by (induction N fd xs w rule: set_options.induct) (auto split: prod.split)

lemma open_connection_proper: "yields (\<lambda>(r, _). proper r) (open_connection A N c t opts w)"
  by (auto simp: open_connection_def yields_def split: bind_splits prod.splits if_splits)

lemma connect_proper:
  "yields (\<lambda>(r, _). proper r) (Client_asyncConnect A N c t opts w)"
  "yields (\<lambda>(r, _). proper r) (Client_asyncConnectTls A N c t opts topts w)"
  "yields (\<lambda>(r, _). proper r) (Client_connect A N c t opts w)"
  "yields (\<lambda>(r, _). proper r) (Client_connectTls A N c t opts topts w)"
proof -
  note b = yields_bind [OF open_connection_proper]
  show one: "yields (\<lambda>(r, _). proper r) (Client_asyncConnect A N c t opts w)" for w
    unfolding Client_asyncConnect_def by (rule b) (auto split: sum.split prod.split)
  show two: "yields (\<lambda>(r, _). proper r) (Client_asyncConnectTls A N c t opts topts w)" for w
    unfolding Client_asyncConnectTls_def
    by (rule b) (auto simp: createTlsContextWrapper_def split: sum.split prod.split)
  show "yields (\<lambda>(r, _). proper r) (Client_connect A N c t opts w)"
    unfolding Client_connect_def by (rule spawn_and_get_proper, rule one) simp
  show "yields (\<lambda>(r, _). proper r) (Client_connectTls A N c t opts topts w)"
    unfolding Client_connectTls_def by (rule spawn_and_get_proper, rule two) simp
qed

section \<open>FTP\<close>

abbreviation proper_call :: "('a, 'w) ftp_call \<Rightarrow> bool" where
  "proper_call \<equiv> yields (\<lambda>(r, _). proper_outcome r)"

lemma proper_done [simp]: "proper_call (ok a f w)" "proper_call (fails e f w) = ec_set e"
  by (simp_all add: ok_def fails_def)

lemma proper_on_ok:
  assumes "proper_call x" "\<And>a f w. proper_call (k a f w)"
  shows "proper_call (on_ok x k)"
  unfolding on_ok_def using assms
  by (auto intro!: yields_bind [OF assms(1)] split: prod.split outcome.split sum.split)

lemma response_loop_proper: "yields (\<lambda>(r, _). proper r) (response_loop A t buf tmp s w)"
  unfolding yields_def
proof (intro allI impI)
  fix y assume "response_loop A t buf tmp s w = Some y"
  then show "case y of (r, _) \<Rightarrow> proper r"
  proof (rule response_loop.raw_induct [where P = "\<lambda>A t buf tmp s w y. case y of (r, _) \<Rightarrow> proper r", rotated], goal_cases)
    case (1 f A t buf tmp s w y)
    then show ?case using sync_proper(2) [of A s tmp crlf "Some t" w]
      by (auto simp: Let_def yields_def split: bind_splits sum.splits if_splits)
  qed
qed

lemma raw_loop_proper: "yields (\<lambda>(r, _). proper r) (raw_loop A t buf tmp s w)"
  unfolding yields_def
proof (intro allI impI)
  fix y assume "raw_loop A t buf tmp s w = Some y"
  then show "case y of (r, _) \<Rightarrow> proper r"
  proof (rule raw_loop.raw_induct [where P = "\<lambda>A t buf tmp s w y. case y of (r, _) \<Rightarrow> proper r", rotated], goal_cases)
    case (1 f A t buf tmp s w y)
    then show ?case using sync_proper(1) [of A s tmp "Some t" w]
      by (auto simp: yields_def split: bind_splits sum.splits if_splits)
  qed
qed

lemma receiveResponse_on_proper: "yields (\<lambda>(r, _). proper_outcome r) (receiveResponse_on A s t w)"
  unfolding receiveResponse_on_def
  by (rule yields_bind [OF response_loop_proper]) (auto simp: answer_of_def split: sum.split option.split)

lemma receiveResponse_proper: "proper_call (receiveResponse E f w)"
  unfolding receiveResponse_def
  by (auto intro!: yields_bind [OF receiveResponse_on_proper] split: option.split)

lemma command_proper: "proper_call (sendAndReceiveResponse E cmd f w)"
proof -
  have "yields (\<lambda>(r, _). proper_outcome r) (sendAndReceiveResponse_on A s cmd t w)" for A :: "'a asio" and s t w
    unfolding sendAndReceiveResponse_on_def sendCommand_on_def
    by (rule yields_bind [where Q = "\<lambda>(r, _). proper r"], rule yields_bind [OF sync_proper(3)])
      (auto simp: receiveResponse_on_proper split: sum.split)
  then show ?thesis unfolding sendAndReceiveResponse_def
    by (auto intro!: yields_bind split: option.split)
qed

lemma ftpCd_proper: "proper_call (ftpCd E d f w)" "proper_call (ftpSelectDrive E d f w)"
  by (auto simp: ftpCd_def ftpSelectDrive_def intro!: proper_on_ok command_proper)

lemma cd_each_proper: "yields (\<lambda>(r, _). proper_outcome r) (cd_each (\<lambda>d (f, w). ftpCd E d f w) ds v)"
proof (induction ds arbitrary: v)
  case (Cons d ds)
  show ?case
    by (cases v) (auto intro!: yields_bind [OF ftpCd_proper(1)] Cons split: outcome.split sum.split)
qed simp

lemma navigate_proper: "proper_call (navigate E p f w)"
proof -
  let ?cd = "\<lambda>d (f, w). ftpCd E d f w" and ?sel = "\<lambda>d (f, w). ftpSelectDrive E d f w"
  have arrive: "yields (\<lambda>(r, _). proper_outcome r) (arrive cur tgt x)" if "yields (\<lambda>(r, _). proper_outcome r) x"
    for cur tgt and x :: "(unit expected outcome \<times> ftp \<times> 'a) option"
    unfolding arrive_def by (rule yields_bind [OF that]) auto
  have "yields (\<lambda>(r, _). proper_outcome r) (changeDirectory ?cd ?sel (ftp_current f) p (f, w))"
    unfolding changeDirectory_def descendFromRoot_def Let_def
    by (auto intro!: arrive yields_bind [OF cd_each_proper] yields_bind [OF ftpCd_proper(2)] cd_each_proper
        split: outcome.split sum.split)
  then show ?thesis unfolding navigate_def by (rule yields_bind) auto
qed

lemma openDataConnection_proper: "proper_call (openDataConnection E f w)"
proof -
  have c: "yields (\<lambda>(r, _). proper r) (connect_to E host port t w)" for host port t w
    unfolding connect_to_def by (rule connect_proper)
  show ?thesis
    by (auto simp: openDataConnection_def intro!: proper_on_ok command_proper yields_bind [OF c] split: option.split)
qed

lemma finish_transfer_proper: "proper_call (finish_transfer E g f w)"
  by (auto simp: finish_transfer_def intro!: proper_on_ok receiveResponse_proper)

lemma closing_proper: "proper_call x \<Longrightarrow> proper_call (closing E s x)"
  unfolding closing_def by (erule yields_bind) auto

lemma start_transfer_proper: "(\<And>s f w. proper_call (k s f w)) \<Longrightarrow> proper_call (start_transfer E cmd p f w k)"
  by (auto simp: start_transfer_def
      intro!: proper_on_ok closing_proper navigate_proper openDataConnection_proper command_proper)

lemma has_value_proper: "proper_call x \<Longrightarrow> proper_call (has_value x)"
  unfolding has_value_def by (erule yields_bind) (auto split: outcome.split sum.split)

lemma query_proper:
  "proper_call (existsMlst E name f w)" "proper_call (existsSize E name f w)" "proper_call (existsCwd E name f w)"
  "proper_call (isDirectoryMlst E name f w)" "proper_call (isDirectoryCwd E name f w)"
  by (auto simp: existsMlst_def existsSize_def existsCwd_def isDirectoryMlst_def isDirectoryCwd_def Let_def
      intro!: proper_on_ok has_value_proper command_proper ftpCd_proper)

lemma or_else_proper: "proper_call x \<Longrightarrow> (\<And>f w. proper_call (k f w)) \<Longrightarrow> proper_call (or_else x k)"
  unfolding or_else_def by (erule yields_bind) (auto split: outcome.split sum.split)

lemma ftp_exists_proper: "proper_call (ftp_exists E p f w)"
  by (auto simp: ftp_exists_def Let_def intro!: proper_on_ok or_else_proper navigate_proper query_proper)

lemma isDirectory_proper: "proper_call (isDirectory E p f w)"
  by (auto simp: isDirectory_def Let_def
      intro!: proper_on_ok navigate_proper query_proper yields_bind [OF query_proper(4)] split: outcome.split sum.split)

lemma createDir_proper: "proper_call (createDir E p f w)"
  by (auto simp: createDir_def intro!: proper_on_ok ftp_exists_proper navigate_proper command_proper)

lemma ftp_remove_proper: "proper_call (ftp_remove E p f w)"
  by (auto simp: ftp_remove_def Let_def intro!: proper_on_ok isDirectory_proper navigate_proper command_proper)

lemma raw_proper: "yields (\<lambda>(r, _). proper r) (receiveRawResponse A s t w)"
  unfolding receiveRawResponse_def by (rule raw_loop_proper)

lemma ftp_list_proper: "proper_call (ftp_list E p f w)"
  by (auto simp: ftp_list_def
      intro!: proper_on_ok closing_proper yields_bind [OF raw_proper] navigate_proper openDataConnection_proper
        command_proper receiveResponse_proper split: sum.split outcome.split)

lemma ftp_read_proper: "proper_call (ftp_read E p f w)"
  by (auto simp: ftp_read_def intro!: start_transfer_proper yields_bind [OF raw_proper] finish_transfer_proper
      split: sum.split)

lemma lift_call_proper: "yields (\<lambda>(r, _). proper_outcome r) x \<Longrightarrow> proper_call (lift_call f x)"
  unfolding lift_call_def by (erule yields_bind) auto

lemma read_loop_proper:
  assumes "\<And>bs w. proper_outcome (fst (callback bs w))"
  shows "yields (\<lambda>(r, _). proper_outcome r) (read_loop A t callback n0 buffer s w)"
  unfolding yields_def
proof (intro allI impI)
  fix y assume run: "read_loop A t callback n0 buffer s w = Some y"
  have "callback = callback \<longrightarrow> (case y of (r, _) \<Rightarrow> proper_outcome r)"
  proof (rule read_loop.raw_induct [where P = "\<lambda>A t cb n0 buffer s w y. cb = callback \<longrightarrow>
      (case y of (r, _) \<Rightarrow> proper_outcome r)", OF _ run], goal_cases)
    case (1 f A t cb n0 buffer s w y)
    show ?case
    proof
      assume cb: "cb = callback"
      from 1(2) obtain r s1 b w1 where rd: "sync_readSome A s buffer (Some t) w = Some (r, s1, b, w1)"
        by (auto split: bind_splits)
      obtain r2 w2 where c: "callback (take (case r of Inr n \<Rightarrow> n | _ \<Rightarrow> 0) b) w1 = (r2, w2)" by (metis prod.exhaust)
      show "case y of (r, _) \<Rightarrow> proper_outcome r"
        using 1 rd c sync_proper(1) [of A s buffer "Some t" w]
          assms [of "take (case r of Inr n \<Rightarrow> n | _ \<Rightarrow> 0) b" w1]
        by (cases r; cases r2) (auto simp: cb split: if_splits sum.splits)
    qed
  qed
  then show "case y of (r, _) \<Rightarrow> proper_outcome r" by simp
qed

lemma write_loop_proper:
  assumes "\<And>w. proper_outcome (fst (next_chunk w))"
  shows "yields (\<lambda>(r, _). proper_outcome r) (write_loop A t next_chunk n0 s w)"
  unfolding yields_def
proof (intro allI impI)
  fix y assume run: "write_loop A t next_chunk n0 s w = Some y"
  have "next_chunk = next_chunk \<longrightarrow> (case y of (r, _) \<Rightarrow> proper_outcome r)"
  proof (rule write_loop.raw_induct [where P = "\<lambda>A t cb n0 s w y. cb = next_chunk \<longrightarrow>
      (case y of (r, _) \<Rightarrow> proper_outcome r)", OF _ run], goal_cases)
    case (1 f A t cb n0 s w y)
    show ?case
    proof
      assume cb: "cb = next_chunk"
      obtain r2 w2 where c: "next_chunk w = (r2, w2)" by (metis prod.exhaust)
      have w: "proper r" if "sync_writeAll A s bs (Some t) w2 = Some (r, w3)" for bs r w3
        using sync_proper(3) [of A s bs "Some t" w2] that by (simp add: yields_def)
      show "case y of (r, _) \<Rightarrow> proper_outcome r"
        using 1 c assms [of w] w
        by (cases r2) (fastforce simp: cb split: if_splits sum.splits bind_splits)+
    qed
  qed
  then show "case y of (r, _) \<Rightarrow> proper_outcome r" by simp
qed

lemma ftp_read_callback_proper:
  assumes "\<And>bs w. proper_outcome (fst (callback bs w))"
  shows "proper_call (ftp_read_callback E p callback f w)"
  by (auto simp: ftp_read_callback_def
      intro!: start_transfer_proper proper_on_ok lift_call_proper read_loop_proper assms finish_transfer_proper)

lemma ftp_write_proper: "proper_call (ftp_write E p bytes f w)"
  unfolding ftp_write_def
  by (auto intro!: proper_on_ok navigate_proper openDataConnection_proper yields_case [where Q = proper_outcome]
      yields_bind [OF sync_proper(3)] command_proper finish_transfer_proper)

lemma ftp_write_callback_proper:
  assumes "\<And>w. proper_outcome (fst (next_chunk w))"
  shows "proper_call (ftp_write_callback E p next_chunk f w)"
  unfolding ftp_write_callback_def Let_def
  by (auto intro!: proper_on_ok navigate_proper openDataConnection_proper yields_case [where Q = proper_outcome]
      lift_call_proper write_loop_proper assms command_proper finish_transfer_proper)

lemma login_step_proper: "proper_call (login_step E needed cmd codes f w)"
  unfolding login_step_def
  by (auto intro!: yields_bind [OF command_proper] split: outcome.split sum.split prod.split)

lemma query_features_proper: "proper_call (query_features E f w)"
  unfolding query_features_def by (auto intro!: yields_bind [OF command_proper] split: outcome.split sum.split)

lemma ftp_connect_proper: "proper_call (ftp_connect E opts f w)"
  unfolding ftp_connect_def connect_to_def Let_def
  by (auto intro!: yields_bind [OF connect_proper(3)] yields_bind [OF sync_proper(2)] proper_on_ok
      login_step_proper query_features_proper split: sum.split prod.split)

lemma openFtpConnection_proper: "yields (\<lambda>(r, _). proper_outcome r) (openFtpConnection E host port opts w)"
  unfolding openFtpConnection_def
  by (auto intro!: yields_bind [OF ftp_connect_proper] split: outcome.split sum.split)

end
