(* ===== verification/Ftp_Session_Properties.thy ===== *)
theory Ftp_Session_Properties
  imports Ftp_Properties Ftp_Returns Error_Results
begin

text \<open>
  The properties of whole FTP sessions: connecting and logging in, transfers by callback, any sequence
  of operations up to the destructor, when the operations return, and what their failures carry.
\<close>

section \<open>Transfers by callback\<close>

text \<open>
  C16: a \<open>read\<close> with a callback that succeeds has passed on the whole file: it returns the number of bytes
  that arrived on a data connection of its own, and every socket the callback forwards the pieces to
  has been sent exactly these bytes, in order, before the client read the completion reply 226. The
  callback is only assumed to open and close nothing and to use sockets of its own.
\<close>

theorem read_callback_relays_file:
  assumes "asio_laws (env_asio E) rcvd sent" and "net_laws (env_asio E) (env_net E) rcvd sent"
    and "finite {g. as_is_open (env_asio E) g w}" and "isAlive E f w"
    and "\<forall>bs w. tame (env_asio E) rcvd sent S w (snd (callback bs w))"
    and "\<forall>g \<in> S. as_is_open (env_asio E) g w \<and> ftp_socket f \<noteq> None \<and> g \<noteq> sock_fd (the (ftp_socket f))"
    and "ftp_read_callback E p callback f w = Some (Returned (Inr n), f', w')"
  shows "\<exists>fd. \<not> as_is_open (env_asio E) fd w \<and> n = length (rcvd fd w') \<and>
    (\<forall>g \<in> S. forwards sent g callback \<longrightarrow> sent g w' = sent g w @ rcvd fd w') \<and>
    (\<forall>g. as_is_open (env_asio E) g w' = as_is_open (env_asio E) g w) \<and>
    (\<exists>f1 w1 a w2. rcvd fd w1 = rcvd fd w' \<and>
       receiveResponse E f1 w1 = Some (Returned (Inr a), f', w2) \<and> ans_code a = 226)"
proof -
  obtain c where c: "on_control c f" "as_is_open (env_asio E) c w" using assms(4) by (rule alive_control)
  have S: "c \<notin> S" "\<And>g. g \<in> S \<Longrightarrow> as_is_open (env_asio E) g w" using assms(6) c(1) by (auto simp: on_control_def)
  from ftp_environment.ftp_read_callback_outcome [OF ftp_environmentI [OF assms(1,2)] assms(7) c assms(3) _ S]
    assms(5) show ?thesis unfolding control_step_def by blast
qed

text \<open>A callback that sends each piece on over socket 2.\<close>

definition relay :: "script_world read_callback" where
  "relay bs w = (Returned (Inr (length bs)), said 2 bs w)"

definition relay_session :: "string list \<Rightarrow> (error_code \<times> byte list \<times> bool) list \<Rightarrow> script_world" where
  "relay_session ls cs = (session ls cs)\<lparr>sw_open := \<lambda>g. g = 0 \<or> g = 2\<rparr>"

lemma relay_session_served: "served ls cs (relay_session ls cs)"
  using session_served [of ls cs] by (simp add: served_def relay_session_def ready_def)

lemma relay_alive: "finite {g. as_is_open (env_asio demo_ftp_env) g (relay_session ls cs)}"
  "isAlive demo_ftp_env demo_ftp (relay_session ls cs)"
  "\<forall>g \<in> {2}. as_is_open (env_asio demo_ftp_env) g (relay_session ls cs) \<and> ftp_socket demo_ftp \<noteq> None \<and>
     g \<noteq> sock_fd (the (ftp_socket demo_ftp))"
  by (simp_all add: isAlive_def relay_session_def script_simps)

lemma relay_tame: "\<forall>bs w. tame (env_asio demo_ftp_env) demo_rcvd demo_sent {2} w (snd (relay bs w))"
  by (simp add: tame_def same_sockets_def relay_def said_def script_asio_def)

theorem read_callback_relays_file_witness:
  "\<exists>fd f' w'. ftp_read_callback demo_ftp_env ''/f'' relay demo_ftp
       (relay_session [pasv_line, ''150 x'', ''226 x''] [(No_ec, [7, 8, 9], False)]) = Some (Returned (Inr 3), f', w') \<and>
     sw_sent w' 2 = sw_rcvd w' fd"
proof -
  let ?w = "relay_session [pasv_line, ''150 x'', ''226 x''] [(No_ec, [7, 8, 9], False)]"
  obtain w' where run: "ftp_read_callback demo_ftp_env ''/f'' relay demo_ftp ?w = Some (Returned (Inr 3), demo_ftp, w')"
    using scripted_read_callback [OF relay_session_served, of "[7, 8, 9]" relay] by (auto simp: relay_def aside_def)
  have "forwards demo_sent 2 relay" "sw_sent ?w 2 = []"
    by (auto simp: forwards_def relay_def relay_session_def session_def script_start_def)
  with read_callback_relays_file [OF demo_laws relay_alive(1,2) relay_tame relay_alive(3) run] run
  show ?thesis by auto
qed

text \<open>
  C17: a \<open>write\<close> with a callback that succeeds has stored the whole file: the size it reports is the
  number of bytes sent over a data connection of its own, these are what the callback has fetched, in
  order, from every socket it fetches from, and the data connection was closed before the client read
  the completion reply 226.
\<close>

theorem write_callback_stores_file:
  assumes "asio_laws (env_asio E) rcvd sent" and "net_laws (env_asio E) (env_net E) rcvd sent"
    and "finite {g. as_is_open (env_asio E) g w}" and "isAlive E f w"
    and "\<forall>w. tame (env_asio E) rcvd sent S w (snd (next_chunk w))"
    and "\<forall>g \<in> S. as_is_open (env_asio E) g w \<and> ftp_socket f \<noteq> None \<and> g \<noteq> sock_fd (the (ftp_socket f))"
    and "ftp_write_callback E p next_chunk f w = Some (Returned (Inr stored), f', w')"
  shows "\<exists>fd. \<not> as_is_open (env_asio E) fd w \<and> file_size stored = length (sent fd w') \<and>
    file_name stored = filename p \<and> full_path stored = p \<and>
    (\<forall>g \<in> S. fetches rcvd g next_chunk \<longrightarrow> rcvd g w' = rcvd g w @ sent fd w') \<and>
    (\<forall>g. as_is_open (env_asio E) g w' = as_is_open (env_asio E) g w) \<and>
    (\<exists>f1 w1 a. \<not> as_is_open (env_asio E) fd w1 \<and> sent fd w1 = sent fd w' \<and>
       receiveResponse E f1 w1 = Some (Returned (Inr a), f', w') \<and> ans_code a = 226)"
proof -
  obtain c where c: "on_control c f" "as_is_open (env_asio E) c w" using assms(4) by (rule alive_control)
  have S: "c \<notin> S" "\<And>g. g \<in> S \<Longrightarrow> as_is_open (env_asio E) g w" using assms(6) c(1) by (auto simp: on_control_def)
  from ftp_environment.ftp_write_callback_outcome [OF ftp_environmentI [OF assms(1,2)] assms(7) c assms(3) _ S]
    assms(5) show ?thesis unfolding control_step_def by blast
qed

text \<open>A callback that fetches one piece over socket 2, then reports the end.\<close>

definition fetch :: "script_world write_callback" where
  "fetch w = (if sw_rcvd w 2 = [] then (Returned (Inr [1, 2]), w\<lparr>sw_rcvd := (sw_rcvd w)(2 := [1, 2])\<rparr>)
              else (Returned (Inr []), w))"

lemma fetch_tame: "\<forall>w. tame (env_asio demo_ftp_env) demo_rcvd demo_sent {2} w (snd (fetch w))"
  by (simp add: tame_def same_sockets_def fetch_def script_asio_def)

lemma fetch_run:
  "\<exists>stored w'. ftp_write_callback demo_ftp_env ''/f'' fetch demo_ftp
     (relay_session [pasv_line, ''150 x'', ''226 x''] []) = Some (Returned (Inr stored), demo_ftp, w')"
proof -
  let ?w = "relay_session [pasv_line, ''150 x'', ''226 x''] []"
  let ?w3 = "started ''STOR f'' [''226 x''] ?w" and ?d = "connection 1 ?w"
  let ?w4 = "?w3\<lparr>sw_rcvd := (sw_rcvd ?w3)(2 := [1, 2])\<rparr>"
  have sv: "served [pasv_line, ''150 x'', ''226 x''] [] ?w" by (rule relay_session_served)
  have w: "ready control_socket ?w" "sw_spawn ?w = []" "sw_tx ?w = (\<lambda>_. [])" using sv by (simp_all add: served_def ready_def)
  have rd: "ready s ?w4 = ready s ?w3" for s by (simp add: ready_def)
  have "sw_rcvd ?w3 2 = []"
    by (simp add: started_def went_passive_def connected_def relay_session_def session_def script_start_def)
  then have one: "fetch ?w3 = (Returned (Inr [1, 2]), ?w4)" by (simp add: fetch_def)
  have wr: "sync_writeAll script_asio ?d [1, 2] t ?w4 = Some (Inr 2, said 1 [1, 2] ?w4)" for t
    using scripted_write [of ?d ?w4 "[1, 2]" t] w(2,3) rd [of ?d] by simp
  have two: "fetch (said 1 [1, 2] ?w4) = (Returned (Inr []), said 1 [1, 2] ?w4)" by (simp add: fetch_def)
  have "write_loop script_asio t fetch (Suc (Suc 0)) ?d (said 1 [1, 2] ?w4) = Some (Returned (Inr 2), said 1 [1, 2] ?w4)" for t
    using two by (subst write_loop.simps) simp
  then have "write_loop script_asio t fetch 0 ?d ?w3 = Some (Returned (Inr 2), said 1 [1, 2] ?w4)" for t
    using wr [of "Some t"] by (subst write_loop.simps, simp only: one) simp
  from scripted_write_callback [OF sv this] rd [of control_socket] w(1) show ?thesis by simp
qed

theorem write_callback_stores_file_witness:
  "\<exists>fd stored f' w'. ftp_write_callback demo_ftp_env ''/f'' fetch demo_ftp
       (relay_session [pasv_line, ''150 x'', ''226 x''] []) = Some (Returned (Inr stored), f', w') \<and>
     sw_rcvd w' 2 = sw_sent w' fd \<and> file_size stored = length (sw_rcvd w' 2)"
proof -
  let ?w = "relay_session [pasv_line, ''150 x'', ''226 x''] []"
  obtain stored w' where run: "ftp_write_callback demo_ftp_env ''/f'' fetch demo_ftp ?w = Some (Returned (Inr stored), demo_ftp, w')"
    using fetch_run by blast
  have "fetches demo_rcvd 2 fetch" "sw_rcvd ?w 2 = []"
    by (auto simp: fetches_def fetch_def relay_session_def session_def script_start_def split: if_splits)
  with write_callback_stores_file [OF demo_laws relay_alive(1,2) fetch_tame relay_alive(3) run] run
  show ?thesis by auto
qed

section \<open>Sessions\<close>

text \<open>
  C15: \<open>openFtpConnection\<close> gives a connected client, or leaves nothing behind. It uses one socket, which
  was not open before. On success that is the control connection of the client, open, and what was
  sent over it is exactly the login: USER with the name if there is one, PASS with the password if
  there is one, then the request for the features, whose failure is ignored. After an error or an
  exception exactly the sockets are open that were open before.
\<close>

theorem openFtpConnection_connects_or_cleans:
  assumes "asio_laws (env_asio E) rcvd sent" and "net_laws (env_asio E) (env_net E) rcvd sent"
    and "finite {g. as_is_open (env_asio E) g w}" and "openFtpConnection E host port opts w = Some (r, w')"
  shows "\<exists>c. \<not> as_is_open (env_asio E) c w \<and>
    (\<forall>g. g \<noteq> c \<longrightarrow> rcvd g w' = rcvd g w \<and> sent g w' = sent g w) \<and>
    (case r of
       Returned (Inr f) \<Rightarrow> isAlive E f w' \<and> (\<exists>s. ftp_socket f = Some s \<and> sock_fd s = c) \<and>
         (\<forall>g. as_is_open (env_asio E) g w' = (g = c \<or> as_is_open (env_asio E) g w)) \<and> sent c w' \<in> login_bytes opts
     | Returned (Inl e) \<Rightarrow> \<forall>g. as_is_open (env_asio E) g w' = as_is_open (env_asio E) g w
     | Thrown \<Rightarrow> \<forall>g. as_is_open (env_asio E) g w' = as_is_open (env_asio E) g w
     | Undefined \<Rightarrow> False)"
  using ftp_environment.openFtpConnection_outcome [OF ftp_environmentI [OF assms(1,2)] assms(4,3)]
  by (rule ex_forward) (auto simp: same_sockets_def on_control_def isAlive_def split: outcome.splits sum.splits)

text \<open>A server that greets, knows no features and then serves one file.\<close>

definition quiet_options :: connect_options where
  "quiet_options = default_options\<lparr>opt_username := [], opt_password := []\<rparr>"

definition server_up :: script_world where
  "server_up = (script_start [])\<lparr>sw_open := (\<lambda>_. False), sw_rx := (\<lambda>g. if g = 0 then
     map reply [''220 x'', ''500 x'', pasv_line, ''150 x'', ''226 x''] else [(No_ec, [7, 8, 9], False)])\<rparr>"

lemma server_up_finite: "finite {g. as_is_open (env_asio demo_ftp_env) g server_up}"
  by (simp add: server_up_def script_asio_def)

lemma demo_login:
  "\<exists>w. openFtpConnection demo_ftp_env ''host'' 21 quiet_options server_up = Some (Returned (Inr demo_ftp), w) \<and>
     served [pasv_line, ''150 x'', ''226 x''] [(No_ec, [7, 8, 9], False)] w"
proof -
  let ?f = "new_FtpFileTransfer ''host'' 21"
  have s: "connection 0 server_up = control_socket"
    by (simp add: connection_def control_socket_def server_up_def script_start_def)
  have "free_fd 0 server_up = Some 0" by (simp add: free_fd.simps server_up_def)
  then have cn: "connect_to demo_ftp_env ''host'' 21 t server_up = Some (Inr control_socket, connected 0 server_up)" for t
    using scripted_connect [of server_up 0 "''host''" 21 t] s by (simp add: server_up_def script_start_def)
  let ?ls = "map reply [pasv_line, ''150 x'', ''226 x'']"
  have rx: "sw_rx (connected 0 server_up) 0 = (No_ec, bytes_of_string ''220 x'' @ [13, 10], False) # reply ''500 x'' # ?ls"
    using bytes_of_string_append [of "''220 x''" crlf] by (simp add: server_up_def reply_def bytes_of_crlf)
  let ?w1 = "heard 0 (bytes_of_string ''220 x'' @ [13, 10]) (reply ''500 x'' # ?ls) (connected 0 server_up)"
  have "13 \<notin> set (bytes_of_string ''220 x'')" by code_simp
  then obtain n b where greet: "sync_readUntil script_asio control_socket (replicate 512 0) crlf None (connected 0 server_up) =
      Some (Inr n, control_socket, b, ?w1)"
    using scripted_line [of control_socket "connected 0 server_up" "bytes_of_string ''220 x''" _ "replicate 512 0" None] rx
    by (auto simp: ready_def control_socket_def server_up_def script_start_def)
  have line: "isCompleteFtpResponse (splitLines (''500 x'' @ crlf))"
    "answer_of (''500 x'' @ crlf) = Returned (Inr \<lparr>full_msg = ''500 x'' @ crlf, ans_code = 500\<rparr>)" by code_simp+
  let ?w2 = "heard 0 (bytes_of_string (''500 x'' @ crlf)) ?ls (said 0 (bytes_of_string (''FEAT'' @ crlf)) ?w1)"
  have "sendAndReceiveResponse demo_ftp_env ''FEAT'' demo_ftp ?w1 =
      Some (Returned (Inr \<lparr>full_msg = ''500 x'' @ crlf, ans_code = 500\<rparr>), demo_ftp, ?w2)"
    using scripted_command [of demo_ftp_env demo_ftp control_socket ?w1 "''500 x''" ?ls "''FEAT''"] line
    by (simp add: ready_def control_socket_def server_up_def script_start_def)
  then have "openFtpConnection demo_ftp_env ''host'' 21 quiet_options server_up = Some (Returned (Inr demo_ftp), ?w2)"
    using cn greet
    by (simp add: openFtpConnection_def ftp_connect_def new_FtpFileTransfer_def reset_socket_def quiet_options_def
        login_step_def query_features_def on_ok_def ok_def demo_ftp_def)
  moreover have "served [pasv_line, ''150 x'', ''226 x''] [(No_ec, [7, 8, 9], False)] ?w2"
    by (simp add: served_def ready_def control_socket_def server_up_def script_start_def)
  ultimately show ?thesis by blast
qed

theorem openFtpConnection_connects_or_cleans_witness:
  "\<exists>w'. openFtpConnection demo_ftp_env ''host'' 21 quiet_options server_up = Some (Returned (Inr demo_ftp), w') \<and>
     isAlive demo_ftp_env demo_ftp w' \<and> sw_sent w' 0 \<in> login_bytes quiet_options"
proof -
  obtain w' where run: "openFtpConnection demo_ftp_env ''host'' 21 quiet_options server_up = Some (Returned (Inr demo_ftp), w')"
    using demo_login by blast
  from openFtpConnection_connects_or_cleans [OF demo_laws server_up_finite run] run show ?thesis by auto
qed

text \<open>
  C13: over a whole session, whatever operations are called in whatever order and however they end, the
  client keeps one connection of its own and no other: while it lives, its control connection is open
  beside the sockets that were open before it was created, and once it is destroyed exactly those are
  open. The bytes of the sockets it was not told about are untouched.
\<close>

theorem session_keeps_one_connection:
  assumes "asio_laws (env_asio E) rcvd sent" and "net_laws (env_asio E) (env_net E) rcvd sent"
    and "finite {g. as_is_open (env_asio E) g w0}"
    and "openFtpConnection E host port opts w0 = Some (Returned (Inr f), w1)"
    and "ftp_run E f w1 ops f' w2" and "reset_socket E f' w2 = (f'', w3)"
    and "\<forall>op \<in> set ops. op_tame (env_asio E) rcvd sent S op" and "\<forall>g \<in> S. as_is_open (env_asio E) g w0"
  shows "isAlive E f' w2 \<and>
    (\<exists>c. \<not> as_is_open (env_asio E) c w0 \<and> (\<forall>g. as_is_open (env_asio E) g w2 = (g = c \<or> as_is_open (env_asio E) g w0))) \<and>
    (\<forall>g. as_is_open (env_asio E) g w3 = as_is_open (env_asio E) g w0) \<and>
    (\<forall>g. as_is_open (env_asio E) g w0 \<longrightarrow> g \<notin> S \<longrightarrow> rcvd g w3 = rcvd g w0 \<and> sent g w3 = sent g w0)"
proof -
  have E: "ftp_environment E rcvd sent" using assms(1,2) by (rule ftp_environmentI)
  from ftp_environment.openFtpConnection_outcome [OF E assms(4,3)] obtain c where
    c: "\<not> as_is_open (env_asio E) c w0" "on_control c f" "\<And>g. as_is_open (env_asio E) g w1 = (g = c \<or> as_is_open (env_asio E) g w0)"
    and other: "same_sockets (env_asio E) rcvd sent {c} w0 w1" by auto
  have "{g. as_is_open (env_asio E) g w1} = insert c {g. as_is_open (env_asio E) g w0}" using c(3) by auto
  then have fin: "finite {g. as_is_open (env_asio E) g w1}" using assms(3) by simp
  have S: "c \<notin> S" "\<And>g. g \<in> S \<Longrightarrow> as_is_open (env_asio E) g w1" using assms(8) c by auto
  from ftp_environment.ftp_run_kept [OF E assms(5) c(2) _ fin _ S] c(3) assms(7)
  have run: "on_control c f'" "\<And>g. as_is_open (env_asio E) g w2 = as_is_open (env_asio E) g w1"
    "\<And>g. g \<noteq> c \<Longrightarrow> g \<notin> S \<Longrightarrow> as_is_open (env_asio E) g w1 \<Longrightarrow> rcvd g w2 = rcvd g w1 \<and> sent g w2 = sent g w1" by auto
  note closed = ftp_environment.reset_socket_outcome [OF E assms(6)]
  have "rcvd g w3 = rcvd g w0 \<and> sent g w3 = sent g w0" if g: "as_is_open (env_asio E) g w0" "g \<notin> S" for g
  proof -
    have "g \<noteq> c" using g(1) c(1) by blast
    then show ?thesis using run(3) [of g] g c(3) other closed(2,3) by (simp add: same_sockets_def)
  qed
  moreover have "as_is_open (env_asio E) g w3 = as_is_open (env_asio E) g w0" for g
    using c(1,3) run(2) closed(4) [OF run(1)] by auto
  moreover have "isAlive E f' w2" using run(1,2) c(3) by (auto simp: isAlive_def on_control_def)
  ultimately show ?thesis using c(1,3) run(2) by blast
qed

theorem session_keeps_one_connection_witness:
  "\<exists>f' w1 w2. openFtpConnection demo_ftp_env ''host'' 21 quiet_options server_up = Some (Returned (Inr demo_ftp), w1) \<and>
     ftp_run demo_ftp_env demo_ftp w1 [Read_op ''/f''] f' w2 \<and> isAlive demo_ftp_env f' w2 \<and>
     (\<forall>g. \<not> sw_open (snd (reset_socket demo_ftp_env f' w2)) g)"
proof -
  obtain w1 where con: "openFtpConnection demo_ftp_env ''host'' 21 quiet_options server_up = Some (Returned (Inr demo_ftp), w1)"
    and sv: "served [pasv_line, ''150 x'', ''226 x''] [(No_ec, [7, 8, 9], False)] w1" using demo_login by blast
  obtain w2 where "ftp_read demo_ftp_env ''/f'' demo_ftp w1 = Some (Returned (Inr [7, 8, 9]), demo_ftp, w2)"
    using scripted_read [OF sv] by auto
  then have run: "ftp_run demo_ftp_env demo_ftp w1 [Read_op ''/f''] demo_ftp w2"
    by (auto intro!: ftp_run_Cons ftp_run_Nil simp: ftp_step_simps)
  obtain f3 w3 where rs: "reset_socket demo_ftp_env demo_ftp w2 = (f3, w3)" by (metis prod.exhaust)
  from session_keeps_one_connection [OF demo_laws server_up_finite con run rs, of "{}"]
  have "isAlive demo_ftp_env demo_ftp w2" "\<forall>g. \<not> sw_open w3 g" by (simp_all add: script_asio_def server_up_def)
  with con run rs show ?thesis by (intro exI conjI) auto
qed

section \<open>Termination and failures\<close>



lemma proper_failure: "yields (\<lambda>(r, _). proper_outcome r) x \<Longrightarrow> x = Some (Returned (Inl e), y) \<Longrightarrow> ec_set e"
  by simp

text \<open>
  C31: an operation that fails carries an error code that tests as an error, never the code 0 that would
  read as success: connecting, logging in and all operations of the client, those with a callback if
  the callback keeps to the same rule. Nothing is assumed of the network.
\<close>

theorem failures_carry_error_codes:
  assumes "(\<exists>host port opts w'. openFtpConnection E host port opts w = Some (Returned (Inl e), w')) \<or>
      (\<exists>y. ftp_list E p f w = Some (Returned (Inl e), y)) \<or> (\<exists>y. ftp_read E p f w = Some (Returned (Inl e), y)) \<or>
      (\<exists>y. ftp_write E p bytes f w = Some (Returned (Inl e), y)) \<or> (\<exists>y. ftp_exists E p f w = Some (Returned (Inl e), y)) \<or>
      (\<exists>y. createDir E p f w = Some (Returned (Inl e), y)) \<or> (\<exists>y. ftp_remove E p f w = Some (Returned (Inl e), y)) \<or>
      (\<exists>y. isDirectory E p f w = Some (Returned (Inl e), y)) \<or>
      (\<exists>cb y. (\<forall>bs w. proper_outcome (fst (cb bs w))) \<and> ftp_read_callback E p cb f w = Some (Returned (Inl e), y)) \<or>
      (\<exists>nx y. (\<forall>w. proper_outcome (fst (nx w))) \<and> ftp_write_callback E p nx f w = Some (Returned (Inl e), y))"
  shows "ec_set e"
  using assms
proof (elim disjE exE conjE)
qed (erule proper_failure [rotated], simp add: openFtpConnection_proper ftp_list_proper ftp_read_proper ftp_write_proper
    ftp_exists_proper createDir_proper ftp_remove_proper isDirectory_proper ftp_read_callback_proper ftp_write_callback_proper)+

theorem failures_carry_error_codes_witness:
  "\<exists>e w'. openFtpConnection demo_ftp_env [] 21 quiet_options server_up = Some (Returned (Inl e), w') \<and> ec_set e"
proof -
  have "\<exists>e. connect_to demo_ftp_env [] 21 t server_up = Some (Inl e, server_up)" for t
    by (simp add: connect_to_def Client_connect_def spawn_and_get_def script_asio_def script_spawn_def server_up_def
        Client_asyncConnect_def open_connection_def script_net_def new_Client_def script_start_def)
  then obtain e where "connect_to demo_ftp_env [] 21 (opt_timeout quiet_options) server_up = Some (Inl e, server_up)" by blast
  then have run: "openFtpConnection demo_ftp_env [] 21 quiet_options server_up = Some (Returned (Inl e), server_up)"
    by (simp add: openFtpConnection_def ftp_connect_def new_FtpFileTransfer_def reset_socket_def fails_def)
  then have "\<exists>host port opts w'. openFtpConnection demo_ftp_env host port opts server_up = Some (Returned (Inl e), w')" by blast
  from failures_carry_error_codes [OF disjI1 [OF this]] run show ?thesis by blast
qed

end
