(* ===== verification/Server.thy ===== *)
theory Server
  imports Client "HOL-Library.Multiset"
begin

text \<open>
  The accepting side: \<^verbatim>\<open>src/server/Server.cpp\<close> and \<^verbatim>\<open>ServerBase.cpp\<close>. \<open>asyncListen\<close> is a coroutine that
  runs among others: the coroutines it spawns for accepted connections, the handler calls these spawn
  in turn, and other threads that call \<open>stop\<close>. It is modelled as a transition system whose state is
  the point the coroutine has reached, the spawned coroutines that have not run yet, and the sockets
  handed to the client handler; each transition is one uninterrupted piece of code between two
  suspension points. A TLS handshake is one transition too: while it is suspended its coroutine shares
  only the world with the others, and the laws on the handshake say that it changes no other socket. The acceptor is part of asio; its operations are the record \<open>acceptor\<close>.
\<close>

section \<open>The server object\<close>

record server =
  srv_host :: string
  srv_port :: uint16
  stop_requested :: bool

definition new_Server :: "uint16 \<Rightarrow> server" where
  "new_Server port = \<lparr>srv_host = ''0.0.0.0'', srv_port = port, stop_requested = False\<rparr>"

definition isStopped :: "server \<Rightarrow> bool" where
  "isStopped srv = stop_requested srv"

text \<open>
  \<^item> \<open>acc_open\<close>, \<open>acc_reuse\<close>, \<open>acc_bind\<close>, \<open>acc_listen\<close>: the members of these names with their error code.
  \<^item> \<open>acc_is_open\<close>: whether the acceptor is open. \<open>acc_cancel\<close>: the effect of \<^verbatim>\<open>cancel\<close>, which reports
    \<open>bad_descriptor\<close> when it is not open, by an exception in the overload without an error code.
  \<^item> \<open>acc_close\<close>: \<^verbatim>\<open>close\<close>.
\<close>

record 'w acceptor =
  acc_open :: "'w \<Rightarrow> error_code \<times> 'w"
  acc_reuse :: "bool \<Rightarrow> 'w \<Rightarrow> error_code \<times> 'w"
  acc_bind :: "uint16 \<Rightarrow> 'w \<Rightarrow> error_code \<times> 'w"
  acc_listen :: "'w \<Rightarrow> error_code \<times> 'w"
  acc_is_open :: "'w \<Rightarrow> bool"
  acc_cancel :: "'w \<Rightarrow> 'w"
  acc_close :: "'w \<Rightarrow> 'w"

definition ServerBase_stop :: "'w acceptor \<Rightarrow> server \<Rightarrow> 'w \<Rightarrow> server \<times> 'w" where
  "ServerBase_stop R srv w = (srv\<lparr>stop_requested := True\<rparr>, if acc_is_open R w then acc_cancel R w else w)"

definition Server_stop :: "'w acceptor \<Rightarrow> server \<Rightarrow> 'w \<Rightarrow> unit outcome \<times> server \<times> 'w" where
  "Server_stop R srv w =
     (case ServerBase_stop R srv w of (srv1, w1) \<Rightarrow>
        if \<not> acc_is_open R w1 then (Thrown, srv1, w1)
        else (Returned (), srv1, acc_close R (acc_cancel R w1)))"

section \<open>Listening\<close>

text \<open>The opening of the acceptor; the first failing call ends the coroutine.\<close>

definition setup_acceptor :: "'w acceptor \<Rightarrow> bool \<Rightarrow> server \<Rightarrow> 'w \<Rightarrow> unit expected \<times> 'w" where
  "setup_acceptor R reuse srv w =
     (case acc_open R w of (ec, w1) \<Rightarrow>
        if ec_set ec then (Inl (makeSocketCreateError ec), w1)
        else (case acc_reuse R reuse w1 of (ec, w2) \<Rightarrow>
          if ec_set ec then (Inl (makeSocketCreateError ec), w2)
          else (case acc_bind R (srv_port srv) w2 of (ec, w3) \<Rightarrow>
            if ec_set ec then (Inl (makeSocketCreateError ec), w3)
            else (case acc_listen R w3 of (ec, w4) \<Rightarrow>
              if ec_set ec then (Inl (makeSocketCreateError ec), w4) else (Inr (), w4)))))"

datatype listen_mode = Plain_Mode | Tls_Mode tls_options

text \<open>
  Where the coroutine is: not started, at the loop condition, suspended in \<^verbatim>\<open>async_accept\<close>, or finished
  with its result. \<open>accepting\<close> and \<open>handling\<close> are the native sockets of the spawned \<open>acceptPlainSocket\<close>
  or \<open>acceptTlsSocket\<close> coroutines and of the spawned handler coroutines that have not run yet; \<open>handed\<close>
  the sockets passed to the handler, latest last. \<open>dangling\<close> records that a coroutine has used a
  reference to a local variable of \<open>asyncListenTls\<close> after that had finished.
\<close>

datatype listen_phase = Not_Started | At_Check | In_Accept | Finished "unit expected"

record 'w listener =
  lis_server :: server
  lis_phase :: listen_phase
  tls_context_of :: "tls_context option"
  accepting :: "nat list"
  handling :: "nat list"
  handed :: "dual_socket list"
  dangling :: bool
  lis_world :: 'w

definition new_listener :: "server \<Rightarrow> 'w \<Rightarrow> 'w listener" where
  "new_listener srv w =
     \<lparr>lis_server = srv, lis_phase = Not_Started, tls_context_of = None, accepting = [], handling = [], handed = [],
      dangling = False, lis_world = w\<rparr>"

text \<open>From the call to the loop. \<open>asyncListenTls\<close> sets \<open>reuse_address\<close> to true whatever the options say.\<close>

definition asyncListen_begin :: "'w acceptor \<Rightarrow> tcp_options \<Rightarrow> 'w listener \<Rightarrow> 'w listener" where
  "asyncListen_begin R tcp_opts l =
     (case setup_acceptor R (reuse_addr tcp_opts) (lis_server l) (lis_world l) of
        (Inl e, w) \<Rightarrow> l\<lparr>lis_phase := Finished (Inl e), lis_world := w\<rparr>
      | (Inr _, w) \<Rightarrow> l\<lparr>lis_phase := At_Check, lis_world := w\<rparr>)"

definition asyncListenTls_begin ::
  "'w acceptor \<Rightarrow> 'w net \<Rightarrow> tls_server_options \<Rightarrow> tls_options \<Rightarrow> 'w listener \<Rightarrow> 'w listener" where
  "asyncListenTls_begin R N server_opts tls_opts l =
     (case setup_acceptor R True (lis_server l) (lis_world l) of
        (Inl e, w) \<Rightarrow> l\<lparr>lis_phase := Finished (Inl e), lis_world := w\<rparr>
      | (Inr _, w) \<Rightarrow>
          (case createTlsContextWrapper N tls_opts (Some server_opts) w of
             Inl e \<Rightarrow> l\<lparr>lis_phase := Finished (Inl e), lis_world := w\<rparr>
           | Inr ctx \<Rightarrow> l\<lparr>lis_phase := At_Check, tls_context_of := Some ctx, lis_world := w\<rparr>))"

text \<open>\<open>while (!isStopped())\<close>\<close>

definition check_stopped :: "'w listener \<Rightarrow> 'w listener" where
  "check_stopped l =
     (if isStopped (lis_server l) then l\<lparr>lis_phase := Finished (Inr ())\<rparr> else l\<lparr>lis_phase := In_Accept\<rparr>)"

text \<open>The two option functions, which \<^verbatim>\<open>Server.cpp\<close> repeats word for word from \<^verbatim>\<open>Client.cpp\<close>.\<close>

definition Server_applyPreConnectTcpOptions :: "'w net \<Rightarrow> nat \<Rightarrow> tcp_options \<Rightarrow> 'w \<Rightarrow> error_code \<times> 'w" where
  "Server_applyPreConnectTcpOptions N fd opts w = applyPreConnectTcpOptions N fd opts w"

definition Server_applyPreConnectTlsOptions ::
  "'w net \<Rightarrow> tls_options \<Rightarrow> ssl_stream \<Rightarrow> error_code \<times> ssl_stream" where
  "Server_applyPreConnectTlsOptions N opts st = applyPreConnectTlsOptions N opts st"

text \<open>
  The completion of \<^verbatim>\<open>async_accept\<close> up to the next test of the loop condition. A failed accept leaves
  no native socket; one whose options cannot be set is closed by the destructor.
\<close>

definition accept_completed ::
  "'w asio \<Rightarrow> 'w net \<Rightarrow> tcp_options \<Rightarrow> error_code \<Rightarrow> nat \<Rightarrow> 'w listener \<Rightarrow> 'w listener" where
  "accept_completed A N tcp_opts ec fd l =
     (if ec = Asio_ec Operation_aborted \<or> ec = Asio_ec Bad_descriptor then l\<lparr>lis_phase := Finished (Inr ())\<rparr>
      else if ec_set ec then l\<lparr>lis_phase := Finished (Inl (makeServerError ec ''accept''))\<rparr>
      else
        (case Server_applyPreConnectTcpOptions N fd tcp_opts (lis_world l) of (opts_ec, w1) \<Rightarrow>
           if ec_set opts_ec then l\<lparr>lis_phase := Finished (Inl opts_ec), lis_world := as_close A fd w1\<rparr>
           else l\<lparr>lis_phase := At_Check, accepting := accepting l @ [fd], lis_world := w1\<rparr>))"

section \<open>Accepted connections\<close>

definition acceptPlainSocket :: "nat \<Rightarrow> 'w listener \<Rightarrow> 'w listener" where
  "acceptPlainSocket fd l = l\<lparr>accepting := remove1 fd (accepting l), handling := handling l @ [fd]\<rparr>"

text \<open>
  \<open>acceptTlsSocket\<close> takes the context and the options by reference to locals of \<open>asyncListenTls\<close>. A
  failure closes the connection without a trace.
\<close>

definition acceptTlsSocket ::
  "'w asio \<Rightarrow> 'w net \<Rightarrow> tls_options \<Rightarrow> nat \<Rightarrow> 'w listener \<Rightarrow> 'w listener" where
  "acceptTlsSocket A N tls_opts fd l =
     (let l1 = l\<lparr>accepting := remove1 fd (accepting l)\<rparr> in
      case (lis_phase l, tls_context_of l) of
        (Finished _, _) \<Rightarrow> l1\<lparr>dangling := True\<rparr>
      | (_, None) \<Rightarrow> l1\<lparr>dangling := True\<rparr>
      | (_, Some ctx) \<Rightarrow>
          (case Server_applyPreConnectTlsOptions N tls_opts (new_ssl_stream fd ctx) of (tls_ec, st) \<Rightarrow>
             if ec_set tls_ec then l1\<lparr>lis_world := as_close A fd (lis_world l)\<rparr>
             else
               (case tls_handshake A N True st tls_opts (lis_world l) of (hs_ec, w1) \<Rightarrow>
                  if ec_set hs_ec then l1\<lparr>lis_world := as_close A fd w1\<rparr>
                  else l1\<lparr>handling := handling l @ [fd], lis_world := w1\<rparr>)))"

text \<open>The handler coroutine: a socket object of the right class for the client handler.\<close>

definition run_handler :: "'w net \<Rightarrow> listen_mode \<Rightarrow> nat \<Rightarrow> 'w listener \<Rightarrow> 'w listener" where
  "run_handler N mode fd l =
     (case make_socket N (case mode of Plain_Mode \<Rightarrow> Tcp_Socket | Tls_Mode _ \<Rightarrow> Tls_Socket) fd (lis_world l) of
        (s, w1) \<Rightarrow> l\<lparr>handling := remove1 fd (handling l), handed := handed l @ [s], lis_world := w1\<rparr>)"

text \<open>A call of \<open>stop\<close> on another thread.\<close>

definition stop_called :: "'w acceptor \<Rightarrow> 'w listener \<Rightarrow> 'w listener" where
  "stop_called R l =
     (case Server_stop R (lis_server l) (lis_world l) of (_, srv1, w1) \<Rightarrow> l\<lparr>lis_server := srv1, lis_world := w1\<rparr>)"

text \<open>
  What \<open>listen\<close> and \<open>listenTls\<close> return, once they do: the result in the future of the spawned coroutine,
  \<open>asyncListen\<close> or \<open>asyncListenTls\<close>; a future that throws is reported as a cancelled read.
\<close>

definition Server_listen :: "spawn_outcome \<Rightarrow> 'w listener \<Rightarrow> unit expected option" where
  "Server_listen spawned l =
     (case spawned of
        Spawn_runs \<Rightarrow> (case lis_phase l of Finished r \<Rightarrow> Some r | _ \<Rightarrow> None)
      | Spawn_dropped \<Rightarrow> Some (Inl (makeReadError (Generic_ec Operation_canceled)))
      | Spawn_blocks \<Rightarrow> None)"

definition Server_listenTls :: "spawn_outcome \<Rightarrow> 'w listener \<Rightarrow> unit expected option" where
  "Server_listenTls spawned l =
     (case spawned of
        Spawn_runs \<Rightarrow> (case lis_phase l of Finished r \<Rightarrow> Some r | _ \<Rightarrow> None)
      | Spawn_dropped \<Rightarrow> Some (Inl (makeReadError (Generic_ec Operation_canceled)))
      | Spawn_blocks \<Rightarrow> None)"

section \<open>Runs\<close>

datatype event =
    Checked | Accepted error_code nat | Accept_run nat | Handler_run nat | Stop_called

inductive listen_step ::
  "'w asio \<Rightarrow> 'w net \<Rightarrow> 'w acceptor \<Rightarrow> tcp_options \<Rightarrow> listen_mode \<Rightarrow> 'w listener \<Rightarrow> event \<Rightarrow> 'w listener \<Rightarrow> bool"
  for A :: "'w asio" and N :: "'w net" and R :: "'w acceptor" and opts :: tcp_options and mode :: listen_mode where
  check: "lis_phase l = At_Check \<Longrightarrow> listen_step A N R opts mode l Checked (check_stopped l)"
| accept: "lis_phase l = In_Accept \<Longrightarrow>
    listen_step A N R opts mode l (Accepted ec fd) (accept_completed A N opts ec fd l)"
| accept_plain: "mode = Plain_Mode \<Longrightarrow> fd \<in> set (accepting l) \<Longrightarrow>
    listen_step A N R opts mode l (Accept_run fd) (acceptPlainSocket fd l)"
| accept_tls: "mode = Tls_Mode tls_opts \<Longrightarrow> fd \<in> set (accepting l) \<Longrightarrow>
    listen_step A N R opts mode l (Accept_run fd) (acceptTlsSocket A N tls_opts fd l)"
| handler: "fd \<in> set (handling l) \<Longrightarrow> listen_step A N R opts mode l (Handler_run fd) (run_handler N mode fd l)"
| stop: "listen_step A N R opts mode l Stop_called (stop_called R l)"

inductive_cases listen_stepE: "listen_step A N R opts mode l ev l'"

inductive listen_run ::
  "'w asio \<Rightarrow> 'w net \<Rightarrow> 'w acceptor \<Rightarrow> tcp_options \<Rightarrow> listen_mode \<Rightarrow> 'w listener \<Rightarrow> event list \<Rightarrow> 'w listener \<Rightarrow> bool"
  for A :: "'w asio" and N :: "'w net" and R :: "'w acceptor" and opts :: tcp_options and mode :: listen_mode where
  stay: "listen_run A N R opts mode l [] l"
| more: "listen_step A N R opts mode l ev l1 \<Longrightarrow> listen_run A N R opts mode l1 evs l2 \<Longrightarrow>
    listen_run A N R opts mode l (ev # evs) l2"

inductive_cases listen_run_NilE [elim!]: "listen_run A N R opts mode l [] l'"
inductive_cases listen_run_ConsE: "listen_run A N R opts mode l (ev # evs) l'"

section \<open>Lemmas\<close>

text \<open>The connections a listener has in its hands, and the ones an event sequence accepts.\<close>

definition connections :: "'w listener \<Rightarrow> nat multiset" where
  "connections l = mset (accepting l) + mset (handling l) + mset (map sock_fd (handed l))"

fun accepted_fds :: "event list \<Rightarrow> nat list" where
  "accepted_fds [] = []"
| "accepted_fds (Accepted ec fd # evs) = (if ec_set ec then accepted_fds evs else fd # accepted_fds evs)"
| "accepted_fds (_ # evs) = accepted_fds evs"

fun loop_event :: "event \<Rightarrow> bool" where
  "loop_event Checked = True"
| "loop_event (Accepted _ _) = True"
| "loop_event _ = False"

lemmas listen_defs =
  check_stopped_def accept_completed_def acceptPlainSocket_def acceptTlsSocket_def run_handler_def stop_called_def
  Server_stop_def ServerBase_stop_def isStopped_def make_socket_def new_socket_def Let_def

text \<open>What every step keeps: a finished coroutine stays finished, a requested stop stays requested.\<close>

lemma step_monotone:
  assumes "listen_step A N R opts mode l ev l'"
  shows "lis_phase l = Finished r \<Longrightarrow> lis_phase l' = Finished r"
    "stop_requested (lis_server l) \<Longrightarrow> stop_requested (lis_server l')"
  using assms
  by (cases; auto simp: listen_defs split: prod.splits listen_phase.splits option.splits if_splits)+

lemma run_monotone:
  assumes "listen_run A N R opts mode l evs l'"
  shows "lis_phase l = Finished r \<Longrightarrow> lis_phase l' = Finished r"
    "stop_requested (lis_server l) \<Longrightarrow> stop_requested (lis_server l')"
  using assms by (induction rule: listen_run.induct) (auto dest: step_monotone)

lemma step_connections:
  assumes "listen_step A N R opts mode l ev l'"
  shows "connections l' \<subseteq># connections l + mset (accepted_fds [ev])"
    "mode = Plain_Mode \<Longrightarrow> (\<And>e. lis_phase l' \<noteq> Finished (Inl e)) \<Longrightarrow>
     connections l' = connections l + mset (accepted_fds [ev])"
proof -
  have "connections l' \<subseteq># connections l + mset (accepted_fds [ev]) \<and>
      (mode = Plain_Mode \<longrightarrow> (\<forall>e. lis_phase l' \<noteq> Finished (Inl e)) \<longrightarrow>
       connections l' = connections l + mset (accepted_fds [ev]))"
    using assms
  proof cases
    case (accept ec fd)
    then show ?thesis by (auto simp: listen_defs connections_def split: prod.splits)
  next
    case (accept_plain fd)
    then show ?thesis by (auto simp: listen_defs connections_def)
  next
    case (accept_tls topts fd)
    have "mset (accepting l) = add_mset fd (mset (remove1 fd (accepting l)))"
      using accept_tls by simp
    then show ?thesis using accept_tls
      by (auto simp: listen_defs connections_def split: prod.splits listen_phase.splits option.splits)
  next
    case (handler fd)
    then show ?thesis by (auto simp: listen_defs connections_def split: prod.splits)
  qed (auto simp: listen_defs connections_def split: prod.splits)
  then show "connections l' \<subseteq># connections l + mset (accepted_fds [ev])"
    "mode = Plain_Mode \<Longrightarrow> (\<And>e. lis_phase l' \<noteq> Finished (Inl e)) \<Longrightarrow>
     connections l' = connections l + mset (accepted_fds [ev])" by blast+
qed

lemma accepted_fds_Cons: "accepted_fds (ev # evs) = accepted_fds [ev] @ accepted_fds evs"
  by (cases ev) auto

lemma run_connections:
  assumes "listen_run A N R opts mode l evs l'"
  shows "connections l' \<subseteq># connections l + mset (accepted_fds evs)"
    "mode = Plain_Mode \<Longrightarrow> (\<And>e. lis_phase l' \<noteq> Finished (Inl e)) \<Longrightarrow>
     connections l' = connections l + mset (accepted_fds evs)"
  using assms
proof (induction rule: listen_run.induct)
  case (more l ev l1 evs l2)
  note ac = accepted_fds_Cons [of ev evs]
  { case 1
    have "connections l2 \<subseteq># connections l1 + mset (accepted_fds evs)" by (rule more.IH(1))
    also have "\<dots> \<subseteq># connections l + mset (accepted_fds [ev]) + mset (accepted_fds evs)"
      using step_connections(1) [OF more.hyps(1)] by simp
    finally show ?case by (simp add: ac ac_simps)
  next
    case 2
    have "lis_phase l1 \<noteq> Finished (Inl e)" for e
      using run_monotone(1) [OF more.hyps(2)] 2(2) by blast
    from step_connections(2) [OF more.hyps(1) 2(1) this] more.IH(2) [OF 2] show ?case
      by (simp add: ac)
  }
qed simp_all

text \<open>After a stop request the loop has at most two events left.\<close>

definition remaining_loop_events :: "listen_phase \<Rightarrow> nat" where
  "remaining_loop_events p = (case p of In_Accept \<Rightarrow> 2 | At_Check \<Rightarrow> 1 | _ \<Rightarrow> 0)"

lemma step_remaining:
  assumes "listen_step A N R opts mode l ev l'" "stop_requested (lis_server l)"
  shows "remaining_loop_events (lis_phase l') + (if loop_event ev then 1 else 0) \<le> remaining_loop_events (lis_phase l)"
  using assms
  by cases (auto simp: listen_defs remaining_loop_events_def split: prod.splits listen_phase.splits option.splits)

lemma run_remaining:
  assumes "listen_run A N R opts mode l evs l'" "stop_requested (lis_server l)"
  shows "remaining_loop_events (lis_phase l') + length (filter loop_event evs) \<le> remaining_loop_events (lis_phase l)"
  using assms
proof (induction rule: listen_run.induct)
  case (more l ev l1 evs l2)
  from step_remaining [OF more.hyps(1) more.prems] more.IH [OF step_monotone(2) [OF more.hyps(1) more.prems]]
  show ?case by (simp split: if_splits)
qed simp

lemma step_phase:
  assumes "listen_step A N R opts mode l ev l1" "lis_phase l = At_Check \<or> lis_phase l = In_Accept"
  shows "lis_phase l1 = At_Check \<or> lis_phase l1 = In_Accept \<or> (\<exists>r. lis_phase l1 = Finished r)"
  using assms
  by cases (auto simp: listen_defs split: prod.splits if_splits listen_phase.splits option.splits)

lemma step_finishes:
  assumes "listen_step A N R opts mode l ev l1" "lis_phase l = At_Check \<or> lis_phase l = In_Accept"
    and "lis_phase l1 = Finished r"
  shows "r = Inr () \<and> (stop_requested (lis_server l) \<or>
       (\<exists>fd. ev = Accepted (Asio_ec Operation_aborted) fd \<or> ev = Accepted (Asio_ec Bad_descriptor) fd)) \<or>
    r = Inl (make_error_code SERVER_ACCEPT_FAILED) \<or> r = Inl (make_error_code OPTION_ERROR)"
  using assms
proof cases
  case (accept ec fd)
  obtain oec w1 where o: "set_options N fd (wanted_options opts) (lis_world l) = (oec, w1)" by (metis prod.exhaust)
  have "oec = make_error_code OPTION_ERROR" if "ec_set oec" using set_options_prefix [OF o] that by auto
  with accept o assms(3) show ?thesis
    by (auto simp: listen_defs makeServerError_def Server_applyPreConnectTcpOptions_def applyPreConnectTcpOptions_def
        split: if_splits)
qed (auto simp: listen_defs split: prod.splits if_splits listen_phase.splits option.splits)

section \<open>Properties\<close>

definition script_acceptor :: "script_world acceptor" where
  "script_acceptor =
     \<lparr>acc_open = (\<lambda>w. (No_ec, w\<lparr>sw_open := (sw_open w)(99 := True)\<rparr>)), acc_reuse = (\<lambda>b w. (No_ec, w)),
      acc_bind = (\<lambda>p w. (if p = 80 then Asio_ec Already_open else No_ec, w)), acc_listen = (\<lambda>w. (No_ec, w)),
      acc_is_open = (\<lambda>w. sw_open w 99), acc_cancel = (\<lambda>w. w),
      acc_close = (\<lambda>w. w\<lparr>sw_open := (sw_open w)(99 := False)\<rparr>)\<rparr>"

definition demo_listener :: "script_world listener" where
  "demo_listener = asyncListen_begin script_acceptor default_tcp_options (new_listener (new_Server 8080) quiet_world)"

lemma demo_listener_simps [simp]:
  "lis_phase demo_listener = At_Check" "accepting demo_listener = []" "handling demo_listener = []"
  "handed demo_listener = []" "stop_requested (lis_server demo_listener) = False"
  by (simp_all add: demo_listener_def asyncListen_begin_def setup_acceptor_def script_acceptor_def new_listener_def
      new_Server_def)

lemma script_options [simp]: "applyPreConnectTcpOptions script_net fd default_tcp_options w = (No_ec, w)"
  by (simp add: applyPreConnectTcpOptions_def wanted_options_def default_tcp_options_def script_net_def)

text \<open>One connection is accepted and handed on, then the server is stopped while it waits for the next.\<close>

definition demo_events :: "event list" where
  "demo_events = [Checked, Accepted No_ec 5, Checked, Accept_run 5, Stop_called, Handler_run 5,
                  Accepted (Asio_ec Operation_aborted) 0]"

lemma demo_run:
  "\<exists>l'. listen_run script_asio script_net script_acceptor default_tcp_options Plain_Mode demo_listener demo_events l' \<and>
     lis_phase l' = Finished (Inr ()) \<and> map sock_fd (handed l') = [5]"
  unfolding demo_events_def
  by (intro exI conjI, (rule listen_run.more, (rule listen_step.intros; simp add: listen_defs script_acceptor_def
        Server_applyPreConnectTcpOptions_def))+, rule listen_run.stay)
    (simp_all add: listen_defs script_acceptor_def Server_applyPreConnectTcpOptions_def split: prod.splits)

text \<open>
  C9: connections are accounted for: every connection an accepting coroutine, a handler coroutine or
  the client handler holds was accepted, and none is held twice; so the handler gets each connection
  at most once. A plain server that has not failed has lost none of them.
\<close>

theorem connections_accounted:
  assumes "listen_run A N R opts mode l evs l'" and "connections l = {#}"
  shows "connections l' \<subseteq># mset (accepted_fds evs) \<and>
    (mode = Plain_Mode \<and> (\<forall>e. lis_phase l' \<noteq> Finished (Inl e)) \<longrightarrow> connections l' = mset (accepted_fds evs)) \<and>
    (distinct (accepted_fds evs) \<longrightarrow>
       distinct (accepting l' @ handling l' @ map sock_fd (handed l')))"
proof (intro conjI impI)
  show sub: "connections l' \<subseteq># mset (accepted_fds evs)" using run_connections(1) [OF assms(1)] assms(2) by simp
  show "connections l' = mset (accepted_fds evs)" if "mode = Plain_Mode \<and> (\<forall>e. lis_phase l' \<noteq> Finished (Inl e))"
    using run_connections(2) [OF assms(1)] assms(2) that by simp
  assume d: "distinct (accepted_fds evs)"
  let ?xs = "accepting l' @ handling l' @ map sock_fd (handed l')"
  have "mset ?xs \<subseteq># mset (accepted_fds evs)" using sub by (simp add: connections_def ac_simps)
  then have "count (mset ?xs) x \<le> 1" for x
    using d mset_subset_eq_count [of "mset ?xs" "mset (accepted_fds evs)" x] distinct_count_atmost_1 [of "accepted_fds evs"]
    by (metis (full_types) le_trans nat_le_linear not_one_le_zero count_mset_0_iff)
  then show "distinct ?xs" by (metis distinct_count_atmost_1 count_mset_0_iff le_less less_one)
qed

theorem connections_accounted_witness:
  "\<exists>l'. listen_run script_asio script_net script_acceptor default_tcp_options Plain_Mode demo_listener demo_events l' \<and>
     connections l' = {#5#}"
proof -
  obtain l' where run: "listen_run script_asio script_net script_acceptor default_tcp_options Plain_Mode
      demo_listener demo_events l'" "lis_phase l' = Finished (Inr ())" using demo_run by blast
  have "connections demo_listener = {#}" by (simp add: connections_def)
  from connections_accounted [OF run(1) this] run show ?thesis by (auto simp: demo_events_def)
qed



lemma run_finishes:
  assumes "listen_run A N R opts mode l evs l'" and "lis_phase l = At_Check \<or> lis_phase l = In_Accept"
    and "lis_phase l' = Finished r"
  shows "r = Inr () \<and>
      (stop_requested (lis_server l) \<or> Stop_called \<in> set evs \<or>
       (\<exists>fd. Accepted (Asio_ec Operation_aborted) fd \<in> set evs \<or> Accepted (Asio_ec Bad_descriptor) fd \<in> set evs)) \<or>
    r = Inl (make_error_code SERVER_ACCEPT_FAILED) \<or> r = Inl (make_error_code OPTION_ERROR)"
  using assms
proof (induction rule: listen_run.induct)
  case (more l ev l1 evs l2)
  show ?case
  proof (cases "\<exists>q. lis_phase l1 = Finished q")
    case True
    then obtain q where q: "lis_phase l1 = Finished q" by blast
    with run_monotone(1) [OF more.hyps(2) q] more.prems(2) have "q = r" by simp
    with step_finishes [OF more.hyps(1) more.prems(1)] q show ?thesis by auto
  next
    case False
    with step_phase [OF more.hyps(1) more.prems(1)] have ph: "lis_phase l1 = At_Check \<or> lis_phase l1 = In_Accept"
      by blast
    have "stop_requested (lis_server l1) \<longrightarrow> stop_requested (lis_server l) \<or> ev = Stop_called"
      using more.hyps(1)
      by cases (auto simp: listen_defs split: prod.splits if_splits listen_phase.splits option.splits)
    with more.IH [OF ph more.prems(2)] show ?thesis by auto
  qed
qed auto



text \<open>
  \<open>stop\<close> may be called once, on a listening server: on an acceptor that is not open it leaves by an
  exception, although the stop request is recorded. So a second \<open>stop\<close>, or one before \<open>listen\<close>, throws.
\<close>

theorem second_stop_throws:
  assumes "\<And>w. \<not> acc_is_open R (acc_close R w)" and "\<And>w. acc_is_open R (acc_cancel R w) = acc_is_open R w"
  shows "(acc_is_open R w \<longrightarrow> fst (Server_stop R srv w) = Returned ()) \<and>
    (case Server_stop R srv w of (_, srv1, w1) \<Rightarrow>
       stop_requested srv1 \<and> fst (Server_stop R srv1 w1) = Thrown)"
  using assms by (auto simp: Server_stop_def ServerBase_stop_def split: prod.split)

theorem second_stop_throws_witness:
  "fst (Server_stop script_acceptor (new_Server 8080) quiet_world) = Thrown"
proof -
  have "fst (Server_stop script_acceptor srv1 w1) = Thrown"
    if "Server_stop script_acceptor (new_Server 8080) quiet_world = (x, srv1, w1)" for x srv1 w1
    using second_stop_throws [of script_acceptor quiet_world "new_Server 8080"] that
    by (simp add: script_acceptor_def)
  moreover have "Server_stop script_acceptor (new_Server 8080) quiet_world =
      (Thrown, (new_Server 8080)\<lparr>stop_requested := True\<rparr>, quiet_world)"
    by (simp add: Server_stop_def ServerBase_stop_def script_acceptor_def quiet_world_def)
  ultimately show ?thesis by simp
qed



end
