(* ===== verification/Core_Lifetime.thy ===== *)
theory Core_Lifetime
  imports Prelude "HOL-Library.Multiset"
begin

text \<open>
  Ownership in the two wrappers of \<^verbatim>\<open>core/\<close>. \<^verbatim>\<open>IoContextWrapper\<close> (\<^verbatim>\<open>src/core/Context.cpp\<close>) is a shared pointer
  to a thread pool and a once flag; it is copied into every client, server and FTP object.
  \<^verbatim>\<open>TlsContextWrapper\<close> (\<^verbatim>\<open>src/core/TlsContextWrapper.cpp\<close>) is a shared pointer to the asio context, whose
  \<open>shutdown\<close> also calls OpenSSL directly. The thread pool and OpenSSL are not part of the repository:
  of the pool the calls made on it are recorded, of OpenSSL the functions called are parameters.
\<close>

section \<open>The wrapper of the thread pool\<close>

text \<open>
  The objects behind the shared pointers are a list, addressed by position and never removed;
  \<open>use_count\<close> is that of the shared pointer and \<open>pool_calls\<close> what was called on the pool. A wrapper is an
  address, or \<open>None\<close> once it has been moved from; \<open>wrappers\<close> are those that are alive.
\<close>

datatype pool_call = Pool_stop | Pool_join | Pool_destroy

record io_private =
  pool_threads :: uint32
  shutdown_once :: bool
  use_count :: nat
  pool_calls :: "pool_call list"

record io_state =
  privates :: "io_private list"
  wrappers :: "nat option list"

definition new_IoContextWrapper :: "uint32 \<Rightarrow> io_state \<Rightarrow> io_state" where
  "new_IoContextWrapper thread_count st =
     st\<lparr>privates := privates st @ [\<lparr>pool_threads = thread_count, shutdown_once = False, use_count = 1, pool_calls = []\<rparr>],
        wrappers := wrappers st @ [Some (length (privates st))]\<rparr>"

definition at_private :: "nat option \<Rightarrow> (io_private \<Rightarrow> io_private) \<Rightarrow> io_private list \<Rightarrow> io_private list" where
  "at_private p f ps = (case p of None \<Rightarrow> ps | Some a \<Rightarrow> ps[a := f (ps ! a)])"

text \<open>The defaulted copy and move constructors, and the destructor with that of the pool for the last owner.\<close>

definition copy_IoContextWrapper :: "nat \<Rightarrow> io_state \<Rightarrow> io_state" where
  "copy_IoContextWrapper i st =
     st\<lparr>privates := at_private (wrappers st ! i) (\<lambda>p. p\<lparr>use_count := use_count p + 1\<rparr>) (privates st),
        wrappers := wrappers st @ [wrappers st ! i]\<rparr>"

definition move_IoContextWrapper :: "nat \<Rightarrow> io_state \<Rightarrow> io_state" where
  "move_IoContextWrapper i st = st\<lparr>wrappers := (wrappers st)[i := None] @ [wrappers st ! i]\<rparr>"

definition release :: "io_private \<Rightarrow> io_private" where
  "release p =
     (let p1 = p\<lparr>use_count := use_count p - 1\<rparr> in
      if use_count p1 = 0 then p1\<lparr>pool_calls := pool_calls p1 @ [Pool_destroy]\<rparr> else p1)"

definition destroy_IoContextWrapper :: "nat \<Rightarrow> io_state \<Rightarrow> io_state" where
  "destroy_IoContextWrapper i st =
     st\<lparr>privates := at_private (wrappers st ! i) release (privates st),
        wrappers := take i (wrappers st) @ drop (Suc i) (wrappers st)\<rparr>"

text \<open>
  The defaulted assignments: those of \<^verbatim>\<open>std::shared_ptr\<close>, which copy or move the right-hand side to a
  temporary, swap the temporary with the left-hand side and destroy it.
\<close>

definition swap_wrappers :: "nat \<Rightarrow> nat \<Rightarrow> io_state \<Rightarrow> io_state" where
  "swap_wrappers i j st = st\<lparr>wrappers := (wrappers st)[j := wrappers st ! i, i := wrappers st ! j]\<rparr>"

definition copy_assign_IoContextWrapper :: "nat \<Rightarrow> nat \<Rightarrow> io_state \<Rightarrow> io_state" where
  "copy_assign_IoContextWrapper j i st =
     (let temp = length (wrappers st)
      in destroy_IoContextWrapper temp (swap_wrappers temp j (copy_IoContextWrapper i st)))"

definition move_assign_IoContextWrapper :: "nat \<Rightarrow> nat \<Rightarrow> io_state \<Rightarrow> io_state" where
  "move_assign_IoContextWrapper j i st =
     (let temp = length (wrappers st)
      in destroy_IoContextWrapper temp (swap_wrappers temp j (move_IoContextWrapper i st)))"

definition IoContextWrapper_shutdown :: "nat \<Rightarrow> io_state \<Rightarrow> io_state" where
  "IoContextWrapper_shutdown i st =
     st\<lparr>privates := at_private (wrappers st ! i)
        (\<lambda>p. if shutdown_once p then p
             else p\<lparr>shutdown_once := True, pool_calls := pool_calls p @ [Pool_stop, Pool_join]\<rparr>) (privates st)\<rparr>"

text \<open>What a program can do with its wrappers, in any order.\<close>

inductive io_reachable :: "io_state \<Rightarrow> bool" where
  io_start: "io_reachable \<lparr>privates = [], wrappers = []\<rparr>"
| io_new: "io_reachable st \<Longrightarrow> io_reachable (new_IoContextWrapper n st)"
| io_copy: "io_reachable st \<Longrightarrow> i < length (wrappers st) \<Longrightarrow> io_reachable (copy_IoContextWrapper i st)"
| io_move: "io_reachable st \<Longrightarrow> i < length (wrappers st) \<Longrightarrow> io_reachable (move_IoContextWrapper i st)"
| io_destroy: "io_reachable st \<Longrightarrow> i < length (wrappers st) \<Longrightarrow> io_reachable (destroy_IoContextWrapper i st)"
| io_copy_assign: "io_reachable st \<Longrightarrow> i < length (wrappers st) \<Longrightarrow> j < length (wrappers st) \<Longrightarrow>
    io_reachable (copy_assign_IoContextWrapper j i st)"
| io_move_assign: "io_reachable st \<Longrightarrow> i < length (wrappers st) \<Longrightarrow> j < length (wrappers st) \<Longrightarrow>
    io_reachable (move_assign_IoContextWrapper j i st)"
| io_shutdown: "io_reachable st \<Longrightarrow> i < length (wrappers st) \<Longrightarrow> io_reachable (IoContextWrapper_shutdown i st)"

section \<open>Invariant\<close>

definition owners :: "nat \<Rightarrow> io_state \<Rightarrow> nat" where
  "owners a st = count (mset (wrappers st)) (Some a)"

text \<open>The calls a pool may have seen, from its flag and whether it still has an owner.\<close>

definition calls_of :: "bool \<Rightarrow> bool \<Rightarrow> pool_call list" where
  "calls_of once owned = (if once then [Pool_stop, Pool_join] else []) @ (if owned then [] else [Pool_destroy])"

definition io_inv :: "io_state \<Rightarrow> bool" where
  "io_inv st \<longleftrightarrow>
     (\<forall>a. Some a \<in> set (wrappers st) \<longrightarrow> a < length (privates st)) \<and>
     (\<forall>a < length (privates st). use_count (privates st ! a) = owners a st \<and>
        pool_calls (privates st ! a) = calls_of (shutdown_once (privates st ! a)) (owners a st \<noteq> 0))"

lemma owned_nth: "i < length (wrappers st) \<Longrightarrow> wrappers st ! i = Some a \<Longrightarrow> 0 < owners a st"
  unfolding owners_def by (metis count_greater_zero_iff nth_mem set_mset_mset)

lemma count_remove_nth:
  assumes "i < length xs"
  shows "count (mset (take i xs)) y + count (mset (drop (Suc i) xs)) y = count (mset xs) y - (if xs ! i = y then 1 else 0)"
  by (subst (3) id_take_nth_drop [OF assms]) simp

lemma owners_simps:
  "owners a (st\<lparr>privates := ps\<rparr>) = owners a st"
  "owners a (new_IoContextWrapper n st) = owners a st + (if a = length (privates st) then 1 else 0)"
  "i < length (wrappers st) \<Longrightarrow> owners a (copy_IoContextWrapper i st) = owners a st + (if wrappers st ! i = Some a then 1 else 0)"
  "i < length (wrappers st) \<Longrightarrow> owners a (move_IoContextWrapper i st) = owners a st"
  "i < length (wrappers st) \<Longrightarrow> owners a (destroy_IoContextWrapper i st) = owners a st - (if wrappers st ! i = Some a then 1 else 0)"
  using owned_nth [of i st a]
  by (auto simp: owners_def new_IoContextWrapper_def copy_IoContextWrapper_def move_IoContextWrapper_def
      destroy_IoContextWrapper_def mset_update count_remove_nth)

lemma at_private_nth:
  "length (at_private p f ps) = length ps"
  "a < length ps \<Longrightarrow> at_private p f ps ! a = (if p = Some a then f (ps ! a) else ps ! a)"
  by (auto simp: at_private_def split: option.split)

lemma new_inv: "io_inv st \<Longrightarrow> io_inv (new_IoContextWrapper n st)"
proof -
  assume inv: "io_inv st"
  then have "owners (length (privates st)) st = 0" by (auto simp: io_inv_def owners_def)
  with inv show ?thesis unfolding io_inv_def owners_simps(2)
    by (auto simp: new_IoContextWrapper_def nth_append calls_of_def less_Suc_eq)
qed

lemma copy_inv:
  assumes "io_inv st" "i < length (wrappers st)"
  shows "io_inv (copy_IoContextWrapper i st)"
  unfolding io_inv_def owners_simps(3) [OF assms(2)]
  using assms owned_nth [OF assms(2)]
  by (auto simp: copy_IoContextWrapper_def io_inv_def at_private_nth calls_of_def)

lemma move_inv:
  assumes "io_inv st" "i < length (wrappers st)"
  shows "io_inv (move_IoContextWrapper i st)"
  unfolding io_inv_def owners_simps(4) [OF assms(2)]
  using assms by (auto simp: move_IoContextWrapper_def io_inv_def dest: set_update_subset_insert [THEN subsetD])

lemma destroy_inv:
  assumes "io_inv st" "i < length (wrappers st)"
  shows "io_inv (destroy_IoContextWrapper i st)"
  unfolding io_inv_def owners_simps(5) [OF assms(2)]
  using assms owned_nth [OF assms(2)]
  by (auto simp: destroy_IoContextWrapper_def io_inv_def at_private_nth calls_of_def release_def Let_def
      dest: in_set_takeD in_set_dropD)

lemma swap_inv:
  assumes "io_inv st" "i < length (wrappers st)" "j < length (wrappers st)"
  shows "io_inv (swap_wrappers i j st)"
proof -
  have "mset (wrappers (swap_wrappers i j st)) = mset (wrappers st)"
    using mset_swap [OF assms(2,3)] by (simp add: swap_wrappers_def)
  then have "owners a (swap_wrappers i j st) = owners a st" "set (wrappers (swap_wrappers i j st)) = set (wrappers st)" for a
    by (simp add: owners_def, metis set_mset_mset)
  with assms(1) show ?thesis by (simp add: io_inv_def) (simp add: swap_wrappers_def)
qed

lemma wrappers_length [simp]:
  "length (wrappers (copy_IoContextWrapper i st)) = Suc (length (wrappers st))"
  "length (wrappers (move_IoContextWrapper i st)) = Suc (length (wrappers st))"
  "length (wrappers (swap_wrappers i j st)) = length (wrappers st)"
  by (simp_all add: copy_IoContextWrapper_def move_IoContextWrapper_def swap_wrappers_def)

lemma assign_inv:
  assumes "io_inv st" "i < length (wrappers st)" "j < length (wrappers st)"
  shows "io_inv (copy_assign_IoContextWrapper j i st)" "io_inv (move_assign_IoContextWrapper j i st)"
  using assms
  by (simp_all add: copy_assign_IoContextWrapper_def move_assign_IoContextWrapper_def Let_def copy_inv move_inv swap_inv destroy_inv)

lemma shutdown_inv:
  assumes "io_inv st" "i < length (wrappers st)"
  shows "io_inv (IoContextWrapper_shutdown i st)"
  unfolding io_inv_def IoContextWrapper_shutdown_def owners_simps(1)
  using assms owned_nth [OF assms(2)]
  by (auto simp: io_inv_def at_private_nth calls_of_def)

lemma io_reachable_inv: "io_reachable st \<Longrightarrow> io_inv st"
proof (induction rule: io_reachable.induct)
  case io_start
  then show ?case by (simp add: io_inv_def)
qed (simp_all add: new_inv copy_inv move_inv destroy_inv assign_inv shutdown_inv)

text \<open>
  C18: in every program the wrappers of a thread pool keep it alive exactly as long as there is one of
  them, copies, moves and assignments included: the pool is destroyed when the last one goes and not before. However
  often and through however many copies \<open>shutdown\<close> is called, the pool is stopped and joined once.
\<close>

theorem io_context_shared:
  assumes "io_reachable st" and "a < length (privates st)"
  shows "use_count (privates st ! a) = count (mset (wrappers st)) (Some a) \<and>
    (Pool_destroy \<in> set (pool_calls (privates st ! a)) \<longleftrightarrow> Some a \<notin> set (wrappers st)) \<and>
    pool_calls (privates st ! a) =
      (if shutdown_once (privates st ! a) then [Pool_stop, Pool_join] else []) @
      (if Some a \<in> set (wrappers st) then [] else [Pool_destroy])"
  using io_reachable_inv [OF assms(1)] assms(2) by (auto simp: io_inv_def owners_def calls_of_def)

text \<open>A pool of four threads, copied, shut down twice through both wrappers, the first one destroyed.\<close>

definition demo_io :: io_state where
  "demo_io = destroy_IoContextWrapper 0 (IoContextWrapper_shutdown 1 (IoContextWrapper_shutdown 0
     (copy_IoContextWrapper 0 (new_IoContextWrapper 4 \<lparr>privates = [], wrappers = []\<rparr>))))"

theorem io_context_shared_witness:
  "wrappers demo_io = [Some 0] \<and> pool_calls (privates demo_io ! 0) = [Pool_stop, Pool_join] \<and> use_count (privates demo_io ! 0) = 1"
proof -
  have "io_reachable demo_io" unfolding demo_io_def
    by (intro io_reachable.intros)
      (simp_all add: new_IoContextWrapper_def copy_IoContextWrapper_def IoContextWrapper_shutdown_def)
  moreover have d: "wrappers demo_io = [Some 0]" "length (privates demo_io) = 1" "shutdown_once (privates demo_io ! 0)"
    by (simp_all add: demo_io_def new_IoContextWrapper_def copy_IoContextWrapper_def IoContextWrapper_shutdown_def
        destroy_IoContextWrapper_def at_private_def release_def Let_def)
  ultimately show ?thesis using io_context_shared [of demo_io 0] by simp
qed

section \<open>The TLS context\<close>

text \<open>
  The functions of OpenSSL and asio involved in the lifetime of one native context: \<^verbatim>\<open>SSL_CTX_free\<close>, the
  destructor of \<^verbatim>\<open>asio::ssl::context\<close>, and the destructor of a stream that uses the context. They fail
  only by undefined behaviour.
\<close>

record 'w openssl =
  ssl_ctx_free :: "'w \<Rightarrow> 'w outcome"
  context_destructor :: "'w \<Rightarrow> 'w outcome"
  stream_destructor :: "'w \<Rightarrow> 'w outcome"

text \<open>
  Reference counting as OpenSSL documents it: \<open>refs w\<close> counts the owners of the native context, the asio
  context and one for each stream. Each of the three gives up one reference, and to give up one of a
  context that has none left is to use freed memory.
\<close>

definition gives_up :: "('w \<Rightarrow> nat) \<Rightarrow> ('w \<Rightarrow> 'w outcome) \<Rightarrow> bool" where
  "gives_up refs f \<longleftrightarrow>
     (\<forall>w. (refs w = 0 \<longrightarrow> f w = Undefined) \<and> (0 < refs w \<longrightarrow> (\<exists>w'. f w = Returned w' \<and> refs w' = refs w - 1)))"

definition openssl_laws :: "'w openssl \<Rightarrow> ('w \<Rightarrow> nat) \<Rightarrow> bool" where
  "openssl_laws L refs \<longleftrightarrow>
     gives_up refs (ssl_ctx_free L) \<and> gives_up refs (context_destructor L) \<and> gives_up refs (stream_destructor L)"

fun then_do :: "'a outcome \<Rightarrow> ('a \<Rightarrow> 'b outcome) \<Rightarrow> 'b outcome" where
  "then_do (Returned a) k = k a"
| "then_do Thrown k = Thrown"
| "then_do Undefined k = Undefined"

text \<open>The wrapper: no private object, or one with or without its asio context.\<close>

record tls_wrapper =
  has_private :: bool
  has_context :: bool

definition TlsContextWrapper_shutdown :: "'w openssl \<Rightarrow> tls_wrapper \<Rightarrow> 'w \<Rightarrow> (tls_wrapper \<times> 'w) outcome" where
  "TlsContextWrapper_shutdown L h w =
     (if \<not> has_private h then Returned (h, w)
      else if has_context h then
        then_do (ssl_ctx_free L w) (\<lambda>w1.
        then_do (context_destructor L w1) (\<lambda>w2. Returned (h\<lparr>has_context := False\<rparr>, w2)))
      else Returned (h, w))"

text \<open>The destructor of the last wrapper, and the end of \<open>k\<close> streams.\<close>

definition destroy_TlsContextWrapper :: "'w openssl \<Rightarrow> tls_wrapper \<Rightarrow> 'w \<Rightarrow> 'w outcome" where
  "destroy_TlsContextWrapper L h w = (if has_private h \<and> has_context h then context_destructor L w else Returned w)"

fun destroy_streams :: "'w openssl \<Rightarrow> nat \<Rightarrow> 'w \<Rightarrow> 'w outcome" where
  "destroy_streams L 0 w = Returned w"
| "destroy_streams L (Suc k) w = then_do (stream_destructor L w) (destroy_streams L k)"

lemma gives_up_cases:
  assumes "gives_up refs f"
  obtains "refs w = 0" "f w = Undefined" | w' where "refs w = Suc (refs w')" "f w = Returned w'"
  using assms unfolding gives_up_def by (metis Suc_diff_1 bot_nat_0.not_eq_extremum)

lemma destroy_streams_refs:
  assumes "openssl_laws L refs"
  shows "if k \<le> refs w then \<exists>w'. destroy_streams L k w = Returned w' \<and> refs w' + k = refs w
         else destroy_streams L k w = Undefined"
proof (induction k arbitrary: w)
  case (Suc k)
  have "gives_up refs (stream_destructor L)" using assms by (simp add: openssl_laws_def)
  then show ?case
  proof (cases rule: gives_up_cases [where w = w])
    case (2 w')
    with Suc [of w'] show ?thesis by (auto split: if_splits)
  qed simp
qed simp

text \<open>
  C33: a wrapper that is only destroyed gives its context up exactly once: after the streams that use the
  context and the wrapper are gone no reference is left, in either order. \<open>shutdown\<close> gives it up twice:
  whatever the number of streams, the last of them or \<open>shutdown\<close> itself uses freed memory.
\<close>

theorem tls_shutdown_frees_twice:
  assumes "openssl_laws L refs" and "refs w = Suc k"
  shows "(\<exists>w'. then_do (destroy_streams L k w) (destroy_TlsContextWrapper L \<lparr>has_private = True, has_context = True\<rparr>) =
        Returned w' \<and> refs w' = 0) \<and>
    (\<exists>w'. then_do (destroy_TlsContextWrapper L \<lparr>has_private = True, has_context = True\<rparr> w) (destroy_streams L k) =
        Returned w' \<and> refs w' = 0) \<and>
    then_do (TlsContextWrapper_shutdown L \<lparr>has_private = True, has_context = True\<rparr> w)
      (\<lambda>(h, w1). destroy_streams L k w1) = Undefined"
proof -
  have free: "gives_up refs (ssl_ctx_free L)" and ctx: "gives_up refs (context_destructor L)"
    using assms(1) by (simp_all add: openssl_laws_def)
  note streams = destroy_streams_refs [OF assms(1), of k]
  from streams [of w] assms(2) obtain w1 where w1: "destroy_streams L k w = Returned w1" "refs w1 = 1" by auto
  obtain w2 where w2: "context_destructor L w1 = Returned w2" "refs w2 = 0"
    using ctx w1(2) by (cases rule: gives_up_cases [where w = w1]) auto
  obtain w3 where w3: "context_destructor L w = Returned w3" "refs w3 = k"
    using ctx assms(2) by (cases rule: gives_up_cases [where w = w]) auto
  obtain w4 where w4: "ssl_ctx_free L w = Returned w4" "refs w4 = k"
    using free assms(2) by (cases rule: gives_up_cases [where w = w]) auto
  have "then_do (context_destructor L w4) (destroy_streams L k) = Undefined"
    using ctx
  proof (cases rule: gives_up_cases [where w = w4])
    case (2 w')
    with streams [of w'] w4(2) show ?thesis by (auto split: if_splits)
  qed simp
  moreover have "then_do (then_do x (\<lambda>w2. Returned (h, w2))) (\<lambda>(h, w1). destroy_streams L k w1) = then_do x (destroy_streams L k)"
    for x :: "'a outcome" and h :: tls_wrapper by (cases x) simp_all
  ultimately show ?thesis using w1 w2 w3 w4 streams [of w3]
    by (auto simp: destroy_TlsContextWrapper_def TlsContextWrapper_shutdown_def)
qed

text \<open>The reference count itself as the world.\<close>

definition counting_openssl :: "nat openssl" where
  "counting_openssl =
     (let dec = (\<lambda>n. case n of 0 \<Rightarrow> Undefined | Suc m \<Rightarrow> Returned m)
      in \<lparr>ssl_ctx_free = dec, context_destructor = dec, stream_destructor = dec\<rparr>)"

theorem tls_shutdown_frees_twice_witness:
  "then_do (TlsContextWrapper_shutdown counting_openssl \<lparr>has_private = True, has_context = True\<rparr> 3)
     (\<lambda>(h, w). destroy_streams counting_openssl 2 w) = Undefined"
proof -
  have "openssl_laws counting_openssl id"
    by (auto simp: openssl_laws_def gives_up_def counting_openssl_def Let_def split: nat.split)
  from tls_shutdown_frees_twice [OF this, of 3 2] show ?thesis by simp
qed

end
